(* ===== verification/Prelude.thy ===== *)
theory Prelude
  imports Main "HOL-Library.Sublist"
begin

text \<open>
  Shared vocabulary of the development: Go strings and byte slices (both are lists of
  8-bit characters here), the functions of Go's \<open>strings\<close> package the sources use,
  Go error values, and the generic facts about lists and prefixes the component
  theories share.

  Case folding (\<open>ToLower\<close>, \<open>ToUpper\<close>, \<open>EqualFold\<close>) is the ASCII part of Go's; the
  sources apply it to configured names, formats and paths.
\<close>

named_theorems go_strings \<open>definitions of the functions of Go's strings package\<close>
named_theorems go_errors \<open>how error values are built and inspected\<close>

type_synonym bytes = string

section \<open>Strings\<close>

definition HasPrefix :: "string \<Rightarrow> string \<Rightarrow> bool" where
  [go_strings]: "HasPrefix s p = prefix p s"

definition HasSuffix :: "string \<Rightarrow> string \<Rightarrow> bool" where
  [go_strings]: "HasSuffix s p = suffix p s"

definition Contains :: "string \<Rightarrow> string \<Rightarrow> bool" where
  [go_strings]: "Contains s sub = sublist sub s"

definition TrimSuffix :: "string \<Rightarrow> string \<Rightarrow> string" where
  [go_strings]: "TrimSuffix s p = (if suffix p s then take (length s - length p) s else s)"

definition TrimPrefix :: "string \<Rightarrow> string \<Rightarrow> string" where
  [go_strings]: "TrimPrefix s p = (if prefix p s then drop (length p) s else s)"

definition is_space :: "char \<Rightarrow> bool" where
  [go_strings]: "is_space c \<longleftrightarrow> c \<in> {CHR '' '', CHR 0x09, CHR 0x0A, CHR 0x0B, CHR 0x0C, CHR 0x0D}"

definition TrimSpace :: "string \<Rightarrow> string" where
  [go_strings]: "TrimSpace s = rev (dropWhile is_space (rev (dropWhile is_space s)))"

definition lower_char :: "char \<Rightarrow> char" where
  "lower_char c = (let n = of_char c :: nat in if 65 \<le> n \<and> n \<le> 90 then char_of (n + 32) else c)"

definition upper_char :: "char \<Rightarrow> char" where
  "upper_char c = (let n = of_char c :: nat in if 97 \<le> n \<and> n \<le> 122 then char_of (n - 32) else c)"

definition ToLower :: "string \<Rightarrow> string" where
  "ToLower s = map lower_char s"

definition ToUpper :: "string \<Rightarrow> string" where
  "ToUpper s = map upper_char s"

definition EqualFold :: "string \<Rightarrow> string \<Rightarrow> bool" where
  "EqualFold a b \<longleftrightarrow> ToLower a = ToLower b"

fun ReplaceAllChar :: "string \<Rightarrow> char \<Rightarrow> string \<Rightarrow> string" where
  "ReplaceAllChar [] c r = []"
| "ReplaceAllChar (x # s) c r = (if x = c then r else [x]) @ ReplaceAllChar s c r"

text \<open>\<open>strings.Split(s, sep)\<close> for a separator of one character: always at least one part.\<close>

fun SplitChar :: "char \<Rightarrow> string \<Rightarrow> string list" where
  "SplitChar c [] = [[]]"
| "SplitChar c (x # s) =
     (if x = c then [] # SplitChar c s
      else (case SplitChar c s of [] \<Rightarrow> [[x]] | p # ps \<Rightarrow> (x # p) # ps))"

fun JoinSep :: "string \<Rightarrow> string list \<Rightarrow> string" where
  "JoinSep sep [] = []"
| "JoinSep sep [p] = p"
| "JoinSep sep (p # ps) = p @ sep @ JoinSep sep ps"

text \<open>\<open>strx.Or\<close> of moov-io/base: the first non-empty string.\<close>

fun strx_Or :: "string list \<Rightarrow> string" where
  "strx_Or [] = []"
| "strx_Or (s # ss) = (if s = [] then strx_Or ss else s)"

section \<open>Errors\<close>

text \<open>
  A Go error is its text together with the sentinel classes the sources test for with
  \<open>errors.Is\<close>, \<open>os.IsNotExist\<close>, \<open>os.IsTimeout\<close> and the like. \<open>fmt.Errorf\<close> with \<open>%w\<close>
  keeps the classes of the wrapped error; with \<open>%v\<close> only the text survives.
\<close>

datatype err_class =
    NotExist          \<comment> \<open>\<open>os.IsNotExist\<close>, \<open>fs.ErrNotExist\<close>\<close>
  | Timeout           \<comment> \<open>\<open>os.IsTimeout\<close>\<close>
  | NoRows            \<comment> \<open>\<open>sql.ErrNoRows\<close>\<close>
  | UniqueViolation   \<comment> \<open>\<open>database.UniqueViolation\<close>\<close>
  | Canceled          \<comment> \<open>\<open>context.Canceled\<close>\<close>
  | FileHeaderMissing \<comment> \<open>\<open>ach.ErrFileHeader\<close>\<close>
  | GzipHeader        \<comment> \<open>\<open>gzip.ErrHeader\<close>\<close>

datatype err = Err (err_text: string) (err_classes: "err_class list")

definition errors_New :: "string \<Rightarrow> err" where
  [go_errors]: "errors_New msg = Err msg []"

definition errorf_w :: "string \<Rightarrow> err \<Rightarrow> err" where
  [go_errors]: "errorf_w pre e = Err (pre @ err_text e) (err_classes e)"

definition errorf_v :: "string \<Rightarrow> err \<Rightarrow> err" where
  [go_errors]: "errorf_v pre e = Err (pre @ err_text e) []"

definition errors_Is :: "err \<Rightarrow> err_class \<Rightarrow> bool" where
  [go_errors]: "errors_Is e c \<longleftrightarrow> c \<in> set (err_classes e)"

text \<open>
  \<open>base.ErrorList\<close>: errors are added at the end, and the list is returned as one error
  only when it is not empty.
\<close>

type_synonym error_list = "err list"

definition ErrorList_Err :: "error_list \<Rightarrow> err option" where
  [go_errors]: "ErrorList_Err el =
     (if el = [] then None else Some (Err (JoinSep ''\<newline>'' (map err_text el)) []))"

definition add_err :: "err option \<Rightarrow> error_list \<Rightarrow> error_list" where
  [go_errors]: "add_err e el = (case e of None \<Rightarrow> el | Some x \<Rightarrow> el @ [x])"

text \<open>What a panic of a nil pointer says, where the model turns it into an error.\<close>

definition nil_dereference :: err where
  "nil_dereference = Err ''runtime error: invalid memory address or nil pointer dereference'' []"

section \<open>Facts about strings\<close>

lemma ErrorList_Err_None [simp]: "ErrorList_Err el = None \<longleftrightarrow> el = []"
  by (simp add: ErrorList_Err_def)

lemma ErrorList_Err_Nil [simp]: "ErrorList_Err [] = None"
  by simp

lemma add_err_simps [simp]: "add_err None el = el" "add_err (Some x) el = el @ [x]"
  by (simp_all add: add_err_def)

lemma TrimSuffix_append [simp]: "TrimSuffix (s @ p) p = s"
  by (simp add: TrimSuffix_def suffixI)

lemma TrimSuffix_not: "\<not> HasSuffix s p \<Longrightarrow> TrimSuffix s p = s"
  by (simp add: TrimSuffix_def HasSuffix_def)

lemma TrimPrefix_append [simp]: "TrimPrefix (p @ s) p = s"
  by (simp add: TrimPrefix_def)

lemma HasSuffix_append [simp]: "HasSuffix (s @ p) p"
  by (simp add: HasSuffix_def suffixI)

lemma HasPrefix_append [simp]: "HasPrefix (p @ s) p"
  by (simp add: HasPrefix_def)

lemma Contains_suffix [simp]: "Contains (s @ p) p"
  by (simp add: Contains_def)

lemma Contains_append_left: "Contains s p \<Longrightarrow> Contains (s @ t) p"
  by (auto simp: Contains_def sublist_append)

lemma Contains_append_right: "Contains t p \<Longrightarrow> Contains (s @ t) p"
  by (auto simp: Contains_def sublist_append)

lemma Contains_eval:
  "Contains s [] \<longleftrightarrow> True" "Contains [] (x # xs) \<longleftrightarrow> False"
  "Contains (y # ys) (x # xs) \<longleftrightarrow> prefix (x # xs) (y # ys) \<or> Contains ys (x # xs)"
  by (simp_all add: Contains_def sublist_code)

lemma SplitChar_ne [simp]: "SplitChar c s \<noteq> []"
  by (induction s) (auto split: list.splits)

lemma SplitChar_no: "c \<notin> set s \<Longrightarrow> SplitChar c s = [s]"
  by (induction s) auto

lemma SplitChar_append: "c \<notin> set s \<Longrightarrow> SplitChar c (s @ c # t) = s # SplitChar c t"
  by (induction s) auto

lemma SplitChar_parts: "p \<in> set (SplitChar c s) \<Longrightarrow> c \<notin> set p"
  by (induction s arbitrary: p) (auto split: list.splits if_splits)

lemma JoinSep_SplitChar: "JoinSep [c] (SplitChar c s) = s"
proof (induction s)
  case Nil
  show ?case by simp
next
  case (Cons x s)
  obtain p ps where "SplitChar c s = p # ps" by (cases "SplitChar c s") auto
  with Cons show ?case by (cases ps) auto
qed

lemma length_ReplaceAllChar_single [simp]: "length (ReplaceAllChar s c [d]) = length s"
  by (induction s) auto

lemma suffix_snoc_char: "suffix (p @ [c]) s \<Longrightarrow> \<exists>t. s = t @ p @ [c]"
  by (auto simp: suffix_def)

lemma distinct_fst_map_of: "distinct (map fst xs) \<Longrightarrow> (k, v) \<in> set xs \<Longrightarrow> map_of xs k = Some v"
  by simp

section \<open>Predicates an operation keeps\<close>

definition keeps :: "('s \<Rightarrow> bool) \<Rightarrow> ('s \<Rightarrow> 'r \<times> 's) \<Rightarrow> bool" where
  "keeps I f \<longleftrightarrow> (\<forall>s. I s \<longrightarrow> I (snd (f s)))"

lemma keepsD: "keeps I f \<Longrightarrow> I s \<Longrightarrow> f s = (r, s') \<Longrightarrow> I s'"
  by (force simp: keeps_def)

lemma keepsI: "(\<And>s r s'. f s = (r, s') \<Longrightarrow> I s \<Longrightarrow> I s') \<Longrightarrow> keeps I f"
  by (metis keeps_def prod.collapse)

end
