(* ===== verification/Filepath.thy ===== *)
theory Filepath
  imports Prelude
begin

text \<open>
  The functions of Go's \<open>path/filepath\<close> the sources use, on Unix: \<open>Split\<close>, \<open>Base\<close>,
  \<open>Ext\<close>, \<open>Clean\<close>, \<open>Join\<close>, \<open>IsAbs\<close>, \<open>Match\<close> (for patterns whose only special character
  is the star, which are all the sources pass) and \<open>fs.ValidPath\<close>. A path's components
  are its non-empty parts between slashes.
\<close>

abbreviation slash :: char where "slash \<equiv> CHR ''/''"

definition filepath_Split :: "string \<Rightarrow> string \<times> string" where
  "filepath_Split p =
     (let file = rev (takeWhile (\<lambda>c. c \<noteq> slash) (rev p))
      in (take (length p - length file) p, file))"

definition filepath_Base :: "string \<Rightarrow> string" where
  "filepath_Base p =
     (if p = [] then ''.''
      else let q = rev (dropWhile (\<lambda>c. c = slash) (rev p));
               b = snd (filepath_Split q)
           in if q = [] then ''/'' else b)"

definition filepath_Ext :: "string \<Rightarrow> string" where
  "filepath_Ext p =
     (let file = snd (filepath_Split p);
          tail = takeWhile (\<lambda>c. c \<noteq> CHR ''.'') (rev file)
      in if length tail = length file then [] else CHR ''.'' # rev tail)"

definition filepath_IsAbs :: "string \<Rightarrow> bool" where
  "filepath_IsAbs p = HasPrefix p ''/''"

text \<open>One element of \<open>Clean\<close>'s scan; the stack holds the kept elements, last first.\<close>

fun clean_step :: "bool \<Rightarrow> string \<Rightarrow> string list \<Rightarrow> string list" where
  "clean_step rooted c st =
     (if c = [] \<or> c = ''.'' then st
      else if c = ''..'' then
        (case st of
           [] \<Rightarrow> (if rooted then [] else [c])
         | t # ts \<Rightarrow> (if t = ''..'' then c # st else ts))
      else c # st)"

definition clean_comps :: "string \<Rightarrow> string list" where
  "clean_comps p = rev (fold (clean_step (HasPrefix p ''/'')) (SplitChar slash p) [])"

definition filepath_Clean :: "string \<Rightarrow> string" where
  "filepath_Clean p =
     (let body = JoinSep ''/'' (clean_comps p)
      in if HasPrefix p ''/'' then ''/'' @ body
         else if body = [] then ''.'' else body)"

definition filepath_Join :: "string list \<Rightarrow> string" where
  "filepath_Join es =
     (case dropWhile (\<lambda>e. e = []) es of
        [] \<Rightarrow> []
      | es' \<Rightarrow> filepath_Clean (JoinSep ''/'' es'))"

definition fs_ValidPath :: "string \<Rightarrow> bool" where
  "fs_ValidPath p \<longleftrightarrow>
     p = ''.'' \<or> (\<forall>c \<in> set (SplitChar slash p). c \<noteq> [] \<and> c \<noteq> ''.'' \<and> c \<noteq> ''..'')"

fun filepath_Match :: "string \<Rightarrow> string \<Rightarrow> bool" where
  "filepath_Match [] n = (n = [])"
| "filepath_Match (p # ps) [] = (p = CHR ''*'' \<and> filepath_Match ps [])"
| "filepath_Match (p # ps) (c # n) =
     (if p = CHR ''*''
      then filepath_Match ps (c # n) \<or> (c \<noteq> slash \<and> filepath_Match (p # ps) n)
      else p = c \<and> filepath_Match ps n)"

section \<open>Plain names and clean relative paths\<close>

text \<open>
  A name is plain when it can be one component of a path: not empty, not a dot or two,
  no slash. A clean path is one or more plain names joined by single slashes.
\<close>

definition plain_name :: "string \<Rightarrow> bool" where
  "plain_name n \<longleftrightarrow> n \<noteq> [] \<and> n \<noteq> ''.'' \<and> n \<noteq> ''..'' \<and> slash \<notin> set n"

abbreviation rel_path :: "string list \<Rightarrow> string" where
  "rel_path ns \<equiv> JoinSep ''/'' ns"

definition plain_path :: "string list \<Rightarrow> bool" where
  "plain_path ns \<longleftrightarrow> ns \<noteq> [] \<and> list_all plain_name ns"

lemma plain_nameD:
  "plain_name n \<Longrightarrow> n \<noteq> []" "plain_name n \<Longrightarrow> slash \<notin> set n"
  "plain_name n \<Longrightarrow> n \<noteq> ''.''" "plain_name n \<Longrightarrow> n \<noteq> ''..''"
  by (simp_all add: plain_name_def)

lemma plain_path_Cons: "plain_path (n # ns) \<longleftrightarrow> plain_name n \<and> (ns = [] \<or> plain_path ns)"
  by (auto simp: plain_path_def)

lemma plain_path_append:
  "plain_path (as @ bs) \<longleftrightarrow>
     (as = [] \<or> plain_path as) \<and> (bs = [] \<or> plain_path bs) \<and> as @ bs \<noteq> []"
  by (auto simp: plain_path_def)

lemma rel_path_Cons: "ns \<noteq> [] \<Longrightarrow> rel_path (n # ns) = n @ ''/'' @ rel_path ns"
  by (cases ns) auto

lemma rel_path_append:
  "as \<noteq> [] \<Longrightarrow> bs \<noteq> [] \<Longrightarrow> rel_path (as @ bs) = rel_path as @ ''/'' @ rel_path bs"
proof (induction as)
  case (Cons a as)
  then show ?case by (cases "as = []") (simp_all add: rel_path_Cons)
qed simp

lemma rel_path_snoc: "ns \<noteq> [] \<Longrightarrow> rel_path (ns @ [n]) = rel_path ns @ ''/'' @ n"
  by (simp add: rel_path_append)

lemma SplitChar_rel_path: "plain_path ns \<Longrightarrow> SplitChar slash (rel_path ns) = ns"
proof (induction ns)
  case (Cons n ns)
  then show ?case
    by (cases "ns = []")
       (auto simp: plain_path_Cons plain_name_def rel_path_Cons SplitChar_no SplitChar_append)
qed (simp add: plain_path_def)

lemma rel_path_ne: "plain_path ns \<Longrightarrow> rel_path ns \<noteq> []"
  using SplitChar_rel_path[of ns] by (auto simp: plain_path_def plain_name_def)

lemma rel_path_inj: "plain_path as \<Longrightarrow> plain_path bs \<Longrightarrow> rel_path as = rel_path bs \<Longrightarrow> as = bs"
  by (metis SplitChar_rel_path)

lemma rel_path_hd: "plain_path ns \<Longrightarrow> \<not> HasPrefix (rel_path ns) ''/''"
proof (cases ns)
  case (Cons n ns')
  assume "plain_path ns"
  with Cons have "plain_name n" by (simp add: plain_path_Cons)
  then obtain c t where "n = c # t" "c \<noteq> slash" by (cases n) (auto simp: plain_name_def)
  with Cons show ?thesis by (cases ns') (auto simp: HasPrefix_def)
qed (simp add: plain_path_def)

lemma fold_clean_plain:
  "list_all plain_name ns \<Longrightarrow> fold (clean_step r) ns st = rev ns @ st"
  by (induction ns arbitrary: st) (auto simp: plain_name_def)

lemma clean_comps_rel [simp]: "plain_path ns \<Longrightarrow> clean_comps (rel_path ns) = ns"
  by (simp add: clean_comps_def SplitChar_rel_path fold_clean_plain plain_path_def)

lemma Clean_rel [simp]: "plain_path ns \<Longrightarrow> filepath_Clean (rel_path ns) = rel_path ns"
  by (simp add: filepath_Clean_def rel_path_hd rel_path_ne)

lemma SplitChar_abs: "SplitChar slash (''/'' @ s) = [] # SplitChar slash s"
  by simp

lemma clean_comps_abs:
  "list_all plain_name ns \<Longrightarrow> clean_comps (''/'' @ rel_path ns) = ns"
proof -
  assume a: "list_all plain_name ns"
  show ?thesis
  proof (cases "ns = []")
    case True
    then show ?thesis by (simp add: clean_comps_def)
  next
    case False
    with a have "plain_path ns" by (simp add: plain_path_def)
    with a show ?thesis
      by (simp add: clean_comps_def SplitChar_rel_path fold_clean_plain)
  qed
qed

lemma Clean_abs:
  "list_all plain_name ns \<Longrightarrow> filepath_Clean (''/'' @ rel_path ns) = ''/'' @ rel_path ns"
  using clean_comps_abs[of ns] by (simp add: filepath_Clean_def HasPrefix_def)

section \<open>Join, Split and Base on clean paths\<close>

lemma Join_rel:
  "ps \<noteq> [] \<Longrightarrow> list_all plain_path ps \<Longrightarrow> filepath_Join (map rel_path ps) = rel_path (concat ps)"
proof -
  assume ne: "ps \<noteq> []" and ok: "list_all plain_path ps"
  have "plain_path (concat ps)"
    using ne ok by (cases ps) (auto simp: plain_path_def list_all_iff)
  moreover have "JoinSep ''/'' (map rel_path ps) = rel_path (concat ps)"
    using ne ok
  proof (induction ps)
    case (Cons p ps)
    show ?case
    proof (cases "ps = []")
      case False
      with Cons.prems have "concat ps \<noteq> []" by (cases ps) (auto simp: plain_path_def)
      moreover from Cons.prems have "p \<noteq> []" by (simp add: plain_path_def)
      ultimately show ?thesis using False Cons by (simp add: rel_path_append rel_path_Cons)
    qed simp
  qed simp
  moreover have "dropWhile (\<lambda>e. e = []) (map rel_path ps) = map rel_path ps"
    using ne ok by (cases ps) (auto simp: rel_path_ne)
  moreover obtain e es where "map rel_path ps = e # es" using ne by (cases ps) auto
  ultimately show ?thesis
    by (simp add: filepath_Join_def del: JoinSep.simps)
qed

lemma Join_names:
  "ns \<noteq> [] \<Longrightarrow> list_all plain_name ns \<Longrightarrow> filepath_Join ns = rel_path ns"
  using Join_rel[of "map (\<lambda>n. [n]) ns"]
  by (simp add: o_def list_all_iff plain_path_def concat_map_singleton)

lemma Join_path_name:
  "plain_path ns \<Longrightarrow> plain_name n \<Longrightarrow> filepath_Join [rel_path ns, n] = rel_path (ns @ [n])"
  using Join_rel[of "[ns, [n]]"] by (simp add: plain_path_def)

lemma takeWhile_rev_name:
  "slash \<notin> set n \<Longrightarrow> takeWhile (\<lambda>c. c \<noteq> slash) (rev (d @ ''/'' @ n)) = rev n"
proof -
  assume "slash \<notin> set n"
  then have "takeWhile (\<lambda>c. c \<noteq> slash) (rev n @ slash # rev d)
      = rev n @ takeWhile (\<lambda>c. c \<noteq> slash) (slash # rev d)"
    by (intro takeWhile_append2) auto
  then show ?thesis by simp
qed

lemma Split_dir_name: "slash \<notin> set n \<Longrightarrow> filepath_Split (d @ ''/'' @ n) = (d @ ''/'', n)"
proof -
  assume n: "slash \<notin> set n"
  have "rev (takeWhile (\<lambda>c. c \<noteq> slash) (rev (d @ ''/'' @ n))) = n"
    by (simp only: takeWhile_rev_name[OF n] rev_rev_ident)
  then show ?thesis by (simp add: filepath_Split_def Let_def)
qed

lemma Split_name: "slash \<notin> set n \<Longrightarrow> filepath_Split n = ([], n)"
proof -
  assume "slash \<notin> set n"
  then have "takeWhile (\<lambda>c. c \<noteq> slash) (rev n) = rev n"
    by (subst takeWhile_eq_all_conv) auto
  then show ?thesis unfolding filepath_Split_def Let_def by (simp only:) simp
qed

lemma Split_path_name:
  "plain_path ns \<Longrightarrow> plain_name n \<Longrightarrow> filepath_Split (rel_path (ns @ [n])) = (rel_path ns @ ''/'', n)"
  using Split_dir_name[of n "rel_path ns"]
  by (simp add: rel_path_snoc plain_path_def plain_nameD)

lemma snd_Split_noslash: "slash \<notin> set (snd (filepath_Split p))"
  using set_takeWhileD[of slash "\<lambda>c. c \<noteq> slash" "rev p"]
  by (auto simp: filepath_Split_def Let_def)

lemma Base_noslash: "p \<noteq> [] \<Longrightarrow> filepath_Base p \<noteq> ''/'' \<Longrightarrow> slash \<notin> set (filepath_Base p)"
  using snd_Split_noslash by (auto simp: filepath_Base_def Let_def split: if_splits)

lemma Base_name: "plain_name n \<Longrightarrow> filepath_Base n = n"
proof -
  assume n: "plain_name n"
  then obtain m c where nc: "n = m @ [c]" by (metis plain_nameD(1) rev_exhaust)
  with n have "dropWhile (\<lambda>c. c = slash) (rev n) = rev n" by (auto simp: plain_name_def)
  with n show ?thesis by (simp add: filepath_Base_def plain_nameD Split_name)
qed

section \<open>Matching\<close>

lemma Match_lit:
  "CHR ''*'' \<notin> set lit \<Longrightarrow> filepath_Match lit n \<longleftrightarrow> n = lit"
proof (induction lit arbitrary: n)
  case (Cons p ps)
  then show ?case by (cases n) auto
qed simp

lemma Match_star_suffix:
  "slash \<notin> set n \<Longrightarrow> CHR ''*'' \<notin> set suf \<Longrightarrow>
     filepath_Match (''*'' @ suf) n \<longleftrightarrow> HasSuffix n suf"
proof (induction n)
  case Nil
  then show ?case by (auto simp: Match_lit HasSuffix_def)
next
  case (Cons c n)
  then show ?case by (auto simp: Match_lit HasSuffix_def suffix_Cons)
qed

lemma Match_star: "slash \<notin> set n \<Longrightarrow> filepath_Match ''*'' n"
  using Match_star_suffix[of n "[]"] by (simp add: HasSuffix_def)

end
