(* ===== verification/OS_Files.thy ===== *)
theory OS_Files
  imports Filepath "HOL-Library.Char_ord" "HOL-Library.Multiset" "HOL-Library.List_Lexorder"
begin

text \<open>
  The operating system's file tree under the calls of Go's \<open>os\<close> package the sources make:
  \<open>Stat\<close>, \<open>MkdirAll\<close>, \<open>OpenFile\<close> with create and truncate, \<open>Rename\<close>, \<open>RemoveAll\<close> and
  \<open>ReadDir\<close>. A tree lists its nodes by path, as component lists from the root; the root
  itself always exists. Modification times, permissions, links and device failures are
  left out; a failing device is a different provider of the storage interface.
\<close>

datatype node = Reg bytes | Dir

type_synonym path = "string list"
type_synonym os = "(path \<times> node) list"

named_theorems os_nodes \<open>what each call does to the nodes of the tree\<close>

definition ENOENT :: err where "ENOENT = Err ''no such file or directory'' [NotExist]"
definition ENOTDIR :: err where "ENOTDIR = Err ''not a directory'' []"
definition EISDIR :: err where "EISDIR = Err ''is a directory'' []"
definition EEXIST :: err where "EEXIST = Err ''file exists'' []"
definition EINVAL :: err where "EINVAL = Err ''invalid argument'' []"

definition os_node :: "os \<Rightarrow> path \<Rightarrow> node option" where
  "os_node st p = (if p = [] then Some Dir else map_of st p)"

definition is_reg :: "node option \<Rightarrow> bool" where
  "is_reg n = (case n of Some (Reg _) \<Rightarrow> True | _ \<Rightarrow> False)"

text \<open>A path is blocked when one of its proper ancestors is a regular file.\<close>

definition blocked :: "os \<Rightarrow> path \<Rightarrow> bool" where
  "blocked st p \<longleftrightarrow> list_ex (\<lambda>i. is_reg (os_node st (take i p))) [0..<length p]"

definition os_stat :: "os \<Rightarrow> path \<Rightarrow> err + node" where
  "os_stat st p =
     (if blocked st p then Inl ENOTDIR
      else (case os_node st p of None \<Rightarrow> Inl ENOENT | Some n \<Rightarrow> Inr n))"

fun mkdirs :: "os \<Rightarrow> path \<Rightarrow> path \<Rightarrow> err + os" where
  "mkdirs st d [] = Inr st"
| "mkdirs st d (c # cs) =
     (case os_node st (d @ [c]) of
        Some Dir \<Rightarrow> mkdirs st (d @ [c]) cs
      | Some (Reg _) \<Rightarrow> Inl ENOTDIR
      | None \<Rightarrow> mkdirs (st @ [(d @ [c], Dir)]) (d @ [c]) cs)"

definition os_MkdirAll :: "os \<Rightarrow> path \<Rightarrow> err + os" where
  "os_MkdirAll st p = mkdirs st [] p"

definition os_put :: "os \<Rightarrow> path \<Rightarrow> node \<Rightarrow> os" where
  "os_put st p n = map (\<lambda>kv. if fst kv = p then (p, n) else kv) st"

definition os_Write :: "os \<Rightarrow> path \<Rightarrow> bytes \<Rightarrow> err + os" where
  "os_Write st p d =
     (case os_stat st p of
        Inr Dir \<Rightarrow> Inl EISDIR
      | Inr (Reg _) \<Rightarrow> Inr (os_put st p (Reg d))
      | Inl e \<Rightarrow>
          (case os_stat st (butlast p) of
             Inl e' \<Rightarrow> Inl e'
           | Inr (Reg _) \<Rightarrow> Inl ENOTDIR
           | Inr Dir \<Rightarrow> Inr (st @ [(p, Reg d)])))"

definition move_key :: "path \<Rightarrow> path \<Rightarrow> path \<Rightarrow> path" where
  "move_key old new k = (if prefix old k then new @ drop (length old) k else k)"

text \<open>Go's \<open>os.Rename\<close> refuses an existing directory as the new name before the system call.\<close>

definition os_Rename :: "os \<Rightarrow> path \<Rightarrow> path \<Rightarrow> err + os" where
  "os_Rename st old new =
     (case os_stat st old of
        Inl e \<Rightarrow> Inl e
      | Inr n \<Rightarrow>
          if os_node st new = Some Dir then Inl EEXIST
          else if old = new then Inr st
          else (case os_stat st (butlast new) of
                  Inl e \<Rightarrow> Inl e
                | Inr (Reg _) \<Rightarrow> Inl ENOTDIR
                | Inr Dir \<Rightarrow>
                    if n = Dir \<and> prefix old new then Inl EINVAL
                    else if n = Dir \<and> os_node st new \<noteq> None then Inl ENOTDIR
                    else Inr (map (\<lambda>kv. (move_key old new (fst kv), snd kv))
                                  (filter (\<lambda>kv. fst kv \<noteq> new) st))))"

definition os_RemoveAll :: "os \<Rightarrow> path \<Rightarrow> err + os" where
  "os_RemoveAll st p =
     (if blocked st p then Inl ENOTDIR else Inr (filter (\<lambda>kv. \<not> prefix p (fst kv)) st))"

definition children :: "os \<Rightarrow> path \<Rightarrow> (string \<times> bool) list" where
  "children st p =
     map (\<lambda>kv. (last (fst kv), snd kv = Dir)) (filter (\<lambda>kv. fst kv \<noteq> [] \<and> butlast (fst kv) = p) st)"

definition os_ReadDir :: "os \<Rightarrow> path \<Rightarrow> err + (string \<times> bool) list" where
  "os_ReadDir st p =
     (case os_stat st p of
        Inl e \<Rightarrow> Inl e
      | Inr (Reg _) \<Rightarrow> Inl ENOTDIR
      | Inr Dir \<Rightarrow> Inr (sort_key fst (children st p)))"

section \<open>The tree invariant\<close>

text \<open>Paths are unique and every node hangs under a directory.\<close>

definition wf_os :: "os \<Rightarrow> bool" where
  "wf_os st \<longleftrightarrow> distinct (map fst st) \<and> list_all (\<lambda>kv. fst kv \<noteq> [] \<and> os_node st (butlast (fst kv)) = Some Dir) st"

lemma wf_os_Nil [simp]: "wf_os []"
  by (simp add: wf_os_def)

lemma os_node_Nil [simp]: "os_node st [] = Some Dir"
  by (simp add: os_node_def)

lemma is_reg_simps [simp]: "is_reg (Some (Reg d))" "\<not> is_reg (Some Dir)" "\<not> is_reg None"
  by (simp_all add: is_reg_def)

lemma is_reg_iff: "is_reg n \<longleftrightarrow> (\<exists>d. n = Some (Reg d))"
  by (auto simp: is_reg_def split: option.splits node.splits)

lemma wf_parent:
  "wf_os st \<Longrightarrow> os_node st p = Some n \<Longrightarrow> p \<noteq> [] \<Longrightarrow> os_node st (butlast p) = Some Dir"
  by (auto simp: wf_os_def list_all_iff os_node_def dest!: map_of_SomeD split: if_splits)

lemma wf_ancestor:
  "wf_os st \<Longrightarrow> os_node st p = Some n \<Longrightarrow> strict_prefix q p \<Longrightarrow> os_node st q = Some Dir"
proof (induction p arbitrary: n rule: rev_induct)
  case (snoc c p)
  then have "os_node st p = Some Dir" using wf_parent[OF snoc.prems(1,2)] by simp
  moreover from snoc.prems(3) have "q = p \<or> strict_prefix q p"
    by (auto simp: strict_prefix_def)
  ultimately show ?case using snoc.IH snoc.prems(1) by blast
qed simp

lemma wf_prefix_node:
  "wf_os st \<Longrightarrow> os_node st p = Some n \<Longrightarrow> prefix q p \<Longrightarrow> os_node st q \<noteq> None"
  by (cases "q = p") (auto dest: wf_ancestor simp: strict_prefix_def)

lemma blocked_iff: "blocked st p \<longleftrightarrow> (\<exists>q. strict_prefix q p \<and> is_reg (os_node st q))"
proof -
  have "(\<exists>i<length p. is_reg (os_node st (take i p))) \<longleftrightarrow> (\<exists>q. strict_prefix q p \<and> is_reg (os_node st q))"
  proof
    assume "\<exists>i<length p. is_reg (os_node st (take i p))"
    then obtain i where "i < length p" "is_reg (os_node st (take i p))" by blast
    moreover from this have "strict_prefix (take i p) p"
      by (metis append_take_drop_id length_take min.absorb4 nat_neq_iff strict_prefixI take_is_prefix)
    ultimately show "\<exists>q. strict_prefix q p \<and> is_reg (os_node st q)" by blast
  next
    assume "\<exists>q. strict_prefix q p \<and> is_reg (os_node st q)"
    then obtain q where q: "strict_prefix q p" "is_reg (os_node st q)" by blast
    then have "take (length q) p = q" "length q < length p"
      by (auto simp: strict_prefix_def prefix_def)
    with q show "\<exists>i<length p. is_reg (os_node st (take i p))" by metis
  qed
  then show ?thesis by (simp add: blocked_def list_ex_iff Bex_def)
qed

lemma wf_not_blocked: "wf_os st \<Longrightarrow> os_node st p = Some n \<Longrightarrow> \<not> blocked st p"
  by (auto simp: blocked_iff dest: wf_ancestor)

lemma os_stat_Inr: "wf_os st \<Longrightarrow> os_stat st p = Inr n \<longleftrightarrow> os_node st p = Some n"
  using wf_not_blocked[of st p] by (auto simp: os_stat_def split: option.splits)

lemma os_stat_Inr_node: "os_stat st p = Inr n \<Longrightarrow> os_node st p = Some n"
  by (auto simp: os_stat_def split: option.splits if_splits)

lemma os_stat_absent: "wf_os st \<Longrightarrow> (\<exists>e. os_stat st p = Inl e) \<longleftrightarrow> os_node st p = None"
  using os_stat_Inr[of st p] by (cases "os_stat st p") auto

section \<open>What each call does to the nodes\<close>

lemma os_node_snoc: "os_node st p = None \<Longrightarrow> os_node (st @ [(p, n)]) q = (if q = p then Some n else os_node st q)"
  by (auto simp: os_node_def map_add_def split: option.splits if_splits)

lemma wf_os_snoc:
  "wf_os st \<Longrightarrow> os_node st p = None \<Longrightarrow> os_node st (butlast p) = Some Dir \<Longrightarrow> wf_os (st @ [(p, n)])"
proof -
  assume wf: "wf_os st" and new: "os_node st p = None" and par: "os_node st (butlast p) = Some Dir"
  from new have p: "p \<noteq> []" by auto
  then have "p \<notin> fst ` set st" using new by (simp add: os_node_def map_of_eq_None_iff)
  moreover have "butlast p \<noteq> p" using p by (metis append_butlast_last_id append_self_conv list.distinct(1))
  ultimately show ?thesis
    using wf new par p by (auto simp: wf_os_def list_all_iff os_node_snoc)
qed

lemma mkdirs_wf:
  "mkdirs st d cs = Inr st' \<Longrightarrow> wf_os st \<Longrightarrow> os_node st d = Some Dir \<Longrightarrow> wf_os st'"
  by (induction st d cs arbitrary: st' rule: mkdirs.induct)
     (auto split: option.splits node.splits simp: wf_os_snoc os_node_snoc)

lemma strict_ext_iff:
  "strict_prefix d q \<and> prefix q (d @ cs) \<longleftrightarrow> (\<exists>r. q = d @ r \<and> r \<noteq> [] \<and> prefix r cs)"
  by (auto simp: strict_prefix_def prefix_def)

lemma strict_ext_Cons:
  "strict_prefix d q \<and> prefix q (d @ c # cs) \<longleftrightarrow>
     q = d @ [c] \<or> strict_prefix (d @ [c]) q \<and> prefix q ((d @ [c]) @ cs)"
proof -
  have "(\<exists>r. q = d @ r \<and> r \<noteq> [] \<and> prefix r (c # cs)) \<longleftrightarrow>
      q = d @ [c] \<or> (\<exists>r. q = (d @ [c]) @ r \<and> r \<noteq> [] \<and> prefix r cs)" (is "?l \<longleftrightarrow> ?r")
  proof
    assume ?l
    then obtain r' where "q = d @ c # r'" "prefix r' cs" by (auto simp: prefix_Cons)
    then show ?r by (cases "r' = []") auto
  next
    assume ?r
    then show ?l by (auto simp: prefix_Cons)
  qed
  then show ?thesis by (simp only: strict_ext_iff)
qed

lemma mkdirs_node:
  "mkdirs st d cs = Inr st' \<Longrightarrow> 
     os_node st' q = (if strict_prefix d q \<and> prefix q (d @ cs) then Some Dir else os_node st q)"
proof (induction st d cs arbitrary: st' rule: mkdirs.induct)
  case (1 st d)
  then show ?case by (auto simp: strict_prefix_def)
next
  case (2 st d c cs)
  note split = strict_ext_Cons[of d q c cs]
  show ?case
  proof (cases "os_node st (d @ [c])")
    case None
    with 2 have "os_node st' q = (if strict_prefix (d @ [c]) q \<and> prefix q ((d @ [c]) @ cs) then Some Dir
        else os_node (st @ [(d @ [c], Dir)]) q)" by simp
    with None split show ?thesis by (auto simp: os_node_snoc)
  next
    case (Some n)
    with 2(3) obtain "n = Dir" by (cases n) auto
    with Some 2 have "os_node st' q = (if strict_prefix (d @ [c]) q \<and> prefix q ((d @ [c]) @ cs) then Some Dir
        else os_node st q)" by simp
    with Some \<open>n = Dir\<close> split show ?thesis by auto
  qed
qed

lemma MkdirAll_wf: "os_MkdirAll st p = Inr st' \<Longrightarrow> wf_os st \<Longrightarrow> wf_os st'"
  by (auto simp: os_MkdirAll_def dest: mkdirs_wf)

lemma MkdirAll_node [os_nodes]:
  "os_MkdirAll st p = Inr st' \<Longrightarrow> os_node st' q = (if prefix q p then Some Dir else os_node st q)"
  by (cases "q = []") (auto simp: os_MkdirAll_def mkdirs_node strict_prefix_def)

lemma mkdirs_ok:
  "\<forall>q. strict_prefix d q \<and> prefix q (d @ cs) \<longrightarrow> \<not> is_reg (os_node st q) \<Longrightarrow> \<exists>st'. mkdirs st d cs = Inr st'"
proof (induction st d cs rule: mkdirs.induct)
  case (2 st d c cs)
  from "2.prems" have here: "\<not> is_reg (os_node st (d @ [c]))"
    by (auto simp: strict_prefix_def prefix_def)
  have rest: "\<forall>q. strict_prefix (d @ [c]) q \<and> prefix q ((d @ [c]) @ cs) \<longrightarrow> \<not> is_reg (os_node st q)"
    using "2.prems" by (auto simp: strict_prefix_def prefix_def)
  show ?case
  proof (cases "os_node st (d @ [c])")
    case None
    with rest have "\<forall>q. strict_prefix (d @ [c]) q \<and> prefix q ((d @ [c]) @ cs) \<longrightarrow>
        \<not> is_reg (os_node (st @ [(d @ [c], Dir)]) q)" by (auto simp: os_node_snoc)
    with 2 None show ?thesis by simp
  next
    case (Some n)
    with here have "n = Dir" by (cases n) auto
    with 2 rest Some show ?thesis by simp
  qed
qed simp

lemma MkdirAll_ok: "\<forall>q. prefix q p \<longrightarrow> \<not> is_reg (os_node st q) \<Longrightarrow> \<exists>st'. os_MkdirAll st p = Inr st'"
  by (simp add: os_MkdirAll_def mkdirs_ok)

lemma MkdirAll_noop: "os_node st p = Some Dir \<Longrightarrow> wf_os st \<Longrightarrow> os_MkdirAll st p = Inr st"
proof -
  have "os_node st (d @ cs) = Some Dir \<Longrightarrow> wf_os st \<Longrightarrow> mkdirs st d cs = Inr st" for d cs
  proof (induction cs arbitrary: d)
    case (Cons c cs)
    then have "os_node st (d @ [c]) = Some Dir"
      by (cases "cs = []") (auto intro: wf_ancestor simp: strict_prefix_def prefix_def)
    moreover have "mkdirs st (d @ [c]) cs = Inr st" using Cons by simp
    ultimately show ?case by simp
  qed simp
  then show "os_node st p = Some Dir \<Longrightarrow> wf_os st \<Longrightarrow> os_MkdirAll st p = Inr st"
    by (simp add: os_MkdirAll_def)
qed

lemma os_put_node: "os_node st p = Some m \<Longrightarrow> p \<noteq> [] \<Longrightarrow> os_node (os_put st p n) q = (if q = p then Some n else os_node st q)"
proof -
  have "map_of (os_put st p n) q = (if q = p \<and> map_of st p \<noteq> None then Some n else map_of st q)"
    by (induction st) (auto simp: os_put_def)
  then show "os_node st p = Some m \<Longrightarrow> p \<noteq> [] \<Longrightarrow> os_node (os_put st p n) q = (if q = p then Some n else os_node st q)"
    by (auto simp: os_node_def)
qed

lemma os_put_wf:
  "wf_os st \<Longrightarrow> os_node st p = Some (Reg a) \<Longrightarrow> wf_os (os_put st p (Reg b))"
proof -
  assume wf: "wf_os st" and p: "os_node st p = Some (Reg a)"
  then have pne: "p \<noteq> []" by auto
  have keys: "map fst (os_put st p (Reg b)) = map fst st"
    by (auto simp: os_put_def)
  have nodes: "os_node (os_put st p (Reg b)) q = Some Dir \<longleftrightarrow> os_node st q = Some Dir" for q
    using os_put_node[OF p pne] p by auto
  have "fst kv \<noteq> [] \<and> os_node st (butlast (fst kv)) = Some Dir" if "kv \<in> set (os_put st p (Reg b))" for kv
  proof -
    from that keys have "fst kv \<in> fst ` set st" by (metis image_eqI image_set)
    with wf show ?thesis by (auto simp: wf_os_def list_all_iff)
  qed
  with wf keys nodes show ?thesis
    by (simp add: wf_os_def list_all_iff)
qed

lemma Write_node [os_nodes]:
  "os_Write st p d = Inr st' \<Longrightarrow> wf_os st \<Longrightarrow>
     os_node st' q = (if q = p then Some (Reg d) else os_node st q)"
proof -
  assume w: "os_Write st p d = Inr st'" and wf: "wf_os st"
  show ?thesis
  proof (cases "os_stat st p")
    case (Inl e)
    with wf have none: "os_node st p = None" using os_stat_absent by blast
    from w Inl have "st' = st @ [(p, Reg d)]"
      by (auto simp: os_Write_def split: sum.splits node.splits)
    with none show ?thesis by (simp add: os_node_snoc)
  next
    case (Inr n)
    with w obtain b where n: "n = Reg b" "st' = os_put st p (Reg d)"
      by (cases n) (auto simp: os_Write_def)
    with Inr wf have "os_node st p = Some (Reg b)" by (simp add: os_stat_Inr)
    moreover then have "p \<noteq> []" by auto
    ultimately show ?thesis using n by (simp add: os_put_node)
  qed
qed

lemma Write_wf: "os_Write st p d = Inr st' \<Longrightarrow> wf_os st \<Longrightarrow> wf_os st'"
proof -
  assume w: "os_Write st p d = Inr st'" and wf: "wf_os st"
  show ?thesis
  proof (cases "os_stat st p")
    case (Inl e)
    with wf have "os_node st p = None" using os_stat_absent by blast
    with w wf Inl show ?thesis
      by (auto simp: os_Write_def wf_os_snoc os_stat_Inr split: sum.splits node.splits)
  next
    case (Inr n)
    with w wf show ?thesis
      by (cases n) (auto simp: os_Write_def os_put_wf os_stat_Inr)
  qed
qed

lemma Write_ok:
  "wf_os st \<Longrightarrow> os_node st (butlast p) = Some Dir \<Longrightarrow> os_node st p \<noteq> Some Dir \<Longrightarrow> \<exists>st'. os_Write st p d = Inr st'"
proof -
  assume wf: "wf_os st" and par: "os_node st (butlast p) = Some Dir" and nd: "os_node st p \<noteq> Some Dir"
  have "os_stat st (butlast p) = Inr Dir" using wf par by (simp add: os_stat_Inr)
  then show ?thesis
    using nd by (auto simp: os_Write_def split: sum.splits node.splits dest: os_stat_Inr_node)
qed

lemma RemoveAll_node [os_nodes]:
  "os_RemoveAll st p = Inr st' \<Longrightarrow> p \<noteq> [] \<Longrightarrow> os_node st' q = (if prefix p q then None else os_node st q)"
proof -
  have "map_of (filter (\<lambda>kv. \<not> prefix p (fst kv)) st) q = (if prefix p q then None else map_of st q)"
    by (induction st) auto
  then show "os_RemoveAll st p = Inr st' \<Longrightarrow> p \<noteq> [] \<Longrightarrow> os_node st' q = (if prefix p q then None else os_node st q)"
    by (auto simp: os_RemoveAll_def os_node_def split: if_splits)
qed

lemma RemoveAll_wf: "os_RemoveAll st p = Inr st' \<Longrightarrow> wf_os st \<Longrightarrow> p \<noteq> [] \<Longrightarrow> wf_os st'"
proof -
  assume r: "os_RemoveAll st p = Inr st'" and wf: "wf_os st" and p: "p \<noteq> []"
  then have st': "st' = filter (\<lambda>kv. \<not> prefix p (fst kv)) st"
    by (simp add: os_RemoveAll_def split: if_splits)
  have "distinct (map fst st')" using wf st' by (simp add: wf_os_def distinct_map_filter)
  moreover have "fst kv \<noteq> [] \<and> os_node st' (butlast (fst kv)) = Some Dir" if "kv \<in> set st'" for kv
  proof -
    from that st' have "kv \<in> set st" and np: "\<not> prefix p (fst kv)" by auto
    with wf have "fst kv \<noteq> []" "os_node st (butlast (fst kv)) = Some Dir"
      by (auto simp: wf_os_def list_all_iff)
    moreover have "\<not> prefix p (butlast (fst kv))"
      using np by (meson prefix_order.trans prefixeq_butlast)
    ultimately show ?thesis using RemoveAll_node[OF r p] by simp
  qed
  ultimately show ?thesis by (auto simp: wf_os_def list_all_iff)
qed

section \<open>Renaming and listing\<close>

lemma node_iff_mem: "wf_os st \<Longrightarrow> os_node st q = Some n \<longleftrightarrow> (q = [] \<and> n = Dir) \<or> (q, n) \<in> set st"
  by (auto simp: os_node_def wf_os_def list_all_iff dest: map_of_SomeD)

lemma Rename_cases:
  assumes "os_Rename st old new = Inr st'" and "wf_os st" and "old \<noteq> new"
  obtains n where "os_node st old = Some n" "\<not> prefix old new" "old \<noteq> []"
    "os_node st new \<noteq> Some Dir" "n = Dir \<longrightarrow> os_node st new = None"
    "os_node st (butlast new) = Some Dir" "new \<noteq> []"
    "st' = map (\<lambda>kv. (move_key old new (fst kv), snd kv)) (filter (\<lambda>kv. fst kv \<noteq> new) st)"
proof -
  obtain n where st: "os_stat st old = Inr n" using assms(1) by (auto simp: os_Rename_def split: sum.splits)
  then have node: "os_node st old = Some n" by (rule os_stat_Inr_node)
  from assms st have nd: "os_node st new \<noteq> Some Dir" by (auto simp: os_Rename_def)
  then have newne: "new \<noteq> []" by auto
  from assms st nd obtain m where m: "os_stat st (butlast new) = Inr m" by (auto simp: os_Rename_def split: sum.splits)
  with assms st nd have md: "m = Dir" by (cases m) (auto simp: os_Rename_def)
  with m have par: "os_node st (butlast new) = Some Dir" by (auto dest: os_stat_Inr_node)
  from assms st nd m md have
    rest: "\<not> (n = Dir \<and> prefix old new)" "n = Dir \<longrightarrow> os_node st new = None"
      "st' = map (\<lambda>kv. (move_key old new (fst kv), snd kv)) (filter (\<lambda>kv. fst kv \<noteq> new) st)"
    by (auto simp: os_Rename_def split: if_splits)
  have np: "\<not> prefix old new"
  proof
    assume pr: "prefix old new"
    with rest have reg: "n \<noteq> Dir" by blast
    from pr \<open>old \<noteq> new\<close> newne have "prefix old (butlast new)"
      by (metis append_butlast_last_id prefix_snoc)
    with par assms(2) node reg show False
      by (metis option.inject strict_prefixI wf_ancestor)
  qed
  then have "old \<noteq> []" by auto
  with that[OF node np _ nd _ par newne] rest show ?thesis by blast
qed

lemma Rename_unused:
  assumes "os_Rename st old new = Inr st'" and "wf_os st" and "old \<noteq> new"
    and "(k, n) \<in> set st" and "k \<noteq> new"
  shows "\<not> prefix new k"
proof
  assume "prefix new k"
  with \<open>k \<noteq> new\<close> have "strict_prefix new k" by (auto simp: strict_prefix_def)
  moreover have "os_node st k = Some n" using assms(2,4) by (simp add: node_iff_mem)
  ultimately have "os_node st new = Some Dir" using assms(2) by (blast intro: wf_ancestor)
  with assms show False by (elim Rename_cases) auto
qed

lemma Rename_distinct:
  assumes "os_Rename st old new = Inr st'" and "wf_os st" and "old \<noteq> new"
  shows "distinct (map fst st')"
proof -
  let ?st1 = "filter (\<lambda>kv. fst kv \<noteq> new) st"
  from assms have "st' = map (\<lambda>kv. (move_key old new (fst kv), snd kv)) ?st1"
    by (elim Rename_cases)
  then have st': "map fst st' = map (move_key old new) (map fst ?st1)"
    by (simp only: list.map_comp) (simp only: o_def fst_conv)
  have "inj_on (move_key old new) (set (map fst ?st1))"
  proof (rule inj_onI)
    fix k1 k2
    assume k: "k1 \<in> set (map fst ?st1)" "k2 \<in> set (map fst ?st1)"
      and eq: "move_key old new k1 = move_key old new k2"
    from k have "\<not> prefix new k1" "\<not> prefix new k2"
      using Rename_unused[OF assms] by auto
    with eq show "k1 = k2"
      by (auto simp: move_key_def prefix_def split: if_splits)
  qed
  moreover have "distinct (map fst ?st1)" using assms(2) by (simp add: wf_os_def distinct_map_filter)
  ultimately show ?thesis unfolding st' by (simp only: distinct_map[of "move_key old new"])
qed

lemma Rename_mem:
  assumes "os_Rename st old new = Inr st'" and "wf_os st" and "old \<noteq> new"
  shows "(q, n) \<in> set st' \<longleftrightarrow>
    (if prefix new q then (old @ drop (length new) q, n) \<in> set st
     else \<not> prefix old q \<and> (q, n) \<in> set st)"
proof -
  from assms have np: "\<not> prefix old new"
    and st': "st' = map (\<lambda>kv. (move_key old new (fst kv), snd kv)) (filter (\<lambda>kv. fst kv \<noteq> new) st)"
    by (elim Rename_cases; simp)+
  have mem: "(q, n) \<in> set st' \<longleftrightarrow> (\<exists>k. (k, n) \<in> set st \<and> k \<noteq> new \<and> q = move_key old new k)"
    unfolding st' by force
  show ?thesis
  proof (cases "prefix new q")
    case True
    then obtain r where r: "q = new @ r" by (auto simp: prefix_def)
    have "(\<exists>k. (k, n) \<in> set st \<and> k \<noteq> new \<and> q = move_key old new k) \<longleftrightarrow> (old @ r, n) \<in> set st"
    proof
      assume "\<exists>k. (k, n) \<in> set st \<and> k \<noteq> new \<and> q = move_key old new k"
      then obtain k where k: "(k, n) \<in> set st" "k \<noteq> new" "q = move_key old new k" by blast
      then have "\<not> prefix new k" using Rename_unused[OF assms] by blast
      with k r have "prefix old k" by (auto simp: move_key_def split: if_splits)
      with k r show "(old @ r, n) \<in> set st" by (auto simp: move_key_def prefix_def)
    next
      assume "(old @ r, n) \<in> set st"
      moreover have "old @ r \<noteq> new" using np by (auto simp: prefix_def)
      moreover have "q = move_key old new (old @ r)" by (simp add: r move_key_def)
      ultimately show "\<exists>k. (k, n) \<in> set st \<and> k \<noteq> new \<and> q = move_key old new k" by blast
    qed
    with True r mem show ?thesis by simp
  next
    case False
    then have "q = move_key old new k \<longleftrightarrow> \<not> prefix old k \<and> q = k" for k
      by (auto simp: move_key_def)
    with False mem show ?thesis by auto
  qed
qed

lemma Rename_wf:
  assumes r: "os_Rename st old new = Inr st'" and wf: "wf_os st"
  shows "wf_os st'"
proof (cases "old = new")
  case True
  with r wf show ?thesis
    by (auto simp: os_Rename_def split: sum.splits if_splits)
next
  case False
  note mem = Rename_mem[OF r wf False]
  from r wf False have np: "\<not> prefix old new" and par: "os_node st (butlast new) = Some Dir"
    and ne: "new \<noteq> []" "old \<noteq> []" by (elim Rename_cases; simp)+
  note d = Rename_distinct[OF r wf False]
  have node': "os_node st' p = Some Dir" if "p = [] \<or> (p, Dir) \<in> set st'" for p
    using that d by (auto simp: os_node_def)
  have "q \<noteq> [] \<and> os_node st' (butlast q) = Some Dir" if "(q, n) \<in> set st'" for q n
  proof (cases "prefix new q")
    case True
    then obtain rr where q: "q = new @ rr" by (auto simp: prefix_def)
    have "butlast q = [] \<or> (butlast q, Dir) \<in> set st'"
    proof (cases "rr = []")
      case True
      have "\<not> prefix new (butlast new)" using ne by (metis append_butlast_last_id not_Cons_self2 prefix_order.antisym prefixeq_butlast append_self_conv)
      moreover have "\<not> prefix old (butlast new)" using np by (meson prefix_order.trans prefixeq_butlast)
      ultimately show ?thesis using True q par wf mem by (auto simp: node_iff_mem)
    next
      case nonempty: False
      from that True q mem have "(old @ rr, n) \<in> set st" by simp
      then have "os_node st (butlast (old @ rr)) = Some Dir" using wf by (auto simp: wf_os_def list_all_iff)
      with wf nonempty ne have "(old @ butlast rr, Dir) \<in> set st" by (auto simp: node_iff_mem butlast_append)
      with nonempty q show ?thesis by (simp add: mem butlast_append)
    qed
    with ne q node' show ?thesis by simp
  next
    case False
    with that mem have q: "(q, n) \<in> set st" "\<not> prefix old q" by auto
    with wf have "q \<noteq> []" "os_node st (butlast q) = Some Dir" by (auto simp: wf_os_def list_all_iff)
    moreover have "\<not> prefix old (butlast q)" "\<not> prefix new (butlast q)"
      using q False by (meson prefix_order.trans prefixeq_butlast)+
    ultimately show ?thesis using wf mem by (auto simp: node_iff_mem intro: node')
  qed
  with d show ?thesis by (fastforce simp: wf_os_def list_all_iff)
qed

lemma Rename_node [os_nodes]:
  assumes r: "os_Rename st old new = Inr st'" and wf: "wf_os st" and ne: "old \<noteq> new"
  shows "os_node st' q =
    (if prefix new q then os_node st (old @ drop (length new) q)
     else if prefix old q then None else os_node st q)"
proof -
  from r wf ne have n: "new \<noteq> []" "old \<noteq> []" by (elim Rename_cases; simp)+
  have "os_node st' q = Some m \<longleftrightarrow>
     (if prefix new q then os_node st (old @ drop (length new) q)
      else if prefix old q then None else os_node st q) = Some m" for m
    using Rename_mem[OF r wf ne, of q m] n
    by (cases "q = []") (auto simp: node_iff_mem[OF Rename_wf[OF r wf]] node_iff_mem[OF wf])
  then show ?thesis by (metis option.exhaust)
qed

lemma Rename_ok:
  assumes "wf_os st" and "os_node st old = Some n" and "os_node st new = None"
    and "os_node st (butlast new) = Some Dir" and "\<not> prefix old new"
  shows "\<exists>st'. os_Rename st old new = Inr st'"
  using assms by (simp add: os_Rename_def os_stat_Inr[THEN iffD2] split: sum.splits)

lemma Rename_file_ok:
  assumes "wf_os st" and "os_node st old = Some (Reg d)" and "os_node st new \<noteq> Some Dir"
    and "os_node st (butlast new) = Some Dir"
  shows "\<exists>st'. os_Rename st old new = Inr st'"
  using assms by (simp add: os_Rename_def os_stat_Inr[THEN iffD2] split: sum.splits)

lemma children_iff:
  "wf_os st \<Longrightarrow> (n, b) \<in> set (children st p) \<longleftrightarrow> (\<exists>m. os_node st (p @ [n]) = Some m \<and> b = (m = Dir))"
proof -
  assume wf: "wf_os st"
  have "(n, b) \<in> set (children st p) \<longleftrightarrow> (\<exists>m. (p @ [n], m) \<in> set st \<and> b = (m = Dir))"
    by (force simp: children_def dest: append_butlast_last_id)
  then show ?thesis using wf by (simp add: node_iff_mem)
qed

lemma children_distinct: "wf_os st \<Longrightarrow> distinct (map fst (children st p))"
proof -
  assume wf: "wf_os st"
  let ?ks = "filter (\<lambda>k. k \<noteq> [] \<and> butlast k = p) (map fst st)"
  have "map fst (children st p) = map last ?ks"
    by (simp add: children_def filter_map o_def)
  moreover have "distinct ?ks" using wf by (simp add: wf_os_def)
  moreover have "inj_on last (set ?ks)"
  proof (rule inj_onI)
    fix a b
    assume "a \<in> set ?ks" "b \<in> set ?ks" "last a = last b"
    then show "a = b" by (metis (mono_tags, lifting) append_butlast_last_id mem_Collect_eq set_filter)
  qed
  ultimately show ?thesis by (simp only: distinct_map)
qed

lemma ReadDir_iff:
  "os_ReadDir st p = Inr es \<Longrightarrow> wf_os st \<Longrightarrow>
     (n, b) \<in> set es \<longleftrightarrow> (\<exists>m. os_node st (p @ [n]) = Some m \<and> b = (m = Dir))"
  by (auto simp: os_ReadDir_def children_iff split: sum.splits node.splits)

lemma ReadDir_sorted:
  "os_ReadDir st p = Inr es \<Longrightarrow> wf_os st \<Longrightarrow> sorted (map fst es) \<and> distinct (map fst es)"
proof -
  assume "os_ReadDir st p = Inr es" and wf: "wf_os st"
  then have es: "es = sort_key fst (children st p)"
    by (auto simp: os_ReadDir_def split: sum.splits node.splits)
  have "mset (map fst es) = mset (map fst (children st p))" by (simp add: es)
  then have "distinct (map fst es)" using children_distinct[OF wf] by (metis mset_eq_imp_distinct_iff)
  then show ?thesis by (simp add: es)
qed

lemma ReadDir_ok: "wf_os st \<Longrightarrow> (\<exists>es. os_ReadDir st p = Inr es) \<longleftrightarrow> os_node st p = Some Dir"
  by (cases "os_stat st p") (auto simp: os_ReadDir_def os_stat_Inr split: node.splits dest: os_stat_Inr[THEN iffD2])

end
