(* ===== verification/Base64.thy ===== *)
theory Base64
  imports Prelude
begin

text \<open>
  Go's \<open>encoding/base64\<close> as the sources use it: \<open>RawStdEncoding\<close> (no padding) and
  \<open>StdEncoding\<close> (padded) in both directions. Decoding skips carriage returns and
  newlines, refuses other characters and a single left-over character, and, not being in
  strict mode, ignores the unused low bits of the last character.
\<close>

text \<open>The standard alphabet: capitals, small letters, digits, plus, slash.\<close>

definition b64_char :: "nat \<Rightarrow> char" where
  "b64_char i = (let j = i mod 64 in
     if j < 26 then char_of (65 + j)
     else if j < 52 then char_of (71 + j)
     else if j < 62 then char_of (j - 4)
     else if j = 62 then CHR ''+'' else CHR ''/'')"

definition b64_index :: "char \<Rightarrow> nat option" where
  "b64_index c = (let n = of_char c :: nat in
     if 65 \<le> n \<and> n \<le> 90 then Some (n - 65)
     else if 97 \<le> n \<and> n \<le> 122 then Some (n - 71)
     else if 48 \<le> n \<and> n \<le> 57 then Some (n + 4)
     else if c = CHR ''+'' then Some 62
     else if c = CHR ''/'' then Some 63
     else None)"

fun b64_encode_raw :: "bytes \<Rightarrow> string" where
  "b64_encode_raw [] = []"
| "b64_encode_raw [a] =
     (let n = of_char a * 16 in [b64_char (n div 64), b64_char n])"
| "b64_encode_raw [a, b] =
     (let n = of_char a * 1024 + of_char b * 4 in
      [b64_char (n div 4096), b64_char (n div 64), b64_char n])"
| "b64_encode_raw (a # b # c # r) =
     (let n = of_char a * 65536 + of_char b * 256 + of_char c in
      [b64_char (n div 262144), b64_char (n div 4096), b64_char (n div 64), b64_char n]
      @ b64_encode_raw r)"

definition b64_encode_std :: "bytes \<Rightarrow> string" where
  "b64_encode_std bs = (let s = b64_encode_raw bs in
     s @ replicate ((4 - length s mod 4) mod 4) (CHR ''=''))"

definition CorruptInput :: err where
  "CorruptInput = Err ''illegal base64 data'' []"

fun b64_indices :: "string \<Rightarrow> nat list option" where
  "b64_indices [] = Some []"
| "b64_indices (c # s) =
     (case b64_index c of None \<Rightarrow> None | Some i \<Rightarrow> map_option ((#) i) (b64_indices s))"

fun b64_bytes :: "nat list \<Rightarrow> bytes option" where
  "b64_bytes [] = Some []"
| "b64_bytes [i] = None"
| "b64_bytes [i, j] = Some [char_of ((i * 64 + j) div 16)]"
| "b64_bytes [i, j, k] =
     (let n = i * 4096 + j * 64 + k in Some [char_of (n div 1024), char_of (n div 4)])"
| "b64_bytes (i # j # k # l # r) =
     (let n = i * 262144 + j * 4096 + k * 64 + l in
      map_option ((@) [char_of (n div 65536), char_of (n div 256), char_of n]) (b64_bytes r))"

definition b64_decode_raw :: "string \<Rightarrow> err + bytes" where
  "b64_decode_raw s =
     (case b64_indices (filter (\<lambda>c. c \<noteq> CHR 0x0A \<and> c \<noteq> CHR 0x0D) s) of
        None \<Rightarrow> Inl CorruptInput
      | Some is \<Rightarrow> (case b64_bytes is of None \<Rightarrow> Inl CorruptInput | Some bs \<Rightarrow> Inr bs))"

text \<open>\<open>StdEncoding\<close> wants whole groups of four: at most two pads, and only at the end.\<close>

definition b64_strip_pads :: "string \<Rightarrow> string" where
  "b64_strip_pads t =
     (if HasSuffix t ''=='' then take (length t - 2) t
      else if HasSuffix t ''='' then take (length t - 1) t else t)"

definition b64_decode_std :: "string \<Rightarrow> err + bytes" where
  "b64_decode_std s =
     (let t = filter (\<lambda>c. c \<noteq> CHR 0x0A \<and> c \<noteq> CHR 0x0D) s
      in if length t mod 4 \<noteq> 0 then Inl CorruptInput
         else case b64_indices (b64_strip_pads t) of
           None \<Rightarrow> Inl CorruptInput
         | Some is \<Rightarrow> (case b64_bytes is of None \<Rightarrow> Inl CorruptInput | Some bs \<Rightarrow> Inr bs))"

text \<open>\<open>RawStdEncoding.DecodedLen\<close>\<close>

definition b64_decoded_len :: "nat \<Rightarrow> nat" where
  "b64_decoded_len n = n div 4 * 3 + n mod 4 * 6 div 8"

section \<open>Round trip\<close>

lemma b64_char_mod: "b64_char i = b64_char (i mod 64)"
  by (simp add: b64_char_def)

lemma b64_index_char_mod [simp]: "b64_index (b64_char i) = Some (i mod 64)"
proof -
  have "i mod 64 < 64" by simp
  moreover have "i mod 64 \<noteq> 62 \<Longrightarrow> \<not> i mod 64 < 62 \<Longrightarrow> i mod 64 = 63" by presburger
  ultimately show ?thesis
    by (auto simp: b64_char_def b64_index_def Let_def of_char_of)
qed

lemma b64_char_newline: "b64_index (CHR 0x0A) = None" "b64_index (CHR 0x0D) = None"
  by (simp_all add: b64_index_def)

lemma b64_char_visible: "b64_char i \<noteq> CHR 0x0A" "b64_char i \<noteq> CHR 0x0D"
  using b64_index_char_mod[of i] b64_char_newline by (auto simp del: b64_index_char_mod)

lemma b64_no_newline:
  "filter (\<lambda>c. c \<noteq> CHR 0x0A \<and> c \<noteq> CHR 0x0D) (b64_encode_raw bs) = b64_encode_raw bs"
  by (induction bs rule: b64_encode_raw.induct) (simp_all add: Let_def b64_char_visible)

lemma char_of_eq: "n mod 256 = of_char c \<Longrightarrow> char_of n = c"
  by (metis char_of_mod_256 char_of_char)

text \<open>Four sextets of a number below two to the power 24 give the number back.\<close>

lemma sextets2: fixes n :: nat shows "n div 64 mod 64 * 64 + n mod 64 = n mod 4096"
  using mod_mult2_eq[of n 64 64] by simp

lemma sextets3: fixes n :: nat shows "n div 4096 mod 64 * 4096 + n mod 4096 = n mod 262144"
  using mod_mult2_eq[of n 4096 64] by simp

lemma sextets4: fixes n :: nat shows "n div 262144 mod 64 * 262144 + n mod 262144 = n mod 16777216"
  using mod_mult2_eq[of n 262144 64] by simp

lemma sextets:
  fixes n :: nat
  assumes "n < 16777216"
  shows "n div 262144 mod 64 * 262144 + n div 4096 mod 64 * 4096 + n div 64 mod 64 * 64 + n mod 64 = n"
proof -
  have "n mod 16777216 = n" by (rule mod_less) (rule assms)
  with sextets2[of n] sextets3[of n] sextets4[of n] show ?thesis by linarith
qed

lemma sextets_three:
  fixes n :: nat
  assumes "n < 262144"
  shows "n div 4096 mod 64 * 4096 + n div 64 mod 64 * 64 + n mod 64 = n"
proof -
  have "n mod 262144 = n" by (rule mod_less) (rule assms)
  with sextets2[of n] sextets3[of n] show ?thesis by linarith
qed

lemma sextets_two:
  fixes n :: nat
  assumes "n < 4096"
  shows "n div 64 mod 64 * 64 + n mod 64 = n"
proof -
  have "n mod 4096 = n" by (rule mod_less) (rule assms)
  with sextets2[of n] show ?thesis by linarith
qed

lemma octets2:
  fixes a b :: nat
  assumes "b < m"
  shows "(a * m + b) div m = a" "(a * m + b) mod m = b"
  using assms by simp_all

lemma octets3:
  fixes a b c :: nat
  assumes "a < 256" "b < 256" "c < 256"
  shows "(a * 65536 + b * 256 + c) div 65536 = a" "(a * 65536 + b * 256 + c) div 256 mod 256 = b"
    "(a * 65536 + b * 256 + c) mod 256 = c"
proof -
  have lt: "b * 256 + c < 65536" using assms by linarith
  show "(a * 65536 + b * 256 + c) div 65536 = a"
    using octets2(1)[OF lt, of a] by (simp only: add.assoc)
  have eq: "a * 65536 + b * 256 + c = (a * 256 + b) * 256 + c" by simp
  show "(a * 65536 + b * 256 + c) div 256 mod 256 = b"
    unfolding eq octets2(1)[OF assms(3)] by (rule octets2(2)[OF assms(2)])
  show "(a * 65536 + b * 256 + c) mod 256 = c"
    unfolding eq by (rule octets2(2)[OF assms(3)])
qed

lemma octet_bounds: "of_char c < (256::nat)"
  by (rule nat_of_char_less_256)

lemma quad_bytes:
  fixes a b c :: char
  defines "n \<equiv> of_char a * 65536 + of_char b * 256 + of_char c :: nat"
  shows "b64_bytes (n div 262144 mod 64 # n div 4096 mod 64 # n div 64 mod 64 # n mod 64 # r)
    = map_option ((@) [a, b, c]) (b64_bytes r)"
proof -
  have lt: "of_char a < (256::nat)" "of_char b < (256::nat)" "of_char c < (256::nat)"
    by (rule nat_of_char_less_256)+
  then have "n < 16777216" unfolding n_def by linarith
  then have bk: "n div 262144 mod 64 * 262144 + n div 4096 mod 64 * 4096 + n div 64 mod 64 * 64 + n mod 64 = n"
    by (rule sextets)
  note o = octets3[OF lt, folded n_def]
  have "n div 65536 mod 256 = of_char a" unfolding o(1) by (rule mod_less) (rule lt)
  then have "char_of (n div 65536) = a" "char_of (n div 256) = b" "char_of n = c"
    using o(2,3) by (blast intro: char_of_eq)+
  then show ?thesis by (simp only: b64_bytes.simps Let_def bk)
qed

lemma triple_bytes:
  fixes a b :: char
  defines "n \<equiv> of_char a * 1024 + of_char b * 4 :: nat"
  shows "b64_bytes [n div 4096 mod 64, n div 64 mod 64, n mod 64] = Some [a, b]"
proof -
  have lt: "of_char a < (256::nat)" "of_char b < (256::nat)" by (rule nat_of_char_less_256)+
  then have "n < 262144" unfolding n_def by linarith
  then have bk: "n div 4096 mod 64 * 4096 + n div 64 mod 64 * 64 + n mod 64 = n" by (rule sextets_three)
  have b4: "of_char b * 4 < (1024::nat)" using lt by linarith
  have n: "n = of_char a * 1024 + of_char b * 4" by (simp add: n_def)
  have "n div 1024 = of_char a" unfolding n by (rule octets2(1)[OF b4])
  then have "n div 1024 mod 256 = of_char a" using lt(1) by (simp only: mod_less)
  moreover have "n div 4 = of_char a * 256 + of_char b" unfolding n by simp
  then have "n div 4 mod 256 = of_char b" by (simp only: octets2(2)[OF lt(2)])
  ultimately have "char_of (n div 1024) = a" "char_of (n div 4) = b" by (blast intro: char_of_eq)+
  then show ?thesis by (simp only: b64_bytes.simps Let_def bk)
qed

lemma pair_bytes:
  fixes a :: char
  defines "n \<equiv> of_char a * 16 :: nat"
  shows "b64_bytes [n div 64 mod 64, n mod 64] = Some [a]"
proof -
  have lt: "of_char a < (256::nat)" by (rule nat_of_char_less_256)
  then have "n < 4096" unfolding n_def by linarith
  then have bk: "n div 64 mod 64 * 64 + n mod 64 = n" by (rule sextets_two)
  have "n div 16 = of_char a" by (simp add: n_def)
  then show ?thesis by (simp only: b64_bytes.simps bk char_of_char)
qed

lemma b64_bytes_encode: "Option.bind (b64_indices (b64_encode_raw bs)) b64_bytes = Some bs"
proof (induction bs rule: b64_encode_raw.induct)
  case (2 a)
  show ?case
    by (simp only: b64_encode_raw.simps Let_def b64_indices.simps b64_index_char_mod option.case
        option.map bind.bind_lunit pair_bytes)
next
  case (3 a b)
  show ?case
    by (simp only: b64_encode_raw.simps Let_def b64_indices.simps b64_index_char_mod option.case
        option.map bind.bind_lunit triple_bytes)
next
  case (4 a b c r)
  then obtain js where "b64_indices (b64_encode_raw r) = Some js" "b64_bytes js = Some r"
    by (auto simp: bind_eq_Some_conv)
  then show ?case
    by (simp only: b64_encode_raw.simps Let_def append.simps b64_indices.simps b64_index_char_mod option.case
        option.map bind.bind_lunit quad_bytes)
qed simp

lemma b64_raw_roundtrip: "b64_decode_raw (b64_encode_raw bs) = Inr bs"
  using b64_bytes_encode[of bs]
  by (auto simp: b64_decode_raw_def b64_no_newline bind_eq_Some_conv)

lemma b64_encode_steps [simp]:
  "length (b64_encode_raw [a]) = 2"
  "length (b64_encode_raw [a, b]) = 3"
  "length (b64_encode_raw (a # b # c # r)) = 4 + length (b64_encode_raw r)"
  unfolding b64_encode_raw.simps Let_def list.size length_append by simp_all

lemma b64_encode_length: "length (b64_encode_raw bs) = length bs div 3 * 4 + (length bs mod 3 * 4 + 2) div 3"
proof (induction bs rule: b64_encode_raw.induct)
  case (4 a b c r)
  have "(3 + length r) div 3 = Suc (length r div 3)" "(3 + length r) mod 3 = length r mod 3" by simp_all
  with 4 show ?case by (simp del: b64_encode_raw.simps(4))
qed (simp_all del: b64_encode_raw.simps(2-4))

lemma sextet_count: "r < 3 \<Longrightarrow> (r * 4 + 2) div 3 < 4 \<and> (r * 4 + 2) div 3 * 6 div 8 = (r::nat)"
proof -
  assume "r < 3"
  then have "r \<in> {0, 1, 2}" by auto
  moreover have "\<forall>r\<in>{0, 1, 2::nat}. (r * 4 + 2) div 3 < 4 \<and> (r * 4 + 2) div 3 * 6 div 8 = r" by code_simp
  ultimately show ?thesis by (rule bspec[rotated])
qed

lemma b64_decoded_len_encode: "b64_decoded_len (length (b64_encode_raw bs)) = length bs"
proof -
  have step: "b64_decoded_len (k * 4 + r) = k * 3 + r * 6 div 8" if "r < 4" for k r
    unfolding b64_decoded_len_def octets2[OF that] by simp
  have "length bs mod 3 < 3" by simp
  then have c: "(length bs mod 3 * 4 + 2) div 3 < 4"
    "(length bs mod 3 * 4 + 2) div 3 * 6 div 8 = length bs mod 3"
    by (blast dest: sextet_count)+
  show ?thesis unfolding b64_encode_length step[OF c(1)] c(2) by (rule div_mult_mod_eq)
qed

lemma b64_char_no_pad: "b64_char i \<noteq> CHR ''=''"
proof -
  have "b64_index (CHR ''='') = None" by code_simp
  with b64_index_char_mod[of i] show ?thesis by (metis option.distinct(1))
qed

lemma b64_no_pad: "CHR ''='' \<notin> set (b64_encode_raw bs)"
  by (induction bs rule: b64_encode_raw.induct) (simp_all add: Let_def b64_char_no_pad b64_char_no_pad[symmetric])

lemma b64_strip_pads_raw:
  assumes "CHR ''='' \<notin> set t" and "k \<le> 2"
  shows "b64_strip_pads (t @ replicate k (CHR ''='')) = t"
proof -
  have last: "\<not> suffix ''='' t" using assms(1) by (auto simp: suffix_def)
  have "k = 0 \<or> k = 1 \<or> k = 2" using assms(2) by auto
  then show ?thesis
  proof (elim disjE)
    assume "k = 0"
    moreover have "\<not> suffix ''=='' t" using assms(1) by (auto simp: suffix_def)
    ultimately show ?thesis using last by (simp add: b64_strip_pads_def HasSuffix_def)
  next
    assume "k = 1"
    moreover have "\<not> suffix ''=='' (t @ ''='')"
      using assms(1) by (auto simp: suffix_def append_eq_append_conv2 Cons_eq_append_conv)
    ultimately show ?thesis by (simp add: b64_strip_pads_def HasSuffix_def)
  next
    assume "k = 2"
    moreover have "suffix ''=='' (t @ ''=='')" by (rule suffixI) simp
    ultimately show ?thesis by (simp add: b64_strip_pads_def HasSuffix_def numeral_2_eq_2)
  qed
qed

lemma b64_length_mod: "length (b64_encode_raw bs) mod 4 \<noteq> 1"
proof -
  have "length bs mod 3 < 3" by simp
  then have "(length bs mod 3 * 4 + 2) div 3 < 4" by (blast dest: sextet_count)
  then have "length (b64_encode_raw bs) mod 4 = (length bs mod 3 * 4 + 2) div 3"
    unfolding b64_encode_length by simp
  moreover have "r < 3 \<Longrightarrow> (r * 4 + 2) div 3 \<noteq> (1::nat)" for r
  proof -
    assume "r < 3"
    then have "r = 0 \<or> r = 1 \<or> r = 2" by auto
    then show ?thesis by auto
  qed
  ultimately show ?thesis using \<open>length bs mod 3 < 3\<close> by metis
qed

lemma b64_std_roundtrip: "b64_decode_std (b64_encode_std bs) = Inr bs"
proof -
  let ?s = "b64_encode_raw bs"
  define k where "k = (4 - length ?s mod 4) mod 4"
  have mod: "length ?s mod 4 < 4" "length ?s mod 4 \<noteq> 1" using b64_length_mod by simp_all
  then have k: "k \<le> 2" "(length ?s + k) mod 4 = 0"
  proof -
    have "length ?s mod 4 \<in> {0, 2, 3}" using mod by auto
    then have "k \<le> 2 \<and> (length ?s mod 4 + k) mod 4 = 0" unfolding k_def by auto
    then show "k \<le> 2" "(length ?s + k) mod 4 = 0" by (simp_all add: mod_simps)
  qed
  have e: "b64_encode_std bs = ?s @ replicate k (CHR ''='')" by (simp add: b64_encode_std_def k_def Let_def)
  have f: "filter (\<lambda>c. c \<noteq> CHR 0x0A \<and> c \<noteq> CHR 0x0D) (b64_encode_std bs) = b64_encode_std bs"
    unfolding e by (simp add: b64_no_newline)
  have "length (b64_encode_std bs) mod 4 = 0" unfolding e using k(2) by simp
  then show ?thesis
    unfolding b64_decode_std_def Let_def f unfolding e b64_strip_pads_raw[OF b64_no_pad k(1)]
    using b64_bytes_encode[of bs] by (auto simp: bind_eq_Some_conv)
qed

end
