(* ===== verification/Storage.thy ===== *)
theory Storage
  imports OS_Files Base64
begin

text \<open>
  The storage chest (\<open>internal/storage\<close>). The Go interface \<open>Chest\<close> is a record of its
  operations over a state \<open>'s\<close>; its three implementations are the directory on disk
  (\<open>filesystem.go\<close>, over the tree of \<open>OS_Files\<close>), the encrypted wrapper
  (\<open>encryption.go\<close>) and the fault-injecting wrapper (\<open>mock.go\<close>). Their common contract
  is the pair of locales \<open>chest_tree\<close> (which nodes exist after each operation) and
  \<open>chest_content\<close> (what is read back), stated over an abstract tree.
\<close>

section \<open>The interface\<close>

text \<open>
  An open file: \<open>file_buffered\<close> tells a \<open>*buffer\<close> (already read into memory) from a
  \<open>*file\<close>; what is read from a directory's descriptor is an error.
\<close>

record ofile =
  file_name :: string
  file_path :: string
  file_node :: node
  file_buffered :: bool

definition file_read :: "ofile \<Rightarrow> err + bytes" where
  "file_read f = (case file_node f of Reg b \<Rightarrow> Inr b | Dir \<Rightarrow> Inl EISDIR)"

text \<open>\<open>Glob\<close> gives the relative paths of the matches, \<open>ReadDir\<close> names with an is-directory flag.\<close>

record 's chest =
  Open :: "string \<Rightarrow> 's \<Rightarrow> err + ofile"
  Glob :: "string \<Rightarrow> 's \<Rightarrow> err + string list"
  ReadDir :: "string \<Rightarrow> 's \<Rightarrow> err + (string \<times> bool) list"
  ReplaceFile :: "string \<Rightarrow> string \<Rightarrow> 's \<Rightarrow> err option \<times> 's"
  ReplaceDir :: "string \<Rightarrow> string \<Rightarrow> 's \<Rightarrow> err option \<times> 's"
  MkdirAll :: "string \<Rightarrow> 's \<Rightarrow> err option \<times> 's"
  RmdirAll :: "string \<Rightarrow> 's \<Rightarrow> err option \<times> 's"
  WriteFile :: "string \<Rightarrow> bytes \<Rightarrow> 's \<Rightarrow> err option \<times> 's"

section \<open>The directory on disk\<close>

definition PathError :: "string \<Rightarrow> string \<Rightarrow> err \<Rightarrow> err" where
  [go_errors]: "PathError op p e = errorf_w (op @ '' '' @ p @ '': '') e"

definition lift_os :: "(err \<Rightarrow> err) \<Rightarrow> os \<Rightarrow> err + os \<Rightarrow> err option \<times> os" where
  "lift_os wrap st r = (case r of Inl e \<Rightarrow> (Some (wrap e), st) | Inr st' \<Rightarrow> (None, st'))"

definition fs_MkdirAll :: "string \<Rightarrow> os \<Rightarrow> err option \<times> os" where
  "fs_MkdirAll p st = lift_os (PathError ''mkdir'' p) st (os_MkdirAll st (clean_comps p))"

definition fs_Rename :: "string \<Rightarrow> string \<Rightarrow> os \<Rightarrow> err option \<times> os" where
  "fs_Rename old new st =
     lift_os (PathError (''rename '' @ old) new) st (os_Rename st (clean_comps old) (clean_comps new))"

definition fs_Stat :: "string \<Rightarrow> os \<Rightarrow> err + node" where
  "fs_Stat p st =
     (case os_stat st (clean_comps p) of Inl e \<Rightarrow> Inl (PathError ''stat'' p e) | Inr n \<Rightarrow> Inr n)"

definition storage_write :: "string \<Rightarrow> bytes \<Rightarrow> os \<Rightarrow> err option \<times> os" where
  "storage_write loc data st =
     lift_os (\<lambda>e. errorf_w (''creating '' @ loc @ '' failed: '') (PathError ''open'' loc e)) st
       (os_Write st (clean_comps loc) data)"

definition filesystem_Open :: "string \<Rightarrow> string \<Rightarrow> os \<Rightarrow> err + ofile" where
  "filesystem_Open root path st =
     (if Contains path ''..'' \<or> HasPrefix path ''/'' then Inl (errors_New ''invalid path'')
      else let p = filepath_Join [root, path] in
        (case os_stat st (clean_comps p) of
           Inl e \<Rightarrow> Inl (PathError ''open'' p e)
         | Inr n \<Rightarrow> Inr \<lparr>file_name = snd (filepath_Split p), file_path = p, file_node = n,
                        file_buffered = False\<rparr>))"

definition filesystem_ReadDir :: "string \<Rightarrow> string \<Rightarrow> os \<Rightarrow> err + (string \<times> bool) list" where
  "filesystem_ReadDir root name st =
     (if \<not> fs_ValidPath name then Inl (PathError ''readdir'' name EINVAL)
      else (case os_ReadDir st (clean_comps (root @ ''/'' @ name)) of
              Inl e \<Rightarrow> Inl (PathError ''open'' name e)
            | Inr es \<Rightarrow> Inr es))"

text \<open>
  A regular file in place of the directory opens, lists no names and so gives no matches.
\<close>

definition filesystem_Glob :: "string \<Rightarrow> string \<Rightarrow> os \<Rightarrow> err + string list" where
  "filesystem_Glob root pattern st =
     (let (subdir, suf) = filepath_Split pattern;
          loc = filepath_Join [root, subdir] in
      case os_stat st (clean_comps loc) of
        Inl e \<Rightarrow> Inl (errorf_w (''opening '' @ loc @ '' failed: '') (PathError ''open'' loc e))
      | Inr n \<Rightarrow>
          let names = (if n = Dir then map fst (children st (clean_comps loc)) else []);
              matches = map (\<lambda>nm. filepath_Join [root, subdir, nm]) (filter (filepath_Match suf) names);
              found = filter (\<lambda>m. \<not> isl (fs_Stat m st)) matches
          in Inr (map (\<lambda>m. TrimPrefix m (root @ ''/'')) found))"

definition filesystem_ReplaceFile :: "string \<Rightarrow> string \<Rightarrow> string \<Rightarrow> os \<Rightarrow> err option \<times> os" where
  "filesystem_ReplaceFile root oldpath newpath st =
     (let old = filepath_Join [root, oldpath];
          new = filepath_Join [root, newpath];
          (e, st1) = fs_MkdirAll (fst (filepath_Split new)) st in
      if e \<noteq> None then (e, st1)
      else (case fs_Stat old st1 of
              Inl e' \<Rightarrow> if errors_Is e' NotExist then storage_write new [] st1
                       else fs_Rename old new st1
            | Inr _ \<Rightarrow> fs_Rename old new st1))"

definition filesystem_ReplaceDir :: "string \<Rightarrow> string \<Rightarrow> string \<Rightarrow> os \<Rightarrow> err option \<times> os" where
  "filesystem_ReplaceDir root oldpath newpath st =
     (let path = filepath_Join [root, oldpath] in
      case fs_Stat path st of
        Inl e \<Rightarrow> if errors_Is e NotExist then fs_MkdirAll (filepath_Join [root, newpath]) st
                 else fs_Rename path (filepath_Join [root, newpath]) st
      | Inr _ \<Rightarrow> fs_Rename path (filepath_Join [root, newpath]) st)"

definition filesystem_MkdirAll :: "string \<Rightarrow> string \<Rightarrow> os \<Rightarrow> err option \<times> os" where
  "filesystem_MkdirAll root path st = fs_MkdirAll (filepath_Join [root, path]) st"

definition filesystem_RmdirAll :: "string \<Rightarrow> string \<Rightarrow> os \<Rightarrow> err option \<times> os" where
  "filesystem_RmdirAll root path st =
     (let p = filepath_Join [root, path] in
      lift_os (PathError ''unlinkat'' p) st (os_RemoveAll st (clean_comps p)))"

definition filesystem_WriteFile :: "string \<Rightarrow> string \<Rightarrow> bytes \<Rightarrow> os \<Rightarrow> err option \<times> os" where
  "filesystem_WriteFile root path contents st =
     (let (dir, name) = filepath_Split path;
          d = filepath_Join [root, dir];
          (e, st1) = fs_MkdirAll d st in
      if e \<noteq> None then (e, st1)
      else storage_write (filepath_Join [d, name]) contents st1)"

definition filesystem_chest :: "string \<Rightarrow> os chest" where
  "filesystem_chest root =
     \<lparr>Open = filesystem_Open root, Glob = filesystem_Glob root, ReadDir = filesystem_ReadDir root,
      ReplaceFile = filesystem_ReplaceFile root, ReplaceDir = filesystem_ReplaceDir root,
      MkdirAll = filesystem_MkdirAll root, RmdirAll = filesystem_RmdirAll root,
      WriteFile = filesystem_WriteFile root\<rparr>"

text \<open>\<open>NewFilesystem\<close> resolves the root against the working directory and creates it.\<close>

definition filepath_Abs :: "string \<Rightarrow> string \<Rightarrow> string" where
  "filepath_Abs cwd p = (if filepath_IsAbs p then filepath_Clean p else filepath_Join [cwd, p])"

definition NewFilesystem :: "string \<Rightarrow> string \<Rightarrow> os \<Rightarrow> (err + os chest) \<times> os" where
  "NewFilesystem cwd root st =
     (let full = filepath_Abs cwd root;
          (e, st1) = fs_MkdirAll full st in
      case e of Some x \<Rightarrow> (Inl x, st1) | None \<Rightarrow> (Inr (filesystem_chest full), st1))"

section \<open>Encryption and fault injection\<close>

text \<open>A \<open>cryptfs.FS\<close> value of moov-io/cryptfs, through the two methods the sources call.\<close>

record cryptfs =
  Disfigure :: "bytes \<Rightarrow> err + bytes"
  Reveal :: "bytes \<Rightarrow> err + bytes"

definition crypt_reveal :: "cryptfs option \<Rightarrow> bytes \<Rightarrow> err + bytes" where
  "crypt_reveal cr bs = (case cr of None \<Rightarrow> Inr bs | Some k \<Rightarrow> Reveal k bs)"

definition encrypted_Open :: "'s chest \<Rightarrow> cryptfs option \<Rightarrow> string \<Rightarrow> 's \<Rightarrow> err + ofile" where
  "encrypted_Open u cr path s =
     (case Open u path s of
        Inl e \<Rightarrow> Inl e
      | Inr fd \<Rightarrow>
          (case file_read fd of
             Inl e \<Rightarrow> Inl e
           | Inr bs \<Rightarrow>
               (case crypt_reveal cr bs of
                  Inl e \<Rightarrow> Inl e
                | Inr bs' \<Rightarrow>
                    if file_buffered fd then Inl (errors_New ''unexpected file of type *storage.buffer'')
                    else Inr \<lparr>file_name = file_name fd, file_path = file_path fd,
                              file_node = Reg bs', file_buffered = True\<rparr>)))"

definition encrypted_WriteFile :: "'s chest \<Rightarrow> cryptfs option \<Rightarrow> string \<Rightarrow> bytes \<Rightarrow> 's \<Rightarrow> err option \<times> 's" where
  "encrypted_WriteFile u cr path contents s =
     (case cr of
        None \<Rightarrow> WriteFile u path contents s
      | Some k \<Rightarrow> (case Disfigure k contents of
                     Inl e \<Rightarrow> (Some e, s)
                   | Inr bs \<Rightarrow> WriteFile u path bs s))"

definition NewEncrypted :: "'s chest \<Rightarrow> cryptfs option \<Rightarrow> 's chest" where
  "NewEncrypted u cr = u\<lparr>Open := encrypted_Open u cr, WriteFile := encrypted_WriteFile u cr\<rparr>"

text \<open>\<open>MockStorage\<close>: each operation first returns the error configured for it, if any.\<close>

record mock_errs =
  OpenErr :: "err option"
  GlobErr :: "err option"
  ReadDirErr :: "err option"
  ReplaceFileErr :: "err option"
  ReplaceDirErr :: "err option"
  MkdirAllErr :: "err option"
  RmdirAllErr :: "err option"
  WriteFileErr :: "err option"

definition mock_read :: "err option \<Rightarrow> err + 'a \<Rightarrow> err + 'a" where
  "mock_read e r = (case e of Some x \<Rightarrow> Inl x | None \<Rightarrow> r)"

definition mock_step :: "err option \<Rightarrow> ('s \<Rightarrow> err option \<times> 's) \<Rightarrow> 's \<Rightarrow> err option \<times> 's" where
  "mock_step e f s = (case e of Some x \<Rightarrow> (Some x, s) | None \<Rightarrow> f s)"

definition MockStorage :: "mock_errs \<Rightarrow> 's chest \<Rightarrow> 's chest" where
  "MockStorage m c =
     \<lparr>Open = (\<lambda>p s. mock_read (OpenErr m) (Open c p s)),
      Glob = (\<lambda>p s. mock_read (GlobErr m) (Glob c p s)),
      ReadDir = (\<lambda>p s. mock_read (ReadDirErr m) (ReadDir c p s)),
      ReplaceFile = (\<lambda>a b. mock_step (ReplaceFileErr m) (ReplaceFile c a b)),
      ReplaceDir = (\<lambda>a b. mock_step (ReplaceDirErr m) (ReplaceDir c a b)),
      MkdirAll = (\<lambda>p. mock_step (MkdirAllErr m) (MkdirAll c p)),
      RmdirAll = (\<lambda>p. mock_step (RmdirAllErr m) (RmdirAll c p)),
      WriteFile = (\<lambda>p d. mock_step (WriteFileErr m) (WriteFile c p d))\<rparr>"

section \<open>Building a chest from its configuration\<close>

record storage_config =
  cfg_Directory :: string
  cfg_AES :: "string option"   \<comment> \<open>\<open>Encryption.AES.Base64Key\<close>\<close>
  cfg_Encoding :: string

text \<open>The constructors of moov-io/cryptfs.\<close>

record 'a crypt_lib =
  NewAESCryptor :: "bytes \<Rightarrow> err + 'a"
  cryptfs_New :: "'a \<Rightarrow> err + cryptfs"
  cryptfs_Base64 :: "cryptfs \<Rightarrow> cryptfs"

definition createBase64AESCryptor :: "'a crypt_lib \<Rightarrow> string \<Rightarrow> err + 'a" where
  "createBase64AESCryptor lib key =
     (case b64_decode_raw key of Inl e \<Rightarrow> Inl e | Inr decoded \<Rightarrow> NewAESCryptor lib decoded)"

definition storage_New :: "'a crypt_lib \<Rightarrow> string \<Rightarrow> storage_config \<Rightarrow> os \<Rightarrow> (err + os chest) \<times> os" where
  "storage_New lib cwd cfg st =
     (let (r, st1) = NewFilesystem cwd (cfg_Directory cfg) st in
      case r of
        Inl e \<Rightarrow> (Inl (errorf_w ''error initializing filesystem storage: '' e), st1)
      | Inr underlying \<Rightarrow>
          (case cfg_AES cfg of
             None \<Rightarrow> (Inr underlying, st1)
           | Some key \<Rightarrow>
               (case createBase64AESCryptor lib key of
                  Inl e \<Rightarrow> (Inl (errorf_w ''error creating AES cryptor: '' e), st1)
                | Inr enc \<Rightarrow>
                    (case cryptfs_New lib enc of
                       Inl e \<Rightarrow> (Inl (errorf_w ''error creating cryptfs: '' e), st1)
                     | Inr fs \<Rightarrow>
                         let fs' = (if ToLower (cfg_Encoding cfg) = ''base64''
                                    then cryptfs_Base64 lib fs else fs)
                         in (Inr (NewEncrypted underlying (Some fs')), st1)))))"

section \<open>The contract of a chest\<close>

text \<open>
  A tree is the partial map from relative paths to nodes that the operations change;
  the functions say what each operation does to it.
\<close>

type_synonym tree = "path \<Rightarrow> node option"

definition t_mkdir :: "path \<Rightarrow> tree \<Rightarrow> tree" where
  "t_mkdir p t = (\<lambda>q. if prefix q p then Some Dir else t q)"

definition t_write :: "path \<Rightarrow> bytes \<Rightarrow> tree \<Rightarrow> tree" where
  "t_write p b t = (\<lambda>q. if q = p then Some (Reg b) else t_mkdir (butlast p) t q)"

definition t_remove :: "path \<Rightarrow> tree \<Rightarrow> tree" where
  "t_remove p t = (\<lambda>q. if prefix p q then None else t q)"

definition t_move :: "path \<Rightarrow> path \<Rightarrow> tree \<Rightarrow> tree" where
  "t_move old new t = (\<lambda>q. if prefix new q then t (old @ drop (length new) q)
                           else if prefix old q then None else t q)"

text \<open>\<open>ReplaceFile\<close> on a missing or regular old name: create the new one empty, or move.\<close>

definition t_replace_file :: "path \<Rightarrow> path \<Rightarrow> bytes \<Rightarrow> tree \<Rightarrow> tree" where
  "t_replace_file old new b t =
     (if t old = None then t_write new b t else t_move old new (t_mkdir (butlast new) t))"

definition t_replace_dir :: "path \<Rightarrow> path \<Rightarrow> tree \<Rightarrow> tree" where
  "t_replace_dir old new t = (if t old = None then t_mkdir new t else t_move old new t)"

text \<open>A path can be created when nothing above it is a regular file.\<close>

definition t_open_path :: "tree \<Rightarrow> path \<Rightarrow> bool" where
  "t_open_path t p \<longleftrightarrow> (\<forall>q. strict_prefix q p \<longrightarrow> \<not> is_reg (t q))"

text \<open>
  \<open>chest_tree\<close>: the state is seen as a tree of plain names whose root is a directory and
  whose nodes hang under directories. A successful mutation changes the tree as specified,
  a failed one leaves it as it was (\<open>ReplaceFile\<close> may have made the directories).
\<close>

locale chest_tree =
  fixes c :: "'s chest" and inv :: "'s \<Rightarrow> bool" and node :: "'s \<Rightarrow> tree"
  assumes root_dir: "inv s \<Longrightarrow> node s [] = Some Dir"
    and parent_dir: "inv s \<Longrightarrow> node s (p @ [n]) \<noteq> None \<Longrightarrow> node s p = Some Dir"
    and plain_nodes: "inv s \<Longrightarrow> node s p \<noteq> None \<Longrightarrow> list_all plain_name p"
    and write_done: "inv s \<Longrightarrow> plain_path p \<Longrightarrow> WriteFile c (rel_path p) d s = (None, s') \<Longrightarrow>
          inv s' \<and> (\<exists>b. node s' = t_write p b (node s))"
    and write_failed: "inv s \<Longrightarrow> plain_path p \<Longrightarrow> WriteFile c (rel_path p) d s = (Some e, s') \<Longrightarrow>
          inv s' \<and> node s' = node s"
    and replace_file_done: "inv s \<Longrightarrow> plain_path old \<Longrightarrow> plain_path new \<Longrightarrow> old \<noteq> new \<Longrightarrow>
          node s old \<noteq> Some Dir \<Longrightarrow> ReplaceFile c (rel_path old) (rel_path new) s = (None, s') \<Longrightarrow>
          inv s' \<and> (\<exists>b. node s' = t_replace_file old new b (node s))"
    and replace_file_failed: "inv s \<Longrightarrow> plain_path old \<Longrightarrow> plain_path new \<Longrightarrow>
          ReplaceFile c (rel_path old) (rel_path new) s = (Some e, s') \<Longrightarrow>
          inv s' \<and> (node s' = node s \<or> node s' = t_mkdir (butlast new) (node s))"
    and replace_file_ok: "inv s \<Longrightarrow> plain_path old \<Longrightarrow> plain_path new \<Longrightarrow>
          t_open_path (node s) old \<Longrightarrow> t_open_path (node s) new \<Longrightarrow> \<not> prefix old new \<Longrightarrow>
          node s old \<noteq> Some Dir \<Longrightarrow> node s new \<noteq> Some Dir \<Longrightarrow>
          fst (ReplaceFile c (rel_path old) (rel_path new) s) = None"
    and replace_dir_done: "inv s \<Longrightarrow> plain_path old \<Longrightarrow> plain_path new \<Longrightarrow> old \<noteq> new \<Longrightarrow>
          ReplaceDir c (rel_path old) (rel_path new) s = (None, s') \<Longrightarrow>
          inv s' \<and> node s' = t_replace_dir old new (node s)"
    and replace_dir_failed: "inv s \<Longrightarrow> plain_path old \<Longrightarrow> plain_path new \<Longrightarrow>
          ReplaceDir c (rel_path old) (rel_path new) s = (Some e, s') \<Longrightarrow> inv s' \<and> node s' = node s"
    and replace_dir_ok: "inv s \<Longrightarrow> plain_path old \<Longrightarrow> plain_path new \<Longrightarrow> \<not> prefix old new \<Longrightarrow>
          t_open_path (node s) old \<Longrightarrow> node s (butlast new) = Some Dir \<Longrightarrow> node s new = None \<Longrightarrow>
          fst (ReplaceDir c (rel_path old) (rel_path new) s) = None"
    and mkdir_done: "inv s \<Longrightarrow> plain_path p \<Longrightarrow> MkdirAll c (rel_path p) s = (None, s') \<Longrightarrow>
          inv s' \<and> node s' = t_mkdir p (node s)"
    and mkdir_failed: "inv s \<Longrightarrow> plain_path p \<Longrightarrow> MkdirAll c (rel_path p) s = (Some e, s') \<Longrightarrow>
          inv s' \<and> node s' = node s"
    and rmdir_done: "inv s \<Longrightarrow> plain_path p \<Longrightarrow> RmdirAll c (rel_path p) s = (None, s') \<Longrightarrow>
          inv s' \<and> node s' = t_remove p (node s)"
    and rmdir_failed: "inv s \<Longrightarrow> plain_path p \<Longrightarrow> RmdirAll c (rel_path p) s = (Some e, s') \<Longrightarrow>
          inv s' \<and> node s' = node s"
    and glob_iff: "inv s \<Longrightarrow> plain_path p \<Longrightarrow> slash \<notin> set pat \<Longrightarrow>
          Glob c (rel_path p @ ''/'' @ pat) s = Inr ms \<Longrightarrow>
          m \<in> set ms \<longleftrightarrow> (\<exists>n. m = rel_path (p @ [n]) \<and> node s (p @ [n]) \<noteq> None \<and> filepath_Match pat n)"
    and glob_ok: "inv s \<Longrightarrow> plain_path p \<Longrightarrow> slash \<notin> set pat \<Longrightarrow> node s p = Some Dir \<Longrightarrow>
          \<exists>ms. Glob c (rel_path p @ ''/'' @ pat) s = Inr ms"
    and read_dir_iff: "inv s \<Longrightarrow> plain_path p \<Longrightarrow> ReadDir c (rel_path p) s = Inr es \<Longrightarrow>
          (n, b) \<in> set es \<longleftrightarrow> (\<exists>m. node s (p @ [n]) = Some m \<and> b = (m = Dir))"
    and read_dir_sorted: "inv s \<Longrightarrow> plain_path p \<Longrightarrow> ReadDir c (rel_path p) s = Inr es \<Longrightarrow>
          sorted (map fst es) \<and> distinct (map fst es)"
    and read_dir_ok: "inv s \<Longrightarrow> plain_path p \<Longrightarrow>
          (\<exists>es. ReadDir c (rel_path p) s = Inr es) \<longleftrightarrow> node s p = Some Dir"
    and read_root_iff: "inv s \<Longrightarrow> ReadDir c ''.'' s = Inr es \<Longrightarrow>
          (n, b) \<in> set es \<longleftrightarrow> (\<exists>m. node s [n] = Some m \<and> b = (m = Dir))"
    and read_root_ok: "inv s \<Longrightarrow> \<exists>es. ReadDir c ''.'' s = Inr es"
    and read_root_sorted: "inv s \<Longrightarrow> ReadDir c ''.'' s = Inr es \<Longrightarrow> sorted (map fst es) \<and> distinct (map fst es)"
    and open_node: "inv s \<Longrightarrow> plain_path p \<Longrightarrow> Open c (rel_path p) s = Inr f \<Longrightarrow> node s p \<noteq> None"
begin

text \<open>What the clients of a chest use of the laws.\<close>

lemma write_inv: "inv s \<Longrightarrow> plain_path p \<Longrightarrow> WriteFile c (rel_path p) d s = (r, s') \<Longrightarrow> inv s'"
  using write_done[of s p d s'] write_failed[of s p d _ s'] by (cases r) auto

lemma write_dom:
  "inv s \<Longrightarrow> plain_path p \<Longrightarrow> WriteFile c (rel_path p) d s = (None, s') \<Longrightarrow>
     node s' q \<noteq> None \<longleftrightarrow> prefix q p \<or> node s q \<noteq> None"
  using write_done[of s p d s']
  by (cases p rule: rev_cases) (auto simp: t_write_def t_mkdir_def plain_path_def)

lemma mkdir_inv: "inv s \<Longrightarrow> plain_path p \<Longrightarrow> MkdirAll c (rel_path p) s = (r, s') \<Longrightarrow> inv s'"
  using mkdir_done[of s p s'] mkdir_failed[of s p _ s'] by (cases r) auto

lemma rmdir_inv: "inv s \<Longrightarrow> plain_path p \<Longrightarrow> RmdirAll c (rel_path p) s = (r, s') \<Longrightarrow> inv s'"
  using rmdir_done[of s p s'] rmdir_failed[of s p _ s'] by (cases r) auto

lemma replace_dir_inv:
  "inv s \<Longrightarrow> plain_path old \<Longrightarrow> plain_path new \<Longrightarrow> old \<noteq> new \<Longrightarrow>
     ReplaceDir c (rel_path old) (rel_path new) s = (r, s') \<Longrightarrow> inv s'"
  using replace_dir_done[of s old new s'] replace_dir_failed[of s old new _ s'] by (cases r) auto

end

text \<open>
  \<open>chest_content\<close>: \<open>stored d b\<close> relates what a client wrote to the bytes kept for it. Opening
  a file that keeps \<open>b\<close> gives \<open>d\<close> back, for every path without two dots in a row.
\<close>

locale chest_content = chest_tree c inv node
  for c :: "'s chest" and inv :: "'s \<Rightarrow> bool" and node :: "'s \<Rightarrow> tree" +
  fixes stored :: "bytes \<Rightarrow> bytes \<Rightarrow> bool"
  assumes write_stored: "inv s \<Longrightarrow> plain_path p \<Longrightarrow> WriteFile c (rel_path p) d s = (None, s') \<Longrightarrow>
          \<exists>b. stored d b \<and> node s' = t_write p b (node s)"
    and write_ok: "inv s \<Longrightarrow> plain_path p \<Longrightarrow> t_open_path (node s) p \<Longrightarrow> node s p \<noteq> Some Dir \<Longrightarrow>
          fst (WriteFile c (rel_path p) d s) = None"
    and open_stored: "inv s \<Longrightarrow> plain_path p \<Longrightarrow> \<not> Contains (rel_path p) ''..'' \<Longrightarrow>
          node s p = Some (Reg b) \<Longrightarrow> stored d b \<Longrightarrow>
          \<exists>f. Open c (rel_path p) s = Inr f \<and> file_name f = last p \<and> file_read f = Inr d"
begin

lemma write_then_read:
  assumes "inv s" and "plain_path p" and "\<not> Contains (rel_path p) ''..''"
    and "WriteFile c (rel_path p) d s = (None, s')"
  shows "\<exists>f. Open c (rel_path p) s' = Inr f \<and> file_name f = last p \<and> file_read f = Inr d"
proof -
  obtain b where b: "stored d b" "node s' = t_write p b (node s)"
    using write_stored assms by blast
  then have "node s' p = Some (Reg b)" by (simp add: t_write_def)
  with b assms show ?thesis using open_stored write_inv by blast
qed

end

end
