(* ===== verification/Storage_Laws.thy ===== *)
theory Storage_Laws
  imports Storage
begin

text \<open>
  The directory on disk and the encrypted wrapper satisfy the chest contract. The first is
  an interpretation of \<open>chest_content\<close> for every root; the second turns any chest with the
  contract into one whose kept bytes are the encryption of what was written.
\<close>

section \<open>Joining relative paths to an absolute root\<close>

lemma SplitChar_app: "SplitChar c (a @ c # b) = SplitChar c a @ SplitChar c b"
proof (induction a)
  case (Cons x a)
  show ?case
    using SplitChar_ne[of c a] by (auto simp: Cons split: list.splits)
qed simp

lemma clean_step_plain:
  "list_all plain_name st \<Longrightarrow> slash \<notin> set x \<Longrightarrow> list_all plain_name (clean_step True x st)"
  by (cases st) (auto simp: plain_name_def)

lemma fold_clean_plain_true:
  "list_all plain_name st \<Longrightarrow> \<forall>x\<in>set xs. slash \<notin> set x \<Longrightarrow> list_all plain_name (fold (clean_step True) xs st)"
  by (induction xs arbitrary: st) (auto simp: clean_step_plain simp del: clean_step.simps)

lemma clean_comps_plain: "HasPrefix p ''/'' \<Longrightarrow> list_all plain_name (clean_comps p)"
  unfolding clean_comps_def by (simp add: fold_clean_plain_true SplitChar_parts)

definition join_comps :: "path \<Rightarrow> string \<Rightarrow> path" where
  "join_comps rs x = rev (fold (clean_step True) (SplitChar slash x) (rev rs))"

lemma comps_join_root:
  "HasPrefix root ''/'' \<Longrightarrow> clean_comps (root @ ''/'' @ x) = join_comps (clean_comps root) x"
proof -
  assume r: "HasPrefix root ''/''"
  then have "HasPrefix (root @ ''/'' @ x) ''/''" by (auto simp: HasPrefix_def)
  with r show ?thesis by (simp add: clean_comps_def SplitChar_app join_comps_def)
qed

lemma Clean_rooted: "HasPrefix p ''/'' \<Longrightarrow> filepath_Clean p = ''/'' @ rel_path (clean_comps p)"
  by (simp add: filepath_Clean_def)

lemma Join_root:
  "HasPrefix root ''/'' \<Longrightarrow> filepath_Join [root, x] = ''/'' @ rel_path (join_comps (clean_comps root) x)"
proof -
  assume r: "HasPrefix root ''/''"
  then have "root \<noteq> []" "HasPrefix (root @ ''/'' @ x) ''/''" by (auto simp: HasPrefix_def)
  then have "filepath_Join [root, x] = ''/'' @ rel_path (clean_comps (root @ ''/'' @ x))"
    by (simp add: filepath_Join_def Clean_rooted)
  then show ?thesis by (simp only: comps_join_root[OF r])
qed

lemma join_comps_plain: "list_all plain_name rs \<Longrightarrow> list_all plain_name (join_comps rs x)"
  by (simp add: join_comps_def fold_clean_plain_true SplitChar_parts)

lemma comps_Join_root [simp]:
  "HasPrefix root ''/'' \<Longrightarrow> clean_comps (filepath_Join [root, x]) = join_comps (clean_comps root) x"
proof -
  assume r: "HasPrefix root ''/''"
  have "list_all plain_name (join_comps (clean_comps root) x)"
    using clean_comps_plain[OF r] by (rule join_comps_plain)
  then show ?thesis unfolding Join_root[OF r] by (rule clean_comps_abs)
qed

lemma join_comps_rel [simp]: "plain_path p \<Longrightarrow> join_comps rs (rel_path p) = rs @ p"
  by (simp add: join_comps_def SplitChar_rel_path fold_clean_plain plain_path_def)

lemma join_comps_dir [simp]: "plain_path p \<Longrightarrow> join_comps rs (rel_path p @ ''/'') = rs @ p"
  by (simp add: join_comps_def SplitChar_app SplitChar_rel_path fold_clean_plain plain_path_def)

lemma join_comps_Nil [simp]: "join_comps rs [] = rs"
  by (simp add: join_comps_def)

lemma join_comps_dot [simp]: "join_comps rs ''.'' = rs"
  by (simp add: join_comps_def)

lemma Join_three: "root \<noteq> [] \<Longrightarrow> filepath_Join [root, a, b] = filepath_Join [root, a @ ''/'' @ b]"
  by (simp add: filepath_Join_def)

lemma Join_rooted: "HasPrefix root ''/'' \<Longrightarrow> HasPrefix (filepath_Join [root, x]) ''/''"
  by (simp add: Join_root HasPrefix_def)

lemma Split_rooted:
  "plain_name n \<Longrightarrow> filepath_Split (''/'' @ rel_path (rs @ [n])) =
     (''/'' @ (if rs = [] then [] else rel_path rs @ ''/''), n)"
  using Split_dir_name[of n "''/'' @ rel_path rs"] Split_dir_name[of n "[]"]
  by (auto simp: rel_path_snoc plain_nameD)

lemma comps_rooted_dir:
  "list_all plain_name rs \<Longrightarrow> clean_comps (''/'' @ (if rs = [] then [] else rel_path rs @ ''/'')) = rs"
proof -
  assume rs: "list_all plain_name rs"
  show ?thesis
  proof (cases "rs = []")
    case False
    with rs have "clean_comps ((''/'' @ rel_path rs) @ ''/'' @ []) = rs"
      by (subst comps_join_root) (simp_all add: HasPrefix_def clean_comps_abs[simplified])
    with False show ?thesis by simp
  qed (simp add: clean_comps_def HasPrefix_def)
qed

section \<open>The invariant of the directory\<close>

definition names_plain :: "os \<Rightarrow> bool" where
  "names_plain st \<longleftrightarrow> list_all (\<lambda>kv. list_all plain_name (fst kv)) st"

lemma names_plain_iff:
  "wf_os st \<Longrightarrow> names_plain st \<longleftrightarrow> (\<forall>q. os_node st q \<noteq> None \<longrightarrow> list_all plain_name q)"
proof -
  assume wf: "wf_os st"
  have "os_node st q \<noteq> None \<longleftrightarrow> (\<exists>n. os_node st q = Some n)" for q by simp
  then have "os_node st q \<noteq> None \<longleftrightarrow> q = [] \<or> (\<exists>n. (q, n) \<in> set st)" for q
    by (simp only: node_iff_mem[OF wf]) blast
  then show ?thesis by (auto simp: names_plain_def list_all_iff)
qed

lemma names_plain_node: "wf_os st \<Longrightarrow> names_plain st \<Longrightarrow> os_node st q \<noteq> None \<Longrightarrow> list_all plain_name q"
  by (simp only: names_plain_iff) blast

definition fs_inv :: "string \<Rightarrow> os \<Rightarrow> bool" where
  "fs_inv root st \<longleftrightarrow> plain_path (clean_comps root) \<and> root = ''/'' @ rel_path (clean_comps root) \<and>
     wf_os st \<and> names_plain st \<and> os_node st (clean_comps root) = Some Dir"

definition fs_node :: "string \<Rightarrow> os \<Rightarrow> path \<Rightarrow> node option" where
  "fs_node root st p = os_node st (clean_comps root @ p)"

lemma fs_invD:
  assumes "fs_inv root st"
  shows "HasPrefix root ''/''" "wf_os st" "os_node st (clean_comps root) = Some Dir"
    "plain_path (clean_comps root)" "root = ''/'' @ rel_path (clean_comps root)" "names_plain st"
    "root \<noteq> []"
proof -
  have r: "root = ''/'' @ rel_path (clean_comps root)" using assms unfolding fs_inv_def by blast
  show "HasPrefix root ''/''" by (subst r) (rule HasPrefix_append)
  show "root \<noteq> []" by (subst r) simp
qed (use assms in \<open>unfold fs_inv_def, blast+\<close>)

text \<open>
  A call keeps the invariant when the tree stays well formed, new names are plain and the
  root stays a directory.
\<close>

lemma fs_inv_step:
  assumes inv: "fs_inv root st" and wf: "wf_os st'"
    and new: "\<And>q. os_node st' q \<noteq> None \<Longrightarrow> os_node st q \<noteq> None \<or> list_all plain_name q"
    and root: "os_node st' (clean_comps root) = Some Dir"
  shows "fs_inv root st'"
proof -
  have "list_all plain_name q" if "os_node st' q \<noteq> None" for q
    using new[OF that] fs_invD(2,6)[OF inv] by (auto simp: names_plain_iff)
  then have "names_plain st'" using wf by (simp add: names_plain_iff)
  with assms show ?thesis by (simp add: fs_inv_def)
qed

lemma plain_prefix: "list_all plain_name p \<Longrightarrow> prefix q p \<Longrightarrow> list_all plain_name q"
  by (auto simp: list_all_iff dest: set_mono_prefix)

lemma fs_plain: "fs_inv root st \<Longrightarrow> plain_path p \<Longrightarrow> list_all plain_name (clean_comps root @ p)"
  by (auto simp: fs_inv_def plain_path_def)

section \<open>The operating system's calls under the root\<close>

lemma prefix_root: "prefix (r @ p) r \<longleftrightarrow> p = []"
  by (metis append_Nil2 prefix_order.antisym prefixI prefix_order.refl append_self_conv)

lemma lift_os_None [simp]: "lift_os w st r = (None, st') \<longleftrightarrow> r = Inr st'"
  by (auto simp: lift_os_def split: sum.splits)

lemma lift_os_Some: "lift_os w st r = (Some e, st') \<longleftrightarrow> (\<exists>x. r = Inl x \<and> e = w x \<and> st' = st)"
  by (auto simp: lift_os_def split: sum.splits)

lemma fs_mkdir_node:
  assumes "fs_inv root st" and "os_MkdirAll st (clean_comps root @ p) = Inr st'" and "list_all plain_name p"
  shows "fs_inv root st'" "fs_node root st' = t_mkdir p (fs_node root st)"
proof -
  note n = MkdirAll_node[OF assms(2)]
  have pl: "list_all plain_name (clean_comps root @ p)"
    using assms(1,3) by (auto simp: fs_inv_def plain_path_def)
  show "fs_inv root st'"
    using assms(1) MkdirAll_wf[OF assms(2) fs_invD(2)[OF assms(1)]]
    by (rule fs_inv_step) (auto simp: n dest: plain_prefix[OF pl] split: if_splits)
  show "fs_node root st' = t_mkdir p (fs_node root st)"
    by (auto simp: fs_node_def t_mkdir_def n)
qed

lemma fs_write_node:
  assumes "fs_inv root st" and "os_Write st (clean_comps root @ p) d = Inr st'" and "plain_path p"
  shows "fs_inv root st'" "fs_node root st' = (fs_node root st)(p := Some (Reg d))"
proof -
  note wf = fs_invD(2)[OF assms(1)] and n = Write_node[OF assms(2) fs_invD(2)[OF assms(1)]]
  show "fs_inv root st'"
    using assms(1) Write_wf[OF assms(2) wf]
    by (rule fs_inv_step)
       (use fs_plain[OF assms(1,3)] fs_invD(3)[OF assms(1)] assms(3) in \<open>auto simp: n plain_path_def split: if_splits\<close>)
  show "fs_node root st' = (fs_node root st)(p := Some (Reg d))"
    by (auto simp: fs_node_def n)
qed

lemma fs_rename_node:
  assumes "fs_inv root st" and "os_Rename st (clean_comps root @ p) (clean_comps root @ q) = Inr st'"
    and "plain_path p" and "plain_path q" and "p \<noteq> q"
  shows "fs_inv root st'" "fs_node root st' = t_move p q (fs_node root st)"
proof -
  note wf = fs_invD(2)[OF assms(1)]
  have ne: "clean_comps root @ p \<noteq> clean_comps root @ q" using assms(5) by simp
  note n = Rename_node[OF assms(2) wf ne]
  have pl: "list_all plain_name x" if "os_node st x \<noteq> None" for x
    using that fs_invD(6)[OF assms(1)] by (auto simp: names_plain_iff[OF wf])
  have q: "list_all plain_name (clean_comps root @ q)" using assms(1,4) by (rule fs_plain)
  have "os_node st x \<noteq> None \<or> list_all plain_name x" if "os_node st' x \<noteq> None" for x
  proof (cases "prefix (clean_comps root @ q) x")
    case True
    then obtain r where x: "x = clean_comps root @ q @ r" by (auto simp: prefix_def)
    with that n have "os_node st (clean_comps root @ p @ r) \<noteq> None" by simp
    from pl[OF this] q x show ?thesis by simp
  next
    case False
    with that n show ?thesis by (auto split: if_splits)
  qed
  moreover have "os_node st' (clean_comps root) = Some Dir"
    using fs_invD(3)[OF assms(1)] assms(3,4) by (auto simp: n prefix_root plain_path_def)
  ultimately show "fs_inv root st'" by (rule fs_inv_step[OF assms(1) Rename_wf[OF assms(2) wf]])
  show "fs_node root st' = t_move p q (fs_node root st)"
    by (auto simp: fs_node_def t_move_def n)
qed

lemma fs_remove_node:
  assumes "fs_inv root st" and "os_RemoveAll st (clean_comps root @ p) = Inr st'" and "plain_path p"
  shows "fs_inv root st'" "fs_node root st' = t_remove p (fs_node root st)"
proof -
  note wf = fs_invD(2)[OF assms(1)]
  have ne: "clean_comps root @ p \<noteq> []" using assms(3) by (simp add: plain_path_def)
  note n = RemoveAll_node[OF assms(2) ne]
  show "fs_inv root st'"
    using assms(1) RemoveAll_wf[OF assms(2) wf ne]
    by (rule fs_inv_step)
       (use fs_invD(3)[OF assms(1)] assms(3) in \<open>auto simp: n prefix_root plain_path_def split: if_splits\<close>)
  show "fs_node root st' = t_remove p (fs_node root st)"
    by (auto simp: fs_node_def t_remove_def n)
qed

section \<open>The directory's operations against the contract\<close>

lemma rel_path_single [simp]: "rel_path [n] = n"
  by simp

lemma Split_rel:
  "plain_path p \<Longrightarrow> filepath_Split (rel_path p) =
     ((if butlast p = [] then [] else rel_path (butlast p) @ ''/''), last p)"
proof (induction p rule: rev_induct)
  case (snoc n ns)
  then show ?case
    using Split_path_name[of ns n] Split_name[of n]
    by (cases "ns = []") (auto simp: plain_path_append plain_path_def plain_nameD)
qed (simp add: plain_path_def)

lemma plain_butlast: "plain_path p \<Longrightarrow> butlast p = [] \<or> plain_path (butlast p)"
  by (auto simp: plain_path_def list_all_iff dest: in_set_butlastD)

lemma plain_last: "plain_path p \<Longrightarrow> plain_name (last p)"
  by (auto simp: plain_path_def list_all_iff)

lemma join_comps_name [simp]: "plain_name n \<Longrightarrow> join_comps rs n = rs @ [n]"
  using join_comps_rel[of "[n]"] by (simp add: plain_path_def)

lemma filesystem_WriteFile_eq:
  assumes "fs_inv root st" and "plain_path p"
  shows "filesystem_WriteFile root (rel_path p) d st =
    (let (e, st1) = fs_MkdirAll (filepath_Join [root, fst (filepath_Split (rel_path p))]) st in
     if e \<noteq> None then (e, st1)
     else storage_write (filepath_Join [filepath_Join [root, fst (filepath_Split (rel_path p))], last p]) d st1)"
    "clean_comps (filepath_Join [root, fst (filepath_Split (rel_path p))]) = clean_comps root @ butlast p"
    "clean_comps (filepath_Join [filepath_Join [root, fst (filepath_Split (rel_path p))], last p]) = clean_comps root @ p"
proof -
  note h = fs_invD(1)[OF assms(1)]
  show c: "clean_comps (filepath_Join [root, fst (filepath_Split (rel_path p))]) = clean_comps root @ butlast p"
    using plain_butlast[OF assms(2)] by (auto simp: Split_rel[OF assms(2)] h)
  show "clean_comps (filepath_Join [filepath_Join [root, fst (filepath_Split (rel_path p))], last p]) = clean_comps root @ p"
    using plain_last[OF assms(2)] assms(2)
    by (subst comps_Join_root[OF Join_rooted[OF h]]) (simp add: c plain_path_def)
  show "filesystem_WriteFile root (rel_path p) d st =
    (let (e, st1) = fs_MkdirAll (filepath_Join [root, fst (filepath_Split (rel_path p))]) st in
     if e \<noteq> None then (e, st1)
     else storage_write (filepath_Join [filepath_Join [root, fst (filepath_Split (rel_path p))], last p]) d st1)"
    by (simp add: filesystem_WriteFile_def Split_rel[OF assms(2)] Let_def split: prod.splits)
qed

lemma fs_blocked:
  assumes "fs_inv root st"
  shows "blocked st (clean_comps root @ p) \<longleftrightarrow> \<not> t_open_path (fs_node root st) p"
proof -
  have up: "os_node st q = Some Dir" if "prefix q (clean_comps root)" for q
    using that wf_ancestor[OF fs_invD(2,3)[OF assms]] fs_invD(3)[OF assms]
    by (cases "q = clean_comps root") (auto simp: strict_prefix_def)
  have "strict_prefix q (clean_comps root @ p) \<longleftrightarrow>
      strict_prefix q (clean_comps root) \<or> (\<exists>r. q = clean_comps root @ r \<and> strict_prefix r p)" for q
    by (auto simp: strict_prefix_def prefix_append)
  then show ?thesis
    using up by (auto simp: blocked_iff t_open_path_def fs_node_def)
qed

lemma mkdir_noop: "(\<And>q. prefix q p \<Longrightarrow> t q = Some Dir) \<Longrightarrow> t_mkdir p t = t"
  by (auto simp: t_mkdir_def)

lemma fs_ancestor:
  "fs_inv root st \<Longrightarrow> fs_node root st p \<noteq> None \<Longrightarrow> strict_prefix q p \<Longrightarrow> fs_node root st q = Some Dir"
  using wf_ancestor[of st "clean_comps root @ p" _ "clean_comps root @ q"]
  by (auto simp: fs_node_def fs_invD strict_prefix_def)

lemma strict_prefix_butlast: "p \<noteq> [] \<Longrightarrow> prefix q (butlast p) \<longleftrightarrow> strict_prefix q p"
  by (cases p rule: rev_cases) (auto simp: strict_prefix_def)

lemma fs_MkdirAll_ok:
  assumes "fs_inv root st" and "t_open_path (fs_node root st) p" and "p \<noteq> []"
  shows "\<exists>st'. os_MkdirAll st (clean_comps root @ butlast p) = Inr st'"
proof (rule MkdirAll_ok, intro allI impI)
  fix q assume q: "prefix q (clean_comps root @ butlast p)"
  have "\<not> blocked st (clean_comps root @ p)" using assms by (simp add: fs_blocked)
  moreover have "strict_prefix q (clean_comps root @ p)"
    using q assms(3) by (metis append_is_Nil_conv butlast_append strict_prefix_butlast)
  ultimately show "\<not> is_reg (os_node st q)" by (auto simp: blocked_iff)
qed

lemma fs_Write_stuck:
  assumes "fs_inv root st" and "plain_path p" and "fs_node root st (butlast p) = Some Dir"
    and "os_Write st (clean_comps root @ p) d = Inl e"
  shows "fs_node root st p = Some Dir"
  using Write_ok[OF fs_invD(2)[OF assms(1)], of "clean_comps root @ p" d] assms(2-4)
  by (auto simp: fs_node_def butlast_append plain_path_def)

lemma t_write_alt: "p \<noteq> [] \<Longrightarrow> (t_mkdir (butlast p) t)(p := Some (Reg b)) = t_write p b t"
  by (auto simp: t_write_def)

lemma fs_write_done:
  assumes "fs_inv root st" and "plain_path p" and "filesystem_WriteFile root (rel_path p) d st = (None, st')"
  shows "fs_inv root st' \<and> fs_node root st' = t_write p d (fs_node root st)"
proof -
  from assms(3) obtain st1 where s:
    "os_MkdirAll st (clean_comps root @ butlast p) = Inr st1" "os_Write st1 (clean_comps root @ p) d = Inr st'"
    unfolding filesystem_WriteFile_eq(1)[OF assms(1,2)] fs_MkdirAll_def storage_write_def
    by (auto simp: filesystem_WriteFile_eq[OF assms(1,2)] Let_def split: prod.splits if_splits)
  have pb: "list_all plain_name (butlast p)" using plain_butlast[OF assms(2)] by (auto simp: plain_path_def)
  note m = fs_mkdir_node[OF assms(1) s(1) pb]
  note w = fs_write_node[OF m(1) s(2) assms(2)]
  from w m assms(2) show ?thesis by (simp add: t_write_alt plain_path_def)
qed

lemma fs_write_failed:
  assumes "fs_inv root st" and "plain_path p" and "filesystem_WriteFile root (rel_path p) d st = (Some e, st')"
  shows "fs_inv root st' \<and> fs_node root st' = fs_node root st"
proof -
  from assms(3) consider "st' = st"
    | "os_MkdirAll st (clean_comps root @ butlast p) = Inr st'" "\<exists>x. os_Write st' (clean_comps root @ p) d = Inl x"
    unfolding filesystem_WriteFile_eq(1)[OF assms(1,2)] fs_MkdirAll_def storage_write_def
    by (auto simp: filesystem_WriteFile_eq[OF assms(1,2)] Let_def lift_os_Some split: prod.splits if_splits)
  then show ?thesis
  proof cases
    case 2
    have pb: "list_all plain_name (butlast p)" using plain_butlast[OF assms(2)] by (auto simp: plain_path_def)
    note m = fs_mkdir_node[OF assms(1) 2(1) pb]
    have "fs_node root st' (butlast p) = Some Dir" by (simp add: m t_mkdir_def)
    with 2 fs_Write_stuck[OF m(1) assms(2)] have "fs_node root st' p = Some Dir" by blast
    moreover have "p \<noteq> []" "\<not> prefix p (butlast p)"
      using assms(2) by (auto simp: plain_path_def strict_prefix_butlast)
    ultimately have "fs_node root st p \<noteq> None" by (simp add: m t_mkdir_def)
    then have "t_mkdir (butlast p) (fs_node root st) = fs_node root st"
      using fs_ancestor[OF assms(1)] \<open>p \<noteq> []\<close> by (intro mkdir_noop) (simp add: strict_prefix_butlast)
    with m show ?thesis by simp
  qed (use assms in simp)
qed

lemma fs_write_ok:
  assumes "fs_inv root st" and "plain_path p" and "t_open_path (fs_node root st) p"
    and "fs_node root st p \<noteq> Some Dir"
  shows "fst (filesystem_WriteFile root (rel_path p) d st) = None"
proof -
  have ne: "p \<noteq> []" using assms(2) by (simp add: plain_path_def)
  obtain st1 where s: "os_MkdirAll st (clean_comps root @ butlast p) = Inr st1"
    using fs_MkdirAll_ok[OF assms(1,3) ne] by blast
  have pb: "list_all plain_name (butlast p)" using plain_butlast[OF assms(2)] by (auto simp: plain_path_def)
  note m = fs_mkdir_node[OF assms(1) s pb]
  have "\<not> prefix p (butlast p)" using ne by (simp add: strict_prefix_butlast)
  then have "fs_node root st1 p \<noteq> Some Dir" "fs_node root st1 (butlast p) = Some Dir"
    using assms(4) by (simp_all add: m t_mkdir_def)
  then obtain st' where w: "os_Write st1 (clean_comps root @ p) d = Inr st'"
    using fs_Write_stuck[OF m(1) assms(2)] by (cases "os_Write st1 (clean_comps root @ p) d") blast+
  show ?thesis
    unfolding filesystem_WriteFile_eq(1)[OF assms(1,2)] fs_MkdirAll_def storage_write_def
    by (simp add: filesystem_WriteFile_eq[OF assms(1,2)] s w lift_os_def)
qed

lemma Join_root_rel:
  "fs_inv root st \<Longrightarrow> plain_path p \<Longrightarrow> filepath_Join [root, rel_path p] = ''/'' @ rel_path (clean_comps root @ p)"
  by (simp add: Join_root fs_invD(1))

lemma comps_new_dir:
  assumes "fs_inv root st" and "plain_path p"
  shows "clean_comps (fst (filepath_Split (filepath_Join [root, rel_path p]))) = clean_comps root @ butlast p"
proof -
  have pl: "list_all plain_name (clean_comps root @ butlast p)"
    using assms plain_butlast[OF assms(2)] by (auto simp: fs_inv_def plain_path_def)
  have "p = butlast p @ [last p]" using assms(2) by (simp add: plain_path_def)
  then have "filepath_Join [root, rel_path p] = ''/'' @ rel_path ((clean_comps root @ butlast p) @ [last p])"
    using Join_root_rel[OF assms] by simp
  then show ?thesis
    using Split_rooted[OF plain_last[OF assms(2)], of "clean_comps root @ butlast p"] comps_rooted_dir[OF pl]
    by simp
qed

lemma fs_Stat_NotExist:
  "fs_Stat p st = Inl e \<Longrightarrow> errors_Is e NotExist \<longleftrightarrow> \<not> blocked st (clean_comps p) \<and> os_node st (clean_comps p) = None"
  by (auto simp: fs_Stat_def os_stat_def PathError_def errorf_w_def errors_Is_def ENOENT_def ENOTDIR_def
      split: option.splits if_splits)

lemma fs_Stat_Inr: "fs_Stat p st = Inr n \<Longrightarrow> os_node st (clean_comps p) = Some n"
  by (auto simp: fs_Stat_def os_stat_def split: option.splits if_splits)

lemma replace_file_steps:
  assumes "fs_inv root st" and "plain_path old" and "plain_path new"
    and "filesystem_ReplaceFile root (rel_path old) (rel_path new) st = (r, st')"
  obtains "r \<noteq> None" "st' = st"
  | st1 where "os_MkdirAll st (clean_comps root @ butlast new) = Inr st1" "r \<noteq> None" "st' = st1"
  | st1 where "os_MkdirAll st (clean_comps root @ butlast new) = Inr st1" "r = None"
      "fs_node root st1 old = None" "os_Write st1 (clean_comps root @ new) [] = Inr st'"
  | st1 where "os_MkdirAll st (clean_comps root @ butlast new) = Inr st1" "r = None"
      "os_Rename st1 (clean_comps root @ old) (clean_comps root @ new) = Inr st'"
proof (cases "os_MkdirAll st (clean_comps root @ butlast new)")
  case (Inl e)
  with assms(4) that(1) show thesis
    by (auto simp: filesystem_ReplaceFile_def fs_MkdirAll_def comps_new_dir[OF assms(1,3)] lift_os_def Let_def)
next
  case (Inr st1)
  have c: "clean_comps (filepath_Join [root, rel_path old]) = clean_comps root @ old"
    "clean_comps (filepath_Join [root, rel_path new]) = clean_comps root @ new"
    using assms(1-3) by (simp_all add: fs_invD(1))
  from assms(4) Inr consider
      (miss) e where "fs_Stat (filepath_Join [root, rel_path old]) st1 = Inl e" "errors_Is e NotExist"
        "storage_write (filepath_Join [root, rel_path new]) [] st1 = (r, st')"
    | (move) "fs_Rename (filepath_Join [root, rel_path old]) (filepath_Join [root, rel_path new]) st1 = (r, st')"
    by (auto simp: filesystem_ReplaceFile_def fs_MkdirAll_def comps_new_dir[OF assms(1,3)] lift_os_def Let_def
        split: sum.splits if_splits)
  then show thesis
  proof cases
    case miss
    have "fs_node root st1 old = None" using fs_Stat_NotExist[OF miss(1)] miss(2) c by (simp add: fs_node_def)
    with miss(3) Inr that(2,3) c show thesis
      by (cases r) (auto simp: storage_write_def lift_os_Some)
  next
    case move
    with Inr that(2,4) c show thesis by (cases r) (auto simp: fs_Rename_def lift_os_Some)
  qed
qed

lemma fs_replace_file_done:
  assumes "fs_inv root st" and "plain_path old" and "plain_path new" and "old \<noteq> new"
    and "filesystem_ReplaceFile root (rel_path old) (rel_path new) st = (None, st')"
  shows "fs_inv root st' \<and> fs_node root st' = t_replace_file old new [] (fs_node root st)"
proof -
  have pb: "list_all plain_name (butlast new)" using plain_butlast[OF assms(3)] by (auto simp: plain_path_def)
  have ne: "new \<noteq> []" using assms(3) by (simp add: plain_path_def)
  from assms(1-3,5) show ?thesis
  proof (cases rule: replace_file_steps)
    case (3 st1)
    note m = fs_mkdir_node[OF assms(1) 3(1) pb]
    note w = fs_write_node[OF m(1) 3(4) assms(3)]
    from 3(3) have "fs_node root st old = None" by (simp add: m t_mkdir_def split: if_splits)
    with w m ne show ?thesis by (simp add: t_replace_file_def t_write_alt)
  next
    case (4 st1)
    note m = fs_mkdir_node[OF assms(1) 4(1) pb]
    note w = fs_rename_node[OF m(1) 4(3) assms(2,3,4)]
    have "clean_comps root @ old \<noteq> clean_comps root @ new" using assms(4) by simp
    then obtain n where n: "os_node st1 (clean_comps root @ old) = Some n" "\<not> prefix old new"
      using 4(3) fs_invD(2)[OF m(1)] by (elim Rename_cases) auto
    then have "\<not> prefix old (butlast new)" by (meson prefix_order.trans prefixeq_butlast)
    with n have "fs_node root st old = Some n" using fun_cong[OF m(2), of old] by (simp add: t_mkdir_def fs_node_def)
    with w m show ?thesis by (simp add: t_replace_file_def)
  qed auto
qed

lemma fs_replace_file_failed:
  assumes "fs_inv root st" and "plain_path old" and "plain_path new"
    and "filesystem_ReplaceFile root (rel_path old) (rel_path new) st = (Some e, st')"
  shows "fs_inv root st' \<and> (fs_node root st' = fs_node root st \<or> fs_node root st' = t_mkdir (butlast new) (fs_node root st))"
proof -
  have pb: "list_all plain_name (butlast new)" using plain_butlast[OF assms(3)] by (auto simp: plain_path_def)
  from assms show ?thesis
    by (cases rule: replace_file_steps) (use fs_mkdir_node[OF assms(1) _ pb] assms(1) in auto)
qed

lemma t_open_mkdir: "t_open_path t p \<Longrightarrow> t_open_path (t_mkdir q t) p"
  by (simp add: t_open_path_def t_mkdir_def)

lemma fs_replace_file_ok:
  assumes inv: "fs_inv root st" and "plain_path old" and "plain_path new"
    and "t_open_path (fs_node root st) old" and "t_open_path (fs_node root st) new"
    and "\<not> prefix old new" and "fs_node root st old \<noteq> Some Dir" and "fs_node root st new \<noteq> Some Dir"
  shows "fst (filesystem_ReplaceFile root (rel_path old) (rel_path new) st) = None"
proof -
  have ne: "new \<noteq> []" using assms(3) by (simp add: plain_path_def)
  have pb: "list_all plain_name (butlast new)" using plain_butlast[OF assms(3)] by (auto simp: plain_path_def)
  obtain st1 where s: "os_MkdirAll st (clean_comps root @ butlast new) = Inr st1"
    using fs_MkdirAll_ok[OF inv assms(5) ne] by blast
  note m = fs_mkdir_node[OF inv s pb]
  have "\<not> prefix old (butlast new)" using assms(6) by (meson prefix_order.trans prefixeq_butlast)
  then have old: "fs_node root st1 old = fs_node root st old" by (simp add: m t_mkdir_def)
  have new: "fs_node root st1 new \<noteq> Some Dir" "fs_node root st1 (butlast new) = Some Dir"
    using assms(8) ne strict_prefix_butlast[OF ne, of new] by (auto simp: m t_mkdir_def)
  have nb: "\<not> blocked st1 (clean_comps root @ old)"
    using fs_blocked[OF m(1)] t_open_mkdir[OF assms(4)] by (simp add: m)
  have c: "clean_comps (filepath_Join [root, rel_path old]) = clean_comps root @ old"
    "clean_comps (filepath_Join [root, rel_path new]) = clean_comps root @ new"
    using assms(1-3) by (simp_all add: fs_invD(1))
  obtain st2 where w: "os_Write st1 (clean_comps root @ new) [] = Inr st2"
    using fs_Write_stuck[OF m(1) assms(3) new(2)] new(1) by (cases "os_Write st1 (clean_comps root @ new) []") blast+
  have ren: "\<exists>st'. os_Rename st1 (clean_comps root @ old) (clean_comps root @ new) = Inr st'"
    if "fs_node root st1 old = Some (Reg b)" for b
    using that new fs_invD(2)[OF m(1)] ne
    by (intro Rename_file_ok) (auto simp: fs_node_def butlast_append)
  have mk: "fs_MkdirAll (fst (filepath_Split (filepath_Join [root, rel_path new]))) st = (None, st1)"
    by (simp add: fs_MkdirAll_def comps_new_dir[OF inv assms(3)] s)
  show ?thesis
  proof (cases "fs_node root st old")
    case None
    with old nb have "fs_Stat (filepath_Join [root, rel_path old]) st1 = Inl (PathError ''stat'' (filepath_Join [root, rel_path old]) ENOENT)"
      by (simp add: fs_Stat_def os_stat_def c fs_node_def)
    moreover have "errors_Is (PathError ''stat'' x ENOENT) NotExist" for x
      by (simp add: PathError_def errorf_w_def errors_Is_def ENOENT_def)
    ultimately show ?thesis by (simp add: filesystem_ReplaceFile_def mk storage_write_def c w lift_os_def)
  next
    case (Some n)
    with assms(7) obtain b where b: "n = Reg b" by (cases n) auto
    with Some old have o: "fs_node root st1 old = Some (Reg b)" by simp
    with nb have "fs_Stat (filepath_Join [root, rel_path old]) st1 = Inr (Reg b)"
      by (simp add: fs_Stat_def os_stat_def c fs_node_def)
    moreover obtain st3 where "os_Rename st1 (clean_comps root @ old) (clean_comps root @ new) = Inr st3"
      using ren[OF o] by blast
    ultimately show ?thesis by (simp add: filesystem_ReplaceFile_def mk fs_Rename_def c lift_os_def)
  qed
qed

lemma fs_replace_dir_cases:
  assumes "fs_inv root st" and "plain_path old" and "plain_path new"
    and "filesystem_ReplaceDir root (rel_path old) (rel_path new) st = (r, st')"
  obtains "r \<noteq> None" "st' = st"
  | "r = None" "fs_node root st old = None" "os_MkdirAll st (clean_comps root @ new) = Inr st'"
  | "r = None" "os_Rename st (clean_comps root @ old) (clean_comps root @ new) = Inr st'"
proof -
  have c: "clean_comps (filepath_Join [root, rel_path old]) = clean_comps root @ old"
    "clean_comps (filepath_Join [root, rel_path new]) = clean_comps root @ new"
    using assms(1-3) by (simp_all add: fs_invD(1))
  from assms(4) consider
      (miss) e where "fs_Stat (filepath_Join [root, rel_path old]) st = Inl e" "errors_Is e NotExist"
        "fs_MkdirAll (filepath_Join [root, rel_path new]) st = (r, st')"
    | (move) "fs_Rename (filepath_Join [root, rel_path old]) (filepath_Join [root, rel_path new]) st = (r, st')"
    by (auto simp: filesystem_ReplaceDir_def Let_def split: sum.splits if_splits)
  then show thesis
  proof cases
    case miss
    have "fs_node root st old = None" using fs_Stat_NotExist[OF miss(1)] miss(2) c by (simp add: fs_node_def)
    with miss(3) that(1,2) c show thesis by (cases r) (auto simp: fs_MkdirAll_def lift_os_Some)
  next
    case move
    with that(1,3) c show thesis by (cases r) (auto simp: fs_Rename_def lift_os_Some)
  qed
qed

lemma fs_replace_dir_done:
  assumes "fs_inv root st" and "plain_path old" and "plain_path new" and "old \<noteq> new"
    and "filesystem_ReplaceDir root (rel_path old) (rel_path new) st = (None, st')"
  shows "fs_inv root st' \<and> fs_node root st' = t_replace_dir old new (fs_node root st)"
  using assms(1-3,5)
proof (cases rule: fs_replace_dir_cases)
  case 2
  have "list_all plain_name new" using assms(3) by (simp add: plain_path_def)
  from fs_mkdir_node[OF assms(1) 2(3) this] 2 show ?thesis by (simp add: t_replace_dir_def)
next
  case 3
  have "clean_comps root @ old \<noteq> clean_comps root @ new" using assms(4) by simp
  then obtain n where "fs_node root st old = Some n"
    using 3(2) fs_invD(2)[OF assms(1)] by (elim Rename_cases) (auto simp: fs_node_def)
  with fs_rename_node[OF assms(1) 3(2) assms(2,3,4)] show ?thesis by (simp add: t_replace_dir_def)
qed auto

lemma fs_replace_dir_failed:
  assumes "fs_inv root st" and "plain_path old" and "plain_path new"
    and "filesystem_ReplaceDir root (rel_path old) (rel_path new) st = (Some e, st')"
  shows "fs_inv root st' \<and> fs_node root st' = fs_node root st"
  using assms by (cases rule: fs_replace_dir_cases) (use assms(1) in auto)

lemma fs_replace_dir_ok:
  assumes inv: "fs_inv root st" and "plain_path old" and "plain_path new" and "\<not> prefix old new"
    and "t_open_path (fs_node root st) old" and "fs_node root st (butlast new) = Some Dir"
    and "fs_node root st new = None"
  shows "fst (filesystem_ReplaceDir root (rel_path old) (rel_path new) st) = None"
proof -
  have ne: "new \<noteq> []" using assms(3) by (simp add: plain_path_def)
  have c: "clean_comps (filepath_Join [root, rel_path old]) = clean_comps root @ old"
    "clean_comps (filepath_Join [root, rel_path new]) = clean_comps root @ new"
    using assms(1-3) by (simp_all add: fs_invD(1))
  have nb: "\<not> blocked st (clean_comps root @ old)" using assms(5) by (simp add: fs_blocked[OF inv])
  show ?thesis
  proof (cases "fs_node root st old")
    case None
    with nb have "fs_Stat (filepath_Join [root, rel_path old]) st = Inl (PathError ''stat'' (filepath_Join [root, rel_path old]) ENOENT)"
      by (simp add: fs_Stat_def os_stat_def c fs_node_def)
    moreover have "errors_Is (PathError ''stat'' x ENOENT) NotExist" for x
      by (simp add: PathError_def errorf_w_def errors_Is_def ENOENT_def)
    moreover have "t_open_path (fs_node root st) new"
    proof -
      have "\<not> is_reg (fs_node root st q)" if "strict_prefix q new" for q
      proof (cases "q = butlast new")
        case False
        with that ne have "strict_prefix q (butlast new)"
          by (metis strict_prefix_butlast strict_prefix_def)
        with assms(6) show ?thesis using fs_ancestor[OF inv, of "butlast new" q] by simp
      qed (use assms(6) in simp)
      then show ?thesis by (simp add: t_open_path_def)
    qed
    then have "\<forall>q. prefix q (clean_comps root @ new) \<longrightarrow> \<not> is_reg (os_node st q)"
      using fs_blocked[OF inv, of new] assms(7)
      by (auto simp: blocked_iff fs_node_def strict_prefix_def)
    then obtain st' where "os_MkdirAll st (clean_comps root @ new) = Inr st'" using MkdirAll_ok by blast
    ultimately show ?thesis
      by (simp add: filesystem_ReplaceDir_def Let_def fs_MkdirAll_def c lift_os_def)
  next
    case (Some n)
    with nb have "fs_Stat (filepath_Join [root, rel_path old]) st = Inr n"
      by (simp add: fs_Stat_def os_stat_def c fs_node_def)
    moreover have "\<exists>st'. os_Rename st (clean_comps root @ old) (clean_comps root @ new) = Inr st'"
      using Some assms(4,6,7) fs_invD(2)[OF inv] ne
      by (intro Rename_ok) (auto simp: fs_node_def butlast_append)
    ultimately show ?thesis by (auto simp: filesystem_ReplaceDir_def Let_def fs_Rename_def c lift_os_def)
  qed
qed

lemma fs_mkdir_op:
  assumes "fs_inv root st" and "plain_path p" and "filesystem_MkdirAll root (rel_path p) st = (r, st')"
  shows "fs_inv root st' \<and> fs_node root st' = (if r = None then t_mkdir p (fs_node root st) else fs_node root st)"
proof -
  have c: "clean_comps (filepath_Join [root, rel_path p]) = clean_comps root @ p"
    using assms(1,2) by (simp add: fs_invD(1))
  have "list_all plain_name p" using assms(2) by (simp add: plain_path_def)
  with assms fs_mkdir_node[OF assms(1), of p] show ?thesis
    by (cases r) (auto simp: filesystem_MkdirAll_def fs_MkdirAll_def c lift_os_Some)
qed

lemma fs_rmdir_op:
  assumes "fs_inv root st" and "plain_path p" and "filesystem_RmdirAll root (rel_path p) st = (r, st')"
  shows "fs_inv root st' \<and> fs_node root st' = (if r = None then t_remove p (fs_node root st) else fs_node root st)"
proof -
  have c: "clean_comps (filepath_Join [root, rel_path p]) = clean_comps root @ p"
    using assms(1,2) by (simp add: fs_invD(1))
  with assms fs_remove_node[OF assms(1) _ assms(2)] show ?thesis
    by (cases r) (auto simp: filesystem_RmdirAll_def Let_def lift_os_Some)
qed

lemma fs_readdir_comps:
  assumes "fs_inv root st" and "plain_path p"
  shows "filesystem_ReadDir root (rel_path p) st = (case os_ReadDir st (clean_comps root @ p) of
      Inl e \<Rightarrow> Inl (PathError ''open'' (rel_path p) e) | Inr es \<Rightarrow> Inr es)"
proof -
  have "fs_ValidPath (rel_path p)"
    using assms(2) by (auto simp: fs_ValidPath_def SplitChar_rel_path plain_path_def list_all_iff plain_nameD)
  moreover have "clean_comps (root @ ''/'' @ rel_path p) = clean_comps root @ p"
    unfolding comps_join_root[OF fs_invD(1)[OF assms(1)]] using assms(2) by (rule join_comps_rel)
  ultimately show ?thesis by (simp add: filesystem_ReadDir_def)
qed

lemma fs_readroot_comps:
  assumes "fs_inv root st"
  shows "filesystem_ReadDir root ''.'' st = (case os_ReadDir st (clean_comps root) of
      Inl e \<Rightarrow> Inl (PathError ''open'' ''.'' e) | Inr es \<Rightarrow> Inr es)"
proof -
  have "clean_comps (root @ ''/'' @ ''.'') = clean_comps root"
    unfolding comps_join_root[OF fs_invD(1)[OF assms(1)]] by (rule join_comps_dot)
  then show ?thesis by (simp add: filesystem_ReadDir_def fs_ValidPath_def)
qed

lemma Join_glob:
  assumes "fs_inv root st" and "plain_path p" and "plain_name n"
  shows "filepath_Join [root, rel_path p @ ''/'', n] = ''/'' @ rel_path (clean_comps root @ p @ [n])"
proof -
  have "join_comps (clean_comps root) ((rel_path p @ ''/'') @ ''/'' @ n) = clean_comps root @ p @ [n]"
    using assms(2,3)
    by (simp add: join_comps_def SplitChar_app SplitChar_rel_path SplitChar_no fold_clean_plain plain_path_def
        plain_name_def)
  then show ?thesis
    unfolding Join_three[OF fs_invD(7)[OF assms(1)]] Join_root[OF fs_invD(1)[OF assms(1)]] by simp
qed

lemma TrimPrefix_root:
  assumes "fs_inv root st" and "p \<noteq> []"
  shows "TrimPrefix (''/'' @ rel_path (clean_comps root @ p)) (root @ ''/'') = rel_path p"
proof -
  have "clean_comps root \<noteq> []" using fs_invD(4)[OF assms(1)] by (simp add: plain_path_def)
  then have "''/'' @ rel_path (clean_comps root @ p) = (''/'' @ rel_path (clean_comps root)) @ ''/'' @ rel_path p"
    using assms(2) by (simp add: rel_path_append)
  also have "\<dots> = (root @ ''/'') @ rel_path p" using fs_invD(5)[OF assms(1)] by simp
  finally show ?thesis by (simp only: TrimPrefix_append)
qed

lemma fs_Glob_eq:
  assumes inv: "fs_inv root st" and p: "plain_path p" and pat: "slash \<notin> set pat"
    and dir: "fs_node root st p = Some Dir"
  shows "filesystem_Glob root (rel_path p @ ''/'' @ pat) st =
    Inr (map (\<lambda>n. rel_path (p @ [n]))
      (filter (filepath_Match pat) (map fst (children st (clean_comps root @ p)))))"
proof -
  let ?names = "filter (filepath_Match pat) (map fst (children st (clean_comps root @ p)))"
  have c: "clean_comps (filepath_Join [root, rel_path p @ ''/'']) = clean_comps root @ p"
    using inv p by (simp add: fs_invD(1))
  have st: "os_stat st (clean_comps root @ p) = Inr Dir"
    using dir by (simp add: os_stat_Inr fs_invD(2)[OF inv] fs_node_def)
  have names: "plain_name n \<and> os_node st (clean_comps root @ p @ [n]) \<noteq> None" if "n \<in> set ?names" for n
  proof -
    from that obtain b where "(n, b) \<in> set (children st (clean_comps root @ p))" by auto
    then have "os_node st (clean_comps root @ p @ [n]) \<noteq> None"
      using fs_invD(2)[OF inv] by (auto simp: children_iff)
    moreover from this have "plain_name n"
      using fs_invD(2,6)[OF inv] by (fastforce simp: names_plain_iff)
    ultimately show ?thesis by simp
  qed
  have joined: "map (\<lambda>n. filepath_Join [root, rel_path p @ ''/'', n]) ?names =
      map (\<lambda>n. ''/'' @ rel_path (clean_comps root @ p @ [n])) ?names"
    using names by (intro map_cong refl) (simp only: Join_glob[OF inv p])
  have found: "filter (\<lambda>m. \<not> isl (fs_Stat m st)) (map (\<lambda>n. ''/'' @ rel_path (clean_comps root @ p @ [n])) ?names)
      = map (\<lambda>n. ''/'' @ rel_path (clean_comps root @ p @ [n])) ?names"
  proof (rule filter_True, intro ballI)
    fix m assume "m \<in> set (map (\<lambda>n. ''/'' @ rel_path (clean_comps root @ p @ [n])) ?names)"
    then obtain n where n: "n \<in> set ?names" "m = ''/'' @ rel_path (clean_comps root @ p @ [n])" by auto
    have "list_all plain_name (clean_comps root @ p @ [n])"
      using fs_plain[OF inv p] names[OF n(1)] by simp
    then have "clean_comps m = clean_comps root @ p @ [n]" unfolding n(2) by (rule clean_comps_abs)
    moreover have "\<not> blocked st (clean_comps root @ p @ [n])"
      using names[OF n(1)] wf_not_blocked[OF fs_invD(2)[OF inv]] by blast
    ultimately show "\<not> isl (fs_Stat m st)"
      using names[OF n(1)] by (auto simp: fs_Stat_def os_stat_def)
  qed
  have "map (\<lambda>m. TrimPrefix m (root @ ''/'')) (map (\<lambda>n. ''/'' @ rel_path (clean_comps root @ p @ [n])) ?names)
      = map (\<lambda>n. rel_path (p @ [n])) ?names"
    unfolding map_map o_def by (intro map_cong refl) (rule TrimPrefix_root[OF inv], simp)
  with joined found show ?thesis
    by (simp only: filesystem_Glob_def Split_dir_name[OF pat] Let_def prod.case c st sum.case if_True simp_thms)
qed

lemma fs_Glob_stat:
  assumes "fs_inv root st" and "plain_path p" and "slash \<notin> set pat"
    and "filesystem_Glob root (rel_path p @ ''/'' @ pat) st = Inr ms" and "fs_node root st p \<noteq> Some Dir"
  shows "ms = []"
proof -
  have c: "clean_comps (filepath_Join [root, rel_path p @ ''/'']) = clean_comps root @ p"
    using assms(1,2) by (simp add: fs_invD(1))
  from assms(4,5) show ?thesis
    using Split_dir_name[OF assms(3), of "rel_path p"] os_stat_Inr[OF fs_invD(2)[OF assms(1)]]
    by (auto simp: filesystem_Glob_def c fs_node_def Let_def split: sum.splits if_splits)
qed

lemma fs_Open_eq:
  assumes "fs_inv root st" and "plain_path p" and "\<not> Contains (rel_path p) ''..''"
  shows "filesystem_Open root (rel_path p) st = (case os_stat st (clean_comps root @ p) of
      Inl e \<Rightarrow> Inl (PathError ''open'' (filepath_Join [root, rel_path p]) e)
    | Inr n \<Rightarrow> Inr \<lparr>file_name = last p, file_path = filepath_Join [root, rel_path p],
                    file_node = n, file_buffered = False\<rparr>)"
proof -
  have pe: "p = butlast p @ [last p]" using assms(2) by (simp add: plain_path_def)
  have "filepath_Join [root, rel_path p] = ''/'' @ rel_path ((clean_comps root @ butlast p) @ [last p])"
    using Join_root_rel[OF assms(1,2)] pe by simp
  then have "snd (filepath_Split (filepath_Join [root, rel_path p])) = last p"
    by (simp only: Split_rooted[OF plain_last[OF assms(2)]] snd_conv)
  then show ?thesis
    using assms rel_path_hd[OF assms(2)]
    by (simp add: filesystem_Open_def Let_def fs_invD(1) cong: sum.case_cong)
qed

lemma fs_Open_node:
  assumes "fs_inv root st" and "plain_path p" and "filesystem_Open root (rel_path p) st = Inr f"
  shows "fs_node root st p \<noteq> None"
  using assms fs_Open_eq[OF assms(1,2)]
  by (cases "Contains (rel_path p) ''..''")
     (auto simp: fs_node_def filesystem_Open_def dest: os_stat_Inr_node split: sum.splits)

lemma fs_view: "fs_inv root st \<Longrightarrow> os_node st (clean_comps root @ p) = fs_node root st p"
  by (simp add: fs_node_def)

lemma fs_parent: "fs_inv root st \<Longrightarrow> fs_node root st (p @ [n]) \<noteq> None \<Longrightarrow> fs_node root st p = Some Dir"
  by (rule fs_ancestor) (auto simp: strict_prefix_def)

lemma fs_glob_iff:
  assumes inv: "fs_inv root st" and p: "plain_path p" and pat: "slash \<notin> set pat"
    and g: "filesystem_Glob root (rel_path p @ ''/'' @ pat) st = Inr ms"
  shows "m \<in> set ms \<longleftrightarrow> (\<exists>n. m = rel_path (p @ [n]) \<and> fs_node root st (p @ [n]) \<noteq> None \<and> filepath_Match pat n)"
proof (cases "fs_node root st p = Some Dir")
  case True
  have "n \<in> set (map fst (children st (clean_comps root @ p))) \<longleftrightarrow> fs_node root st (p @ [n]) \<noteq> None" for n
  proof -
    have "n \<in> set (map fst (children st (clean_comps root @ p)))
        \<longleftrightarrow> (\<exists>b. (n, b) \<in> set (children st (clean_comps root @ p)))" by force
    also have "\<dots> \<longleftrightarrow> (\<exists>m. os_node st ((clean_comps root @ p) @ [n]) = Some m)"
      by (simp only: children_iff[OF fs_invD(2)[OF inv]]) blast
    finally show ?thesis by (simp add: fs_node_def)
  qed
  moreover have "set ms = (\<lambda>n. rel_path (p @ [n])) ` {n \<in> set (map fst (children st (clean_comps root @ p))). filepath_Match pat n}"
  proof -
    have "ms = map (\<lambda>n. rel_path (p @ [n])) (filter (filepath_Match pat) (map fst (children st (clean_comps root @ p))))"
      using fs_Glob_eq[OF inv p pat True] g by (simp only: sum.inject)
    then show ?thesis by (simp only: set_map set_filter)
  qed
  ultimately show ?thesis by blast
next
  case False
  then have "ms = []" using fs_Glob_stat[OF inv p pat g] by blast
  with False show ?thesis using fs_parent[OF inv] by auto
qed

lemma fs_ops:
  "Open (filesystem_chest root) = filesystem_Open root" "Glob (filesystem_chest root) = filesystem_Glob root"
  "ReadDir (filesystem_chest root) = filesystem_ReadDir root"
  "ReplaceFile (filesystem_chest root) = filesystem_ReplaceFile root"
  "ReplaceDir (filesystem_chest root) = filesystem_ReplaceDir root"
  "MkdirAll (filesystem_chest root) = filesystem_MkdirAll root"
  "RmdirAll (filesystem_chest root) = filesystem_RmdirAll root"
  "WriteFile (filesystem_chest root) = filesystem_WriteFile root"
  by (simp_all add: filesystem_chest_def)

interpretation fs: chest_content "filesystem_chest root" "fs_inv root" "fs_node root" "(=)"
proof (unfold_locales, goal_cases)
  case (1 s) then show ?case by (simp add: fs_node_def fs_invD(3))
next
  case (2 s p n) then show ?case by (blast intro: fs_parent)
next
  case (3 s p)
  from 3(2) have "os_node s (clean_comps root @ p) \<noteq> None" unfolding fs_node_def .
  from names_plain_node[OF fs_invD(2)[OF 3(1)] fs_invD(6)[OF 3(1)] this]
  have "list_all plain_name (clean_comps root @ p)" .
  then show ?case by simp
next
  case 4 from fs_write_done[OF 4(1) 4(2) 4(3)[unfolded fs_ops]] show ?case by auto
next
  case 5 from fs_write_failed[OF 5(1) 5(2) 5(3)[unfolded fs_ops]] show ?case by auto
next
  case 6 from fs_replace_file_done[OF 6(1-4) 6(6)[unfolded fs_ops]] show ?case by blast
next
  case 7 from fs_replace_file_failed[OF 7(1) 7(2) 7(3) 7(4)[unfolded fs_ops]] show ?case by auto
next
  case (8 s old new) then show ?case by (simp add: filesystem_chest_def fs_replace_file_ok)
next
  case 9 from fs_replace_dir_done[OF 9(1) 9(2) 9(3) 9(4) 9(5)[unfolded fs_ops]] show ?case by auto
next
  case 10 from fs_replace_dir_failed[OF 10(1) 10(2) 10(3) 10(4)[unfolded fs_ops]] show ?case by auto
next
  case (11 s old new) then show ?case by (simp add: filesystem_chest_def fs_replace_dir_ok)
next
  case 12 from fs_mkdir_op[OF 12(1) 12(2) 12(3)[unfolded fs_ops]] show ?case by auto
next
  case 13 from fs_mkdir_op[OF 13(1) 13(2) 13(3)[unfolded fs_ops]] show ?case by auto
next
  case 14 from fs_rmdir_op[OF 14(1) 14(2) 14(3)[unfolded fs_ops]] show ?case by auto
next
  case 15 from fs_rmdir_op[OF 15(1) 15(2) 15(3)[unfolded fs_ops]] show ?case by auto
next
  case (16 s p pat ms m) then show ?case using fs_glob_iff[of root s p pat ms m] by (simp add: filesystem_chest_def)
next
  case (17 s p pat) then show ?case using fs_Glob_eq[of root s p pat] by (simp add: filesystem_chest_def)
next
  case (18 s p es n b)
  then have "os_ReadDir s (clean_comps root @ p) = Inr es"
    by (auto simp: filesystem_chest_def fs_readdir_comps split: sum.splits)
  from ReadDir_iff[OF this fs_invD(2)[OF 18(1)]] show ?case by (simp add: fs_node_def)
next
  case (19 s p es)
  then have "os_ReadDir s (clean_comps root @ p) = Inr es"
    by (auto simp: filesystem_chest_def fs_readdir_comps split: sum.splits)
  from ReadDir_sorted[OF this fs_invD(2)[OF 19(1)]] show ?case .
next
  case (20 s p)
  have "(\<exists>es. ReadDir (filesystem_chest root) (rel_path p) s = Inr es) \<longleftrightarrow>
      (\<exists>es. os_ReadDir s (clean_comps root @ p) = Inr es)"
    by (auto simp: filesystem_chest_def fs_readdir_comps[OF 20] split: sum.splits)
  then show ?case using ReadDir_ok[OF fs_invD(2)[OF 20(1)], of "clean_comps root @ p"] by (simp add: fs_node_def)
next
  case (21 s es n b)
  then have "os_ReadDir s (clean_comps root) = Inr es"
    by (auto simp: filesystem_chest_def fs_readroot_comps split: sum.splits)
  from ReadDir_iff[OF this fs_invD(2)[OF 21(1)]] show ?case by (simp add: fs_node_def)
next
  case (22 s)
  then obtain es where "os_ReadDir s (clean_comps root) = Inr es"
    using ReadDir_ok[OF fs_invD(2)[OF 22], of "clean_comps root"] fs_invD(3)[OF 22] by auto
  then show ?case using 22 by (simp add: filesystem_chest_def fs_readroot_comps)
next
  case (23 s es)
  then have "os_ReadDir s (clean_comps root) = Inr es"
    by (auto simp: filesystem_chest_def fs_readroot_comps split: sum.splits)
  from ReadDir_sorted[OF this fs_invD(2)[OF 23(1)]] show ?case .
next
  case (24 s p f) then show ?case using fs_Open_node by (simp add: filesystem_chest_def)
next
  case 25 from fs_write_done[OF 25(1) 25(2) 25(3)[unfolded fs_ops]] show ?case by auto
next
  case (26 s p d) then show ?case by (simp add: filesystem_chest_def fs_write_ok)
next
  case (27 s p b d)
  then have "os_stat s (clean_comps root @ p) = Inr (Reg b)"
    by (simp add: os_stat_Inr fs_invD(2) fs_node_def)
  with 27 show ?case by (simp add: filesystem_chest_def fs_Open_eq file_read_def)
qed

section \<open>The encrypted wrapper\<close>

text \<open>
  What the wrapper relies on of cryptfs: what \<open>Disfigure\<close> produces, \<open>Reveal\<close> turns back.
  The kept bytes are then related to the written ones through it.
\<close>

definition crypt_ok :: "cryptfs option \<Rightarrow> bool" where
  "crypt_ok cr \<longleftrightarrow> (\<forall>k d. cr = Some k \<longrightarrow> (\<exists>b. Disfigure k d = Inr b \<and> Reveal k b = Inr d))"

definition crypt_stored :: "cryptfs option \<Rightarrow> bytes \<Rightarrow> bytes \<Rightarrow> bool" where
  "crypt_stored cr d b \<longleftrightarrow> crypt_reveal cr b = Inr d"

lemma NewEncrypted_simps [simp]:
  "Glob (NewEncrypted u cr) = Glob u" "ReadDir (NewEncrypted u cr) = ReadDir u"
  "ReplaceFile (NewEncrypted u cr) = ReplaceFile u" "ReplaceDir (NewEncrypted u cr) = ReplaceDir u"
  "MkdirAll (NewEncrypted u cr) = MkdirAll u" "RmdirAll (NewEncrypted u cr) = RmdirAll u"
  "Open (NewEncrypted u cr) = encrypted_Open u cr" "WriteFile (NewEncrypted u cr) = encrypted_WriteFile u cr"
  by (simp_all add: NewEncrypted_def)

lemma encrypted_WriteFile_cases:
  assumes "encrypted_WriteFile u cr p d s = (r, s')"
  obtains e where "r = Some e" "s' = s" | b where "WriteFile u p b s = (r, s')" "crypt_ok cr \<Longrightarrow> crypt_stored cr d b"
proof (cases cr)
  case None
  with assms that(2) show thesis by (auto simp: encrypted_WriteFile_def crypt_stored_def crypt_reveal_def)
next
  case (Some k)
  show thesis
  proof (cases "Disfigure k d")
    case (Inl e)
    with Some assms that(1) show thesis by (auto simp: encrypted_WriteFile_def)
  next
    case (Inr b)
    have "Reveal k b = Inr d" if "crypt_ok cr"
    proof -
      from that Some obtain b' where "Disfigure k d = Inr b'" "Reveal k b' = Inr d" by (auto simp: crypt_ok_def)
      with Inr show ?thesis by simp
    qed
    with Inr Some assms that(2) show thesis
      by (auto simp: encrypted_WriteFile_def crypt_stored_def crypt_reveal_def)
  qed
qed

interpretation enc: chest_tree "NewEncrypted (filesystem_chest root) cr" "fs_inv root" "fs_node root"
proof (unfold_locales, unfold NewEncrypted_simps, goal_cases)
  case (4 s p d s')
  then show ?case by (elim encrypted_WriteFile_cases) (auto dest: fs.write_done)
next
  case (5 s p d e s')
  then show ?case by (elim encrypted_WriteFile_cases) (auto dest: fs.write_failed)
next
  case (24 s p f)
  then show ?case by (auto simp: encrypted_Open_def dest: fs.open_node split: sum.splits)
qed (rule fs.root_dir fs.parent_dir fs.plain_nodes fs.replace_file_done fs.replace_file_failed
    fs.replace_file_ok fs.replace_dir_done fs.replace_dir_failed fs.replace_dir_ok fs.mkdir_done
    fs.mkdir_failed fs.rmdir_done fs.rmdir_failed fs.glob_iff fs.glob_ok fs.read_dir_iff
    fs.read_dir_sorted fs.read_dir_ok fs.read_root_iff fs.read_root_ok fs.read_root_sorted; assumption)+

lemma encrypted_content:
  "crypt_ok cr \<Longrightarrow>
     chest_content (NewEncrypted (filesystem_chest root) cr) (fs_inv root) (fs_node root) (crypt_stored cr)"
proof (unfold_locales, unfold NewEncrypted_simps, goal_cases)
  case (1 s p d s')
  then show ?case by (elim encrypted_WriteFile_cases) (auto dest: fs.write_stored)
next
  case (2 s p d)
  have "fst (WriteFile (filesystem_chest root) (rel_path p) b s) = None" for b
    using 2(2-) by (rule fs.write_ok)
  with 2(1) show ?case
    by (auto simp: encrypted_WriteFile_def crypt_ok_def split: option.splits sum.splits)
       (metis Inl_Inr_False)
next
  case (3 s p b d)
  then have "os_stat s (clean_comps root @ p) = Inr (Reg b)"
    by (simp add: os_stat_Inr fs_invD(2) fs_node_def)
  with 3 show ?case
    by (simp add: filesystem_chest_def fs_Open_eq encrypted_Open_def file_read_def crypt_stored_def)
qed

end
