(* ===== verification/Go_Format.thy ===== *)
theory Go_Format
  imports Prelude
begin

text \<open>
  The parts of \<open>fmt\<close>, \<open>time\<close> the sources format values with: decimal integers, \<open>%v\<close> of a
  \<open>time.Duration\<close>, and the two-way conversion between instants (seconds since the epoch) and
  the layout \<open>20060102-150405\<close> that names isolated directories. Durations are their
  nanoseconds; the sources only compare them and subtract them from an instant.
\<close>

section \<open>Integers\<close>

definition digit :: "nat \<Rightarrow> char" where
  "digit n = char_of (48 + n mod 10)"

fun show_nat :: "nat \<Rightarrow> string" where
  "show_nat n = (if n < 10 then [digit n] else show_nat (n div 10) @ [digit n])"

declare show_nat.simps [simp del]

definition show_int :: "int \<Rightarrow> string" where
  "show_int i = (if i < 0 then CHR ''-'' # show_nat (nat (- i)) else show_nat (nat i))"

definition is_digit :: "char \<Rightarrow> bool" where
  "is_digit c = (let n = of_char c :: nat in 48 \<le> n \<and> n \<le> 57)"

definition digit_val :: "char \<Rightarrow> nat" where
  "digit_val c = of_char c - 48"

fun read_digits :: "nat \<Rightarrow> string \<Rightarrow> nat" where
  "read_digits acc [] = acc"
| "read_digits acc (c # cs) = read_digits (acc * 10 + digit_val c) cs"

text \<open>A field of exactly \<open>k\<close> digits.\<close>

fun fixed_digits :: "nat \<Rightarrow> nat \<Rightarrow> string" where
  "fixed_digits 0 n = []"
| "fixed_digits (Suc k) n = fixed_digits k (n div 10) @ [digit n]"

section \<open>Durations\<close>

type_synonym duration = int

abbreviation second :: duration where "second \<equiv> 1000000000"

text \<open>The fraction \<open>n\<close> of \<open>k\<close> digits, trailing zeros dropped, with its point if any is left.\<close>

definition show_frac :: "nat \<Rightarrow> nat \<Rightarrow> string" where
  "show_frac k n =
     (let f = rev (dropWhile (\<lambda>c. c = CHR ''0'') (rev (fixed_digits k n)))
      in if f = [] then [] else CHR ''.'' # f)"

definition show_abs_duration :: "nat \<Rightarrow> string" where
  "show_abs_duration u =
     (if u = 0 then ''0s''
      else if u < 1000 then show_nat u @ ''ns''
      else if u < 1000000 then show_nat (u div 1000) @ show_frac 3 (u mod 1000) @ [CHR 0xC2, CHR 0xB5] @ ''s''
      else if u < 1000000000 then show_nat (u div 1000000) @ show_frac 6 (u mod 1000000) @ ''ms''
      else let s = u div 1000000000; m = s div 60; h = m div 60 in
        (if h > 0 then show_nat h @ ''h'' else []) @
        (if m > 0 then show_nat (m mod 60) @ ''m'' else []) @
        show_nat (s mod 60) @ show_frac 9 (u mod 1000000000) @ ''s'')"

definition show_duration :: "duration \<Rightarrow> string" where
  "show_duration d = (if d < 0 then CHR ''-'' # show_abs_duration (nat (- d)) else show_abs_duration (nat d))"

section \<open>Instants and the directory layout\<close>

text \<open>
  Days since 1970-01-01 of a civil date, in the proleptic Gregorian calendar that Go's
  \<open>time\<close> package uses; years are never negative in the layout.
\<close>

definition leap_year :: "nat \<Rightarrow> bool" where
  "leap_year y \<longleftrightarrow> y mod 4 = 0 \<and> (y mod 100 \<noteq> 0 \<or> y mod 400 = 0)"

definition days_in_month :: "nat \<Rightarrow> nat \<Rightarrow> nat" where
  "days_in_month y m =
     (if m = 2 then (if leap_year y then 29 else 28)
      else if m \<in> {4, 6, 9, 11} then 30 else 31)"

definition days_before_year :: "int \<Rightarrow> int" where
  "days_before_year y = 365 * y + (y + 3) div 4 - (y + 99) div 100 + (y + 399) div 400"

definition days_before_month :: "nat \<Rightarrow> nat \<Rightarrow> nat" where
  "days_before_month y m = sum_list (map (days_in_month y) [1..<m])"

definition epoch_days :: "nat \<Rightarrow> nat \<Rightarrow> nat \<Rightarrow> int" where
  "epoch_days y m d = days_before_year (int y) - days_before_year 1970 + int (days_before_month y m) + int d - 1"

record civil =
  c_year :: nat
  c_month :: nat
  c_day :: nat
  c_hour :: nat
  c_min :: nat
  c_sec :: nat

definition valid_civil :: "civil \<Rightarrow> bool" where
  "valid_civil c \<longleftrightarrow> int (c_year c) < 10000 \<and> 1 \<le> c_month c \<and> c_month c \<le> 12 \<and>
     1 \<le> c_day c \<and> c_day c \<le> days_in_month (c_year c) (c_month c) \<and>
     c_hour c < 24 \<and> c_min c < 60 \<and> c_sec c < 60"

text \<open>Nanoseconds since the epoch of a civil time read as UTC.\<close>

definition civil_instant :: "civil \<Rightarrow> int" where
  "civil_instant c = (epoch_days (c_year c) (c_month c) (c_day c) * 86400 +
     int (c_hour c) * 3600 + int (c_min c) * 60 + int (c_sec c)) * second"

definition format_stamp :: "civil \<Rightarrow> string" where
  "format_stamp c = fixed_digits 4 (c_year c) @ fixed_digits 2 (c_month c) @ fixed_digits 2 (c_day c) @
     ''-'' @ fixed_digits 2 (c_hour c) @ fixed_digits 2 (c_min c) @ fixed_digits 2 (c_sec c)"

text \<open>
  \<open>time.Parse\<close> of that layout: fixed-width fields, the ranges of the calendar checked, no
  text left over except a fraction of a second, which Go accepts after the seconds even
  though the layout has none.
\<close>

definition frac_nanos :: "string \<Rightarrow> int option" where
  "frac_nanos s =
     (case s of
        [] \<Rightarrow> Some 0
      | p # ds \<Rightarrow>
          if (p = CHR ''.'' \<or> p = CHR '','') \<and> ds \<noteq> [] \<and> list_all is_digit ds
          then Some (int (read_digits 0 (take 9 (ds @ replicate 9 (CHR ''0'')))))
          else None)"

definition parse_stamp :: "string \<Rightarrow> civil option" where
  "parse_stamp s =
     (if length s \<ge> 15 \<and> s ! 8 = CHR ''-'' \<and> list_all is_digit (take 8 s) \<and>
         list_all is_digit (take 6 (drop 9 s))
      then let c = \<lparr>c_year = read_digits 0 (take 4 s), c_month = read_digits 0 (take 2 (drop 4 s)),
                    c_day = read_digits 0 (take 2 (drop 6 s)), c_hour = read_digits 0 (take 2 (drop 9 s)),
                    c_min = read_digits 0 (take 2 (drop 11 s)), c_sec = read_digits 0 (take 2 (drop 13 s))\<rparr>
           in if valid_civil c \<and> frac_nanos (drop 15 s) \<noteq> None then Some c else None
      else None)"

definition parse_instant :: "string \<Rightarrow> int option" where
  "parse_instant s =
     (case parse_stamp s of
        None \<Rightarrow> None
      | Some c \<Rightarrow> (case frac_nanos (drop 15 s) of None \<Rightarrow> None | Some f \<Rightarrow> Some (civil_instant c + f)))"

section \<open>Formatting then parsing\<close>

lemma digit_ok [simp]: "is_digit (digit n)" "digit_val (digit n) = n mod 10"
proof -
  have "48 + n mod 10 < 256" by (rule less_trans[of _ "58"]) simp_all
  then have "of_char (digit n) = 48 + n mod 10" unfolding digit_def of_char_of by (rule mod_less)
  then show "is_digit (digit n)" "digit_val (digit n) = n mod 10"
    by (simp_all add: is_digit_def digit_val_def)
qed

lemma fixed_digits_length [simp]: "length (fixed_digits k n) = k"
  by (induction k n rule: fixed_digits.induct) auto

lemma fixed_digits_digit [simp]: "list_all is_digit (fixed_digits k n)"
  by (induction k n rule: fixed_digits.induct) auto

lemma read_digits_append: "read_digits a (s @ t) = read_digits (read_digits a s) t"
  by (induction a s rule: read_digits.induct) auto

lemma read_fixed_digits: "n < 10 ^ k \<Longrightarrow> read_digits 0 (fixed_digits k n) = n"
proof (induction k arbitrary: n)
  case (Suc k)
  have "n div 10 < 10 ^ k" using Suc.prems by (simp add: less_mult_imp_div_less mult.commute)
  then show ?case by (simp add: read_digits_append Suc.IH)
qed simp

lemma parse_format_stamp: "valid_civil c \<Longrightarrow> parse_stamp (format_stamp c) = Some c"
proof -
  assume v: "valid_civil c"
  then have r: "c_year c < 10 ^ 4" "c_month c < 10 ^ 2" "c_day c < 10 ^ 2" "c_hour c < 10 ^ 2"
      "c_min c < 10 ^ 2" "c_sec c < 10 ^ 2"
    by (auto simp: valid_civil_def days_in_month_def split: if_splits)
  let ?s = "format_stamp c"
  have len: "length ?s = 15" by (simp add: format_stamp_def)
  have "take 8 ?s = fixed_digits 4 (c_year c) @ fixed_digits 2 (c_month c) @ fixed_digits 2 (c_day c)"
    "take 6 (drop 9 ?s) = fixed_digits 2 (c_hour c) @ fixed_digits 2 (c_min c) @ fixed_digits 2 (c_sec c)"
    "?s ! 8 = CHR ''-''" "take 4 ?s = fixed_digits 4 (c_year c)"
    "take 2 (drop 4 ?s) = fixed_digits 2 (c_month c)" "take 2 (drop 6 ?s) = fixed_digits 2 (c_day c)"
    "take 2 (drop 9 ?s) = fixed_digits 2 (c_hour c)" "take 2 (drop 11 ?s) = fixed_digits 2 (c_min c)"
    "take 2 (drop 13 ?s) = fixed_digits 2 (c_sec c)" "drop 15 ?s = []"
    by (simp_all add: format_stamp_def nth_append del: fixed_digits.simps)
  moreover have "valid_civil \<lparr>c_year = c_year c, c_month = c_month c, c_day = c_day c, c_hour = c_hour c,
      c_min = c_min c, c_sec = c_sec c\<rparr>" using v by (simp add: valid_civil_def)
  ultimately show ?thesis
    using len v r by (simp add: parse_stamp_def Let_def read_fixed_digits frac_nanos_def del: fixed_digits.simps)
qed

lemma format_stamp_inj: "valid_civil a \<Longrightarrow> valid_civil b \<Longrightarrow> format_stamp a = format_stamp b \<Longrightarrow> a = b"
  by (metis option.inject parse_format_stamp)

lemma format_stamp_length: "length (format_stamp c) = 15"
  by (simp add: format_stamp_def)

lemma format_stamp_chars: "x \<in> set (format_stamp c) \<Longrightarrow> is_digit x \<or> x = CHR ''-''"
  using fixed_digits_digit unfolding format_stamp_def list_all_iff by (auto simp del: fixed_digits.simps)

lemma parse_instant_format: "valid_civil c \<Longrightarrow> parse_instant (format_stamp c) = Some (civil_instant c)"
  by (simp add: parse_instant_def parse_format_stamp frac_nanos_def format_stamp_length)

end
