(* ===== verification/Ach.thy ===== *)
theory Ach
  imports Go_Format
begin

text \<open>
  What the sources read and set of the structures of moov-io/ach, as records: the fields the
  sources never look at are kept in one opaque field each, so that two values with different
  contents stay different. The library's own routines (reader, writer, textual forms,
  flattening, the JSON codecs) are the fields of \<open>ach_lib\<close>, a parameter of the model.
\<close>

record validate_opts =
  SkipAll :: bool
  AllowMissingFileHeader :: bool
  AllowMissingFileControl :: bool
  AllowUnorderedBatchNumbers :: bool
  opts_other :: bytes

record ach_entry =
  entry_ID :: string
  TransactionCode :: int
  Amount :: int
  TraceNumber :: string
  entry_opts :: "validate_opts option"
  entry_other :: bytes

record iat_entry =
  iat_ID :: string
  iat_other :: bytes

record batch_header =
  bh_opts :: "validate_opts option"
  bh_other :: bytes

record ach_batch =
  GetHeader :: batch_header
  GetEntries :: "ach_entry list"

record ach_header =
  ImmediateOrigin :: string
  ImmediateDestination :: string

record ach_control =
  BatchCount :: int
  TotalDebit :: int
  TotalCredit :: int

record ach_file =
  file_ID :: string
  Header :: ach_header
  Control :: ach_control
  Batches :: "ach_batch list"
  IATBatches :: "iat_entry list list"
  NotificationOfChange :: "ach_batch list"
  ReturnEntries :: "ach_batch list"
  GetValidation :: "validate_opts option"
  file_other :: bytes

definition zero_opts :: validate_opts where
  "zero_opts = \<lparr>SkipAll = False, AllowMissingFileHeader = False, AllowMissingFileControl = False,
     AllowUnorderedBatchNumbers = False, opts_other = []\<rparr>"

text \<open>
  \<open>Read\<close> gives a file even when it fails; \<open>opts_Decode\<close> gives no options for the JSON \<open>null\<close>.
\<close>

record ach_lib =
  ach_Write :: "ach_file \<Rightarrow> err + bytes"
  ach_Read :: "validate_opts option \<Rightarrow> bytes \<Rightarrow> ach_file \<times> err option"
  FlattenBatches_ach :: "ach_file \<Rightarrow> err + ach_file"
  BatchHeader_String :: "batch_header \<Rightarrow> string"
  Entry_String :: "ach_entry \<Rightarrow> string"
  IATEntry_String :: "iat_entry \<Rightarrow> string"
  opts_Encode :: "validate_opts \<Rightarrow> err + bytes"
  opts_Decode :: "bytes \<Rightarrow> err + validate_opts option"
  FileFromJSON :: "bytes \<Rightarrow> err + ach_file option"
  NewFile :: ach_file
  NewBatchHeader :: batch_header
  NewEntryDetail :: ach_entry

text \<open>The conditions under which files are merged are passed through unread.\<close>

record conditions =
  cond_other :: bytes

definition zero_conditions :: conditions where
  "zero_conditions = \<lparr>cond_other = []\<rparr>"

end
