(* ===== verification/Service_Config.thy ===== *)
theory Service_Config
  imports Ach Storage
begin

text \<open>
  The configuration (\<open>internal/service\<close>, \<open>pkg/models/model_transform.go\<close>,
  \<open>internal/mask\<close>): the records, their validation, lookups and defaults, and the masking of
  passwords wherever a configuration is printed. A pointer field is an option. Whether a
  time zone exists is decided by the machine's tz database, the parameter \<open>tz\<close>.
\<close>

section \<open>Masking\<close>

text \<open>Runes of a UTF-8 string: bytes that do not continue an earlier one (for valid strings).\<close>

definition rune_count :: "string \<Rightarrow> nat" where
  "rune_count s = length (filter (\<lambda>c. let n = of_char c :: nat in n < 128 \<or> n \<ge> 192) s)"

definition mask_Password :: "string \<Rightarrow> string" where
  "mask_Password s =
     (if rune_count s < 3 then ''**''
      else take 1 s @ replicate (length s - 2) (CHR ''*'') @ drop (length s - 1) s)"

section \<open>Shared parts\<close>

record AESConfig = aes_Key :: string
record EncodingConfig =
  enc_Base64 :: bool
  enc_Compress :: bool
record EncryptionConfig = enc_AES :: "AESConfig option"
record TransformConfig =
  Encoding :: "EncodingConfig option"
  Encryption :: "EncryptionConfig option"

record Signer =
  sg_KeyFile :: string
  sg_KeyPassword :: string
record GPG =
  gpg_KeyFile :: string
  gpg_Signer :: "Signer option"
record AuditTrail =
  au_ID :: string
  au_BucketURI :: string
  au_BasePath :: string
  au_GPG :: "GPG option"

definition AuditTrail_Validate :: "AuditTrail option \<Rightarrow> err option" where
  "AuditTrail_Validate cfg =
     (case cfg of None \<Rightarrow> None
      | Some a \<Rightarrow> if au_BucketURI a = [] then Some (errors_New ''missing bucket_uri'') else None)"

text \<open>The environment variable \<open>PIPELINE_SIGNING_KEY_PASSWORD\<close> wins over the file.\<close>

definition Signer_Password :: "string \<Rightarrow> Signer \<Rightarrow> string" where
  "Signer_Password env cfg = strx_Or [env, sg_KeyPassword cfg]"

definition Signer_Aux :: "string \<Rightarrow> Signer \<Rightarrow> Signer" where
  "Signer_Aux env cfg = cfg\<lparr>sg_KeyPassword := mask_Password (Signer_Password env cfg)\<rparr>"

definition AESConfig_Aux :: "AESConfig \<Rightarrow> AESConfig" where
  "AESConfig_Aux cfg = cfg\<lparr>aes_Key := mask_Password (aes_Key cfg)\<rparr>"

section \<open>Upload agents\<close>

record FTP =
  ftp_Hostname :: string
  ftp_Username :: string
  ftp_Password :: string
  ftp_CAFilepath :: string
  ftp_DialTimeout :: duration
  ftp_DisabledEPSV :: bool

record SFTP =
  sftp_Hostname :: string
  sftp_Username :: string
  sftp_Password :: string
  sftp_ClientPrivateKey :: string
  sftp_ClientPrivateKeyFile :: string
  sftp_HostPublicKey :: string
  sftp_DialTimeout :: duration
  sftp_MaxConnectionsPerFile :: int
  sftp_MaxPacketSize :: int
  sftp_SkipDirectoryCreation :: bool
  sftp_SkipChmodAfterUpload :: bool

record UploadPaths =
  Inbound :: string
  Outbound :: string
  Reconciliation :: string
  Return :: string

record UploadNotifiers =
  un_Email :: "string list"
  un_PagerDuty :: "string list"
  un_Slack :: "string list"

record UploadAgent =
  ag_ID :: string
  ag_FTP :: "FTP option"
  ag_SFTP :: "SFTP option"
  ag_Mock :: bool
  ag_Paths :: UploadPaths
  ag_Notifications :: "UploadNotifiers option"
  ag_AllowedIPs :: string

record UploadRetry =
  rt_Interval :: duration
  rt_MaxRetries :: nat   \<comment> \<open>\<open>uint64\<close>; only compared with zero and counted down\<close>

record CleanupConfig =
  cl_Enabled :: bool
  cl_RetentionDuration :: duration
  cl_CheckInterval :: duration

record Merging_cfg =
  mg_Storage :: storage_config
  mg_Directory :: string
  mg_Cleanup :: "CleanupConfig option"

record UploadAgents =
  ua_Agents :: "UploadAgent list"
  ua_Merging :: Merging_cfg
  ua_Retry :: "UploadRetry option"
  ua_DefaultAgentID :: string

definition UploadAgents_Find :: "UploadAgents \<Rightarrow> string \<Rightarrow> UploadAgent option" where
  "UploadAgents_Find ua i = find (\<lambda>a. ag_ID a = i) (ua_Agents ua)"

definition SplitAllowedIPs :: "UploadAgent \<Rightarrow> string list" where
  "SplitAllowedIPs cfg = (if ag_AllowedIPs cfg \<noteq> [] then SplitChar (CHR '','') (ag_AllowedIPs cfg) else [])"

definition FTP_Aux :: "FTP \<Rightarrow> FTP" where
  "FTP_Aux cfg = cfg\<lparr>ftp_Password := mask_Password (ftp_Password cfg)\<rparr>"

definition FTP_CAFile :: "FTP option \<Rightarrow> string" where
  "FTP_CAFile cfg = (case cfg of None \<Rightarrow> [] | Some c \<Rightarrow> ftp_CAFilepath c)"

definition FTP_Timeout :: "FTP option \<Rightarrow> duration" where
  "FTP_Timeout cfg =
     (case cfg of None \<Rightarrow> 10 * second
      | Some c \<Rightarrow> if ftp_DialTimeout c = 0 then 10 * second else ftp_DialTimeout c)"

definition FTP_DisableEPSV :: "FTP option \<Rightarrow> bool" where
  "FTP_DisableEPSV cfg = (case cfg of None \<Rightarrow> False | Some c \<Rightarrow> ftp_DisabledEPSV c)"

definition FTP_String :: "FTP \<Rightarrow> string" where
  "FTP_String cfg = ''FTP{Hostname='' @ ftp_Hostname cfg @ '', Username='' @ ftp_Username cfg @
     '', Password='' @ mask_Password (ftp_Password cfg) @ ''}''"

definition SFTP_Aux :: "SFTP \<Rightarrow> SFTP" where
  "SFTP_Aux cfg = cfg\<lparr>sftp_Password := mask_Password (sftp_Password cfg)\<rparr>"

definition SFTP_Timeout :: "SFTP option \<Rightarrow> duration" where
  "SFTP_Timeout cfg =
     (case cfg of None \<Rightarrow> 10 * second
      | Some c \<Rightarrow> if sftp_DialTimeout c = 0 then 10 * second else sftp_DialTimeout c)"

definition SFTP_MaxConnections :: "SFTP option \<Rightarrow> int" where
  "SFTP_MaxConnections cfg =
     (case cfg of None \<Rightarrow> 1
      | Some c \<Rightarrow> if sftp_MaxConnectionsPerFile c = 0 then 1 else sftp_MaxConnectionsPerFile c)"

definition SFTP_PacketSize :: "SFTP option \<Rightarrow> int" where
  "SFTP_PacketSize cfg =
     (case cfg of None \<Rightarrow> 20480
      | Some c \<Rightarrow> if sftp_MaxPacketSize c = 0 then 20480 else sftp_MaxPacketSize c)"

definition show_bool :: "bool \<Rightarrow> string" where
  "show_bool b = (if b then ''true'' else ''false'')"

definition SFTP_String :: "SFTP \<Rightarrow> string" where
  "SFTP_String cfg = ''SFTP{Hostname='' @ sftp_Hostname cfg @ '', Username='' @ sftp_Username cfg @
     '', Password='' @ mask_Password (sftp_Password cfg) @
     '', ClientPrivateKey:'' @ show_bool (sftp_ClientPrivateKey cfg \<noteq> []) @
     '', ClientPrivateKeyFile:'' @ show_bool (sftp_ClientPrivateKeyFile cfg \<noteq> []) @
     '', HostPublicKey:'' @ show_bool (sftp_HostPublicKey cfg \<noteq> []) @ ''}, ''"

definition CleanupConfig_Validate :: "CleanupConfig option \<Rightarrow> err option" where
  "CleanupConfig_Validate cfg =
     (case cfg of None \<Rightarrow> None
      | Some c \<Rightarrow>
          if \<not> cl_Enabled c then None
          else if cl_RetentionDuration c \<le> 0 then
            Some (errors_New (''cleanup retention duration must be positive, got '' @ show_duration (cl_RetentionDuration c)))
          else if cl_CheckInterval c \<le> 0 then
            Some (errors_New (''cleanup check interval must be positive, got '' @ show_duration (cl_CheckInterval c)))
          else if cl_CheckInterval c > cl_RetentionDuration c then
            Some (errors_New (''cleanup check interval ('' @ show_duration (cl_CheckInterval c) @
              '') should not be greater than retention duration ('' @ show_duration (cl_RetentionDuration c) @ '')''))
          else None)"

definition Merging_Validate :: "Merging_cfg \<Rightarrow> err option" where
  "Merging_Validate m = (if mg_Cleanup m \<noteq> None then CleanupConfig_Validate (mg_Cleanup m) else None)"

definition UploadRetry_Validate :: "UploadRetry option \<Rightarrow> err option" where
  "UploadRetry_Validate cfg =
     (case cfg of None \<Rightarrow> None
      | Some c \<Rightarrow>
          if rt_Interval c \<le> 0 then Some (errors_New (''unexpected '' @ show_int (rt_Interval c) @ '' interval''))
          else if rt_MaxRetries c \<le> 0 then
            Some (errors_New (''unexpected '' @ show_nat (rt_MaxRetries c) @ '' max retries''))
          else None)"

definition UploadAgents_Validate :: "UploadAgents \<Rightarrow> err option" where
  "UploadAgents_Validate ua =
     (case UploadRetry_Validate (ua_Retry ua) of
        Some e \<Rightarrow> Some (errorf_v ''retry: '' e)
      | None \<Rightarrow> (case Merging_Validate (ua_Merging ua) of
                   Some e \<Rightarrow> Some (errorf_v ''merging: '' e) | None \<Rightarrow> None))"

section \<open>Inbound files\<close>

record HTTPConfig =
  http_BindAddress :: string
  http_CertFile :: string
  http_KeyFile :: string
  http_Transform :: "TransformConfig option"
  http_MaxBodyBytes :: int

record InMemory = im_URL :: string

record AWSConfig =
  aws_Region :: string
  aws_Profile :: string
  aws_RoleARN :: string
  aws_SessionName :: string

record KafkaProvider = prov_AWS :: "AWSConfig option"

record KafkaConfig =
  kf_Brokers :: "string list"
  kf_Key :: string
  kf_Secret :: string
  kf_Group :: string
  kf_Topic :: string
  kf_TLS :: bool
  kf_AutoCommit :: bool
  kf_SASLMechanism :: string
  kf_Provider :: "KafkaProvider option"
  kf_MaxMessageBytes :: int   \<comment> \<open>the producer's only setting; the consumer has none\<close>
  kf_Transform :: "TransformConfig option"

record ODFICorrections =
  cor_Enabled :: bool
  cor_PathMatcher :: string
record ODFIIncoming =
  inc_Enabled :: bool
  inc_PathMatcher :: string
  ExcludeCorrections :: bool
  ExcludePrenotes :: bool
  ExcludeReturns :: bool
  ExcludeReconciliations :: bool
record ODFIReconciliation =
  rec_Enabled :: bool
  rec_PathMatcher :: string
  ProduceFileEvents :: bool
  ProduceEntryEvents :: bool
record ODFIPrenotes =
  pre_Enabled :: bool
  pre_PathMatcher :: string
record ODFIReturns =
  ret_Enabled :: bool
  ret_PathMatcher :: string
record ODFIProcessors =
  Corrections :: ODFICorrections
  Incoming :: ODFIIncoming
  Recon :: ODFIReconciliation
  Prenotes :: ODFIPrenotes
  Returns :: ODFIReturns
  Validation :: validate_opts
record ODFIStorage =
  st_Directory :: string
  CleanupLocalDirectory :: bool
  KeepRemoteFiles :: bool
  RemoveZeroByteFiles :: bool
record ODFIFiles =
  od_Processors :: ODFIProcessors
  od_Interval :: duration
  od_ShardNames :: "string list"
  od_Storage :: ODFIStorage
  od_Audit :: "AuditTrail option"

record Inbound_cfg =
  in_HTTP :: HTTPConfig
  in_InMem :: "InMemory option"
  in_Kafka :: "KafkaConfig option"
  in_ODFI :: "ODFIFiles option"
  in_Audit :: "AuditTrail option"

definition InMemory_Validate :: "InMemory option \<Rightarrow> err option" where
  "InMemory_Validate cfg =
     (case cfg of None \<Rightarrow> None
      | Some c \<Rightarrow> if im_URL c = [] then Some (errors_New ''missing URL'') else None)"

definition KafkaConfig_Validate :: "KafkaConfig option \<Rightarrow> err option" where
  "KafkaConfig_Validate cfg =
     (case cfg of None \<Rightarrow> None
      | Some c \<Rightarrow>
          if length (kf_Brokers c) = 0 then Some (errors_New ''missing brokers'')
          else if kf_Topic c = [] then Some (errors_New ''missing topic'')
          else None)"

definition ODFIProcessors_Validate :: "ODFIProcessors \<Rightarrow> err option" where
  "ODFIProcessors_Validate cfg = None"

definition ODFIFiles_Validate :: "ODFIFiles option \<Rightarrow> err option" where
  "ODFIFiles_Validate cfg =
     (case cfg of None \<Rightarrow> None
      | Some c \<Rightarrow>
          (case ODFIProcessors_Validate (od_Processors c) of
             Some e \<Rightarrow> Some (errorf_v ''processors: '' e)
           | None \<Rightarrow>
               if od_Interval c \<le> 0 then Some (errors_New ''invalid interval'')
               else if length (od_ShardNames c) = 0 then Some (errors_New ''missing shard names'')
               else None))"

definition Inbound_Validate :: "Inbound_cfg \<Rightarrow> err option" where
  "Inbound_Validate cfg =
     (case InMemory_Validate (in_InMem cfg) of
        Some e \<Rightarrow> Some (errorf_v ''inmem: '' e)
      | None \<Rightarrow>
          (case KafkaConfig_Validate (in_Kafka cfg) of
             Some e \<Rightarrow> Some (errorf_v ''kafka: '' e)
           | None \<Rightarrow>
               (case ODFIFiles_Validate (in_ODFI cfg) of
                  Some e \<Rightarrow> Some (errorf_v ''odfi: '' e) | None \<Rightarrow> None)))"

section \<open>Shards\<close>

record Cutoffs =
  cut_Timezone :: string
  cut_Windows :: "string list"
  cut_On :: string

record PreUpload = pu_GPG :: "GPG option"

record MergableConfig =
  mc_Conditions :: "conditions option"
  mc_FlattenBatches :: bool

record Output_cfg = out_Format :: string

record Email =
  em_ID :: string
  em_From :: string
  em_To :: "string list"
  em_ConnectionURI :: string
  em_MaxRetries :: int
  em_Template :: string
  em_CompanyName :: string

record PagerDuty =
  pd_ID :: string
  pd_ApiKey :: string
  pd_From :: string
  pd_ServiceKey :: string

record Slack =
  sl_ID :: string
  sl_WebhookURL :: string

record NotificationRetries =
  nr_Interval :: duration
  nr_MaxRetries :: nat

record Notifications =
  nt_Email :: "Email list"
  nt_PagerDuty :: "PagerDuty list"
  nt_Slack :: "Slack list"
  nt_Retry :: "NotificationRetries option"

record Shard =
  sh_Name :: string
  sh_Cutoffs :: Cutoffs
  sh_PreUpload :: "PreUpload option"
  sh_UploadAgent :: string
  sh_Mergable :: MergableConfig
  sh_OutboundFilenameTemplate :: string
  sh_Output :: "Output_cfg option"
  sh_Notifications :: "Notifications option"
  sh_Audit :: "AuditTrail option"

record ShardMapping =
  ShardKey :: string
  ShardName :: string

record Sharding =
  Shards :: "Shard list"
  Mappings :: "ShardMapping list"
  Default :: string

definition Sharding_Find :: "Sharding \<Rightarrow> string \<Rightarrow> Shard option" where
  "Sharding_Find cfg name = find (\<lambda>s. EqualFold (sh_Name s) name) (Shards cfg)"

definition Cutoffs_Validate :: "(string \<Rightarrow> bool) \<Rightarrow> Cutoffs \<Rightarrow> err option" where
  "Cutoffs_Validate tz cfg =
     (if \<not> tz (cut_Timezone cfg) then
        Some (errors_New (''unknown Timezone='' @ [CHR 0x22] @ cut_Timezone cfg @ [CHR 0x22]))
      else if length (cut_Windows cfg) = 0 then Some (errors_New ''no windows'')
      else None)"

definition PreUpload_Validate :: "PreUpload option \<Rightarrow> err option" where
  "PreUpload_Validate cfg =
     (case cfg of None \<Rightarrow> None
      | Some c \<Rightarrow>
          (case pu_GPG c of
             Some g \<Rightarrow> if gpg_KeyFile g = [] then Some (errors_New ''gpg: missing key file'') else None
           | None \<Rightarrow> None))"

definition Output_Validate :: "Output_cfg option \<Rightarrow> err option" where
  "Output_Validate cfg = None"

definition DefaultFilenameTemplate :: string where
  "DefaultFilenameTemplate = ''{{ date '' @ [CHR 0x22] @ ''20060102'' @ [CHR 0x22] @ '' }}-{{ date '' @
     [CHR 0x22] @ ''150405'' @ [CHR 0x22] @
     '' }}-{{ .RoutingNumber }}-{{ .Index }}.ach{{ if .GPG }}.gpg{{ end }}''"

definition FilenameTemplate :: "Shard option \<Rightarrow> string" where
  "FilenameTemplate cfg =
     (case cfg of
        None \<Rightarrow> TrimSpace DefaultFilenameTemplate
      | Some c \<Rightarrow> if sh_OutboundFilenameTemplate c = [] then TrimSpace DefaultFilenameTemplate
                  else TrimSpace (sh_OutboundFilenameTemplate c))"

definition ShardMapping_Validate :: "ShardMapping option \<Rightarrow> err option" where
  "ShardMapping_Validate m =
     (case m of None \<Rightarrow> None
      | Some c \<Rightarrow>
          if ShardKey c = [] then Some (errors_New ''missing shard key'')
          else if ShardName c = [] then Some (errors_New ''missing shard name'')
          else None)"

section \<open>Notifications\<close>

text \<open>For each wanted id, every configured target with that id, in both orders.\<close>

definition find_ids :: "('c \<Rightarrow> string) \<Rightarrow> 'c list \<Rightarrow> string list \<Rightarrow> 'c list" where
  "find_ids name cs ids = concat (map (\<lambda>i. filter (\<lambda>c. EqualFold i (name c)) cs) ids)"

definition FindEmails :: "Notifications \<Rightarrow> string list \<Rightarrow> Email list" where
  "FindEmails cfg ids = find_ids em_ID (nt_Email cfg) ids"

definition FindPagerDutys :: "Notifications \<Rightarrow> string list \<Rightarrow> PagerDuty list" where
  "FindPagerDutys cfg ids = find_ids pd_ID (nt_PagerDuty cfg) ids"

definition FindSlacks :: "Notifications \<Rightarrow> string list \<Rightarrow> Slack list" where
  "FindSlacks cfg ids = find_ids sl_ID (nt_Slack cfg) ids"

definition PagerDuty_Validate :: "PagerDuty \<Rightarrow> err option" where
  "PagerDuty_Validate cfg =
     (if pd_ID cfg = [] then Some (errors_New ''pagerduty: missing id'')
      else if pd_ApiKey cfg = [] then Some (errors_New ''pagerduty: missing apiKey'')
      else None)"

definition Slack_Validate :: "Slack \<Rightarrow> err option" where
  "Slack_Validate cfg =
     (if sl_ID cfg = [] then Some (errors_New ''slack: missing id'')
      else if sl_WebhookURL cfg = [] then Some (errors_New ''slack: missing webhook url'')
      else None)"

text \<open>The first error of a loop that returns at the first one.\<close>

fun first_err :: "('a \<Rightarrow> err option) \<Rightarrow> 'a list \<Rightarrow> err option" where
  "first_err f [] = None"
| "first_err f (x # xs) = (case f x of Some e \<Rightarrow> Some e | None \<Rightarrow> first_err f xs)"

definition Email_missing :: "Email \<Rightarrow> err option" where
  "Email_missing e =
     (if em_From e = [] \<or> length (em_To e) = 0 \<or> em_ConnectionURI e = [] \<or> em_CompanyName e = []
      then Some (errors_New ''email: missing configs'') else None)"

definition Notifications_Validate :: "Notifications \<Rightarrow> err option" where
  "Notifications_Validate cfg =
     (case first_err Email_missing (nt_Email cfg) of
        Some e \<Rightarrow> Some e
      | None \<Rightarrow>
          (case first_err PagerDuty_Validate (nt_PagerDuty cfg) of
             Some e \<Rightarrow> Some e
           | None \<Rightarrow> first_err Slack_Validate (nt_Slack cfg)))"

section \<open>Validating a shard and the whole configuration\<close>

text \<open>
  \<open>Notifications.Validate\<close> has a value receiver and \<open>Shard.Validate\<close> calls it through the
  shard's pointer: on a shard without a notification section Go panics. The result of
  whatever reaches that call is a \<open>checked\<close> value.
\<close>

datatype checked = Panics | Returns_err "err option"

definition Shard_Validate :: "(string \<Rightarrow> bool) \<Rightarrow> Shard \<Rightarrow> checked" where
  "Shard_Validate tz cfg =
     (if sh_Name cfg = [] then Returns_err (Some (errors_New ''missing name''))
      else case Cutoffs_Validate tz (sh_Cutoffs cfg) of
        Some e \<Rightarrow> Returns_err (Some (errorf_v ''cutoffs: '' e))
      | None \<Rightarrow>
          (case PreUpload_Validate (sh_PreUpload cfg) of
             Some e \<Rightarrow> Returns_err (Some (errorf_v ''preupload: '' e))
           | None \<Rightarrow>
               if sh_UploadAgent cfg = [] then Returns_err (Some (errors_New ''missing upload agent''))
               else (case Output_Validate (sh_Output cfg) of
                  Some e \<Rightarrow> Returns_err (Some (errorf_v ''output: '' e))
                | None \<Rightarrow>
                    (case sh_Notifications cfg of
                       None \<Rightarrow> Panics
                     | Some n \<Rightarrow>
                         (case Notifications_Validate n of
                            Some e \<Rightarrow> Returns_err (Some (errorf_v ''notifications: '' e))
                          | None \<Rightarrow>
                              (case AuditTrail_Validate (sh_Audit cfg) of
                                 Some e \<Rightarrow> Returns_err (Some (errorf_v ''audit: '' e))
                               | None \<Rightarrow> Returns_err None))))))"

fun shards_validate :: "(string \<Rightarrow> bool) \<Rightarrow> nat \<Rightarrow> Shard list \<Rightarrow> checked" where
  "shards_validate tz i [] = Returns_err None"
| "shards_validate tz i (s # ss) =
     (case Shard_Validate tz s of
        Panics \<Rightarrow> Panics
      | Returns_err (Some e) \<Rightarrow> Returns_err (Some (errorf_v (''shard['' @ show_nat i @ '']: '') e))
      | Returns_err None \<Rightarrow> shards_validate tz (Suc i) ss)"

definition Sharding_Validate :: "(string \<Rightarrow> bool) \<Rightarrow> Sharding \<Rightarrow> checked" where
  "Sharding_Validate tz cfg = shards_validate tz 0 (Shards cfg)"

record PagerDutyAlerting =
  pda_ApiKey :: string
  pda_RoutingKey :: string
record SlackAlerting =
  sla_AccessToken :: string
  sla_ChannelID :: string
record ErrorAlerting =
  ea_PagerDuty :: "PagerDutyAlerting option"
  ea_Slack :: "SlackAlerting option"

definition PagerDutyAlerting_Validate :: "PagerDutyAlerting \<Rightarrow> err option" where
  "PagerDutyAlerting_Validate cfg =
     (if pda_ApiKey cfg = [] then Some (errors_New ''pagerduty error alerting: apiKey is missing'')
      else if pda_RoutingKey cfg = [] then Some (errors_New ''pagerduty error alerting: routingKey is missing'')
      else None)"

definition SlackAlerting_Validate :: "SlackAlerting \<Rightarrow> err option" where
  "SlackAlerting_Validate cfg =
     (if sla_AccessToken cfg = [] then Some (errors_New ''slack error alerting: access token is missing'') else None)"

definition ErrorAlerting_Validate :: "ErrorAlerting \<Rightarrow> err option" where
  "ErrorAlerting_Validate n =
     (case ea_PagerDuty n of
        None \<Rightarrow> None
      | Some p \<Rightarrow> (case PagerDutyAlerting_Validate p of
                     Some e \<Rightarrow> Some (errorf_v ''pager duty config: '' e) | None \<Rightarrow> None))"

record WebhookConfig = wh_Endpoint :: string
record EventsStream =
  es_InMem :: "InMemory option"
  es_Kafka :: "KafkaConfig option"
record EventsConfig =
  ev_Stream :: "EventsStream option"
  ev_Webhook :: "WebhookConfig option"
  ev_Transform :: "TransformConfig option"

definition WebhookConfig_Validate :: "WebhookConfig option \<Rightarrow> err option" where
  "WebhookConfig_Validate cfg =
     (case cfg of None \<Rightarrow> None
      | Some c \<Rightarrow> if wh_Endpoint c = [] then Some (errors_New ''missing endpoint'') else None)"

definition EventsStream_Validate :: "EventsStream option \<Rightarrow> err option" where
  "EventsStream_Validate cfg =
     (case cfg of None \<Rightarrow> None | Some c \<Rightarrow> KafkaConfig_Validate (es_Kafka c))"

definition EventsConfig_Validate :: "EventsConfig option \<Rightarrow> err option" where
  "EventsConfig_Validate cfg =
     (case cfg of None \<Rightarrow> None
      | Some c \<Rightarrow> (case EventsStream_Validate (ev_Stream c) of
                     Some e \<Rightarrow> Some e | None \<Rightarrow> WebhookConfig_Validate (ev_Webhook c)))"

definition Admin_Validate :: "string \<Rightarrow> err option" where
  "Admin_Validate bindAddress = None"

record Config =
  cf_Admin :: string
  cf_Inbound :: Inbound_cfg
  cf_Events :: "EventsConfig option"
  cf_Sharding :: Sharding
  cf_Upload :: UploadAgents
  cf_Errors :: ErrorAlerting

definition Config_Validate :: "(string \<Rightarrow> bool) \<Rightarrow> Config \<Rightarrow> checked" where
  "Config_Validate tz cfg =
     (case Admin_Validate (cf_Admin cfg) of
        Some e \<Rightarrow> Returns_err (Some (errorf_v ''admin: '' e))
      | None \<Rightarrow>
     (case Inbound_Validate (cf_Inbound cfg) of
        Some e \<Rightarrow> Returns_err (Some (errorf_v ''inbound: '' e))
      | None \<Rightarrow>
     (case EventsConfig_Validate (cf_Events cfg) of
        Some e \<Rightarrow> Returns_err (Some (errorf_v ''events: '' e))
      | None \<Rightarrow>
     (case Sharding_Validate tz (cf_Sharding cfg) of
        Panics \<Rightarrow> Panics
      | Returns_err (Some e) \<Rightarrow> Returns_err (Some (errorf_v ''sharding: '' e))
      | Returns_err None \<Rightarrow>
     (case UploadAgents_Validate (cf_Upload cfg) of
        Some e \<Rightarrow> Returns_err (Some (errorf_v ''upload: '' e))
      | None \<Rightarrow>
     (case ErrorAlerting_Validate (cf_Errors cfg) of
        Some e \<Rightarrow> Returns_err (Some (errorf_v ''errors: '' e))
      | None \<Rightarrow> Returns_err None))))))"

section \<open>What validation establishes\<close>

definition shard_valid :: "(string \<Rightarrow> bool) \<Rightarrow> Shard \<Rightarrow> bool" where
  "shard_valid tz s \<longleftrightarrow> sh_Name s \<noteq> [] \<and> tz (cut_Timezone (sh_Cutoffs s)) \<and> cut_Windows (sh_Cutoffs s) \<noteq> [] \<and>
     PreUpload_Validate (sh_PreUpload s) = None \<and> sh_UploadAgent s \<noteq> [] \<and>
     (\<exists>n. sh_Notifications s = Some n \<and> Notifications_Validate n = None) \<and> AuditTrail_Validate (sh_Audit s) = None"

lemma Shard_Validate_iff: "Shard_Validate tz s = Returns_err None \<longleftrightarrow> shard_valid tz s"
  by (auto simp: Shard_Validate_def shard_valid_def Cutoffs_Validate_def Output_Validate_def
      split: option.splits if_splits)

lemma shards_validate_iff: "shards_validate tz i ss = Returns_err None \<longleftrightarrow> list_all (shard_valid tz) ss"
  by (induction ss arbitrary: i) (auto simp: Shard_Validate_iff[symmetric] split: checked.splits option.splits)

lemma first_err_None: "first_err f xs = None \<longleftrightarrow> list_all (\<lambda>x. f x = None) xs"
  by (induction xs) (auto split: option.splits)

lemma find_ids_set:
  "c \<in> set (find_ids name cs ids) \<longleftrightarrow> c \<in> set cs \<and> (\<exists>i\<in>set ids. EqualFold i (name c))"
  by (auto simp: find_ids_def)

lemma UploadAgents_Find_Some:
  "UploadAgents_Find ua i = Some a \<Longrightarrow> a \<in> set (ua_Agents ua) \<and> ag_ID a = i"
  by (auto simp: UploadAgents_Find_def find_Some_iff)

lemma UploadAgents_Find_None:
  "UploadAgents_Find ua i = None \<longleftrightarrow> (\<forall>a\<in>set (ua_Agents ua). ag_ID a \<noteq> i)"
  by (auto simp: UploadAgents_Find_def find_None_iff)

lemma mask_Password_length: "rune_count s \<ge> 3 \<Longrightarrow> length (mask_Password s) = length s"
proof -
  assume r: "rune_count s \<ge> 3"
  have "rune_count s \<le> length s" by (simp add: rune_count_def)
  with r show ?thesis by (simp add: mask_Password_def)
qed

end
