(* ===== verification/Models.thy ===== *)
theory Models
  imports Service_Config
begin

text \<open>
  The messages and events (\<open>pkg/models/events.go\<close>, \<open>internal/incoming/models.go\<close>): their
  payloads, the dispatch of \<open>Read\<close> on the type name, the validation options it installs, and
  the type name an event is sent with. JSON itself is the parameter \<open>json_lib\<close>.
\<close>

record queue_file =
  FileID :: string
  FileShardKey :: string
  File :: "ach_file option"

record queue_response =
  qr_FileID :: string
  qr_ShardKey :: string
  qr_Error :: string

record cancel_file =
  cancel_FileID :: string
  cancel_ShardKey :: string

record cancel_response =
  resp_FileID :: string
  resp_ShardKey :: string
  Successful :: bool

definition ACHFile_Validate :: "queue_file \<Rightarrow> err option" where
  "ACHFile_Validate f =
     (if FileID f = [] then Some (errors_New ''missing fileID'')
      else if FileShardKey f = [] then Some (errors_New ''missing shardKey'')
      else if File f = None then Some (errors_New ''missing File'')
      else None)"

record model_batch =
  mb_Header :: batch_header
  mb_Entries :: "ach_entry list"

record file_uploaded =
  up_FileID :: string
  up_ShardKey :: string
  up_Filename :: string
  UploadedAt :: int

record correction_file =
  co_Filename :: string
  co_File :: "ach_file option"
  co_Corrections :: "model_batch list"

record incoming_file =
  ic_Filename :: string
  ic_File :: "ach_file option"

record prenote_file =
  pn_Filename :: string
  pn_File :: "ach_file option"
  pn_Batches :: "model_batch list"

record reconciliation_file =
  rf_Filename :: string
  rf_File :: "ach_file option"
  rf_Reconciliations :: "model_batch list"

record return_file =
  rt_Filename :: string
  rt_File :: "ach_file option"
  rt_Returns :: "model_batch list"

record recon_entry =
  re_Filename :: string
  re_Header :: "batch_header option"
  re_Entry :: "ach_entry option"

record invalid_file =
  iv_File :: queue_file
  iv_Error :: string
  iv_Hostname :: string

record notify_event =
  ne_Direction :: string
  ne_FileName :: string
  ne_Entries :: int
  ne_DebitTotal :: string
  ne_CreditTotal :: string
  ne_Hostname :: string
  ne_UploadStatus :: string

datatype payload =
    CorrectionFile correction_file
  | IncomingFile incoming_file
  | PrenoteFile prenote_file
  | ReconciliationEntry recon_entry
  | ReconciliationFile reconciliation_file
  | ReturnFile return_file
  | QueueACHFile queue_file
  | InvalidQueueFile invalid_file
  | CancelACHFile cancel_file
  | FileCancellationResponse cancel_response
  | FileUploaded file_uploaded
  | NotifierEvent notify_event

text \<open>\<open>reflect.TypeOf(evt.Event).Name()\<close> for the values (not pointers) the sources send.\<close>

fun payload_type :: "payload \<Rightarrow> string" where
  "payload_type (CorrectionFile _) = ''CorrectionFile''"
| "payload_type (IncomingFile _) = ''IncomingFile''"
| "payload_type (PrenoteFile _) = ''PrenoteFile''"
| "payload_type (ReconciliationEntry _) = ''ReconciliationEntry''"
| "payload_type (ReconciliationFile _) = ''ReconciliationFile''"
| "payload_type (ReturnFile _) = ''ReturnFile''"
| "payload_type (QueueACHFile _) = ''QueueACHFile''"
| "payload_type (InvalidQueueFile _) = ''InvalidQueueFile''"
| "payload_type (CancelACHFile _) = ''CancelACHFile''"
| "payload_type (FileCancellationResponse _) = ''FileCancellationResponse''"
| "payload_type (FileUploaded _) = ''FileUploaded''"
| "payload_type (NotifierEvent _) = ''event''"

text \<open>
  \<open>encoding/json\<close>: \<open>json_envelope\<close> reads the type name and leaves the event raw,
  \<open>json_into\<close> fills a payload with the raw JSON (the payload keeps what was read before an
  error), \<open>json_event\<close> writes an event with its type name.
\<close>

record json_lib =
  json_envelope :: "bytes \<Rightarrow> err + string \<times> bytes"
  json_into :: "bytes \<Rightarrow> payload \<Rightarrow> payload \<times> err option"
  json_nil_error :: err
  json_event :: "payload \<Rightarrow> string \<Rightarrow> err + bytes"

definition Event_MarshalJSON :: "json_lib \<Rightarrow> payload \<Rightarrow> err + bytes" where
  "Event_MarshalJSON J evt = json_event J evt (payload_type evt)"

text \<open>The encoder ends what it writes with a newline, and writes nothing on an error, which is dropped.\<close>

definition Event_Bytes :: "json_lib \<Rightarrow> payload \<Rightarrow> bytes" where
  "Event_Bytes J evt = (case Event_MarshalJSON J evt of Inl _ \<Rightarrow> [] | Inr bs \<Rightarrow> bs @ [CHR 0x0A])"

section \<open>Validation options\<close>

definition set_file_opts :: "ach_lib \<Rightarrow> validate_opts option \<Rightarrow> ach_file option \<Rightarrow> ach_file option" where
  "set_file_opts L opts f =
     Some ((case f of None \<Rightarrow> NewFile L | Some x \<Rightarrow> x)\<lparr>GetValidation := opts\<rparr>)"

definition CorrectionFile_SetValidation :: "ach_lib \<Rightarrow> validate_opts option \<Rightarrow> correction_file \<Rightarrow> correction_file" where
  "CorrectionFile_SetValidation L opts evt = evt\<lparr>co_File := set_file_opts L opts (co_File evt)\<rparr>"

definition IncomingFile_SetValidation :: "ach_lib \<Rightarrow> validate_opts option \<Rightarrow> incoming_file \<Rightarrow> incoming_file" where
  "IncomingFile_SetValidation L opts evt = evt\<lparr>ic_File := set_file_opts L opts (ic_File evt)\<rparr>"

definition PrenoteFile_SetValidation :: "ach_lib \<Rightarrow> validate_opts option \<Rightarrow> prenote_file \<Rightarrow> prenote_file" where
  "PrenoteFile_SetValidation L opts evt = evt\<lparr>pn_File := set_file_opts L opts (pn_File evt)\<rparr>"

definition ReconciliationEntry_SetValidation :: "ach_lib \<Rightarrow> validate_opts option \<Rightarrow> recon_entry \<Rightarrow> recon_entry" where
  "ReconciliationEntry_SetValidation L opts evt =
     evt\<lparr>re_Header := Some ((case re_Header evt of None \<Rightarrow> NewBatchHeader L | Some h \<Rightarrow> h)\<lparr>bh_opts := opts\<rparr>),
         re_Entry := Some ((case re_Entry evt of None \<Rightarrow> NewEntryDetail L | Some e \<Rightarrow> e)\<lparr>entry_opts := opts\<rparr>)\<rparr>"

definition ReconciliationFile_SetValidation :: "ach_lib \<Rightarrow> validate_opts option \<Rightarrow> reconciliation_file \<Rightarrow> reconciliation_file" where
  "ReconciliationFile_SetValidation L opts evt = evt\<lparr>rf_File := set_file_opts L opts (rf_File evt)\<rparr>"

definition ReturnFile_SetValidation :: "ach_lib \<Rightarrow> validate_opts option \<Rightarrow> return_file \<Rightarrow> return_file" where
  "ReturnFile_SetValidation L opts evt = evt\<lparr>rt_File := set_file_opts L opts (rt_File evt)\<rparr>"

definition QueueACHFile_SetValidation :: "ach_lib \<Rightarrow> validate_opts option \<Rightarrow> queue_file \<Rightarrow> queue_file" where
  "QueueACHFile_SetValidation L opts evt = evt\<lparr>File := set_file_opts L opts (File evt)\<rparr>"

definition InvalidQueueFile_SetValidation :: "ach_lib \<Rightarrow> validate_opts option \<Rightarrow> invalid_file \<Rightarrow> invalid_file" where
  "InvalidQueueFile_SetValidation L opts evt =
     (let o' = (case opts of None \<Rightarrow> zero_opts | Some x \<Rightarrow> x)\<lparr>SkipAll := True\<rparr>
      in evt\<lparr>iv_File := QueueACHFile_SetValidation L (Some o') (iv_File evt)\<rparr>)"

section \<open>Reading an event\<close>

definition empty_queue_file :: queue_file where
  "empty_queue_file = \<lparr>FileID = [], FileShardKey = [], File = None\<rparr>"

text \<open>The value the switch of \<open>ReadWithOpts\<close> prepares for each type name.\<close>

definition event_shell :: "ach_lib \<Rightarrow> validate_opts option \<Rightarrow> string \<Rightarrow> payload option" where
  "event_shell L opts t =
     (if t = ''CorrectionFile'' then
        Some (CorrectionFile (CorrectionFile_SetValidation L opts \<lparr>co_Filename = [], co_File = None, co_Corrections = []\<rparr>))
      else if t = ''IncomingFile'' then
        Some (IncomingFile (IncomingFile_SetValidation L opts \<lparr>ic_Filename = [], ic_File = None\<rparr>))
      else if t = ''PrenoteFile'' then
        Some (PrenoteFile (PrenoteFile_SetValidation L opts \<lparr>pn_Filename = [], pn_File = None, pn_Batches = []\<rparr>))
      else if t = ''ReconciliationEntry'' then
        Some (ReconciliationEntry (ReconciliationEntry_SetValidation L opts \<lparr>re_Filename = [], re_Header = None, re_Entry = None\<rparr>))
      else if t = ''ReconciliationFile'' then
        Some (ReconciliationFile (ReconciliationFile_SetValidation L opts \<lparr>rf_Filename = [], rf_File = None, rf_Reconciliations = []\<rparr>))
      else if t = ''ReturnFile'' then
        Some (ReturnFile (ReturnFile_SetValidation L opts \<lparr>rt_Filename = [], rt_File = None, rt_Returns = []\<rparr>))
      else if t = ''ACHFile'' \<or> t = ''QueueACHFile'' then
        Some (QueueACHFile (QueueACHFile_SetValidation L opts empty_queue_file))
      else if t = ''InvalidQueueFile'' then
        Some (InvalidQueueFile (InvalidQueueFile_SetValidation L opts \<lparr>iv_File = empty_queue_file, iv_Error = [], iv_Hostname = []\<rparr>))
      else if t = ''CancelACHFile'' then Some (CancelACHFile \<lparr>cancel_FileID = [], cancel_ShardKey = []\<rparr>)
      else if t = ''FileCancellationResponse'' then
        Some (FileCancellationResponse \<lparr>resp_FileID = [], resp_ShardKey = [], Successful = False\<rparr>)
      else if t = ''FileUploaded'' then
        Some (FileUploaded \<lparr>up_FileID = [], up_ShardKey = [], up_Filename = [], UploadedAt = 0\<rparr>)
      else None)"

text \<open>
  The event (type name and payload, none for an unknown type) and the error; no event at all
  when the envelope cannot be read.
\<close>

definition ReadWithOpts ::
  "json_lib \<Rightarrow> ach_lib \<Rightarrow> bytes \<Rightarrow> validate_opts option \<Rightarrow> (string \<times> payload option) option \<times> err option" where
  "ReadWithOpts J L data opts =
     (case json_envelope J data of
        Inl e \<Rightarrow> (None, Some (errorf_v ''reading type: '' e))
      | Inr (t, raw) \<Rightarrow>
          (case event_shell L opts t of
             None \<Rightarrow> (Some (t, None), Some (errorf_w (''reading '' @ t @ '' failed: '') (json_nil_error J)))
           | Some shell \<Rightarrow>
               (case json_into J raw shell of
                  (p, None) \<Rightarrow> (Some (t, Some p), None)
                | (p, Some e) \<Rightarrow> (Some (t, Some p), Some (errorf_w (''reading '' @ t @ '' failed: '') e)))))"

definition models_Read :: "json_lib \<Rightarrow> ach_lib \<Rightarrow> bytes \<Rightarrow> (string \<times> payload option) option \<times> err option" where
  "models_Read J L data = ReadWithOpts J L data (Some zero_opts)"

text \<open>\<open>ReadEvent\<close> fills the payload its caller passes, whatever type name the data carries.\<close>

definition ReadEvent :: "json_lib \<Rightarrow> bytes \<Rightarrow> payload \<Rightarrow> payload \<times> err option" where
  "ReadEvent J data evt = (case json_envelope J data of Inl e \<Rightarrow> (evt, Some e) | Inr (_, raw) \<Rightarrow> json_into J raw evt)"

section \<open>The two directions fit\<close>

text \<open>
  What the model relies on of \<open>encoding/json\<close>: the envelope of a written event carries the
  type name it was written with.
\<close>

definition json_types_ok :: "json_lib \<Rightarrow> bool" where
  "json_types_ok J \<longleftrightarrow> (\<forall>p t bs. json_event J p t = Inr bs \<longrightarrow> (\<exists>raw. json_envelope J bs = Inr (t, raw)))"

definition same_kind :: "payload \<Rightarrow> payload \<Rightarrow> bool" where
  "same_kind p q \<longleftrightarrow> payload_type p = payload_type q"

lemma event_shell_kind:
  "payload_type p \<noteq> ''event'' \<Longrightarrow> \<exists>q. event_shell L opts (payload_type p) = Some q \<and> same_kind p q"
  by (cases p) (simp_all add: event_shell_def same_kind_def)

end
