(* ===== verification/Upload.thy ===== *)
theory Upload
  imports Service_Config
begin

text \<open>
  Upload agents (\<open>internal/upload\<close>): the \<open>Agent\<close> interface as a record of operations over a
  state \<open>'s\<close>, its FTP, SFTP and mock implementations, the retrying wrapper, the cache of
  created agents and the outbound address check. The protocol clients, the resolver and
  go-retry are parameters. A reader handed to \<open>UploadFile\<close> is its remaining bytes: the call
  gives back what it left unread.
\<close>

record 's agent =
  agent_ID :: string
  GetInboundFiles :: "'s \<Rightarrow> (string list \<times> err option) \<times> 's"
  GetReconciliationFiles :: "'s \<Rightarrow> (string list \<times> err option) \<times> 's"
  GetReturnFiles :: "'s \<Rightarrow> (string list \<times> err option) \<times> 's"
  UploadFile :: "string \<Rightarrow> bytes \<Rightarrow> 's \<Rightarrow> (err option \<times> bytes) \<times> 's"
  Delete :: "string \<Rightarrow> 's \<Rightarrow> err option \<times> 's"
  ReadFile :: "string \<Rightarrow> 's \<Rightarrow> ((string \<times> bytes) option \<times> err option) \<times> 's"
  InboundPath :: string
  OutboundPath :: string
  ReconciliationPath :: string
  ReturnPath :: string
  Hostname :: string
  Ping :: "'s \<Rightarrow> err option"
  agent_Close :: "'s \<Rightarrow> err option \<times> 's"

section \<open>Outbound addresses\<close>

text \<open>Go's \<open>net\<close>: addresses are their 16-byte form.\<close>

type_synonym ip = bytes

record net_lib =
  SplitHostPort :: "string \<Rightarrow> err + string"
  LookupIP :: "string \<Rightarrow> ip list \<times> err option"
  ParseCIDR :: "string \<Rightarrow> err + ip \<times> (ip \<Rightarrow> bool)"
  ParseIP :: "string \<Rightarrow> ip option"
  show_ip :: "ip \<Rightarrow> string"

text \<open>One allowed entry against the resolved addresses: an error, allowed, or not.\<close>

definition allowed_entry :: "net_lib \<Rightarrow> ip list \<Rightarrow> string \<Rightarrow> err + bool" where
  "allowed_entry N addrs a =
     (if Contains a ''/'' then
        (case ParseCIDR N a of
           Inl e \<Rightarrow> Inl e
         | Inr (i, inside) \<Rightarrow> Inr (list_ex (\<lambda>x. i = x \<or> inside x) addrs))
      else Inr (list_ex (\<lambda>x. ParseIP N a = Some x) addrs))"

fun check_allowed :: "net_lib \<Rightarrow> ip list \<Rightarrow> string list \<Rightarrow> err option" where
  "check_allowed N addrs [] = Some (errors_New (show_ip N (hd addrs) @ '' is not whitelisted''))"
| "check_allowed N addrs (a # as) =
     (case allowed_entry N addrs a of
        Inl e \<Rightarrow> Some e
      | Inr ok \<Rightarrow> if ok then None else check_allowed N addrs as)"

definition rejectOutboundIPRange :: "net_lib \<Rightarrow> string list \<Rightarrow> string \<Rightarrow> err option" where
  "rejectOutboundIPRange N allowedIPs hostname =
     (case (if Contains hostname '':'' then SplitHostPort N hostname else Inr hostname) of
        Inl e \<Rightarrow> Some e
      | Inr host \<Rightarrow>
          (case LookupIP N host of (addrs, e) \<Rightarrow>
             if length addrs = 0 \<or> e \<noteq> None then
               Some (errors_New (''unable to resolve (found '' @ show_nat (length addrs) @ '') '' @ host @ '': '' @
                 (case e of None \<Rightarrow> ''<nil>'' | Some x \<Rightarrow> err_text x)))
             else if length allowedIPs = 0 then None
             else check_allowed N addrs allowedIPs))"

section \<open>FTP and SFTP\<close>

record 's remote_client =
  cl_Ping :: "'s \<Rightarrow> err option"
  cl_Close :: "'s \<Rightarrow> err option \<times> 's"
  cl_Open :: "string \<Rightarrow> 's \<Rightarrow> (err + string \<times> bytes) \<times> 's"
  cl_Delete :: "string \<Rightarrow> 's \<Rightarrow> err option \<times> 's"
  cl_UploadFile :: "string \<Rightarrow> bytes \<Rightarrow> 's \<Rightarrow> (err option \<times> bytes) \<times> 's"
  cl_ListFiles :: "string \<Rightarrow> 's \<Rightarrow> (err + string list) \<times> 's"

definition hidden :: "string \<Rightarrow> bool" where
  "hidden p = HasPrefix (filepath_Base p) ''.''"

text \<open>The loop that deletes hidden paths in place, from the last index down.\<close>

fun drop_hidden :: "nat \<Rightarrow> string list \<Rightarrow> string list" where
  "drop_hidden 0 ps = ps"
| "drop_hidden (Suc i) ps =
     drop_hidden i (if hidden (ps ! i) then take i ps @ drop (Suc i) ps else ps)"

definition readFilepaths :: "'s remote_client \<Rightarrow> string \<Rightarrow> 's \<Rightarrow> (string list \<times> err option) \<times> 's" where
  "readFilepaths cl dir s =
     (case cl_ListFiles cl dir s of
        (Inl e, s') \<Rightarrow> (([], Some e), s')
      | (Inr ps, s') \<Rightarrow> ((drop_hidden (length ps) ps, None), s'))"

definition FTP_ReadFile :: "'s remote_client \<Rightarrow> string \<Rightarrow> 's \<Rightarrow> ((string \<times> bytes) option \<times> err option) \<times> 's" where
  "FTP_ReadFile cl path s =
     (case cl_Open cl path s of
        (Inl e, s') \<Rightarrow> ((None, Some (errorf_w (''ftp open '' @ path @ '' failed: '') e)), s')
      | (Inr (name, bs), s') \<Rightarrow> ((Some (filepath_Base name, bs), None), s'))"

definition SFTP_readFilepaths :: "'s remote_client \<Rightarrow> string \<Rightarrow> 's \<Rightarrow> (string list \<times> err option) \<times> 's" where
  "SFTP_readFilepaths cl dir s =
     (case cl_ListFiles cl dir s of
        (Inl e, s') \<Rightarrow> (([], Some e), s')
      | (Inr ps, s') \<Rightarrow> ((drop_hidden (length ps) ps, None), s'))"

definition SFTP_ReadFile :: "'s remote_client \<Rightarrow> string \<Rightarrow> 's \<Rightarrow> ((string \<times> bytes) option \<times> err option) \<times> 's" where
  "SFTP_ReadFile cl path s =
     (case cl_Open cl path s of
        (Inl e, s') \<Rightarrow> ((None, Some (errorf_w (''sftp open '' @ path @ '' failed: '') e)), s')
      | (Inr (name, bs), s') \<Rightarrow> ((Some (filepath_Base name, bs), None), s'))"

definition FTP_UploadFile :: "UploadAgent \<Rightarrow> 's remote_client \<Rightarrow> string \<Rightarrow> bytes \<Rightarrow> 's \<Rightarrow> (err option \<times> bytes) \<times> 's" where
  "FTP_UploadFile cfg cl path contents s =
     (if ag_FTP cfg = None then ((Some (errors_New ''missing FTP client or config''), contents), s)
      else cl_UploadFile cl (filepath_Join [Outbound (ag_Paths cfg), path]) contents s)"

definition SFTP_UploadFile :: "UploadAgent \<Rightarrow> 's remote_client \<Rightarrow> string \<Rightarrow> bytes \<Rightarrow> 's \<Rightarrow> (err option \<times> bytes) \<times> 's" where
  "SFTP_UploadFile cfg cl path contents s =
     cl_UploadFile cl (filepath_Join [Outbound (ag_Paths cfg), filepath_Base path]) contents s"

definition FTPTransferAgent :: "UploadAgent \<Rightarrow> 's remote_client \<Rightarrow> 's agent" where
  "FTPTransferAgent cfg cl =
     \<lparr>agent_ID = ag_ID cfg,
      GetInboundFiles = readFilepaths cl (Inbound (ag_Paths cfg)),
      GetReconciliationFiles = readFilepaths cl (Reconciliation (ag_Paths cfg)),
      GetReturnFiles = readFilepaths cl (Return (ag_Paths cfg)),
      UploadFile = FTP_UploadFile cfg cl,
      Delete = cl_Delete cl,
      ReadFile = FTP_ReadFile cl,
      InboundPath = Inbound (ag_Paths cfg), OutboundPath = Outbound (ag_Paths cfg),
      ReconciliationPath = Reconciliation (ag_Paths cfg), ReturnPath = Return (ag_Paths cfg),
      Hostname = (case ag_FTP cfg of None \<Rightarrow> [] | Some f \<Rightarrow> ftp_Hostname f),
      Ping = cl_Ping cl, agent_Close = cl_Close cl\<rparr>"

definition SFTPTransferAgent :: "UploadAgent \<Rightarrow> 's remote_client \<Rightarrow> 's agent" where
  "SFTPTransferAgent cfg cl =
     \<lparr>agent_ID = ag_ID cfg,
      GetInboundFiles = SFTP_readFilepaths cl (Inbound (ag_Paths cfg)),
      GetReconciliationFiles = SFTP_readFilepaths cl (Reconciliation (ag_Paths cfg)),
      GetReturnFiles = SFTP_readFilepaths cl (Return (ag_Paths cfg)),
      UploadFile = SFTP_UploadFile cfg cl,
      Delete = cl_Delete cl,
      ReadFile = SFTP_ReadFile cl,
      InboundPath = Inbound (ag_Paths cfg), OutboundPath = Outbound (ag_Paths cfg),
      ReconciliationPath = Reconciliation (ag_Paths cfg), ReturnPath = Return (ag_Paths cfg),
      Hostname = (case ag_SFTP cfg of None \<Rightarrow> [] | Some f \<Rightarrow> sftp_Hostname f),
      Ping = cl_Ping cl, agent_Close = cl_Close cl\<rparr>"

text \<open>What go-ftp and go-sftp are asked to connect to.\<close>

record ftp_settings =
  fst_Hostname :: string
  fst_Username :: string
  fst_Password :: string
  fst_Timeout :: duration
  fst_DisableEPSV :: bool
  fst_CAFile :: string

record sftp_settings =
  sst_Hostname :: string
  sst_Username :: string
  sst_Password :: string
  sst_ClientPrivateKey :: string
  sst_HostPublicKey :: string
  sst_Timeout :: duration
  sst_MaxConnections :: int
  sst_PacketSize :: int
  sst_SkipDirectoryCreation :: bool
  sst_SkipChmodAfterUpload :: bool

record 's dialers =
  net :: net_lib
  ftp_NewClient :: "ftp_settings \<Rightarrow> err + 's remote_client"
  sftp_NewClient :: "sftp_settings \<Rightarrow> err + 's remote_client"
  os_ReadFile :: "string \<Rightarrow> err + bytes"

definition newFTPTransferAgent :: "'s dialers \<Rightarrow> UploadAgent \<Rightarrow> err + 's agent" where
  "newFTPTransferAgent D cfg =
     (case ag_FTP cfg of
        None \<Rightarrow> Inl (errors_New ''nil FTP config'')
      | Some f \<Rightarrow>
          (case rejectOutboundIPRange (net D) (SplitAllowedIPs cfg) (ftp_Hostname f) of
             Some e \<Rightarrow> Inl (errorf_v (''ftp: '' @ ftp_Hostname f @ '' is not whitelisted: '') e)
           | None \<Rightarrow>
               (case ftp_NewClient D \<lparr>fst_Hostname = ftp_Hostname f, fst_Username = ftp_Username f,
                       fst_Password = ftp_Password f, fst_Timeout = FTP_Timeout (Some f),
                       fst_DisableEPSV = FTP_DisableEPSV (Some f), fst_CAFile = FTP_CAFile (Some f)\<rparr> of
                  Inl e \<Rightarrow> Inl e
                | Inr cl \<Rightarrow> Inr (FTPTransferAgent cfg cl))))"

definition newSFTPTransferAgent :: "'s dialers \<Rightarrow> UploadAgent \<Rightarrow> err + 's agent" where
  "newSFTPTransferAgent D cfg =
     (case ag_SFTP cfg of
        None \<Rightarrow> Inl (errors_New ''nil SFTP config'')
      | Some f \<Rightarrow>
          (case rejectOutboundIPRange (net D) (SplitAllowedIPs cfg) (sftp_Hostname f) of
             Some e \<Rightarrow> Inl (errorf_v (''sftp: '' @ sftp_Hostname f @ '' is not whitelisted: '') e)
           | None \<Rightarrow>
               (case (if sftp_ClientPrivateKey f = [] \<and> sftp_ClientPrivateKeyFile f \<noteq> []
                      then os_ReadFile D (sftp_ClientPrivateKeyFile f) else Inr (sftp_ClientPrivateKey f)) of
                  Inl e \<Rightarrow> Inl (errorf_v (''sftp: unable to read private key file '' @
                             sftp_ClientPrivateKeyFile f @ '': '') e)
                | Inr key \<Rightarrow>
                    (case sftp_NewClient D \<lparr>sst_Hostname = sftp_Hostname f, sst_Username = sftp_Username f,
                            sst_Password = sftp_Password f, sst_ClientPrivateKey = key,
                            sst_HostPublicKey = sftp_HostPublicKey f, sst_Timeout = sftp_DialTimeout f,
                            sst_MaxConnections = SFTP_MaxConnections (Some f),
                            sst_PacketSize = sftp_MaxPacketSize f,
                            sst_SkipDirectoryCreation = sftp_SkipDirectoryCreation f,
                            sst_SkipChmodAfterUpload = sftp_SkipChmodAfterUpload f\<rparr> of
                       Inl e \<Rightarrow> Inl e
                     | Inr cl \<Rightarrow> Inr (SFTPTransferAgent cfg cl)))))"

section \<open>Retries\<close>

text \<open>The error when the call may be tried again; for any other error nothing.\<close>

definition isRetryableError :: "err option \<Rightarrow> err option" where
  "isRetryableError e =
     (case e of None \<Rightarrow> None
      | Some x \<Rightarrow> if errors_Is x Timeout \<or> Contains (err_text x) ''no such host'' then Some x else None)"

text \<open>
  go-retry: \<open>retry_Do interval max f\<close> runs \<open>f\<close> until it asks for no retry (\<open>None\<close>) or the
  retries are used up. The closures of the agent run over the agent's state paired with the
  variables they assign.
\<close>

record cell =
  cell_files :: "string list"
  cell_file :: "(string \<times> bytes) option"
  cell_rest :: bytes

record 's retry_lib =
  NewFibonacci :: "duration \<Rightarrow> bool"   \<comment> \<open>whether a backoff is returned\<close>
  retry_Do :: "duration \<Rightarrow> nat \<Rightarrow> ('s \<times> cell \<Rightarrow> err option \<times> 's \<times> cell) \<Rightarrow> 's \<times> cell \<Rightarrow> err option \<times> 's \<times> cell"

definition newBackoff :: "'s retry_lib \<Rightarrow> UploadRetry \<Rightarrow> err option" where
  "newBackoff R cfg =
     (if NewFibonacci R (rt_Interval cfg) then None
      else Some (errors_New (''retry: problem creating '' @ show_duration (rt_Interval cfg) @ '' as fibonacci'')))"

definition retryFiles ::
  "'s retry_lib \<Rightarrow> UploadRetry \<Rightarrow> ('s \<Rightarrow> (string list \<times> err option) \<times> 's) \<Rightarrow> 's \<Rightarrow> (string list \<times> err option) \<times> 's" where
  "retryFiles R cfg f s =
     (case newBackoff R cfg of
        Some e \<Rightarrow> (([], Some e), s)
      | None \<Rightarrow>
          (case retry_Do R (rt_Interval cfg) (rt_MaxRetries cfg)
             (\<lambda>(s, v). case f s of ((fs, e), s') \<Rightarrow>
                (case isRetryableError e of
                   Some x \<Rightarrow> (Some x, s', v)
                 | None \<Rightarrow> (None, s', v\<lparr>cell_files := fs\<rparr>)))
             (s, \<lparr>cell_files = [], cell_file = None, cell_rest = []\<rparr>) of
           (e, s', v) \<Rightarrow> ((cell_files v, e), s')))"

definition retry_UploadFile ::
  "'s retry_lib \<Rightarrow> UploadRetry \<Rightarrow> 's agent \<Rightarrow> string \<Rightarrow> bytes \<Rightarrow> 's \<Rightarrow> (err option \<times> bytes) \<times> 's" where
  "retry_UploadFile R cfg u path contents s =
     (case newBackoff R cfg of
        Some e \<Rightarrow> ((Some e, contents), s)
      | None \<Rightarrow>
          (case retry_Do R (rt_Interval cfg) (rt_MaxRetries cfg)
             (\<lambda>(s, v). case UploadFile u path (cell_rest v) s of ((e, rest), s') \<Rightarrow>
                (isRetryableError e, s', v\<lparr>cell_rest := rest\<rparr>))
             (s, \<lparr>cell_files = [], cell_file = None, cell_rest = contents\<rparr>) of
           (e, s', v) \<Rightarrow> ((e, cell_rest v), s')))"

definition retry_Delete :: "'s retry_lib \<Rightarrow> UploadRetry \<Rightarrow> 's agent \<Rightarrow> string \<Rightarrow> 's \<Rightarrow> err option \<times> 's" where
  "retry_Delete R cfg u path s =
     (case newBackoff R cfg of
        Some e \<Rightarrow> (Some e, s)
      | None \<Rightarrow>
          (case retry_Do R (rt_Interval cfg) (rt_MaxRetries cfg)
             (\<lambda>(s, v). case Delete u path s of (e, s') \<Rightarrow> (isRetryableError e, s', v))
             (s, \<lparr>cell_files = [], cell_file = None, cell_rest = []\<rparr>) of
           (e, s', v) \<Rightarrow> (e, s')))"

text \<open>The file variable is assigned on every try, before the error is looked at.\<close>

definition retry_ReadFile ::
  "'s retry_lib \<Rightarrow> UploadRetry \<Rightarrow> 's agent \<Rightarrow> string \<Rightarrow> 's \<Rightarrow> ((string \<times> bytes) option \<times> err option) \<times> 's" where
  "retry_ReadFile R cfg u path s =
     (case newBackoff R cfg of
        Some e \<Rightarrow> ((None, Some e), s)
      | None \<Rightarrow>
          (case retry_Do R (rt_Interval cfg) (rt_MaxRetries cfg)
             (\<lambda>(s, v). case ReadFile u path s of ((f, e), s') \<Rightarrow>
                (isRetryableError e, s', v\<lparr>cell_file := f\<rparr>))
             (s, \<lparr>cell_files = [], cell_file = None, cell_rest = []\<rparr>) of
           (e, s', v) \<Rightarrow> ((cell_file v, e), s')))"

definition RetryAgent :: "'s retry_lib \<Rightarrow> UploadRetry \<Rightarrow> 's agent \<Rightarrow> 's agent" where
  "RetryAgent R cfg u =
     u\<lparr>GetInboundFiles := retryFiles R cfg (GetInboundFiles u),
       GetReconciliationFiles := retryFiles R cfg (GetReconciliationFiles u),
       GetReturnFiles := retryFiles R cfg (GetReturnFiles u),
       UploadFile := retry_UploadFile R cfg u,
       Delete := retry_Delete R cfg u,
       ReadFile := retry_ReadFile R cfg u\<rparr>"

definition newRetryAgent :: "'s retry_lib \<Rightarrow> 's agent \<Rightarrow> UploadRetry option \<Rightarrow> err + 's agent" where
  "newRetryAgent R u cfg =
     (case cfg of None \<Rightarrow> Inl (errors_New ''nil UploadRetry config'') | Some c \<Rightarrow> Inr (RetryAgent R c u))"

section \<open>The cache of created agents\<close>

text \<open>
  \<open>New\<close> looks among the agents created earlier, in order, and else builds one: FTP, then SFTP
  over it when both are configured, then the mock over both.
\<close>

definition build_agent :: "'s dialers \<Rightarrow> 's agent \<Rightarrow> UploadAgent \<Rightarrow> err + 's agent option" where
  "build_agent D mock conf =
     (case (if ag_FTP conf \<noteq> None then map_sum id Some (newFTPTransferAgent D conf) else Inr None) of
        Inl e \<Rightarrow> Inl e
      | Inr a1 \<Rightarrow>
          (case (if ag_SFTP conf \<noteq> None then map_sum id Some (newSFTPTransferAgent D conf) else Inr a1) of
             Inl e \<Rightarrow> Inl e
           | Inr a2 \<Rightarrow> Inr (if ag_Mock conf then Some mock else a2)))"

definition register_agent :: "'s agent list \<Rightarrow> 's agent \<Rightarrow> 's agent list" where [simp]:
  "register_agent created agent = created @ [agent]"

definition upload_New ::
  "'s dialers \<Rightarrow> 's retry_lib \<Rightarrow> 's agent \<Rightarrow> UploadAgents \<Rightarrow> string \<Rightarrow> 's agent list \<Rightarrow> (err + 's agent) \<times> 's agent list" where
  "upload_New D R mock cfg i created =
     (case find (\<lambda>a. agent_ID a = i) created of
        Some a \<Rightarrow> (Inr a, created)
      | None \<Rightarrow>
          (case (case UploadAgents_Find cfg i of None \<Rightarrow> Inr None | Some conf \<Rightarrow> build_agent D mock conf) of
             Inl e \<Rightarrow> (Inl e, created)
           | Inr None \<Rightarrow> (Inl (errors_New (''upload: unknown Agent ID='' @ i)), created)
           | Inr (Some a) \<Rightarrow>
               (case (if ua_Retry cfg \<noteq> None then newRetryAgent R a (ua_Retry cfg) else Inr a) of
                  Inl e \<Rightarrow> (Inl e, created)
                | Inr a' \<Rightarrow> (Inr a', register_agent created a'))))"

section \<open>The mock agent\<close>

record mock_agent =
  InboundFilepaths :: "string list"
  ReconciliationFilepaths :: "string list"
  ReturnFilepaths :: "string list"
  UploadedFile :: "(string \<times> bytes) option"
  DeletedFile :: string
  ReadableFile :: "(string \<times> bytes) option"
  mock_Err :: "err option"

definition MockAgent :: "mock_agent agent" where
  "MockAgent =
     \<lparr>agent_ID = ''mock-agent'',
      GetInboundFiles = (\<lambda>s. ((InboundFilepaths s, None), s)),
      GetReconciliationFiles = (\<lambda>s. ((ReconciliationFilepaths s, None), s)),
      GetReturnFiles = (\<lambda>s. ((ReturnFilepaths s, None), s)),
      UploadFile = (\<lambda>path bs s. ((None, []), s\<lparr>UploadedFile := Some (path, bs)\<rparr>)),
      Delete = (\<lambda>path s. (None, s\<lparr>DeletedFile := path\<rparr>)),
      ReadFile = (\<lambda>path s. ((ReadableFile s, None), s)),
      InboundPath = ''inbound/'', OutboundPath = ''outbound/'',
      ReconciliationPath = ''reconciliation/'', ReturnPath = ''return/'',
      Hostname = ''hostname'', Ping = mock_Err, agent_Close = (\<lambda>s. (None, s))\<rparr>"

section \<open>Hidden files\<close>

lemma drop_hidden_filter:
  "i \<le> length ps \<Longrightarrow> drop_hidden i ps = filter (\<lambda>p. \<not> hidden p) (take i ps) @ drop i ps"
proof (induction i arbitrary: ps)
  case (Suc i)
  then have i: "i < length ps" by simp
  show ?case
  proof (cases "hidden (ps ! i)")
    case True
    let ?qs = "take i ps @ drop (Suc i) ps"
    have "drop_hidden i ?qs = filter (\<lambda>p. \<not> hidden p) (take i ?qs) @ drop i ?qs"
      using i by (intro Suc.IH) simp
    with i True show ?thesis by (simp add: take_Suc_conv_app_nth)
  next
    case False
    have "drop_hidden i ps = filter (\<lambda>p. \<not> hidden p) (take i ps) @ drop i ps"
      using i by (intro Suc.IH) simp
    moreover have "drop i ps = ps ! i # drop (Suc i) ps" using i by (rule Cons_nth_drop_Suc[symmetric])
    ultimately show ?thesis using i False by (simp add: take_Suc_conv_app_nth)
  qed
qed simp

text \<open>Deleting in place, from the end, is filtering: a listing shows exactly what is not hidden.\<close>

lemma readFilepaths_filter:
  "readFilepaths cl dir s =
     (case cl_ListFiles cl dir s of
        (Inl e, s') \<Rightarrow> (([], Some e), s')
      | (Inr ps, s') \<Rightarrow> ((filter (\<lambda>p. \<not> hidden p) ps, None), s'))"
  "SFTP_readFilepaths cl dir s = readFilepaths cl dir s"
  by (simp_all add: readFilepaths_def SFTP_readFilepaths_def drop_hidden_filter split: prod.splits sum.splits)

section \<open>What retrying does\<close>

text \<open>
  The documented behaviour of go-retry with a bounded backoff: the function runs at most once
  more than the number of retries, stops at its first success, and else its last error is
  the result. The waiting in between is not modelled.
\<close>

fun retry_run :: "nat \<Rightarrow> ('t \<Rightarrow> err option \<times> 't) \<Rightarrow> 't \<Rightarrow> err option \<times> 't" where
  "retry_run 0 f t = f t"
| "retry_run (Suc k) f t =
     (case f t of (None, t') \<Rightarrow> (None, t') | (Some e, t') \<Rightarrow> retry_run k f t')"

definition retry_documented :: "'s retry_lib \<Rightarrow> bool" where
  "retry_documented R \<longleftrightarrow> (\<forall>iv. NewFibonacci R iv) \<and> (\<forall>iv k f t. retry_Do R iv k f t = retry_run k f t)"

text \<open>The states between tries, and how many of them fail in a retryable way.\<close>

fun nth_try :: "nat \<Rightarrow> ('t \<Rightarrow> err option \<times> 't) \<Rightarrow> 't \<Rightarrow> 't" where
  "nth_try 0 f t = t"
| "nth_try (Suc n) f t = nth_try n f (snd (f t))"

lemma retry_run_stops:
  "n \<le> k \<Longrightarrow> \<forall>i<n. fst (f (nth_try i f t)) \<noteq> None \<Longrightarrow> fst (f (nth_try n f t)) = None \<Longrightarrow>
     retry_run k f t = (None, snd (f (nth_try n f t)))"
proof (induction n arbitrary: k t)
  case 0
  then show ?case by (cases k) (auto split: prod.splits option.splits simp: prod_eq_iff)
next
  case (Suc n)
  then obtain k' where k: "k = Suc k'" by (cases k) auto
  from Suc.prems(2) have "fst (f t) \<noteq> None" by auto
  then obtain e t' where ft: "f t = (Some e, t')" by (cases "f t") auto
  have "retry_run k' f t' = (None, snd (f (nth_try n f t')))"
    using Suc.prems k ft by (intro Suc.IH) auto
  with k ft show ?case by simp
qed

lemma retry_run_exhausted:
  "\<forall>i\<le>k. fst (f (nth_try i f t)) \<noteq> None \<Longrightarrow> retry_run k f t = f (nth_try k f t)"
proof (induction k arbitrary: t)
  case (Suc k)
  from Suc.prems have "fst (f t) \<noteq> None" by auto
  then obtain e t' where ft: "f t = (Some e, t')" by (cases "f t") auto
  have "\<forall>i\<le>k. fst (f (nth_try i f t')) \<noteq> None" using Suc.prems ft by auto
  from Suc.IH[OF this] ft show ?case by simp
qed simp

definition upload_try :: "'s agent \<Rightarrow> string \<Rightarrow> 's \<times> cell \<Rightarrow> err option \<times> 's \<times> cell" where
  "upload_try u path = (\<lambda>(s, v). case UploadFile u path (cell_rest v) s of ((e, rest), s') \<Rightarrow>
     (isRetryableError e, s', v\<lparr>cell_rest := rest\<rparr>))"

definition upload_start :: "bytes \<Rightarrow> 's \<Rightarrow> 's \<times> cell" where
  "upload_start contents s = (s, \<lparr>cell_files = [], cell_file = None, cell_rest = contents\<rparr>)"

lemma retry_UploadFile_run:
  "retry_documented R \<Longrightarrow> retry_UploadFile R cfg u path contents s =
     (case retry_run (rt_MaxRetries cfg) (upload_try u path) (upload_start contents s) of
        (e, s', v) \<Rightarrow> ((e, cell_rest v), s'))"
  by (simp add: retry_UploadFile_def retry_documented_def newBackoff_def upload_try_def upload_start_def)


definition plain_retry :: "'s retry_lib" where
  "plain_retry = \<lparr>NewFibonacci = (\<lambda>_. True), retry_Do = (\<lambda>_. retry_run)\<rparr>"

lemma plain_retry_documented: "retry_documented plain_retry"
  by (simp add: retry_documented_def plain_retry_def)

text \<open>An agent whose uploads fail with a given error, counting the calls.\<close>

definition failing_agent :: "err \<Rightarrow> nat agent" where
  "failing_agent e =
     \<lparr>agent_ID = ''down'', GetInboundFiles = (\<lambda>s. (([], Some e), s)),
      GetReconciliationFiles = (\<lambda>s. (([], Some e), s)), GetReturnFiles = (\<lambda>s. (([], Some e), s)),
      UploadFile = (\<lambda>_ bs s. ((Some e, bs), Suc s)), Delete = (\<lambda>_ s. (Some e, Suc s)),
      ReadFile = (\<lambda>_ s. ((None, Some e), Suc s)), InboundPath = [], OutboundPath = [],
      ReconciliationPath = [], ReturnPath = [], Hostname = [], Ping = (\<lambda>_. Some e),
      agent_Close = (\<lambda>s. (None, s))\<rparr>"


text \<open>
  C21. A failure the retrying agent does not consider worth retrying (a refused login, a full
  disk, a missing directory) is not reported: the upload is tried once and the caller is
  told it succeeded.
\<close>

theorem retry_upload_hides_permanent_failure:
  assumes "retry_documented R" and "UploadFile u path contents s = ((Some e, rest), s')"
    and "\<not> errors_Is e Timeout" and "\<not> Contains (err_text e) ''no such host''"
  shows "retry_UploadFile R cfg u path contents s = ((None, rest), s')"
proof -
  have "upload_try u path (upload_start contents s) =
      (None, s', \<lparr>cell_files = [], cell_file = None, cell_rest = rest\<rparr>)"
    using assms(2-4) by (simp add: upload_try_def upload_start_def isRetryableError_def)
  then show ?thesis
    by (cases "rt_MaxRetries cfg") (simp_all add: retry_UploadFile_run[OF assms(1)])
qed

lemma retry_upload_hides_permanent_failure_witness:
  "retry_UploadFile plain_retry \<lparr>rt_Interval = 1, rt_MaxRetries = 3\<rparr> (failing_agent (Err ''550 denied'' [])) ''a'' ''x'' 0
     = ((None, ''x''), 1)"
  by (rule retry_upload_hides_permanent_failure[OF plain_retry_documented, where e = "Err ''550 denied'' []"])
     (simp_all add: failing_agent_def errors_Is_def Contains_eval)

section \<open>Which hosts are connected to\<close>

lemma check_allowed_None: "check_allowed N addrs as = None \<Longrightarrow> \<exists>a\<in>set as. allowed_entry N addrs a = Inr True"
  by (induction as) (auto split: sum.splits if_splits)


definition plain_net :: net_lib where
  "plain_net = \<lparr>SplitHostPort = Inr, LookupIP = (\<lambda>h. ([h], None)), ParseCIDR = (\<lambda>_. Inl (errors_New ''cidr'')),
     ParseIP = Some, show_ip = (\<lambda>i. i)\<rparr>"

definition plain_client :: "mock_agent remote_client" where
  "plain_client = \<lparr>cl_Ping = mock_Err, cl_Close = (\<lambda>s. (None, s)), cl_Open = (\<lambda>p s. (Inr (p, []), s)),
     cl_Delete = (\<lambda>p s. (None, s)), cl_UploadFile = (\<lambda>p b s. ((None, []), s)),
     cl_ListFiles = (\<lambda>d s. (Inr [], s))\<rparr>"

definition plain_dialers :: "mock_agent dialers" where
  "plain_dialers = \<lparr>net = plain_net, ftp_NewClient = (\<lambda>_. Inr plain_client),
     sftp_NewClient = (\<lambda>_. Inr plain_client), os_ReadFile = (\<lambda>_. Inl ENOENT)\<rparr>"

definition plain_agent_cfg :: UploadAgent where
  "plain_agent_cfg =
     \<lparr>ag_ID = ''odfi'', ag_FTP = Some \<lparr>ftp_Hostname = ''h'', ftp_Username = [], ftp_Password = [],
        ftp_CAFilepath = [], ftp_DialTimeout = 0, ftp_DisabledEPSV = False\<rparr>,
      ag_SFTP = None, ag_Mock = False,
      ag_Paths = \<lparr>Inbound = ''in'', Outbound = ''out'', Reconciliation = ''rec'', Return = ''ret''\<rparr>,
      ag_Notifications = None, ag_AllowedIPs = ''g,h''\<rparr>"

lemma plain_agent_created: "newFTPTransferAgent plain_dialers plain_agent_cfg = Inr (FTPTransferAgent plain_agent_cfg plain_client)"
  by (simp add: newFTPTransferAgent_def plain_dialers_def plain_agent_cfg_def plain_net_def
      rejectOutboundIPRange_def SplitAllowedIPs_def allowed_entry_def Contains_eval)


section \<open>One connection per agent\<close>

lemma find_append: "find P (xs @ ys) = (case find P xs of None \<Rightarrow> find P ys | Some x \<Rightarrow> Some x)"
  by (induction xs) auto

text \<open>
  Asking for an agent a second time gives the agent created the first time and opens no
  connection, whenever the agent carries the id it was asked for (FTP and SFTP agents do,
  retried or not).
\<close>

theorem agent_created_once:
  assumes "upload_New D R mock cfg i created = (Inr a, created')" and "agent_ID a = i"
  shows "upload_New D' R' mock' cfg' i created' = (Inr a, created')"
proof (cases "find (\<lambda>a. agent_ID a = i) created")
  case None
  with assms(1) have "created' = created @ [a]"
    by (auto simp: upload_New_def split: option.splits sum.splits if_splits)
  with None assms(2) show ?thesis by (simp add: upload_New_def find_append)
next
  case (Some x)
  with assms(1) have "a = x" "created' = created" by (auto simp: upload_New_def)
  with Some show ?thesis by (simp add: upload_New_def)
qed

definition plain_agents :: UploadAgents where
  "plain_agents = \<lparr>ua_Agents = [plain_agent_cfg],
     ua_Merging = \<lparr>mg_Storage = \<lparr>cfg_Directory = [], cfg_AES = None, cfg_Encoding = []\<rparr>, mg_Directory = [], mg_Cleanup = None\<rparr>,
     ua_Retry = Some \<lparr>rt_Interval = 1, rt_MaxRetries = 3\<rparr>, ua_DefaultAgentID = []\<rparr>"

lemma agent_created_once_witness:
  "\<exists>a. upload_New plain_dialers plain_retry MockAgent plain_agents ''odfi''
         (snd (upload_New plain_dialers plain_retry MockAgent plain_agents ''odfi'' [])) = (Inr a, [a])"
proof -
  let ?a = "RetryAgent plain_retry \<lparr>rt_Interval = 1, rt_MaxRetries = 3\<rparr> (FTPTransferAgent plain_agent_cfg plain_client)"
  have find: "UploadAgents_Find plain_agents ''odfi'' = Some plain_agent_cfg"
    by (simp add: UploadAgents_Find_def plain_agents_def plain_agent_cfg_def)
  have build: "build_agent plain_dialers MockAgent plain_agent_cfg = Inr (Some (FTPTransferAgent plain_agent_cfg plain_client))"
    by (simp add: build_agent_def plain_agent_created) (simp add: plain_agent_cfg_def)
  have new: "upload_New plain_dialers plain_retry MockAgent plain_agents ''odfi'' [] = (Inr ?a, [?a])"
    by (simp add: upload_New_def find build newRetryAgent_def) (simp add: plain_agents_def newRetryAgent_def)
  moreover have "agent_ID ?a = ''odfi''" by (simp add: RetryAgent_def FTPTransferAgent_def plain_agent_cfg_def)
  ultimately show ?thesis using agent_created_once[OF new] by auto
qed

end
