(* ===== verification/Merging.thy ===== *)
theory Merging
  imports Storage_Laws Models Upload
begin

text \<open>
  Pending files and cutoffs (\<open>internal/pipeline/merging.go\<close>): accepting and cancelling files
  on a shard's storage, isolating the pending directory at a cutoff, merging, caching and
  uploading its files, and tracing each merged entry back to its input file.

  \<open>ach.MergeDir\<close>, SHA-256 and the other outside calls are fields of \<open>outside\<close>; the time stamp
  of a cutoff is an input. The tree map of entry keys is a partial map; looking into a nil
  one panics in Go, which is the outcome \<open>None\<close> where it can happen.
\<close>

record 's outside =
  lib :: ach_lib
  MergeDir :: "string \<Rightarrow> conditions \<Rightarrow> (string \<Rightarrow> bool) \<Rightarrow> string \<Rightarrow> 's chest \<Rightarrow> 's \<Rightarrow> ach_file list \<times> err option"
  sha256_hex :: "bytes \<Rightarrow> string"
  dialing :: "'s dialers"
  retrying :: "'s retry_lib"
  mock_agent :: "'s agent"

record 's filesystemMerging =
  fm_cfg :: UploadAgents
  fm_storage :: "'s chest"
  fm_shard :: Shard

definition NewMerging_dir :: "UploadAgents \<Rightarrow> string" where
  "NewMerging_dir cfg =
     strx_Or [cfg_Directory (mg_Storage (ua_Merging cfg)), mg_Directory (ua_Merging cfg), ''storage'']"

definition NewMerging ::
  "'a crypt_lib \<Rightarrow> string \<Rightarrow> Shard \<Rightarrow> UploadAgents \<Rightarrow> os \<Rightarrow> (err + os filesystemMerging) \<times> os" where
  "NewMerging C cwd shard cfg st =
     (let dir = NewMerging_dir cfg;
          mg = ua_Merging cfg;
          cfg' = cfg\<lparr>ua_Merging := mg\<lparr>mg_Storage := (mg_Storage mg)\<lparr>cfg_Directory := dir\<rparr>\<rparr>\<rparr>
      in (case storage_New C cwd (mg_Storage (ua_Merging cfg')) st of
            (Inl e, st1) \<Rightarrow> (Inl (errorf_w (''problem creating '' @ dir @ '': '') e), st1)
          | (Inr chest, st1) \<Rightarrow> (Inr \<lparr>fm_cfg = cfg', fm_storage = chest, fm_shard = shard\<rparr>, st1)))"

section \<open>Accepting and cancelling\<close>

definition mergable_path :: "'s filesystemMerging \<Rightarrow> string \<Rightarrow> string" where
  "mergable_path m name = filepath_Join [''mergable'', sh_Name (fm_shard m), name]"

text \<open>The two writes of a submission: its contents, then its validation options if it has any.\<close>

definition write_contents :: "ach_lib \<Rightarrow> 's filesystemMerging \<Rightarrow> queue_file \<Rightarrow> 's \<Rightarrow> err option \<times> 's" where
  "write_contents L m xfer s =
     (case File xfer of
        None \<Rightarrow> (Some nil_dereference, s)
      | Some f \<Rightarrow>
     (case ach_Write L f of
        Inl e \<Rightarrow> (Some e, s)
      | Inr buf \<Rightarrow> WriteFile (fm_storage m) (mergable_path m (TrimSuffix (FileID xfer) ''.ach'' @ ''.ach'')) buf s))"

definition write_opts :: "ach_lib \<Rightarrow> 's filesystemMerging \<Rightarrow> queue_file \<Rightarrow> 's \<Rightarrow> 's" where
  "write_opts L m xfer s =
     (case Option.bind (File xfer) GetValidation of
        None \<Rightarrow> s
      | Some opts \<Rightarrow>
          let json = (case opts_Encode L opts of Inl _ \<Rightarrow> [] | Inr bs \<Rightarrow> bs)
          in snd (WriteFile (fm_storage m) (mergable_path m (TrimSuffix (FileID xfer) ''.ach'' @ ''.json'')) json s))"

definition writeACHFile :: "ach_lib \<Rightarrow> 's filesystemMerging \<Rightarrow> queue_file \<Rightarrow> 's \<Rightarrow> err option \<times> 's" where
  "writeACHFile L m xfer s =
     (case write_contents L m xfer s of
        (Some e, s1) \<Rightarrow> (Some e, s1)
      | (None, s1) \<Rightarrow> (None, write_opts L m xfer s1))"

lemmas writeACHFile_steps = writeACHFile_def write_contents_def write_opts_def

definition HandleXfer :: "ach_lib \<Rightarrow> 's filesystemMerging \<Rightarrow> queue_file \<Rightarrow> 's \<Rightarrow> err option \<times> 's" where
  "HandleXfer L m xfer s =
     (case writeACHFile L m xfer s of
        (Some e, s1) \<Rightarrow> (Some (errorf_v ''problem writing ACH file: '' e), s1)
      | (None, s1) \<Rightarrow> (None, s1))"

definition HandleCancel :: "'s filesystemMerging \<Rightarrow> cancel_file \<Rightarrow> 's \<Rightarrow> (cancel_response \<times> err option) \<times> 's" where
  "HandleCancel m cancel s =
     (let fileID = TrimSuffix (cancel_FileID cancel) ''.ach'';
          path = mergable_path m (fileID @ ''.ach'');
          originalFound = (\<not> isl (Open (fm_storage m) path s));
          canceledFound = (\<not> originalFound \<and> \<not> isl (Open (fm_storage m) (path @ ''.canceled'') s));
          (e, s1) = ReplaceFile (fm_storage m) path (path @ ''.canceled'') s
      in ((\<lparr>resp_FileID = cancel_FileID cancel, resp_ShardKey = cancel_ShardKey cancel,
            Successful = (originalFound \<or> canceledFound) \<and> e = None\<rparr>, e), s1))"

section \<open>Isolating and listing\<close>

definition isolated_dir :: "'s filesystemMerging \<Rightarrow> string \<Rightarrow> string" where
  "isolated_dir m stamp = filepath_Join [sh_Name (fm_shard m) @ ''-'' @ stamp]"

definition isolateMergableDir :: "'s filesystemMerging \<Rightarrow> string \<Rightarrow> 's \<Rightarrow> (string \<times> err option) \<times> 's" where
  "isolateMergableDir m stamp s =
     (let newdir = isolated_dir m stamp;
          (e, s1) = ReplaceDir (fm_storage m) (filepath_Join [''mergable'', sh_Name (fm_shard m)]) newdir s
      in ((newdir, e), s1))"

definition getCanceledFiles :: "'s filesystemMerging \<Rightarrow> string \<Rightarrow> 's \<Rightarrow> err + string list" where
  "getCanceledFiles m dir s =
     (case Glob (fm_storage m) (dir @ ''/*.canceled'') s of
        Inl e \<Rightarrow> Inl e
      | Inr ms \<Rightarrow> Inr (map (\<lambda>p. TrimSuffix (snd (filepath_Split p)) ''.canceled'') ms))"

definition getNonCanceledMatches :: "'s filesystemMerging \<Rightarrow> string \<Rightarrow> 's \<Rightarrow> err + string list" where
  "getNonCanceledMatches m dir s =
     (case Glob (fm_storage m) (dir @ ''/*.ach'') s of
        Inl e \<Rightarrow> Inl e
      | Inr pos \<Rightarrow>
          (case Glob (fm_storage m) (dir @ ''/*.canceled'') s of
             Inl e \<Rightarrow> Inl e
           | Inr neg \<Rightarrow> Inr (filter (\<lambda>p. \<not> list_ex (\<lambda>n. HasPrefix n p) neg) pos)))"

definition fileAcceptor :: "string list \<Rightarrow> string \<Rightarrow> bool" where
  "fileAcceptor canceledFiles path =
     (if Contains path ''.canceled'' then False
      else if snd (filepath_Split path) \<in> set canceledFiles then False
      else Contains path ''.ach'')"

section \<open>Tracing entries to their input files\<close>

text \<open>\<open>%87.87s\<close>: the first 87 bytes, padded on the left.\<close>

definition pad87 :: "string \<Rightarrow> string" where
  "pad87 s = (let t = take 87 s in replicate (87 - length t) (CHR '' '') @ t)"

definition makeKey :: "ach_lib \<Rightarrow> string \<Rightarrow> ach_entry \<Rightarrow> string" where
  "makeKey L bh e = pad87 bh @ Entry_String L e"

definition file_keys :: "ach_lib \<Rightarrow> ach_file \<Rightarrow> string list" where
  "file_keys L f =
     concat (map (\<lambda>b. map (makeKey L (BatchHeader_String L (GetHeader b))) (GetEntries b)) (Batches f))"

type_synonym key_map = "string \<rightharpoonup> string"

definition add_keys :: "string \<Rightarrow> string list \<Rightarrow> key_map \<Rightarrow> key_map" where
  "add_keys filename ks t = fold (\<lambda>k t. t(k \<mapsto> filename)) ks t"

text \<open>The part of \<open>accumulateMappings\<close> that opens and parses an input file.\<close>

definition read_input :: "ach_lib \<Rightarrow> 's filesystemMerging \<Rightarrow> string \<Rightarrow> 's \<Rightarrow> err + ach_file" where
  "read_input L m path s =
     (case Open (fm_storage m) path s of
        Inl e \<Rightarrow> Inl (errorf_w (''opening '' @ path @ '' failed: '') e)
      | Inr fd \<Rightarrow>
          let optsPath = TrimSuffix path (filepath_Ext path) @ ''.json'';
              opts = (case Open (fm_storage m) optsPath s of
                        Inl _ \<Rightarrow> Inr None
                      | Inr ofd \<Rightarrow>
                          (case (case file_read ofd of Inl e \<Rightarrow> Inl e | Inr bs \<Rightarrow> opts_Decode L bs) of
                             Inl e \<Rightarrow> Inl (errorf_w (''reading '' @ optsPath @ '' as validate opts failed: '') e)
                           | Inr o' \<Rightarrow> Inr o'))
          in (case opts of
                Inl e \<Rightarrow> Inl e
              | Inr o' \<Rightarrow>
                  (case file_read fd of
                     Inl e \<Rightarrow> Inl (errorf_w (''reading '' @ path @ '' failed: '') e)
                   | Inr bs \<Rightarrow>
                       (case ach_Read L o' bs of
                          (_, Some e) \<Rightarrow> Inl (errorf_w (''reading '' @ path @ '' failed: '') e)
                        | (f, None) \<Rightarrow> Inr f))))"

definition accumulateMappings :: "ach_lib \<Rightarrow> 's filesystemMerging \<Rightarrow> string \<Rightarrow> 's \<Rightarrow> key_map \<Rightarrow> err + key_map" where
  "accumulateMappings L m path s tree =
     (case read_input L m path s of
        Inl e \<Rightarrow> Inl e
      | Inr f \<Rightarrow> Inr (add_keys (snd (filepath_Split path)) (file_keys L f) tree))"

text \<open>The names in the isolated directory that \<open>buildDirMapping\<close> reads.\<close>

definition input_name :: "string list \<Rightarrow> string \<times> bool \<Rightarrow> bool" where
  "input_name canceledFiles e \<longleftrightarrow>
     \<not> snd e \<and> \<not> HasSuffix (fst e) ''.json'' \<and> fileAcceptor canceledFiles (fst e)"

fun map_names ::
  "ach_lib \<Rightarrow> 's filesystemMerging \<Rightarrow> string \<Rightarrow> string list \<Rightarrow> 's \<Rightarrow> (string \<times> bool) list \<Rightarrow> key_map \<Rightarrow> err + key_map" where
  "map_names L m dir canceledFiles s [] tree = Inr tree"
| "map_names L m dir canceledFiles s (e # es) tree =
     (if \<not> input_name canceledFiles e then map_names L m dir canceledFiles s es tree
      else (case accumulateMappings L m (filepath_Join [dir, fst e]) s tree of
              Inl x \<Rightarrow> Inl (errorf_w (''accumulating mappings from '' @ fst e @ '' failed: '') x)
            | Inr tree' \<Rightarrow> map_names L m dir canceledFiles s es tree'))"

definition buildDirMapping ::
  "ach_lib \<Rightarrow> 's filesystemMerging \<Rightarrow> string \<Rightarrow> string list \<Rightarrow> 's \<Rightarrow> err + key_map" where
  "buildDirMapping L m dir canceledFiles s =
     (case ReadDir (fm_storage m) dir s of
        Inl e \<Rightarrow> Inl e
      | Inr fds \<Rightarrow> map_names L m dir canceledFiles s fds Map.empty)"

record mergedFile =
  InputFilepaths :: "string list"
  UploadedFilename :: string
  merged_ACHFile :: ach_file
  merged_Shard :: string

text \<open>Each key is looked up and deleted, so an input entry is matched at most once.\<close>

fun take_keys :: "string list \<Rightarrow> key_map \<Rightarrow> string list \<Rightarrow> key_map \<times> string list" where
  "take_keys [] t acc = (t, acc)"
| "take_keys (k # ks) t acc =
     (case t k of
        None \<Rightarrow> take_keys ks t acc
      | Some f \<Rightarrow> take_keys ks (t(k := None)) (acc @ [f]))"

fun find_inputs :: "ach_lib \<Rightarrow> key_map \<Rightarrow> mergedFile list \<Rightarrow> mergedFile list" where
  "find_inputs L t [] = []"
| "find_inputs L t (mf # ms) =
     (let (t', fs) = take_keys (file_keys L (merged_ACHFile mf)) t (InputFilepaths mf)
      in mf\<lparr>InputFilepaths := remdups_adj (sort fs)\<rparr> # find_inputs L t' ms)"

definition findInputFilepaths :: "ach_lib \<Rightarrow> key_map option \<Rightarrow> mergedFile list \<Rightarrow> mergedFile list option" where
  "findInputFilepaths L mappings merged =
     (case mappings of
        Some t \<Rightarrow> Some (find_inputs L t merged)
      | None \<Rightarrow> if list_all (\<lambda>mf. file_keys L (merged_ACHFile mf) = []) merged
                then Some (find_inputs L Map.empty merged) else None)"

section \<open>The cutoff\<close>

text \<open>Thin wrappers around the library calls; they unfold by themselves.\<close>

definition merging_hash :: "'s outside \<Rightarrow> bytes \<Rightarrow> string" where [simp]:
  "merging_hash X data = sha256_hex X data"

definition flattenBatches :: "'s outside \<Rightarrow> ach_file \<Rightarrow> err + ach_file" where [simp]:
  "flattenBatches X file = FlattenBatches_ach (lib X) file"

record 's merge_options =
  AcceptFile :: "string \<Rightarrow> bool"
  ValidateOptsExtension :: string
  options_FS :: "'s chest"

definition createMergeDirOptions :: "'s filesystemMerging \<Rightarrow> string list \<Rightarrow> 's merge_options" where [simp]:
  "createMergeDirOptions m canceledFiles =
     \<lparr>AcceptFile = fileAcceptor canceledFiles, ValidateOptsExtension = ''.json'', options_FS = fm_storage m\<rparr>"

definition mergeDir ::
  "'s outside \<Rightarrow> string \<Rightarrow> conditions \<Rightarrow> 's merge_options \<Rightarrow> 's \<Rightarrow> ach_file list \<times> err option" where [simp]:
  "mergeDir X dir mergeConditions opts s =
     MergeDir X dir mergeConditions (AcceptFile opts) (ValidateOptsExtension opts) (options_FS opts) s"

definition saveMergedFile :: "'s outside \<Rightarrow> 's filesystemMerging \<Rightarrow> string \<Rightarrow> ach_file \<Rightarrow> 's \<Rightarrow> err option \<times> 's" where
  "saveMergedFile X m dir file s =
     (case ach_Write (lib X) file of
        Inl e \<Rightarrow> (Some (errorf_w ''unable to buffer ACH file: '' e), s)
      | Inr buf \<Rightarrow>
          let name = merging_hash X buf
          in (case WriteFile (fm_storage m) (filepath_Join [dir, name @ ''.ach'']) buf s of
                (Some e, s1) \<Rightarrow> (Some (errorf_w ''writing merged ACH file: '' e), s1)
              | (None, s1) \<Rightarrow>
                  (case GetValidation file of
                     None \<Rightarrow> (None, s1)
                   | Some opts \<Rightarrow>
                       (case opts_Encode (lib X) opts of
                          Inl e \<Rightarrow> (Some (errorf_w ''marshal of merged ACH file validate opts: '' e), s1)
                        | Inr bs \<Rightarrow>
                            (case WriteFile (fm_storage m) (filepath_Join [dir, name @ ''.json'']) bs s1 of
                               (Some e, s2) \<Rightarrow> (Some (errorf_w ''writing merged ACH file validate opts: '' e), s2)
                             | (None, s2) \<Rightarrow> (None, s2))))))"

text \<open>The first loop: flatten if asked to, then cache; the file list may change.\<close>

fun cache_files ::
  "'s outside \<Rightarrow> 's filesystemMerging \<Rightarrow> string \<Rightarrow> ach_file list \<Rightarrow> error_list \<Rightarrow> 's \<Rightarrow> (ach_file list \<times> error_list) \<times> 's" where
  "cache_files X m dir [] el s = (([], el), s)"
| "cache_files X m dir (f # fs) el s =
     (let (f', el1) =
            (if mc_FlattenBatches (sh_Mergable (fm_shard m))
             then (case flattenBatches X f of Inl e \<Rightarrow> (f, el @ [e]) | Inr g \<Rightarrow> (g, el))
             else (f, el));
          (e, s1) = saveMergedFile X m dir f' s;
          el2 = (case e of None \<Rightarrow> el1 | Some x \<Rightarrow> el1 @ [errorf_v ''problem writing merged file: '' x]);
          ((fs', el3), s2) = cache_files X m dir fs el2 s1
      in ((f' # fs', el3), s2))"

type_synonym 's callback = "nat \<Rightarrow> 's agent \<Rightarrow> ach_file \<Rightarrow> 's \<Rightarrow> (string \<times> err option) \<times> 's"

text \<open>The second loop: every file is offered to the callback, whatever happened before.\<close>

fun upload_files ::
  "'s callback \<Rightarrow> string \<Rightarrow> nat \<Rightarrow> 's agent \<Rightarrow> ach_file list \<Rightarrow> mergedFile list \<Rightarrow> error_list \<Rightarrow> 's
     \<Rightarrow> (mergedFile list \<times> error_list) \<times> 's" where
  "upload_files f shard i agent [] merged el s = ((merged, el), s)"
| "upload_files f shard i agent (x # xs) merged el s =
     (case f i agent x s of
        ((_, Some e), s1) \<Rightarrow>
          upload_files f shard (Suc i) agent xs merged (el @ [errorf_v ''problem from callback: '' e]) s1
      | ((filename, None), s1) \<Rightarrow>
          upload_files f shard (Suc i) agent xs
            (merged @ [\<lparr>InputFilepaths = [], UploadedFilename = filename, merged_ACHFile = x, merged_Shard = shard\<rparr>])
            el s1)"

text \<open>
  The whole cutoff: the merged files with the error, or \<open>None\<close> for the panic of a nil map,
  then the agents created so far and the state.
\<close>

definition WithEachMerged ::
  "'s outside \<Rightarrow> 's filesystemMerging \<Rightarrow> string \<Rightarrow> 's callback \<Rightarrow> 's agent list \<Rightarrow> 's
     \<Rightarrow> (mergedFile list \<times> err option) option \<times> 's agent list \<times> 's" where
  "WithEachMerged X m stamp f created s =
     (case isolateMergableDir m stamp s of
        ((dir, Some e), s1) \<Rightarrow>
          (Some ([], Some (errors_New (''problem isolating newdir='' @ dir @ '' error='' @ err_text e))), created, s1)
      | ((dir, None), s1) \<Rightarrow>
     (case getCanceledFiles m dir s1 of
        Inl e \<Rightarrow> (Some ([], Some (errorf_w (''problem listing '' @ dir @ '' for canceled files: '') e)), created, s1)
      | Inr canceled \<Rightarrow>
          let cond = (case mc_Conditions (sh_Mergable (fm_shard m)) of None \<Rightarrow> zero_conditions | Some c \<Rightarrow> c);
              (files, me) = mergeDir X dir cond (createMergeDirOptions m canceled) s1;
              el0 = add_err (map_option (errorf_v ''unable to merge files: '') me) [];
              (el1, s2) = (if files = [] then (case RmdirAll (fm_storage m) dir s1 of (e, s') \<Rightarrow> (add_err e el0, s'))
                           else (el0, s1));
              uploadedDir = filepath_Join [dir, ''uploaded''];
              s3 = snd (MkdirAll (fm_storage m) uploadedDir s2)
          in (case upload_New (dialing X) (retrying X) (mock_agent X) (fm_cfg m) (sh_UploadAgent (fm_shard m)) created of
                (Inl e, created') \<Rightarrow>
                  (Some ([], Some (errorf_v (sh_Name (fm_shard m) @ '' merging agent: '') e)), created', s3)
              | (Inr agent, created') \<Rightarrow>
                  let ((files', el2), s4) = cache_files X m uploadedDir files el1 s3;
                      ((merged, el3), s5) = upload_files f (sh_Name (fm_shard m)) 0 agent files' [] el2 s4;
                      mapping = buildDirMapping (lib X) m dir canceled s5;
                      el4 = (case mapping of Inl e \<Rightarrow> el3 @ [e] | Inr _ \<Rightarrow> el3)
                  in (case findInputFilepaths (lib X) (case mapping of Inl _ \<Rightarrow> None | Inr t \<Rightarrow> Some t) merged of
                        None \<Rightarrow> (None, created', s5)
                      | Some merged' \<Rightarrow> (Some (merged', ErrorList_Err el4), created', s5)))))"

end
