(* ===== verification/Sample_World.thy ===== *)
theory Sample_World
  imports Merging
begin

text \<open>
  A small concrete world: one shard, a directory on disk, and instances of the outside
  libraries (an ACH library whose files hold one field, a hash that keeps all but the slashes). The
  witnesses of the components' properties run the model in it.
\<close>

definition sample_file :: "string \<Rightarrow> ach_file" where
  "sample_file x =
     \<lparr>file_ID = [], Header = \<lparr>ImmediateOrigin = ''origin'', ImmediateDestination = ''destination''\<rparr>,
      Control = \<lparr>BatchCount = 0, TotalDebit = 0, TotalCredit = 0\<rparr>, Batches =
        (if x = [] then []
         else [\<lparr>GetHeader = \<lparr>bh_opts = None, bh_other = ''header''\<rparr>,
                GetEntries = [\<lparr>entry_ID = [], TransactionCode = 22, Amount = 5, TraceNumber = x, entry_opts = None,
                               entry_other = []\<rparr>]\<rparr>]),
      IATBatches = [], NotificationOfChange = [], ReturnEntries = [], GetValidation = None, file_other = []\<rparr>"

definition sample_Write :: "ach_file \<Rightarrow> err + bytes" where
  "sample_Write f =
     Inr (case Batches f of [] \<Rightarrow> [] | b # _ \<Rightarrow> (case GetEntries b of [] \<Rightarrow> [] | e # _ \<Rightarrow> TraceNumber e))"

definition sample_lib :: ach_lib where
  "sample_lib =
     \<lparr>ach_Write = sample_Write, ach_Read = (\<lambda>_ b. (sample_file b, None)), FlattenBatches_ach = Inr,
      BatchHeader_String = bh_other, Entry_String = TraceNumber, IATEntry_String = iat_ID,
      opts_Encode = (\<lambda>_. Inr ''{}''), opts_Decode = (\<lambda>_. Inr (Some zero_opts)),
      FileFromJSON = (\<lambda>b. Inr (Some (sample_file b))), NewFile = sample_file [],
      NewBatchHeader = \<lparr>bh_opts = None, bh_other = []\<rparr>,
      NewEntryDetail = \<lparr>entry_ID = [], TransactionCode = 0, Amount = 0, TraceNumber = [], entry_opts = None,
        entry_other = []\<rparr>\<rparr>"

definition sample_shard :: Shard where
  "sample_shard =
     \<lparr>sh_Name = ''prod'', sh_Cutoffs = \<lparr>cut_Timezone = ''America/New_York'', cut_Windows = [''16:20''], cut_On = []\<rparr>,
      sh_PreUpload = None, sh_UploadAgent = ''mock'',
      sh_Mergable = \<lparr>mc_Conditions = None, mc_FlattenBatches = False\<rparr>,
      sh_OutboundFilenameTemplate = [], sh_Output = None, sh_Notifications = None, sh_Audit = None\<rparr>"

definition sample_agents :: UploadAgents where
  "sample_agents = plain_agents\<lparr>ua_Agents := [plain_agent_cfg\<lparr>ag_ID := ''mock'', ag_FTP := None, ag_Mock := True\<rparr>]\<rparr>"

definition sample_queue_file :: "string \<Rightarrow> queue_file" where
  "sample_queue_file x = \<lparr>FileID = x, FileShardKey = ''prod'', File = Some (sample_file x)\<rparr>"

definition sample_cancel :: "string \<Rightarrow> cancel_file" where
  "sample_cancel x = \<lparr>cancel_FileID = x, cancel_ShardKey = ''prod''\<rparr>"

definition sample_disk :: os where
  "sample_disk = [([''data''], Dir)]"

definition sample_merging :: "os filesystemMerging" where
  "sample_merging = \<lparr>fm_cfg = sample_agents, fm_storage = filesystem_chest ''/data'', fm_shard = sample_shard\<rparr>"

lemma sample_disk_inv: "fs_inv ''/data'' sample_disk"
  by code_simp

text \<open>An agent that takes every file, and a merge that keeps the files as they are.\<close>

definition sample_agent :: "'s agent" where
  "sample_agent =
     \<lparr>agent_ID = ''mock'', GetInboundFiles = (\<lambda>s. (([], None), s)),
      GetReconciliationFiles = (\<lambda>s. (([], None), s)), GetReturnFiles = (\<lambda>s. (([], None), s)),
      UploadFile = (\<lambda>_ bs s. ((None, []), s)), Delete = (\<lambda>_ s. (None, s)),
      ReadFile = (\<lambda>_ s. ((None, None), s)), InboundPath = [], OutboundPath = ''outbound'',
      ReconciliationPath = [], ReturnPath = [], Hostname = [], Ping = (\<lambda>_. None),
      agent_Close = (\<lambda>s. (None, s))\<rparr>"

definition sample_dialers :: "'s dialers" where
  "sample_dialers = \<lparr>net = plain_net, ftp_NewClient = (\<lambda>_. Inl ENOENT), sftp_NewClient = (\<lambda>_. Inl ENOENT),
     os_ReadFile = (\<lambda>_. Inl ENOENT)\<rparr>"

definition sample_MergeDir ::
  "string \<Rightarrow> conditions \<Rightarrow> (string \<Rightarrow> bool) \<Rightarrow> string \<Rightarrow> 's chest \<Rightarrow> 's \<Rightarrow> ach_file list \<times> err option" where
  "sample_MergeDir dir cond accept ext c s =
     (case ReadDir c dir s of
        Inl e \<Rightarrow> ([], Some e)
      | Inr es \<Rightarrow>
          let m = \<lparr>fm_cfg = sample_agents, fm_storage = c, fm_shard = sample_shard\<rparr>;
              rs = map (\<lambda>n. read_input sample_lib m (filepath_Join [dir, n]) s)
                     (filter (\<lambda>n. accept (filepath_Join [dir, n])) (map fst es))
          in if list_ex isl rs then ([], Some ENOENT) else (map projr rs, None))"

definition sample_outside :: "'s outside" where
  "sample_outside = \<lparr>lib = sample_lib, MergeDir = sample_MergeDir, sha256_hex = filter (\<lambda>x. x \<noteq> slash), dialing = sample_dialers,
     retrying = plain_retry, mock_agent = sample_agent\<rparr>"

end
