(* ===== verification/Merging_Proofs.thy ===== *)
theory Merging_Proofs
  imports Merging Sample_World
begin

text \<open>
  What a shard's storage holds after files were accepted, cancelled and isolated. The lemmas
  are proved once from the chest contract; the properties follow for the directory on disk,
  plain or encrypted.
\<close>

section \<open>Names of pending files\<close>

definition shard_ok :: "'s filesystemMerging \<Rightarrow> bool" where
  "shard_ok m \<longleftrightarrow> plain_name (sh_Name (fm_shard m))"

definition pend_dir :: "'s filesystemMerging \<Rightarrow> path" where
  "pend_dir m = [''mergable'', sh_Name (fm_shard m)]"

abbreviation ach_name :: "string \<Rightarrow> string" where "ach_name x \<equiv> x @ ''.ach''"
abbreviation canceled_name :: "string \<Rightarrow> string" where "canceled_name x \<equiv> x @ ''.ach.canceled''"
abbreviation json_name :: "string \<Rightarrow> string" where "json_name x \<equiv> x @ ''.json''"

text \<open>The id under which a file is kept, and the ids that name a file of their own.\<close>

definition kept_id :: "string \<Rightarrow> string" where
  "kept_id i = TrimSuffix i ''.ach''"

definition good_id :: "string \<Rightarrow> bool" where
  "good_id i \<longleftrightarrow> slash \<notin> set i \<and> \<not> Contains (kept_id i) ''.canceled''"

lemma plain_long: "slash \<notin> set n \<Longrightarrow> length n > 2 \<Longrightarrow> plain_name n"
  by (auto simp: plain_name_def)

lemma plain_file_names:
  assumes "slash \<notin> set x"
  shows "plain_name (ach_name x)" "plain_name (canceled_name x)" "plain_name (json_name x)"
  using assms by (auto intro!: plain_long)

lemma plain_mergable: "plain_name ''mergable''"
  by (simp add: plain_name_def)

lemma plain_pend: "shard_ok m \<Longrightarrow> plain_name n \<Longrightarrow> plain_path (pend_dir m @ [n])"
  by (simp add: plain_path_def pend_dir_def shard_ok_def plain_mergable)

lemma plain_pend_dir: "shard_ok m \<Longrightarrow> plain_path (pend_dir m)"
  by (simp add: plain_path_def pend_dir_def shard_ok_def plain_mergable)

lemma mergable_path_rel: "shard_ok m \<Longrightarrow> plain_name n \<Longrightarrow> mergable_path m n = rel_path (pend_dir m @ [n])"
  unfolding mergable_path_def pend_dir_def append.simps
  by (rule Join_names) (simp_all add: shard_ok_def plain_mergable)

lemma mergable_dir_rel: "shard_ok m \<Longrightarrow> filepath_Join [''mergable'', sh_Name (fm_shard m)] = rel_path (pend_dir m)"
  unfolding pend_dir_def by (rule Join_names) (simp_all add: shard_ok_def plain_mergable)

lemma neq_last: "last a \<noteq> last b \<Longrightarrow> a \<noteq> b"
  by auto

lemma suffix_names_distinct [simp]:
  "ach_name x \<noteq> canceled_name y" "ach_name x \<noteq> json_name y" "canceled_name x \<noteq> json_name y"
  "canceled_name y \<noteq> ach_name x" "json_name y \<noteq> ach_name x" "json_name y \<noteq> canceled_name x"
  by (rule neq_last; simp)+

lemma kept_noslash: "slash \<notin> set i \<Longrightarrow> slash \<notin> set (kept_id i)"
  by (auto simp: kept_id_def TrimSuffix_def dest: in_set_takeD)

lemma Contains_tail:
  assumes "p \<noteq> []" and "last p \<notin> set t" and "Contains (s @ t) p"
  shows "Contains s p"
proof -
  from assms(3) consider "sublist p s" | "sublist p t" | p1 p2 where "p = p1 @ p2" "suffix p1 s" "prefix p2 t"
    unfolding Contains_def sublist_append by blast
  then show ?thesis
  proof cases
    case 2
    then have "set p \<subseteq> set t" by (rule set_mono_sublist)
    with assms(1,2) show ?thesis using last_in_set by blast
  next
    case 3
    have "p2 = []"
    proof (rule ccontr)
      assume "p2 \<noteq> []"
      then have "last p \<in> set p2" using 3(1) by simp
      moreover have "set p2 \<subseteq> set t" using 3(3) by (rule set_mono_prefix)
      ultimately show False using assms(2) by blast
    qed
    with 3 show ?thesis by (simp add: Contains_def suffix_imp_sublist)
  qed (simp add: Contains_def)
qed

lemma not_canceled_ach: "\<not> Contains x ''.canceled'' \<Longrightarrow> \<not> Contains (ach_name x) ''.canceled''"
  using Contains_tail[of "''.canceled''" "''.ach''" x] by auto

lemma canceled_name_alt: "canceled_name x = ach_name x @ ''.canceled''"
  by simp

lemma rel_path_suffix:
  assumes "shard_ok m"
  shows "rel_path (pend_dir m @ [ach_name x]) @ ''.canceled'' = rel_path (pend_dir m @ [canceled_name x])"
  by (simp add: pend_dir_def)

section \<open>Accepting, cancelling and isolating under the contract\<close>

text \<open>The entries of the pending directory, and that they are all files.\<close>

definition present :: "tree \<Rightarrow> path \<Rightarrow> string \<Rightarrow> bool" where
  "present t d n \<longleftrightarrow> t (d @ [n]) \<noteq> None"

definition flat :: "tree \<Rightarrow> path \<Rightarrow> bool" where
  "flat t d \<longleftrightarrow> (\<forall>n. t (d @ [n]) \<noteq> Some Dir) \<and> \<not> is_reg (t d)"

lemma present_write: "present (t_write (d @ [n]) b t) d k \<longleftrightarrow> k = n \<or> present t d k"
  by (auto simp: present_def t_write_def t_mkdir_def)

lemma flat_write: "flat t d \<Longrightarrow> flat (t_write (d @ [n]) b t) d"
  by (auto simp: flat_def t_write_def t_mkdir_def)

lemma present_replace:
  "o' \<noteq> n \<Longrightarrow> present (t_replace_file (d @ [o']) (d @ [n]) b t) d k \<longleftrightarrow> k = n \<or> k \<noteq> o' \<and> present t d k"
  by (auto simp: t_replace_file_def present_def t_write_def t_mkdir_def t_move_def)

lemma flat_replace:
  "o' \<noteq> n \<Longrightarrow> flat t d \<Longrightarrow> flat (t_replace_file (d @ [o']) (d @ [n]) b t) d"
  by (auto simp: t_replace_file_def flat_def t_write_def t_mkdir_def t_move_def)

context chest_tree
begin

lemma write_effect:
  assumes "inv s" and "shard_ok m" and "plain_name n" and "flat (node s) (pend_dir m)"
    and "WriteFile c (mergable_path m n) b s = (r, s')"
  shows "inv s' \<and> flat (node s') (pend_dir m) \<and>
    (\<forall>k. present (node s') (pend_dir m) k \<longleftrightarrow> r = None \<and> k = n \<or> present (node s) (pend_dir m) k)"
proof -
  note p = plain_pend[OF assms(2,3)]
  note w = assms(5)[unfolded mergable_path_rel[OF assms(2,3)]]
  show ?thesis
  proof (cases r)
    case None
    with write_done[OF assms(1) p, of b s'] w obtain b' where
      "inv s'" "node s' = t_write (pend_dir m @ [n]) b' (node s)" by auto
    with None assms(4) show ?thesis by (simp add: present_write flat_write)
  next
    case (Some e)
    with write_failed[OF assms(1) p, of b e s'] w assms(4) show ?thesis by simp
  qed
qed

lemma write_opts_writes:
  "write_opts L m x s = s \<or>
     (\<exists>b r. WriteFile (fm_storage m) (mergable_path m (json_name (kept_id (FileID x)))) b s = (r, write_opts L m x s))"
proof (cases "Option.bind (File x) GetValidation")
  case (Some v)
  let ?b = "case opts_Encode L v of Inl _ \<Rightarrow> [] | Inr bs \<Rightarrow> bs"
  have "write_opts L m x s = snd (WriteFile (fm_storage m) (mergable_path m (json_name (kept_id (FileID x)))) ?b s)"
    using Some by (simp add: write_opts_def kept_id_def Let_def)
  then have "WriteFile (fm_storage m) (mergable_path m (json_name (kept_id (FileID x)))) ?b s =
      (fst (WriteFile (fm_storage m) (mergable_path m (json_name (kept_id (FileID x)))) ?b s), write_opts L m x s)"
    by simp
  then show ?thesis by blast
qed (simp add: write_opts_def)

lemma contents_effect:
  assumes "inv s" and "shard_ok m" and "fm_storage m = c" and "slash \<notin> set (FileID x)"
    and "flat (node s) (pend_dir m)" and "write_contents L m x s = (r, s')"
  shows "inv s' \<and> flat (node s') (pend_dir m) \<and>
    (\<forall>k. present (node s') (pend_dir m) k \<longleftrightarrow> r = None \<and> k = ach_name (kept_id (FileID x)) \<or> present (node s) (pend_dir m) k)"
proof -
  note pl = plain_file_names[OF kept_noslash[OF assms(4)]]
  from assms(6) consider "r \<noteq> None" "s' = s"
    | b where "WriteFile c (mergable_path m (ach_name (kept_id (FileID x)))) b s = (r, s')"
    by (auto simp: write_contents_def assms(3) kept_id_def split: option.splits sum.splits)
  then show ?thesis
  proof cases
    case 1
    with assms(1,5) show ?thesis by auto
  next
    case 2
    from write_effect[OF assms(1,2) pl(1) assms(5) this] show ?thesis .
  qed
qed

lemma opts_effect:
  assumes "inv s" and "shard_ok m" and "fm_storage m = c" and "slash \<notin> set (FileID x)" and "flat (node s) (pend_dir m)"
  shows "inv (write_opts L m x s) \<and> flat (node (write_opts L m x s)) (pend_dir m) \<and>
    (\<forall>k. k \<noteq> json_name (kept_id (FileID x)) \<longrightarrow> (present (node (write_opts L m x s)) (pend_dir m) k \<longleftrightarrow> present (node s) (pend_dir m) k))"
proof -
  note pl = plain_file_names[OF kept_noslash[OF assms(4)]]
  consider "write_opts L m x s = s"
    | b r where "WriteFile c (mergable_path m (json_name (kept_id (FileID x)))) b s = (r, write_opts L m x s)"
    using write_opts_writes[of L m x s] unfolding assms(3) by blast
  then show ?thesis
  proof cases
    case 1
    with assms(1,5) show ?thesis by simp
  next
    case 2
    from write_effect[OF assms(1,2) pl(3) assms(5) this] show ?thesis by blast
  qed
qed

lemma HandleXfer_cases [consumes 1, case_names failed accepted]:
  assumes "HandleXfer L m x s = (r, s')"
  obtains e where "write_contents L m x s = (Some e, s')" "r \<noteq> None"
  | s1 where "write_contents L m x s = (None, s1)" "s' = write_opts L m x s1" "r = None"
proof -
  obtain e s1 where w: "write_contents L m x s = (e, s1)" by fastforce
  show thesis
  proof (cases e)
    case None
    with assms w that(2)[of s1] show thesis by (simp add: HandleXfer_def writeACHFile_def)
  next
    case (Some y)
    with assms w that(1)[of y] show thesis by (auto simp: HandleXfer_def writeACHFile_def)
  qed
qed

lemma xfer_effect:
  assumes "inv s" and "shard_ok m" and "fm_storage m = c" and "slash \<notin> set (FileID x)"
    and "flat (node s) (pend_dir m)" and "HandleXfer L m x s = (r, s')"
  shows "inv s' \<and> flat (node s') (pend_dir m) \<and>
    (\<forall>k. k \<noteq> json_name (kept_id (FileID x)) \<longrightarrow>
       (present (node s') (pend_dir m) k \<longleftrightarrow> r = None \<and> k = ach_name (kept_id (FileID x)) \<or> present (node s) (pend_dir m) k))"
  using assms(6)
proof (cases rule: HandleXfer_cases)
  case (failed e)
  from contents_effect[OF assms(1-5) failed(1)] failed(2) show ?thesis by blast
next
  case (accepted s1)
  note e1 = contents_effect[OF assms(1-5) accepted(1)]
  then have "inv s1" "flat (node s1) (pend_dir m)" by blast+
  note e2 = opts_effect[OF this(1) assms(2-4) this(2), of L]
  show ?thesis unfolding accepted(2,3) using e1 e2 by simp
qed

lemma cancel_effect:
  assumes "inv s" and "shard_ok m" and "fm_storage m = c" and "slash \<notin> set (cancel_FileID x)"
    and "flat (node s) (pend_dir m)" and "HandleCancel m x s = ((resp, r), s')"
  shows "inv s' \<and> flat (node s') (pend_dir m) \<and>
    (\<forall>k. present (node s') (pend_dir m) k \<longleftrightarrow>
       (if r = None then k = canceled_name (kept_id (cancel_FileID x)) \<or>
          k \<noteq> ach_name (kept_id (cancel_FileID x)) \<and> present (node s) (pend_dir m) k
        else present (node s) (pend_dir m) k))"
proof -
  let ?x = "kept_id (cancel_FileID x)"
  have "slash \<notin> set ?x" using assms(4) by (rule kept_noslash)
  note pl = plain_file_names[OF this]
  note po = plain_pend[OF assms(2) pl(1)] and pn = plain_pend[OF assms(2) pl(2)]
  from assms(6) have rep: "ReplaceFile c (rel_path (pend_dir m @ [ach_name ?x])) (rel_path (pend_dir m @ [canceled_name ?x])) s = (r, s')"
    unfolding HandleCancel_def Let_def kept_id_def[symmetric] assms(3) mergable_path_rel[OF assms(2) pl(1)]
      rel_path_suffix[OF assms(2)]
    by (auto split: prod.splits)
  have ne: "ach_name ?x \<noteq> canceled_name ?x" by simp
  show ?thesis
  proof (cases r)
    case None
    have "node s (pend_dir m @ [ach_name ?x]) \<noteq> Some Dir" using assms(5) by (simp add: flat_def)
    with replace_file_done[OF assms(1) po pn] rep None ne obtain b where
      "inv s'" "node s' = t_replace_file (pend_dir m @ [ach_name ?x]) (pend_dir m @ [canceled_name ?x]) b (node s)"
      by auto
    with None assms(5) show ?thesis by (simp add: present_replace[OF ne] flat_replace[OF ne])
  next
    case (Some e)
    with replace_file_failed[OF assms(1) po pn] rep have f:
      "inv s'" "node s' = node s \<or> node s' = t_mkdir (pend_dir m) (node s)" by auto
    have a: "present (t_mkdir (pend_dir m) (node s)) (pend_dir m) k = present (node s) (pend_dir m) k" for k
      by (simp add: present_def t_mkdir_def)
    have b: "flat (t_mkdir (pend_dir m) (node s)) (pend_dir m)" using assms(5) by (simp add: flat_def t_mkdir_def)
    from f(2) show ?thesis
    proof
      assume "node s' = node s"
      with f(1) Some assms(5) show ?thesis by simp
    next
      assume "node s' = t_mkdir (pend_dir m) (node s)"
      with f(1) Some a b show ?thesis by simp
    qed
  qed
qed

lemma absent_below: "inv s \<Longrightarrow> node s p = None \<Longrightarrow> node s (p @ q) = None"
proof (induction q rule: rev_induct)
  case (snoc n q)
  then have a: "node s (p @ q) = None" by simp
  show ?case
  proof (rule ccontr)
    assume "node s (p @ q @ [n]) \<noteq> None"
    then have "node s ((p @ q) @ [n]) \<noteq> None" by simp
    from parent_dir[OF snoc.prems(1) this] a show False by simp
  qed
qed simp

lemma isolated_name:
  assumes "shard_ok m" and "slash \<notin> set stamp"
  shows "isolated_dir m stamp = rel_path [sh_Name (fm_shard m) @ ''-'' @ stamp]"
    "plain_path [sh_Name (fm_shard m) @ ''-'' @ stamp]"
    "sh_Name (fm_shard m) @ ''-'' @ stamp \<noteq> ''mergable''"
proof -
  have dash: "t \<notin> {[], ''.'', ''..'', ''mergable''}" if "CHR ''-'' \<in> set t" for t using that by auto
  have ne: "sh_Name (fm_shard m) @ ''-'' @ stamp \<notin> {[], ''.'', ''..'', ''mergable''}" by (rule dash) simp
  then show "sh_Name (fm_shard m) @ ''-'' @ stamp \<noteq> ''mergable''" by simp
  have "plain_name (sh_Name (fm_shard m) @ ''-'' @ stamp)"
    using assms ne by (simp only: shard_ok_def plain_name_def) auto
  then show "plain_path [sh_Name (fm_shard m) @ ''-'' @ stamp]" by (simp add: plain_path_def)
  then show "isolated_dir m stamp = rel_path [sh_Name (fm_shard m) @ ''-'' @ stamp]"
    unfolding isolated_dir_def by (intro Join_names) (simp_all add: plain_path_def)
qed

lemma isolate_effect:
  assumes "inv s" and "shard_ok m" and "fm_storage m = c" and "slash \<notin> set stamp"
    and "isolateMergableDir m stamp s = ((dir, None), s')"
    and "node s [dir] = None" and "\<not> is_reg (node s (pend_dir m))"
  shows "inv s' \<and> dir = sh_Name (fm_shard m) @ ''-'' @ stamp \<and> plain_path [dir] \<and>
    (\<forall>q. node s' (dir # q) = (if q = [] then Some Dir else node s (pend_dir m @ q))) \<and>
    (\<forall>q. node s' (pend_dir m @ q) = None) \<and>
    (\<forall>q. \<not> prefix [dir] q \<longrightarrow> \<not> prefix (pend_dir m) q \<longrightarrow> node s' q = node s q)"
proof -
  note nm = isolated_name[OF assms(2,4)]
  from assms(5) have dir: "dir = sh_Name (fm_shard m) @ ''-'' @ stamp"
    by (auto simp: isolateMergableDir_def nm(1) Let_def split: prod.splits)
  have pd: "plain_path [dir]" using nm(2) dir by simp
  have rep: "ReplaceDir c (rel_path (pend_dir m)) (rel_path [dir]) s = (None, s')"
    using assms(5) unfolding isolateMergableDir_def Let_def mergable_dir_rel[OF assms(2)] assms(3)
    by (auto simp: nm(1) dir split: prod.splits)
  have ne: "pend_dir m \<noteq> [dir]" and nd: "dir \<noteq> ''mergable''" using nm(3) dir by (auto simp: pend_dir_def)
  from replace_dir_done[OF assms(1) plain_pend_dir[OF assms(2)] pd ne rep]
  have i: "inv s'" and n: "node s' = t_replace_dir (pend_dir m) [dir] (node s)" by blast+
  have below: "node s (dir # q) = None" for q using absent_below[OF assms(1,6), of q] by simp
  have np: "\<not> prefix [dir] (pend_dir m @ q)" for q using nd by (simp add: pend_dir_def)
  show ?thesis
  proof (cases "node s (pend_dir m)")
    case None
    have gone: "node s (pend_dir m @ q) = None" for q using absent_below[OF assms(1) None] .
    have n': "node s' q = (if q = [] \<or> q = [dir] then Some Dir else node s q)" for q
      using n None by (auto simp: t_replace_dir_def t_mkdir_def prefix_Cons)
    have "\<forall>q. node s' (dir # q) = (if q = [] then Some Dir else node s (pend_dir m @ q))"
      unfolding n' using below gone by simp
    moreover have "\<forall>q. node s' (pend_dir m @ q) = None"
      unfolding n' using gone nd by (simp add: pend_dir_def)
    moreover have "\<forall>q. \<not> prefix [dir] q \<longrightarrow> \<not> prefix (pend_dir m) q \<longrightarrow> node s' q = node s q"
      unfolding n' using root_dir[OF assms(1)] by auto
    ultimately show ?thesis using i dir pd by blast
  next
    case (Some k)
    with assms(7) have "k = Dir" by (cases k) auto
    with Some n np i dir pd show ?thesis by (auto simp: t_replace_dir_def t_move_def)
  qed
qed

end

section \<open>Any sequence of acceptances and cancellations\<close>

datatype shard_op = Submit queue_file | CancelOp cancel_file

text \<open>
  The operations run one after the other; the ids of the files accepted and of those
  cancelled without an error are collected (an operation that failed is in neither list).
\<close>

fun run_ops :: "ach_lib \<Rightarrow> 's filesystemMerging \<Rightarrow> shard_op list \<Rightarrow> 's \<Rightarrow> (string list \<times> string list) \<times> 's" where
  "run_ops L m [] s = (([], []), s)"
| "run_ops L m (Submit x # ops) s =
     (let (r, s1) = HandleXfer L m x s; ((acc, can), s2) = run_ops L m ops s1
      in ((if r = None then kept_id (FileID x) # acc else acc, can), s2))"
| "run_ops L m (CancelOp x # ops) s =
     (let ((_, r), s1) = HandleCancel m x s; ((acc, can), s2) = run_ops L m ops s1
      in ((acc, if r = None then kept_id (cancel_FileID x) # can else can), s2))"

fun op_id :: "shard_op \<Rightarrow> string" where
  "op_id (Submit x) = FileID x"
| "op_id (CancelOp x) = cancel_FileID x"

lemma run_ops_ids:
  "run_ops L m ops s = ((acc, can), s') \<Longrightarrow> set acc \<union> set can \<subseteq> (\<lambda>o'. kept_id (op_id o')) ` set ops"
  by (induction L m ops s arbitrary: acc can rule: run_ops.induct)
     (auto simp: Let_def split: prod.splits if_splits; blast)+

text \<open>
  What a pending directory stands for: the set \<open>A\<close> of files accepted into it and the set \<open>C\<close> of
  those marked cancelled, under names made from the ids \<open>I\<close>. Accepting and cancelling refine
  adding to these sets.
\<close>

definition pending :: "tree \<Rightarrow> path \<Rightarrow> string set \<Rightarrow> string set \<Rightarrow> string set \<Rightarrow> bool" where
  "pending t d I A C \<longleftrightarrow> flat t d \<and>
     (\<forall>x. present t d (canceled_name x) \<longleftrightarrow> x \<in> C) \<and>
     (\<forall>x. x \<notin> C \<longrightarrow> (present t d (ach_name x) \<longleftrightarrow> x \<in> A)) \<and>
     (\<forall>k. present t d k \<longrightarrow> (\<exists>x\<in>I. k \<in> {ach_name x, canceled_name x, json_name x}))"

lemma pending_flat: "pending t d I A C \<Longrightarrow> flat t d"
  by (simp add: pending_def)

lemma pending_cong: "\<forall>n. t' (d @ [n]) = t (d @ [n]) \<Longrightarrow> t' d = t d \<Longrightarrow> pending t' d = pending t d"
  by (simp add: fun_eq_iff pending_def flat_def present_def)

context chest_tree
begin

lemma pending_empty: "inv s \<Longrightarrow> node s (pend_dir m) = None \<Longrightarrow> pending (node s) (pend_dir m) I {} {}"
  using absent_below[of s "pend_dir m"] by (auto simp: pending_def flat_def present_def)

lemma pending_xfer:
  assumes "inv s" and "shard_ok m" and "fm_storage m = c" and "slash \<notin> set (FileID x)" and "kept_id (FileID x) \<in> I"
    and "pending (node s) (pend_dir m) I A C" and "HandleXfer L m x s = (r, s')"
  shows "inv s' \<and> pending (node s') (pend_dir m) I (if r = None then insert (kept_id (FileID x)) A else A) C"
proof -
  note e = xfer_effect[OF assms(1-4) pending_flat[OF assms(6)] assms(7)]
  have p: "present (node s') (pend_dir m) (canceled_name y) = present (node s) (pend_dir m) (canceled_name y)"
    "present (node s') (pend_dir m) (ach_name y) \<longleftrightarrow> r = None \<and> y = kept_id (FileID x) \<or> present (node s) (pend_dir m) (ach_name y)" for y
    using e by simp_all
  have "\<exists>y\<in>I. k \<in> {ach_name y, canceled_name y, json_name y}" if "present (node s') (pend_dir m) k" for k
    using that e assms(5,6) unfolding pending_def by (cases "k = json_name (kept_id (FileID x))") auto
  with p e assms(6) show ?thesis by (auto simp: pending_def)
qed

lemma pending_cancel:
  assumes "inv s" and "shard_ok m" and "fm_storage m = c" and "slash \<notin> set (cancel_FileID x)" and "kept_id (cancel_FileID x) \<in> I"
    and "pending (node s) (pend_dir m) I A C" and "HandleCancel m x s = ((resp, r), s')"
  shows "inv s' \<and> pending (node s') (pend_dir m) I A (if r = None then insert (kept_id (cancel_FileID x)) C else C)"
proof -
  note e = cancel_effect[OF assms(1-4) pending_flat[OF assms(6)] assms(7)]
  show ?thesis
  proof (cases r)
    case None
    with e assms(5,6) show ?thesis unfolding pending_def by auto
  next
    case (Some y)
    with e assms(6) show ?thesis by (simp add: pending_def)
  qed
qed

lemma pending_ops:
  assumes "inv s" and "shard_ok m" and "fm_storage m = c"
    and "\<forall>o'\<in>set ops. slash \<notin> set (op_id o') \<and> kept_id (op_id o') \<in> I"
    and "pending (node s) (pend_dir m) I A C" and "run_ops L m ops s = ((acc, can), s')"
  shows "inv s' \<and> pending (node s') (pend_dir m) I (A \<union> set acc) (C \<union> set can)"
  using assms(1,4-6)
proof (induction ops arbitrary: s A C acc can)
  case (Cons o' ops)
  note id = Cons.prems(2)[THEN bspec, of o', simplified]
  have ids: "\<forall>o'\<in>set ops. slash \<notin> set (op_id o') \<and> kept_id (op_id o') \<in> I" using Cons.prems(2) by simp
  show ?case
  proof (cases o')
    case (Submit x)
    obtain r s1 where x: "HandleXfer L m x s = (r, s1)" by fastforce
    obtain acc1 where rest: "run_ops L m ops s1 = ((acc1, can), s')"
      and ac: "acc = (if r = None then kept_id (FileID x) # acc1 else acc1)"
      using Cons.prems(4) Submit x by (auto simp: Let_def split: prod.splits)
    have e: "inv s1 \<and> pending (node s1) (pend_dir m) I (if r = None then insert (kept_id (FileID x)) A else A) C"
      using pending_xfer[OF Cons.prems(1) assms(2,3) _ _ Cons.prems(3) x] id Submit by simp
    from Cons.IH[OF conjunct1[OF e] ids conjunct2[OF e] rest] show ?thesis by (cases r) (simp_all add: ac)
  next
    case (CancelOp x)
    obtain resp r s1 where x: "HandleCancel m x s = ((resp, r), s1)" by (metis prod.exhaust_sel)
    obtain can1 where rest: "run_ops L m ops s1 = ((acc, can1), s')"
      and ac: "can = (if r = None then kept_id (cancel_FileID x) # can1 else can1)"
      using Cons.prems(4) CancelOp x by (auto simp: Let_def split: prod.splits)
    have e: "inv s1 \<and> pending (node s1) (pend_dir m) I A (if r = None then insert (kept_id (cancel_FileID x)) C else C)"
      using pending_cancel[OF Cons.prems(1) assms(2,3) _ _ Cons.prems(3) x] id CancelOp by simp
    from Cons.IH[OF conjunct1[OF e] ids conjunct2[OF e] rest] show ?thesis by (cases r) (simp_all add: ac)
  qed
qed simp

text \<open>The names listed for the isolated directory and the marks found in it.\<close>

lemma canceled_listed:
  assumes "inv s" and "plain_path [dir]" and "getCanceledFiles m dir s = Inr cs" and "fm_storage m = c"
    and "slash \<notin> set x"
  shows "ach_name x \<in> set cs \<longleftrightarrow> present (node s) [dir] (canceled_name x)"
proof -
  obtain ms where ms: "Glob c (rel_path [dir] @ ''/'' @ ''*.canceled'') s = Inr ms"
    and cs: "cs = map (\<lambda>p. TrimSuffix (snd (filepath_Split p)) ''.canceled'') ms"
    using assms(3,4) by (auto simp: getCanceledFiles_def split: sum.splits)
  note g = glob_iff[OF assms(1,2) _ ms]
  have split: "snd (filepath_Split (rel_path ([dir] @ [n]))) = n" if "node s ([dir] @ [n]) \<noteq> None" for n
  proof -
    have "plain_name n" using plain_nodes[OF assms(1) that] by simp
    from Split_path_name[OF assms(2) this] show ?thesis by simp
  qed
  have mt: "filepath_Match ''*.canceled'' n \<longleftrightarrow> HasSuffix n ''.canceled''" if "node s ([dir] @ [n]) \<noteq> None" for n
  proof -
    have "slash \<notin> set n" using plain_nodes[OF assms(1) that] by (simp add: plain_name_def)
    then show ?thesis using Match_star_suffix[of n "''.canceled''"] by simp
  qed
  have "y \<in> set cs \<longleftrightarrow> (\<exists>n. node s ([dir] @ [n]) \<noteq> None \<and> HasSuffix n ''.canceled'' \<and> y = TrimSuffix n ''.canceled'')" for y
  proof -
    have "y \<in> set cs \<longleftrightarrow> (\<exists>p\<in>set ms. y = TrimSuffix (snd (filepath_Split p)) ''.canceled'')"
      unfolding cs by auto
    also have "\<dots> \<longleftrightarrow> (\<exists>n. node s ([dir] @ [n]) \<noteq> None \<and> filepath_Match ''*.canceled'' n \<and>
        y = TrimSuffix (snd (filepath_Split (rel_path ([dir] @ [n])))) ''.canceled'')"
      using g by (simp add: Bex_def) blast
    also have "\<dots> \<longleftrightarrow> (\<exists>n. node s ([dir] @ [n]) \<noteq> None \<and> HasSuffix n ''.canceled'' \<and> y = TrimSuffix n ''.canceled'')"
      using split mt by metis
    finally show ?thesis .
  qed
  note this[of "ach_name x"]
  moreover have "HasSuffix n ''.canceled'' \<and> ach_name x = TrimSuffix n ''.canceled'' \<longleftrightarrow> n = canceled_name x" for n
    by (auto simp: HasSuffix_def suffix_def TrimSuffix_def)
  ultimately show ?thesis by (simp add: present_def)
qed

text \<open>
  What a cutoff reads: the names \<open>buildDirMapping\<close> and \<open>MergeDir\<close> accept in the isolated
  directory are those of the files accepted and not cancelled.
\<close>

lemma cutoff_inputs_set:
  assumes "inv s1" and "shard_ok m" and "fm_storage m = c" and "pending (node s1) (pend_dir m) I A C"
    and "\<forall>x\<in>I. slash \<notin> set x \<and> \<not> Contains x ''.canceled''"
    and "isolateMergableDir m stamp s1 = ((dir, None), s2)" and "slash \<notin> set stamp" and "node s1 [dir] = None"
    and "getCanceledFiles m dir s2 = Inr cs" and "ReadDir c dir s2 = Inr es"
  shows "{e \<in> set es. input_name cs e} = (\<lambda>x. (ach_name x, False)) ` (A - C)"
proof -
  have flat1: "flat (node s1) (pend_dir m)" using assms(4) by (rule pending_flat)
  then have "\<not> is_reg (node s1 (pend_dir m))" by (simp add: flat_def)
  note iso = isolate_effect[OF assms(1-3,7,6,8) this]
  then have i2: "inv s2" and pd: "plain_path [dir]" by blast+
  from iso have "\<forall>q. node s2 (dir # q) = (if q = [] then Some Dir else node s1 (pend_dir m @ q))" by blast
  then have moved: "node s2 ([dir] @ [k]) = node s1 (pend_dir m @ [k])" for k by simp
  then have pres: "present (node s2) [dir] k = present (node s1) (pend_dir m) k" for k by (simp add: present_def)
  have "rel_path [dir] = dir" by simp
  then have es: "(k, b) \<in> set es \<longleftrightarrow> (\<exists>n. node s2 ([dir] @ [k]) = Some n \<and> b = (n = Dir))" for k b
    using read_dir_iff[OF i2 pd] assms(10) by simp
  have es': "(k, b) \<in> set es \<longleftrightarrow> present (node s1) (pend_dir m) k \<and> \<not> b" for k b
    unfolding es moved using flat1 by (auto simp: flat_def present_def)
  have can: "present (node s1) (pend_dir m) (canceled_name x) \<longleftrightarrow> x \<in> C" for x
    using assms(4) by (simp add: pending_def)
  have ach: "present (node s1) (pend_dir m) (ach_name x) \<longleftrightarrow> x \<in> A" if "x \<notin> C" for x
    using assms(4) that by (simp add: pending_def)
  have cs: "ach_name x \<in> set cs \<longleftrightarrow> x \<in> C" if "slash \<notin> set x" for x
    using canceled_listed[OF i2 pd assms(9,3) that] can by (simp add: pres)
  have name: "\<exists>x\<in>I. k \<in> {ach_name x, canceled_name x, json_name x}" if "present (node s1) (pend_dir m) k" for k
    using assms(4) that unfolding pending_def by blast
  have acc: "x \<in> I" if x: "x \<in> A" "x \<notin> C" for x
  proof -
    obtain y where "y \<in> I" "ach_name x \<in> {ach_name y, canceled_name y, json_name y}" using name ach x by blast
    then show ?thesis by auto
  qed
  have input: "input_name cs (ach_name x, False) \<longleftrightarrow> x \<notin> C" if "x \<in> I" for x
  proof -
    have x: "slash \<notin> set x" "\<not> Contains x ''.canceled''" using assms(5) that by blast+
    have "snd (filepath_Split (ach_name x)) = ach_name x" using x(1) by (simp add: Split_name)
    moreover have "\<not> HasSuffix (ach_name x) ''.json''" by (simp add: HasSuffix_def suffix_def)
    ultimately show ?thesis
      using cs[OF x(1)] not_canceled_ach[OF x(2)] by (simp add: input_name_def fileAcceptor_def)
  qed
  show ?thesis
  proof (intro equalityI subsetI, goal_cases)
    case (1 e)
    obtain k b where e: "e = (k, b)" by (cases e)
    from 1 e have k: "present (node s1) (pend_dir m) k" "\<not> b" "input_name cs (k, b)" by (auto simp: es')
    obtain x where x: "x \<in> I" "k \<in> {ach_name x, canceled_name x, json_name x}" using name[OF k(1)] by blast
    have "Contains (canceled_name x) ''.canceled''" using Contains_suffix[of "ach_name x" "''.canceled''"] by simp
    then have "k = ach_name x" using x(2) k(3) by (auto simp: input_name_def fileAcceptor_def)
    with k input[OF x(1)] ach[of x] e show ?case by auto
  next
    case (2 e)
    then obtain x where x: "x \<in> A" "x \<notin> C" "e = (ach_name x, False)" by auto
    with acc ach es' input show ?case by auto
  qed
qed

end

section \<open>Paths outside the pending directory\<close>

definition outside :: "'s filesystemMerging \<Rightarrow> path \<Rightarrow> bool" where
  "outside m q \<longleftrightarrow> q = [] \<or> \<not> prefix (pend_dir m) q \<and> \<not> prefix q (pend_dir m)"

lemma outside_pend: "outside m q \<Longrightarrow> \<not> prefix (pend_dir m @ ns) q"
  by (auto simp: outside_def prefix_def pend_dir_def)

lemma outside_below: "outside m q \<Longrightarrow> prefix q (pend_dir m) \<Longrightarrow> q = []"
  by (auto simp: outside_def)

lemma outside_write:
  assumes "outside m q" and "t [] = Some Dir"
  shows "t_write (pend_dir m @ [n]) b t q = t q"
proof -
  have "q \<noteq> pend_dir m @ [n]" using outside_pend[OF assms(1), of "[n]"] by auto
  moreover have "prefix q (pend_dir m) \<Longrightarrow> q = []" using outside_below[OF assms(1)] by simp
  ultimately show ?thesis using assms(2) by (auto simp: t_write_def t_mkdir_def)
qed

lemma outside_replace:
  assumes "outside m q" and "t [] = Some Dir"
  shows "t_replace_file (pend_dir m @ [n]) (pend_dir m @ [k]) b t q = t q"
proof -
  have "prefix q (pend_dir m) \<Longrightarrow> q = []" using outside_below[OF assms(1)] by simp
  with outside_pend[OF assms(1)] assms show ?thesis
    by (auto simp: t_replace_file_def t_move_def t_mkdir_def outside_write)
qed

context chest_tree
begin

lemma write_frame:
  assumes "inv s" and "shard_ok m" and "plain_name n" and "WriteFile c (mergable_path m n) b s = (r, s')"
    and "outside m q"
  shows "inv s' \<and> node s' q = node s q"
proof -
  note p = plain_pend[OF assms(2,3)]
  note w = assms(4)[unfolded mergable_path_rel[OF assms(2,3)]]
  note out = outside_write[where t = "node s", OF assms(5) root_dir[OF assms(1)]]
  show ?thesis
  proof (cases r)
    case None
    with write_done[OF assms(1) p] w out show ?thesis by metis
  next
    case (Some e)
    with write_failed[OF assms(1) p] w show ?thesis by metis
  qed
qed

lemma contents_frame:
  assumes "inv s" and "shard_ok m" and "fm_storage m = c" and "slash \<notin> set (FileID x)"
    and "write_contents L m x s = (r, s')" and "outside m q"
  shows "inv s' \<and> node s' q = node s q"
proof -
  note pl = plain_file_names[OF kept_noslash[OF assms(4)]]
  from assms(5) consider "s' = s" | b where "WriteFile c (mergable_path m (ach_name (kept_id (FileID x)))) b s = (r, s')"
    by (auto simp: write_contents_def assms(3) kept_id_def split: option.splits sum.splits)
  then show ?thesis
  proof cases
    case 2
    from write_frame[OF assms(1,2) pl(1) this assms(6)] show ?thesis .
  qed (use assms(1) in simp)
qed

lemma opts_frame:
  assumes "inv s" and "shard_ok m" and "fm_storage m = c" and "slash \<notin> set (FileID x)" and "outside m q"
  shows "node (write_opts L m x s) q = node s q"
proof -
  note pl = plain_file_names[OF kept_noslash[OF assms(4)]]
  consider "write_opts L m x s = s"
    | b r where "WriteFile c (mergable_path m (json_name (kept_id (FileID x)))) b s = (r, write_opts L m x s)"
    using write_opts_writes[of L m x s] unfolding assms(3) by blast
  then show ?thesis
  proof cases
    case 2
    from write_frame[OF assms(1,2) pl(3) this assms(5)] show ?thesis by blast
  qed simp
qed

lemma xfer_frame:
  assumes "inv s" and "shard_ok m" and "fm_storage m = c" and "slash \<notin> set (FileID x)"
    and "HandleXfer L m x s = (r, s')" and "outside m q"
  shows "node s' q = node s q"
  using assms(5)
proof (cases rule: HandleXfer_cases)
  case (failed e)
  from contents_frame[OF assms(1-4) failed(1) assms(6)] show ?thesis by blast
next
  case (accepted s1)
  from contents_frame[OF assms(1-4) accepted(1) assms(6)] have "inv s1" "node s1 q = node s q" by blast+
  with opts_frame[OF this(1) assms(2-4,6)] accepted(2) show ?thesis by simp
qed

lemma cancel_frame:
  assumes "inv s" and "shard_ok m" and "fm_storage m = c" and "slash \<notin> set (cancel_FileID x)"
    and "flat (node s) (pend_dir m)" and "HandleCancel m x s = ((resp, r), s')" and "outside m q"
  shows "node s' q = node s q"
proof -
  let ?x = "kept_id (cancel_FileID x)"
  note pl = plain_file_names[OF kept_noslash[OF assms(4)]]
  note po = plain_pend[OF assms(2) pl(1)] and pn = plain_pend[OF assms(2) pl(2)]
  have rep: "ReplaceFile c (rel_path (pend_dir m @ [ach_name ?x])) (rel_path (pend_dir m @ [canceled_name ?x])) s = (r, s')"
    using assms(6) unfolding HandleCancel_def Let_def kept_id_def[symmetric] assms(3) mergable_path_rel[OF assms(2) pl(1)]
      rel_path_suffix[OF assms(2)]
    by (auto split: prod.splits)
  have ne: "pend_dir m @ [ach_name ?x] \<noteq> pend_dir m @ [canceled_name ?x]" by simp
  have nd: "node s (pend_dir m @ [ach_name ?x]) \<noteq> Some Dir" using assms(5) by (simp add: flat_def)
  have q: "prefix q (pend_dir m) \<Longrightarrow> q = []" using outside_below[OF assms(7)] by simp
  show ?thesis
  proof (cases r)
    case None
    with replace_file_done[OF assms(1) po pn ne nd] rep show ?thesis
      using outside_replace[where t = "node s", OF assms(7) root_dir[OF assms(1)]] by metis
  next
    case (Some e)
    with replace_file_failed[OF assms(1) po pn] rep have "node s' = node s \<or> node s' = t_mkdir (pend_dir m) (node s)" by auto
    with q root_dir[OF assms(1)] show ?thesis by (auto simp: t_mkdir_def)
  qed
qed

lemma run_ops_frame:
  assumes "inv s" and "shard_ok m" and "fm_storage m = c" and "\<forall>o'\<in>set ops. slash \<notin> set (op_id o')"
    and "flat (node s) (pend_dir m)" and "run_ops L m ops s = ((acc, can), s')" and "outside m q"
  shows "node s' q = node s q"
  using assms(1,4-6)
proof (induction ops arbitrary: s acc can)
  case (Cons o' ops)
  note sl = Cons.prems(2)[THEN bspec, of o', simplified]
  have rest: "\<forall>o'\<in>set ops. slash \<notin> set (op_id o')" using Cons.prems(2) by simp
  show ?case
  proof (cases o')
    case (Submit x)
    obtain r s1 where x: "HandleXfer L m x s = (r, s1)" by fastforce
    obtain acc1 can1 where run: "run_ops L m ops s1 = ((acc1, can1), s')"
      using Cons.prems(4) Submit x by (auto simp: Let_def split: prod.splits)
    have si: "slash \<notin> set (FileID x)" using sl Submit by simp
    note e = xfer_effect[OF Cons.prems(1) assms(2,3) si Cons.prems(3) x]
    have "node s' q = node s1 q" using Cons.IH[OF _ rest _ run] e by blast
    with xfer_frame[OF Cons.prems(1) assms(2,3) si x assms(7)] show ?thesis by simp
  next
    case (CancelOp x)
    obtain resp r s1 where x: "HandleCancel m x s = ((resp, r), s1)" by (metis prod.exhaust_sel)
    obtain acc1 can1 where run: "run_ops L m ops s1 = ((acc1, can1), s')"
      using Cons.prems(4) CancelOp x by (auto simp: Let_def split: prod.splits)
    have si: "slash \<notin> set (cancel_FileID x)" using sl CancelOp by simp
    note e = cancel_effect[OF Cons.prems(1) assms(2,3) si Cons.prems(3) x]
    have "node s' q = node s1 q" using Cons.IH[OF _ rest _ run] e by blast
    with cancel_frame[OF Cons.prems(1) assms(2,3) si Cons.prems(3) x assms(7)] show ?thesis by simp
  qed
qed simp

end

section \<open>On disk, plain or encrypted\<close>

lemma good_ids: "\<forall>o'\<in>set ops. good_id (op_id o') \<Longrightarrow> \<forall>x\<in>(\<lambda>o'. kept_id (op_id o')) ` set ops. slash \<notin> set x \<and> \<not> Contains x ''.canceled''"
  using kept_noslash by (auto simp: good_id_def)

definition disk_chest :: "string \<Rightarrow> os chest \<Rightarrow> bool" where
  "disk_chest root c \<longleftrightarrow> c = filesystem_chest root \<or> (\<exists>cr. c = NewEncrypted (filesystem_chest root) cr)"

lemma disk_chest_tree: "disk_chest root c \<Longrightarrow> chest_tree c (fs_inv root) (fs_node root)"
  using fs.chest_tree_axioms enc.chest_tree_axioms by (auto simp: disk_chest_def)

text \<open>
  However files were accepted and cancelled on a shard since its pending directory was
  last taken away, the names the next cutoff accepts in the isolated directory are exactly
  those of the files accepted and not cancelled, each once: a cancelled file is never taken
  and no accepted file is left out.
\<close>

theorem cutoff_takes_accepted_not_cancelled:
  assumes "disk_chest root (fm_storage m)" and "fs_inv root s" and "shard_ok m"
    and "\<forall>o'\<in>set ops. good_id (op_id o')"
    and "fs_node root s (pend_dir m) = None" and "run_ops L m ops s = ((acc, can), s1)"
    and "isolateMergableDir m stamp s1 = ((dir, None), s2)" and "slash \<notin> set stamp"
    and "fs_node root s1 [dir] = None"
    and "getCanceledFiles m dir s2 = Inr cs" and "ReadDir (fm_storage m) dir s2 = Inr es"
  shows "distinct es \<and> {e \<in> set es. input_name cs e} = (\<lambda>x. (ach_name x, False)) ` (set acc - set can)"
proof -
  note t = disk_chest_tree[OF assms(1)]
  let ?I = "(\<lambda>o'. kept_id (op_id o')) ` set ops"
  have ids: "\<forall>o'\<in>set ops. slash \<notin> set (op_id o') \<and> kept_id (op_id o') \<in> ?I" using assms(4) by (auto simp: good_id_def)
  from chest_tree.pending_ops[OF t assms(2,3) refl ids chest_tree.pending_empty[OF t assms(2,5)] assms(6)]
  have p: "fs_inv root s1" "pending (fs_node root s1) (pend_dir m) ?I (set acc) (set can)" by simp_all
  have a: "{e \<in> set es. input_name cs e} = (\<lambda>x. (ach_name x, False)) ` (set acc - set can)"
    by (rule chest_tree.cutoff_inputs_set[OF t p(1) assms(3) refl p(2) good_ids[OF assms(4)] assms(7-11)])
  have "\<not> is_reg (fs_node root s1 (pend_dir m))" using pending_flat[OF p(2)] by (simp add: flat_def)
  note i = chest_tree.isolate_effect[OF t p(1) assms(3) refl assms(8,7,9) this]
  from i have "fs_inv root s2" "plain_path [dir]" by blast+
  from chest_tree.read_dir_sorted[OF t this] assms(11) have "distinct es" by (simp add: distinct_map)
  with a show ?thesis by blast
qed

lemma cutoff_takes_accepted_not_cancelled_witness:
  "\<exists>es cs. getCanceledFiles sample_merging ''prod-1'' (snd (isolateMergableDir sample_merging ''1''
       (snd (run_ops sample_lib sample_merging [Submit (sample_queue_file ''a''), Submit (sample_queue_file ''b''), CancelOp (sample_cancel ''b'')] sample_disk)))) = Inr cs \<and>
     {e \<in> set es. input_name cs e} = (\<lambda>x. (ach_name x, False)) ` (set [''a'', ''b''] - set [''b''])"
proof -
  let ?ops = "[Submit (sample_queue_file ''a''), Submit (sample_queue_file ''b''), CancelOp (sample_cancel ''b'')]"
  let ?run = "run_ops sample_lib sample_merging ?ops sample_disk"
  let ?iso = "isolateMergableDir sample_merging ''1'' (snd ?run)"
  have r: "?run = (([''a'', ''b''], [''b'']), snd ?run)"
    by (rule prod_eqI) code_simp+
  have i: "?iso = ((''prod-1'', None), snd ?iso)" by (rule prod_eqI) code_simp+
  have cs: "getCanceledFiles sample_merging ''prod-1'' (snd ?iso) = Inr [''b.ach'']" by code_simp
  have es: "ReadDir (fm_storage sample_merging) ''prod-1'' (snd ?iso) = Inr [(''a.ach'', False), (''b.ach.canceled'', False)]"
    by code_simp
  have "disk_chest ''/data'' (fm_storage sample_merging)" by (simp add: disk_chest_def sample_merging_def)
  moreover have "shard_ok sample_merging" by code_simp
  moreover have "\<forall>o'\<in>set ?ops. good_id (op_id o')" by code_simp
  moreover have "fs_node ''/data'' sample_disk (pend_dir sample_merging) = None" by code_simp
  moreover have "slash \<notin> set ''1''" by simp
  moreover have "fs_node ''/data'' (snd ?run) [''prod-1''] = None" by code_simp
  ultimately show ?thesis
    using cutoff_takes_accepted_not_cancelled[OF _ sample_disk_inv _ _ _ r i _ _ cs es] cs by blast
qed

end
