(* ===== verification/Cutoff_Proofs.thy ===== *)
theory Cutoff_Proofs
  imports Merging_Proofs "HOL-Library.Multiset"
begin

text \<open>
  Properties of whole cutoffs: two cutoffs never take the same submission, every entry of a
  taken file is uploaded exactly once when the cutoff reports no error, and the input files
  recorded for a merged file are those its entries came from.
\<close>

section \<open>Two cutoffs\<close>

text \<open>
  A second cutoff takes exactly the files accepted and not cancelled after the first
  one, and everything the first one isolated is still in its own directory: no submission
  goes out in both.
\<close>

theorem second_cutoff_takes_only_later_files:
  assumes "disk_chest root (fm_storage m)" and "fs_inv root s" and "shard_ok m"
    and "\<forall>o'\<in>set ops1. good_id (op_id o')" and "\<forall>o'\<in>set ops2. good_id (op_id o')"
    and "fs_node root s (pend_dir m) = None"
    and "run_ops L m ops1 s = ((acc1, can1), s1)"
    and "isolateMergableDir m stamp1 s1 = ((dir1, None), s2)" and "slash \<notin> set stamp1"
    and "run_ops L m ops2 s2 = ((acc2, can2), s3)"
    and "isolateMergableDir m stamp2 s3 = ((dir2, None), s4)" and "slash \<notin> set stamp2"
    and "stamp1 \<noteq> stamp2" and "fs_node root s [dir1] = None" and "fs_node root s [dir2] = None"
    and "getCanceledFiles m dir2 s4 = Inr cs" and "ReadDir (fm_storage m) dir2 s4 = Inr es"
  shows "{e \<in> set es. input_name cs e} = (\<lambda>x. (ach_name x, False)) ` (set acc2 - set can2) \<and>
    (\<forall>q. fs_node root s4 (dir1 # q) = fs_node root s2 (dir1 # q))"
proof -
  note t = disk_chest_tree[OF assms(1)]
  note none = chest_tree.pending_empty[OF t assms(2,6)]
  let ?I1 = "(\<lambda>o'. kept_id (op_id o')) ` set ops1" and ?I2 = "(\<lambda>o'. kept_id (op_id o')) ` set ops2"
  have ids: "\<forall>o'\<in>set ops1. slash \<notin> set (op_id o') \<and> kept_id (op_id o') \<in> ?I1"
    "\<forall>o'\<in>set ops2. slash \<notin> set (op_id o') \<and> kept_id (op_id o') \<in> ?I2"
    using assms(4,5) by (auto simp: good_id_def)
  then have sl: "\<forall>o'\<in>set ops1. slash \<notin> set (op_id o')" "\<forall>o'\<in>set ops2. slash \<notin> set (op_id o')" by blast+
  from chest_tree.pending_ops[OF t assms(2,3) refl ids(1) none assms(7)]
  have p1: "fs_inv root s1" "pending (fs_node root s1) (pend_dir m) ?I1 (set acc1) (set can1)" by simp_all
  have d1: "dir1 = sh_Name (fm_shard m) @ ''-'' @ stamp1" and d2: "dir2 = sh_Name (fm_shard m) @ ''-'' @ stamp2"
    using chest_tree.isolated_name(1)[OF t assms(3,9)] chest_tree.isolated_name(1)[OF t assms(3,12)] assms(8,11)
    by (auto simp: isolateMergableDir_def Let_def split: prod.splits)
  have out: "outside m (dir1 # q)" "outside m (dir2 # q)" for q
    using chest_tree.isolated_name(3)[OF t assms(3,9)] chest_tree.isolated_name(3)[OF t assms(3,12)] d1 d2
    by (auto simp: outside_def pend_dir_def)
  have ne: "dir1 \<noteq> dir2" using d1 d2 assms(13) by simp
  note fr1 = chest_tree.run_ops_frame[OF t assms(2,3) refl sl(1) pending_flat[OF none] assms(7)]
  have reg1: "\<not> is_reg (fs_node root s1 (pend_dir m))" using pending_flat[OF p1(2)] by (simp add: flat_def)
  have new1: "fs_node root s1 [dir1] = None" using fr1[OF out(1)] assms(14) by simp
  note i1 = chest_tree.isolate_effect[OF t p1(1) assms(3) refl assms(9,8) new1 reg1]
  then have inv2: "fs_inv root s2" by blast
  have "fs_node root s2 (pend_dir m) = None" using i1 by (metis append_Nil2)
  note none2 = chest_tree.pending_empty[OF t inv2 this]
  note fr2 = chest_tree.run_ops_frame[OF t inv2 assms(3) refl sl(2) pending_flat[OF none2] assms(10)]
  from chest_tree.pending_ops[OF t inv2 assms(3) refl ids(2) none2 assms(10)]
  have p3: "fs_inv root s3" "pending (fs_node root s3) (pend_dir m) ?I2 (set acc2) (set can2)" by simp_all
  have "\<not> prefix [dir1] [dir2]" using ne by simp
  moreover have "\<not> prefix (pend_dir m) [dir2]" by (simp add: pend_dir_def)
  ultimately have "fs_node root s2 [dir2] = fs_node root s1 [dir2]" using i1 by blast
  then have new2: "fs_node root s3 [dir2] = None" using fr2[OF out(2)] fr1[OF out(2)] assms(15) by simp
  have taken: "{e \<in> set es. input_name cs e} = (\<lambda>x. (ach_name x, False)) ` (set acc2 - set can2)"
    by (rule chest_tree.cutoff_inputs_set[OF t p3(1) assms(3) refl p3(2) good_ids[OF assms(5)] assms(11,12) new2 assms(16,17)])
  have reg3: "\<not> is_reg (fs_node root s3 (pend_dir m))" using pending_flat[OF p3(2)] by (simp add: flat_def)
  note i2 = chest_tree.isolate_effect[OF t p3(1) assms(3) refl assms(12,11) new2 reg3]
  have "fs_node root s4 (dir1 # q) = fs_node root s2 (dir1 # q)" for q
  proof -
    have "\<not> prefix [dir2] (dir1 # q)" using ne by simp
    moreover have "\<not> prefix (pend_dir m) (dir1 # q)" using out(1)[of q] by (auto simp: outside_def pend_dir_def)
    ultimately have "fs_node root s4 (dir1 # q) = fs_node root s3 (dir1 # q)" using i2 by blast
    then show ?thesis using fr2[OF out(1)] by simp
  qed
  with taken show ?thesis by blast
qed

lemma second_cutoff_takes_only_later_files_witness:
  "\<exists>s1 s2 s3 s4 es cs. run_ops sample_lib sample_merging [Submit (sample_queue_file ''a'')] sample_disk = (([''a''], []), s1) \<and>
     isolateMergableDir sample_merging ''1'' s1 = ((''prod-1'', None), s2) \<and>
     run_ops sample_lib sample_merging [Submit (sample_queue_file ''b'')] s2 = (([''b''], []), s3) \<and>
     isolateMergableDir sample_merging ''2'' s3 = ((''prod-2'', None), s4) \<and>
     {e \<in> set es. input_name cs e} = (\<lambda>x. (ach_name x, False)) ` (set [''b''] - set []) \<and>
     (\<forall>q. fs_node ''/data'' s4 (''prod-1'' # q) = fs_node ''/data'' s2 (''prod-1'' # q))"
proof -
  define s1 where "s1 = snd (run_ops sample_lib sample_merging [Submit (sample_queue_file ''a'')] sample_disk)"
  define s2 where "s2 = snd (isolateMergableDir sample_merging ''1'' s1)"
  define s3 where "s3 = snd (run_ops sample_lib sample_merging [Submit (sample_queue_file ''b'')] s2)"
  define s4 where "s4 = snd (isolateMergableDir sample_merging ''2'' s3)"
  note d = s1_def s2_def s3_def s4_def
  have r1: "run_ops sample_lib sample_merging [Submit (sample_queue_file ''a'')] sample_disk = (([''a''], []), s1)"
    unfolding d by (rule prod_eqI) code_simp+
  have i1: "isolateMergableDir sample_merging ''1'' s1 = ((''prod-1'', None), s2)"
    unfolding d by (rule prod_eqI) code_simp+
  have r2: "run_ops sample_lib sample_merging [Submit (sample_queue_file ''b'')] s2 = (([''b''], []), s3)"
    unfolding d by (rule prod_eqI) code_simp+
  have i2: "isolateMergableDir sample_merging ''2'' s3 = ((''prod-2'', None), s4)"
    unfolding d by (rule prod_eqI) code_simp+
  have cs: "getCanceledFiles sample_merging ''prod-2'' s4 = Inr []" unfolding d by code_simp
  have es: "ReadDir (fm_storage sample_merging) ''prod-2'' s4 = Inr [(''b.ach'', False)]" unfolding d by code_simp
  have c: "disk_chest ''/data'' (fm_storage sample_merging)" by (simp add: disk_chest_def sample_merging_def)
  have ok: "shard_ok sample_merging" by code_simp
  have g: "\<forall>o'\<in>set [Submit (sample_queue_file ''a'')]. good_id (op_id o')"
    "\<forall>o'\<in>set [Submit (sample_queue_file ''b'')]. good_id (op_id o')" by code_simp+
  have n: "fs_node ''/data'' sample_disk (pend_dir sample_merging) = None"
    "fs_node ''/data'' sample_disk [''prod-1''] = None" "fs_node ''/data'' sample_disk [''prod-2''] = None" by code_simp+
  have st: "slash \<notin> set ''1''" "slash \<notin> set ''2''" "''1'' \<noteq> ''2''" by simp_all
  note second_cutoff_takes_only_later_files[OF c sample_disk_inv ok g n(1) r1 i1 st(1) r2 i2 st(2,3) n(2,3) cs es]
  with r1 i1 r2 i2 show ?thesis by (intro exI conjI) (assumption | erule conjunct1 | erule conjunct2)+
qed

section \<open>No entry is lost or sent twice\<close>

text \<open>The entries an input file holds, by the keys \<open>makeKey\<close> gives them.\<close>

definition input_keys :: "ach_lib \<Rightarrow> 's filesystemMerging \<Rightarrow> string \<Rightarrow> 's \<Rightarrow> string \<Rightarrow> string list" where
  "input_keys L m dir s n =
     (case read_input L m (filepath_Join [dir, n]) s of Inl _ \<Rightarrow> [] | Inr f \<Rightarrow> file_keys L f)"

text \<open>
  What the sources rely on: merging a directory without subdirectories, whose options files
  the acceptor skips, keeps the entries of the accepted files, and so does flattening.
\<close>

definition merge_keeps_entries :: "'s outside \<Rightarrow> 's filesystemMerging \<Rightarrow> bool" where
  "merge_keeps_entries X m \<longleftrightarrow>
     (\<forall>dir cond accept s files es.
        MergeDir X dir cond accept ''.json'' (fm_storage m) s = (files, None) \<longrightarrow>
        ReadDir (fm_storage m) dir s = Inr es \<longrightarrow>
        (\<forall>e\<in>set es. \<not> snd e \<and> (HasSuffix (fst e) ''.json'' \<longrightarrow> \<not> accept (filepath_Join [dir, fst e]))) \<longrightarrow>
        mset (concat (map (file_keys (lib X)) files)) =
        mset (concat (map (input_keys (lib X) m dir s) (filter (\<lambda>n. accept (filepath_Join [dir, n])) (map fst es)))))"

definition flatten_keeps_entries :: "ach_lib \<Rightarrow> bool" where
  "flatten_keeps_entries L \<longleftrightarrow>
     (\<forall>f g. FlattenBatches_ach L f = Inr g \<longrightarrow> mset (file_keys L g) = mset (file_keys L f))"

definition all_keys :: "ach_lib \<Rightarrow> ach_file list \<Rightarrow> string multiset" where
  "all_keys L fs = mset (concat (map (file_keys L) fs))"

lemma all_keys_simps [simp]:
  "all_keys L [] = {#}" "all_keys L (f # fs) = mset (file_keys L f) + all_keys L fs"
  by (simp_all add: all_keys_def)

lemma cache_files_no_error:
  "cache_files X m dir fs el s = ((fs', []), s') \<Longrightarrow> flatten_keeps_entries (lib X) \<Longrightarrow>
     el = [] \<and> all_keys (lib X) fs' = all_keys (lib X) fs \<and> length fs' = length fs"
proof (induction fs arbitrary: el s fs' s')
  case (Cons f fs)
  define fe where "fe = (if mc_FlattenBatches (sh_Mergable (fm_shard m))
     then (case flattenBatches X f of Inl e \<Rightarrow> (f, el @ [e]) | Inr g \<Rightarrow> (g, el)) else (f, el))"
  obtain f1 el1 where fe: "fe = (f1, el1)" by fastforce
  obtain e s1 where sv: "saveMergedFile X m dir f1 s = (e, s1)" by fastforce
  define el2 where "el2 = (case e of None \<Rightarrow> el1 | Some x \<Rightarrow> el1 @ [errorf_v ''problem writing merged file: '' x])"
  obtain fs1 el3 s2 where rest0: "cache_files X m dir fs el2 s1 = ((fs1, el3), s2)" by (metis prod.exhaust)
  have "((f1 # fs1, el3), s2) = ((fs', []), s')"
    using Cons.prems(1) unfolding cache_files.simps Let_def fe_def[symmetric] fe prod.case sv el2_def[symmetric] rest0 .
  then have rest: "cache_files X m dir fs el2 s1 = ((fs1, []), s')" and fs': "fs' = f1 # fs1" using rest0 by auto
  from Cons.IH[OF rest Cons.prems(2)] have ih: "el2 = []" "all_keys (lib X) fs1 = all_keys (lib X) fs" "length fs1 = length fs"
    by auto
  from ih(1) have "el1 = []" by (auto simp: el2_def split: option.splits)
  then have "el = [] \<and> mset (file_keys (lib X) f1) = mset (file_keys (lib X) f)"
    using Cons.prems(2) fe by (auto simp: fe_def flatten_keeps_entries_def split: if_splits sum.splits)
  with ih fs' show ?case by simp
qed simp

lemma upload_files_no_error:
  "upload_files f shard i agent xs merged el s = ((merged', []), s') \<Longrightarrow>
     el = [] \<and> map merged_ACHFile merged' = map merged_ACHFile merged @ xs"
  by (induction f shard i agent xs merged el s rule: upload_files.induct)
     (auto split: prod.splits option.splits)

lemma find_inputs_files: "map merged_ACHFile (find_inputs L t ms) = map merged_ACHFile ms"
  by (induction L t ms rule: find_inputs.induct) (auto split: prod.splits)

lemma findInputFilepaths_files:
  "findInputFilepaths L t ms = Some ms' \<Longrightarrow> map merged_ACHFile ms' = map merged_ACHFile ms"
  by (auto simp: findInputFilepaths_def find_inputs_files split: option.splits if_splits)

text \<open>A cutoff without an error went through all its steps.\<close>

lemma cutoff_no_error:
  assumes "WithEachMerged X m stamp f created s = (Some (merged, None), created', s')"
    and "flatten_keeps_entries (lib X)"
  shows "\<exists>dir s1 canceled files.
    isolateMergableDir m stamp s = ((dir, None), s1) \<and> getCanceledFiles m dir s1 = Inr canceled \<and>
    MergeDir X dir (case mc_Conditions (sh_Mergable (fm_shard m)) of None \<Rightarrow> zero_conditions | Some c \<Rightarrow> c)
      (fileAcceptor canceled) ''.json'' (fm_storage m) s1 = (files, None) \<and>
    all_keys (lib X) (map merged_ACHFile merged) = all_keys (lib X) files"
proof -
  from assms(1) obtain dir s1 where i: "isolateMergableDir m stamp s = ((dir, None), s1)"
    by (auto simp: WithEachMerged_def split: prod.splits option.splits)
  with assms(1) obtain canceled where c: "getCanceledFiles m dir s1 = Inr canceled"
    by (auto simp: WithEachMerged_def split: sum.splits)
  let ?cond = "case mc_Conditions (sh_Mergable (fm_shard m)) of None \<Rightarrow> zero_conditions | Some c \<Rightarrow> c"
  obtain files me where mg: "mergeDir X dir ?cond (createMergeDirOptions m canceled) s1 = (files, me)"
    by fastforce
  define el0 where "el0 = add_err (map_option (errorf_v ''unable to merge files: '') me) []"
  obtain el1 s2 where r: "(if files = [] then (case RmdirAll (fm_storage m) dir s1 of (e, s') \<Rightarrow> (add_err e el0, s'))
      else (el0, s1)) = (el1, s2)" by fastforce
  define up where "up = filepath_Join [dir, ''uploaded'']"
  define s3 where "s3 = snd (MkdirAll (fm_storage m) up s2)"
  from assms(1) i c mg r obtain agent cr where a:
    "upload_New (dialing X) (retrying X) (mock_agent X) (fm_cfg m) (sh_UploadAgent (fm_shard m)) created = (Inr agent, cr)"
    by (auto simp: WithEachMerged_def Let_def el0_def simp del: mergeDir_def createMergeDirOptions_def
        split: prod.splits sum.splits)
  obtain files' el2 s4 where ca: "cache_files X m up files el1 s3 = ((files', el2), s4)" by (metis prod.exhaust)
  obtain merged0 el3 s5 where upl:
    "upload_files f (sh_Name (fm_shard m)) 0 agent files' [] el2 s4 = ((merged0, el3), s5)" by (metis prod.exhaust)
  have "findInputFilepaths (lib X) (case buildDirMapping (lib X) m dir canceled s5 of Inl _ \<Rightarrow> None | Inr t \<Rightarrow> Some t) merged0 = Some merged"
    and el: "(case buildDirMapping (lib X) m dir canceled s5 of Inl e \<Rightarrow> el3 @ [e] | Inr _ \<Rightarrow> el3) = []"
    using assms(1) unfolding WithEachMerged_def i c mg el0_def[symmetric] r up_def[symmetric] Let_def prod.case
      option.case sum.case a s3_def[symmetric] ca upl by (auto split: option.splits)
  then have fm: "map merged_ACHFile merged = map merged_ACHFile merged0" and "el3 = []"
    by (auto dest: findInputFilepaths_files split: sum.splits)
  with upload_files_no_error[of f _ 0 agent files' "[]" el2 s4 merged0 s5] upl
  have u: "el2 = []" "map merged_ACHFile merged0 = files'" by auto
  with cache_files_no_error[of X m up files el1 s3 files' s4] ca assms(2)
  have k: "el1 = []" "all_keys (lib X) files' = all_keys (lib X) files" by auto
  from k(1) r have "el0 = []" by (cases "files = []") (auto split: prod.splits option.splits simp: add_err_def)
  then have "me = None" by (cases me) (auto simp: el0_def)
  moreover have "MergeDir X dir ?cond (fileAcceptor canceled) ''.json'' (fm_storage m) s1 = (files, me)" using mg by simp
  ultimately show ?thesis using i c fm u k by (metis (no_types))
qed

lemma sublist_skip: "c \<notin> set xs \<Longrightarrow> sublist (c # w) (xs @ ys) = sublist (c # w) ys"
proof (induction xs)
  case (Cons x xs)
  then have "\<not> prefix (c # w) (x # xs @ ys)" by auto
  with Cons show ?case by (simp add: sublist_Cons_right)
qed simp

lemma acceptor_ignores_dir:
  assumes "CHR ''.'' \<notin> set dir" and "plain_path [dir]" and "plain_name n"
  shows "fileAcceptor cs (filepath_Join [dir, n]) = fileAcceptor cs n"
proof -
  have j: "filepath_Join [dir, n] = dir @ ''/'' @ n"
    using Join_names[of "[dir, n]"] assms(2,3) by (simp add: plain_path_def)
  have sl: "slash \<notin> set n" using assms(3) by (simp add: plain_name_def)
  have c: "Contains (dir @ ''/'' @ n) (CHR ''.'' # w) = Contains n (CHR ''.'' # w)" for w
  proof -
    have "CHR ''.'' \<notin> set (dir @ ''/'')" using assms(1) by simp
    then have "sublist (CHR ''.'' # w) ((dir @ ''/'') @ n) = sublist (CHR ''.'' # w) n"
      by (rule sublist_skip)
    then show ?thesis by (simp add: Contains_def)
  qed
  have "snd (filepath_Split (dir @ ''/'' @ n)) = n" "snd (filepath_Split n) = n"
    using Split_dir_name[OF sl] Split_name[OF sl] by simp_all
  with c show ?thesis by (simp add: fileAcceptor_def j)
qed

lemma mset_concat_distinct: "distinct ns \<Longrightarrow> mset (concat (map g ns)) = (\<Sum>n\<in>set ns. mset (g n))"
  by (induction ns) auto

text \<open>The listing of the directory a cutoff took, as the merger filters it.\<close>

context chest_tree
begin

lemma json_not_accepted:
  assumes "pending (node s1) (pend_dir m) I A C" and "\<forall>x\<in>I. \<not> Contains x ''.ach''"
    and "node s1 (pend_dir m @ [n]) \<noteq> None" and "HasSuffix n ''.json''"
  shows "\<not> fileAcceptor cs n"
proof -
  obtain x where x: "x \<in> I" "n \<in> {ach_name x, canceled_name x, json_name x}"
    using assms(1,3) unfolding pending_def present_def by blast
  with assms(4) have "n = json_name x" by (auto simp: HasSuffix_def suffix_def)
  moreover have "\<not> Contains (json_name x) ''.ach''"
    using assms(2) x(1) Contains_tail[of "''.ach''" "''.json''"] by auto
  ultimately show ?thesis by (simp add: fileAcceptor_def)
qed

lemma accepted_listing:
  assumes "inv s1" and "shard_ok m" and "fm_storage m = c"
    and "CHR ''.'' \<notin> set (sh_Name (fm_shard m) @ stamp)" and "slash \<notin> set stamp"
    and "pending (node s1) (pend_dir m) I A C"
    and "\<forall>x\<in>I. slash \<notin> set x \<and> \<not> Contains x ''.canceled'' \<and> \<not> Contains x ''.ach''"
    and "node s1 [sh_Name (fm_shard m) @ ''-'' @ stamp] = None"
    and "isolateMergableDir m stamp s1 = ((dir, None), s2)" and "getCanceledFiles m dir s2 = Inr cs"
  shows "\<exists>es. ReadDir c dir s2 = Inr es \<and> distinct (map fst es) \<and>
    (\<forall>e\<in>set es. \<not> snd e \<and> (HasSuffix (fst e) ''.json'' \<longrightarrow> \<not> fileAcceptor cs (filepath_Join [dir, fst e]))) \<and>
    set (filter (\<lambda>n. fileAcceptor cs (filepath_Join [dir, n])) (map fst es)) = ach_name ` (A - C)"
proof -
  have flat1: "flat (node s1) (pend_dir m)" using assms(6) by (rule pending_flat)
  have dir: "dir = sh_Name (fm_shard m) @ ''-'' @ stamp"
    using assms(9) isolated_name(1)[OF assms(2,5)] by (auto simp: isolateMergableDir_def Let_def split: prod.splits)
  have new: "node s1 [dir] = None" using assms(8) dir by simp
  have reg: "\<not> is_reg (node s1 (pend_dir m))" using flat1 by (simp add: flat_def)
  note iso = isolate_effect[OF assms(1-3,5,9) new reg]
  then have inv2: "inv s2" and pd: "plain_path [dir]"
    and sub: "\<forall>q. node s2 (dir # q) = (if q = [] then Some Dir else node s1 (pend_dir m @ q))" by blast+
  obtain es where es: "ReadDir c dir s2 = Inr es" using read_dir_ok[OF inv2 pd] sub by auto
  have mem: "(n, b) \<in> set es \<longleftrightarrow> (\<exists>k. node s1 (pend_dir m @ [n]) = Some k \<and> b = (k = Dir))" for n b
    using read_dir_iff[OF inv2 pd, of es n b] es sub by simp
  have nodir: "\<not> snd e" if "e \<in> set es" for e
    using that mem[of "fst e" "snd e"] flat1 by (auto simp: flat_def)
  have plain: "plain_name (fst e)" if "e \<in> set es" for e
    using that mem[of "fst e" "snd e"] plain_nodes[OF assms(1), of "pend_dir m @ [fst e]"] by auto
  have dot: "CHR ''.'' \<notin> set dir" using assms(4) dir by auto
  have acc: "fileAcceptor cs (filepath_Join [dir, fst e]) = fileAcceptor cs (fst e)" if "e \<in> set es" for e
    by (rule acceptor_ignores_dir[OF dot pd plain[OF that]])
  have json: "\<not> fileAcceptor cs (fst e)" if "e \<in> set es" and "HasSuffix (fst e) ''.json''" for e
    using json_not_accepted[OF assms(6) _ _ that(2)] assms(7) that(1) mem[of "fst e" "snd e"] by auto
  have "\<forall>x\<in>I. slash \<notin> set x \<and> \<not> Contains x ''.canceled''" using assms(7) by blast
  note taken = cutoff_inputs_set[OF assms(1-3,6) this assms(9,5) new assms(10) es]
  have "set (filter (\<lambda>n. fileAcceptor cs (filepath_Join [dir, n])) (map fst es)) = fst ` {e \<in> set es. fileAcceptor cs (fst e)}"
    using acc by force
  also have "{e \<in> set es. fileAcceptor cs (fst e)} = {e \<in> set es. input_name cs e}"
    using nodir json by (auto simp: input_name_def)
  finally have "set (filter (\<lambda>n. fileAcceptor cs (filepath_Join [dir, n])) (map fst es)) = ach_name ` (A - C)"
    using taken by (simp add: image_image)
  moreover have "distinct (map fst es)" using read_dir_sorted[OF inv2 pd, of es] es by simp
  ultimately show ?thesis using es nodir json acc by auto
qed

end

text \<open>
  The entries a cutoff without an error uploads are those of the pending files, accepted and
  not cancelled.
\<close>

lemma pending_entries_uploaded:
  assumes "chest_tree (fm_storage m) ok nodes" and "ok s1" and "shard_ok m"
    and "CHR ''.'' \<notin> set (sh_Name (fm_shard m) @ stamp)" and "slash \<notin> set stamp"
    and "pending (nodes s1) (pend_dir m) I A C"
    and "\<forall>x\<in>I. slash \<notin> set x \<and> \<not> Contains x ''.canceled'' \<and> \<not> Contains x ''.ach''"
    and "nodes s1 [sh_Name (fm_shard m) @ ''-'' @ stamp] = None"
    and "WithEachMerged X m stamp f created s1 = (Some (merged, None), created', s')"
    and "merge_keeps_entries X m" and "flatten_keeps_entries (lib X)"
  shows "\<exists>dir s2. isolateMergableDir m stamp s1 = ((dir, None), s2) \<and>
    all_keys (lib X) (map merged_ACHFile merged) = (\<Sum>x\<in>A - C. mset (input_keys (lib X) m dir s2 (ach_name x)))"
proof -
  obtain dir s2 cs files where i: "isolateMergableDir m stamp s1 = ((dir, None), s2)"
    and cs: "getCanceledFiles m dir s2 = Inr cs"
    and mg: "MergeDir X dir (case mc_Conditions (sh_Mergable (fm_shard m)) of None \<Rightarrow> zero_conditions | Some c \<Rightarrow> c)
      (fileAcceptor cs) ''.json'' (fm_storage m) s2 = (files, None)"
    and up: "all_keys (lib X) (map merged_ACHFile merged) = all_keys (lib X) files"
    using cutoff_no_error[OF assms(9,11)] by blast
  obtain es where es: "ReadDir (fm_storage m) dir s2 = Inr es" and d: "distinct (map fst es)"
    and ok: "\<forall>e\<in>set es. \<not> snd e \<and> (HasSuffix (fst e) ''.json'' \<longrightarrow> \<not> fileAcceptor cs (filepath_Join [dir, fst e]))"
    and ns: "set (filter (\<lambda>n. fileAcceptor cs (filepath_Join [dir, n])) (map fst es)) = ach_name ` (A - C)"
    using chest_tree.accepted_listing[OF assms(1-3) refl assms(4-8) i cs] by blast
  let ?ns = "filter (\<lambda>n. fileAcceptor cs (filepath_Join [dir, n])) (map fst es)"
  have "all_keys (lib X) files = mset (concat (map (input_keys (lib X) m dir s2) ?ns))"
    using assms(10)[unfolded merge_keeps_entries_def, rule_format, OF mg es ok[rule_format]] by (simp add: all_keys_def)
  also have "\<dots> = (\<Sum>n\<in>ach_name ` (A - C). mset (input_keys (lib X) m dir s2 n))"
    using mset_concat_distinct[of ?ns "input_keys (lib X) m dir s2"] d ns by simp
  also have "\<dots> = (\<Sum>x\<in>A - C. mset (input_keys (lib X) m dir s2 (ach_name x)))"
    by (subst sum.reindex) (auto simp: inj_on_def)
  finally show ?thesis using i up by auto
qed

text \<open>
  C9. When a cutoff reports no error, the merged files it uploaded hold each entry of each
  file accepted and not cancelled exactly as often as that file does, and no other entry:
  nothing is lost, sent twice, or sent although it was cancelled.
\<close>

theorem accepted_entries_uploaded_once:
  assumes "disk_chest root (fm_storage m)" and "fs_inv root s" and "shard_ok m"
    and "CHR ''.'' \<notin> set (sh_Name (fm_shard m) @ stamp)" and "slash \<notin> set stamp"
    and "\<forall>o'\<in>set ops. good_id (op_id o') \<and> \<not> Contains (kept_id (op_id o')) ''.ach''"
    and "fs_node root s (pend_dir m) = None" and "run_ops (lib X) m ops s = ((acc, can), s1)"
    and "fs_node root s1 [sh_Name (fm_shard m) @ ''-'' @ stamp] = None"
    and "WithEachMerged X m stamp f created s1 = (Some (merged, None), created', s')"
    and "merge_keeps_entries X m" and "flatten_keeps_entries (lib X)"
  shows "\<exists>dir s2. isolateMergableDir m stamp s1 = ((dir, None), s2) \<and>
    all_keys (lib X) (map merged_ACHFile merged) =
      (\<Sum>x\<in>set acc - set can. mset (input_keys (lib X) m dir s2 (ach_name x)))"
proof -
  note t = disk_chest_tree[OF assms(1)]
  let ?I = "(\<lambda>o'. kept_id (op_id o')) ` set ops"
  have ids: "\<forall>o'\<in>set ops. slash \<notin> set (op_id o') \<and> kept_id (op_id o') \<in> ?I"
    "\<forall>x\<in>?I. slash \<notin> set x \<and> \<not> Contains x ''.canceled'' \<and> \<not> Contains x ''.ach''"
    using assms(6) kept_noslash by (auto simp: good_id_def)
  from chest_tree.pending_ops[OF t assms(2,3) refl ids(1) chest_tree.pending_empty[OF t assms(2,7)] assms(8)]
  have p: "fs_inv root s1" "pending (fs_node root s1) (pend_dir m) ?I (set acc) (set can)" by simp_all
  from pending_entries_uploaded[OF t p(1) assms(3-5) p(2) ids(2) assms(9-12)] show ?thesis .
qed

lemma sample_merge_keeps: "merge_keeps_entries sample_outside m"
proof -
  have rd: "read_input sample_lib \<lparr>fm_cfg = cfg, fm_storage = fm_storage m, fm_shard = sh\<rparr> p s = read_input sample_lib m p s" for cfg sh p s
    unfolding read_input_def by (simp only: filesystemMerging.select_convs)
  have keep: "mset (concat (map (file_keys sample_lib) (map projr (map g ns)))) =
      mset (concat (map (\<lambda>n. case g n of Inl _ \<Rightarrow> [] | Inr f \<Rightarrow> file_keys sample_lib f) ns))"
    if "\<not> list_ex isl (map g ns)" for g :: "string \<Rightarrow> err + ach_file" and ns
    using that by (induction ns) (auto split: sum.splits simp: isl_def)
  show ?thesis
    unfolding merge_keeps_entries_def
  proof (intro allI impI, goal_cases)
    case (1 dir cond accept s files es)
    let ?g = "\<lambda>n. read_input sample_lib m (filepath_Join [dir, n]) s"
    let ?ns = "filter (\<lambda>n. accept (filepath_Join [dir, n])) (map fst es)"
    have "\<not> list_ex isl (map ?g ?ns) \<and> files = map projr (map ?g ?ns)"
      using 1(1,2) by (simp add: sample_outside_def sample_MergeDir_def Let_def rd split: if_splits)
    moreover have "input_keys sample_lib m dir s = (\<lambda>n. case ?g n of Inl _ \<Rightarrow> [] | Inr f \<Rightarrow> file_keys sample_lib f)"
      by (rule ext) (simp add: input_keys_def)
    ultimately show ?case
      using keep[of ?g ?ns] by (simp add: sample_outside_def)
  qed
qed

lemma sample_flatten_keeps: "flatten_keeps_entries (lib sample_outside)"
  by (simp add: flatten_keeps_entries_def sample_outside_def sample_lib_def)

definition sample_callback :: "'s callback" where
  "sample_callback i a f s = ((''out.ach'', None), s)"

lemma accepted_entries_uploaded_once_witness:
  "\<exists>merged s1 s2. run_ops sample_lib sample_merging [Submit (sample_queue_file ''a''), Submit (sample_queue_file ''b''), CancelOp (sample_cancel ''b'')] sample_disk = (([''a'', ''b''], [''b'']), s1) \<and>
    isolateMergableDir sample_merging ''1'' s1 = ((''prod-1'', None), s2) \<and>
    fst (WithEachMerged sample_outside sample_merging ''1'' sample_callback [] s1) = Some (merged, None) \<and>
    all_keys sample_lib (map merged_ACHFile merged) = (\<Sum>x\<in>{''a''}. mset (input_keys sample_lib sample_merging ''prod-1'' s2 (ach_name x)))"
proof -
  let ?ops = "[Submit (sample_queue_file ''a''), Submit (sample_queue_file ''b''), CancelOp (sample_cancel ''b'')]"
  define s1 where "s1 = snd (run_ops sample_lib sample_merging ?ops sample_disk)"
  define s2 where "s2 = snd (isolateMergableDir sample_merging ''1'' s1)"
  define w where "w = WithEachMerged sample_outside sample_merging ''1'' sample_callback [] s1"
  have L: "lib sample_outside = sample_lib" by (simp add: sample_outside_def)
  have r: "run_ops (lib sample_outside) sample_merging ?ops sample_disk = (([''a'', ''b''], [''b'']), s1)"
    unfolding s1_def L by (rule prod_eqI) code_simp+
  have i: "isolateMergableDir sample_merging ''1'' s1 = ((''prod-1'', None), s2)"
    unfolding s2_def s1_def by (rule prod_eqI) code_simp+
  have f: "map_option snd (fst w) = Some None" unfolding w_def s1_def by code_simp
  then obtain merged where "fst w = Some (merged, None)" by auto
  then have m: "WithEachMerged sample_outside sample_merging ''1'' sample_callback [] s1 = (Some (merged, None), fst (snd w), snd (snd w))"
    by (simp add: w_def prod_eq_iff)
  have d: "disk_chest ''/data'' (fm_storage sample_merging)" by (simp add: disk_chest_def sample_merging_def)
  have ok: "shard_ok sample_merging" by code_simp
  have g: "\<forall>o'\<in>set ?ops. good_id (op_id o') \<and> \<not> Contains (kept_id (op_id o')) ''.ach''" by code_simp
  have p: "fs_node ''/data'' sample_disk (pend_dir sample_merging) = None" by code_simp
  have n: "fs_node ''/data'' s1 [sh_Name (fm_shard sample_merging) @ ''-'' @ ''1''] = None" unfolding s1_def by code_simp
  have c: "CHR ''.'' \<notin> set (sh_Name (fm_shard sample_merging) @ ''1'')" "slash \<notin> set ''1''" by code_simp+
  have "set [''a'', ''b''] - set [''b''] = {''a''}" by auto
  with accepted_entries_uploaded_once[OF d sample_disk_inv ok c g p r n m sample_merge_keeps sample_flatten_keeps] i
  have "all_keys sample_lib (map merged_ACHFile merged) = (\<Sum>x\<in>{''a''}. mset (input_keys sample_lib sample_merging ''prod-1'' s2 (ach_name x)))"
    by (simp add: L)
  with r i m show ?thesis unfolding L by (intro exI conjI) (assumption | simp)+
qed

end
