(* ===== verification/Trace_Proofs.thy ===== *)
theory Trace_Proofs
  imports Cutoff_Proofs
begin

text \<open>
  Tracing uploaded entries back to the input files (\<open>buildDirMapping\<close> and
  \<open>findInputFilepaths\<close> of \<open>internal/pipeline/merging.go\<close>).
\<close>

section \<open>The tree of entry keys\<close>

lemma add_keys_apply: "add_keys f ks t k = (if k \<in> set ks then Some f else t k)"
  unfolding add_keys_def by (induction ks arbitrary: t) auto

text \<open>Reading the accepted names one after the other adds the keys of each.\<close>

definition trace_keys :: "ach_lib \<Rightarrow> 's filesystemMerging \<Rightarrow> string \<Rightarrow> 's \<Rightarrow> string list \<Rightarrow> key_map \<Rightarrow> key_map" where
  "trace_keys L m dir s ns t = fold (\<lambda>n. add_keys n (input_keys L m dir s n)) ns t"

lemma map_names_trace:
  assumes "map_names L m dir cs s es t = Inr t'"
    and "\<forall>e\<in>set es. snd (filepath_Split (filepath_Join [dir, fst e])) = fst e"
  shows "t' = trace_keys L m dir s (map fst (filter (input_name cs) es)) t"
  using assms
proof (induction es arbitrary: t)
  case (Cons e es)
  show ?case
  proof (cases "input_name cs e")
    case True
    with Cons.prems obtain f where "read_input L m (filepath_Join [dir, fst e]) s = Inr f"
      "map_names L m dir cs s es (add_keys (fst e) (file_keys L f) t) = Inr t'"
      by (auto simp: accumulateMappings_def split: sum.splits)
    with Cons.IH[of "add_keys (fst e) (file_keys L f) t"] Cons.prems(2) True show ?thesis
      by (simp add: trace_keys_def input_keys_def)
  qed (use Cons in simp)
qed (simp add: trace_keys_def)

lemma trace_keys_dom:
  "trace_keys L m dir s ns t k \<noteq> None \<longleftrightarrow> t k \<noteq> None \<or> (\<exists>n\<in>set ns. k \<in> set (input_keys L m dir s n))"
  by (induction ns arbitrary: t) (auto simp: trace_keys_def add_keys_apply)

lemma trace_keys_ran:
  "trace_keys L m dir s ns t k = Some f \<Longrightarrow> t k = Some f \<or> f \<in> set ns \<and> k \<in> set (input_keys L m dir s f)"
proof (induction ns arbitrary: t)
  case (Cons n ns)
  then have "trace_keys L m dir s ns (add_keys n (input_keys L m dir s n) t) k = Some f" by (simp add: trace_keys_def)
  from Cons.IH[OF this] show ?case by (auto simp: add_keys_apply split: if_splits)
qed (simp add: trace_keys_def)

section \<open>Looking the entries up\<close>

lemma take_keys_left: "fst (take_keys ks t acc) k = (if k \<in> set ks then None else t k)"
proof (induction ks t acc rule: take_keys.induct)
  case (2 x ks t acc)
  show ?case
  proof (cases "t x")
    case (Some f)
    from 2(2)[OF Some] have "fst (take_keys ks (t(x := None)) (acc @ [f])) k = (if k \<in> set ks then None else (t(x := None)) k)" .
    with Some show ?thesis by (simp del: fun_upd_apply) simp
  qed (use 2 in auto)
qed simp

lemma take_keys_found: "set (snd (take_keys ks t acc)) = set acc \<union> {f. \<exists>k\<in>set ks. t k = Some f}"
proof (induction ks t acc rule: take_keys.induct)
  case (2 k ks t acc)
  show ?case
  proof (cases "t k")
    case None
    with 2(1) show ?thesis by auto
  next
    case (Some f)
    have "{f'. \<exists>x\<in>set (k # ks). t x = Some f'} = insert f {f'. \<exists>x\<in>set ks. (t(k := None)) x = Some f'}"
    proof (intro set_eqI iffI, goal_cases)
      case (1 g)
      then obtain x where x: "x \<in> set (k # ks)" "t x = Some g" by blast
      show ?case
      proof (cases "x = k")
        case False
        with x have "x \<in> set ks" "(t(k := None)) x = Some g" by auto
        then show ?thesis by blast
      qed (use x Some in simp)
    next
      case (2 g)
      then show ?case using Some by (auto split: if_splits)
    qed
    with 2(2)[OF Some] Some show ?thesis by (simp del: fun_upd_apply)
  qed
qed simp

lemma find_inputs_length: "length (find_inputs L t ms) = length ms"
  by (induction L t ms rule: find_inputs.induct) (auto split: prod.splits)

lemma find_inputs_nth:
  "distinct (concat (map (\<lambda>mf. file_keys L (merged_ACHFile mf)) ms)) \<Longrightarrow> i < length ms \<Longrightarrow> InputFilepaths (ms ! i) = [] \<Longrightarrow>
     set (InputFilepaths (find_inputs L t ms ! i)) = {f. \<exists>k\<in>set (file_keys L (merged_ACHFile (ms ! i))). t k = Some f}"
proof (induction ms arbitrary: t i)
  case (Cons mf ms)
  obtain t' fs where tk: "take_keys (file_keys L (merged_ACHFile mf)) t (InputFilepaths mf) = (t', fs)" by fastforce
  show ?case
  proof (cases i)
    case 0
    with tk Cons.prems(3) take_keys_found[of "file_keys L (merged_ACHFile mf)" t "InputFilepaths mf"] show ?thesis by simp
  next
    case (Suc j)
    then have j: "j < length ms" "InputFilepaths (ms ! j) = []" using Cons.prems by auto
    have "t' k = t k" if "k \<in> set (file_keys L (merged_ACHFile (ms ! j)))" for k
    proof -
      have "k \<in> (\<Union>x\<in>set ms. set (file_keys L (merged_ACHFile x)))" using that j(1) by (meson UN_I nth_mem)
      then have "k \<notin> set (file_keys L (merged_ACHFile mf))" using Cons.prems(1) by auto
      then show ?thesis using take_keys_left[of "file_keys L (merged_ACHFile mf)" t "InputFilepaths mf" k] tk by simp
    qed
    with Cons.IH[OF _ j, of t'] Cons.prems(1) tk Suc show ?thesis by auto
  qed
qed simp



end
