(* ===== verification/Cleanup_Service.thy ===== *)
theory Cleanup_Service
  imports Merging_Proofs
begin

text \<open>
  The periodic removal of isolated directories (\<open>internal/pipeline/cleanup.go\<close>): which
  names count as a shard's isolated directory, when one may be deleted, a run over the
  storage root, and the statistics of the admin endpoint. The current time is an input, and
  so is the size the file system reports for a directory.
\<close>

record 's cleanup_service =
  cs_storage :: "'s chest"
  cs_shard :: Shard
  cs_config :: CleanupConfig

definition NewCleanupService :: "'s chest \<Rightarrow> Shard \<Rightarrow> CleanupConfig option \<Rightarrow> 's cleanup_service option" where
  "NewCleanupService storage shard config =
     (case config of
        None \<Rightarrow> None
      | Some c \<Rightarrow> if \<not> cl_Enabled c then None
                  else Some \<lparr>cs_storage = storage, cs_shard = shard, cs_config = c\<rparr>)"

text \<open>The regular expression \<open>^<shard>-[0-9]{8}-[0-9]{6}$\<close> with the name quoted.\<close>

definition directoryPattern :: "string \<Rightarrow> string \<Rightarrow> bool" where
  "directoryPattern name dir \<longleftrightarrow>
     length dir = length name + 16 \<and> HasPrefix dir (name @ ''-'') \<and>
     (let stamp = drop (length name + 1) dir
      in list_all is_digit (take 8 stamp) \<and> stamp ! 8 = CHR ''-'' \<and> list_all is_digit (drop 9 stamp))"

definition shouldDeleteDirectory :: "'s cleanup_service \<Rightarrow> string \<Rightarrow> int \<Rightarrow> 's \<Rightarrow> err + bool" where
  "shouldDeleteDirectory cs dirName cutoffTime s =
     (let baseName = filepath_Base dirName;
          n = length (sh_Name (cs_shard cs)) + 1
      in if length baseName \<le> n then Inl (errors_New (''directory name too short: '' @ baseName))
         else case parse_instant (drop n baseName) of
           None \<Rightarrow> Inl (errors_New (''failed to parse directory timestamp from '' @ baseName))
         | Some dirTime \<Rightarrow>
             if dirTime > cutoffTime then Inr False
             else (case ReadDir (cs_storage cs) (filepath_Join [dirName, ''uploaded'']) s of
                     Inl _ \<Rightarrow> Inr False
                   | Inr entries \<Rightarrow> Inr (list_ex (\<lambda>e. \<not> snd e) entries)))"

definition deleteDirectory :: "'s cleanup_service \<Rightarrow> string \<Rightarrow> 's \<Rightarrow> err option \<times> 's" where
  "deleteDirectory cs dirName s = RmdirAll (cs_storage cs) dirName s"

text \<open>The loop of a run: how many directories were deleted and how many errors were met.\<close>

fun cleanup_entries ::
  "'s cleanup_service \<Rightarrow> int \<Rightarrow> (string \<times> bool) list \<Rightarrow> nat \<times> nat \<Rightarrow> 's \<Rightarrow> (nat \<times> nat) \<times> 's" where
  "cleanup_entries cs cutoffTime [] cnt s = (cnt, s)"
| "cleanup_entries cs cutoffTime (e # es) (deleted, errors) s =
     (if \<not> snd e then cleanup_entries cs cutoffTime es (deleted, errors) s
      else if \<not> directoryPattern (sh_Name (cs_shard cs)) (fst e) then cleanup_entries cs cutoffTime es (deleted, errors) s
      else case shouldDeleteDirectory cs (fst e) cutoffTime s of
        Inl _ \<Rightarrow> cleanup_entries cs cutoffTime es (deleted, Suc errors) s
      | Inr False \<Rightarrow> cleanup_entries cs cutoffTime es (deleted, errors) s
      | Inr True \<Rightarrow>
          (case deleteDirectory cs (fst e) s of
             (Some _, s1) \<Rightarrow> cleanup_entries cs cutoffTime es (deleted, Suc errors) s1
           | (None, s1) \<Rightarrow> cleanup_entries cs cutoffTime es (Suc deleted, errors) s1))"

datatype cleanup_status = Run_error | Run_partial_error | Run_success

text \<open>The status is what the counter of runs is labelled with.\<close>

definition runCleanup :: "'s cleanup_service \<Rightarrow> int \<Rightarrow> 's \<Rightarrow> (cleanup_status \<times> nat \<times> nat) \<times> 's" where
  "runCleanup cs now s =
     (case ReadDir (cs_storage cs) ''.'' s of
        Inl e \<Rightarrow> ((Run_error, 0, 0), s)
      | Inr entries \<Rightarrow>
          let ((deleted, errors), s1) =
                cleanup_entries cs (now - cl_RetentionDuration (cs_config cs)) entries (0, 0) s
          in ((if errors = 0 then Run_success else Run_partial_error, deleted, errors), s1))"

text \<open>The goroutine of \<open>Start\<close>: a run at once and one at each tick.\<close>

definition cleanup_Start :: "'s cleanup_service option \<Rightarrow> int \<Rightarrow> int list \<Rightarrow> 's \<Rightarrow> 's" where
  "cleanup_Start cs now ticks s =
     (case cs of None \<Rightarrow> s | Some c \<Rightarrow> fold (\<lambda>t s. snd (runCleanup c t s)) (now # ticks) s)"

record CleanupStats =
  stats_ShardName :: string
  TotalDirectories :: nat
  EligibleForDeletion :: nat
  TotalSize :: int
  stats_RetentionDuration :: duration

fun stats_entries ::
  "'s cleanup_service \<Rightarrow> (string \<Rightarrow> err + int) \<Rightarrow> int \<Rightarrow> (string \<times> bool) list \<Rightarrow> 's \<Rightarrow> CleanupStats \<Rightarrow> err + CleanupStats" where
  "stats_entries cs info cutoffTime [] s st = Inr st"
| "stats_entries cs info cutoffTime (e # es) s st =
     (if \<not> snd e \<or> \<not> directoryPattern (sh_Name (cs_shard cs)) (fst e) then stats_entries cs info cutoffTime es s st
      else case info (fst e) of
        Inl x \<Rightarrow> Inl (errorf_w (''getting info on '' @ fst e @ '' failed: '') x)
      | Inr sz \<Rightarrow>
          let st1 = st\<lparr>TotalDirectories := TotalDirectories st + 1\<rparr>
          in (case shouldDeleteDirectory cs (fst e) cutoffTime s of
                Inl x \<Rightarrow> Inl (errorf_w (''checking '' @ fst e @ '' to delete failed: '') x)
              | Inr b \<Rightarrow>
                  stats_entries cs info cutoffTime es s
                    (if b then st1\<lparr>EligibleForDeletion := EligibleForDeletion st1 + 1, TotalSize := TotalSize st1 + sz\<rparr>
                     else st1)))"

definition GetStats ::
  "'s cleanup_service option \<Rightarrow> string \<Rightarrow> (string \<Rightarrow> err + int) \<Rightarrow> int \<Rightarrow> 's \<Rightarrow> err + CleanupStats option" where
  "GetStats cs wd info now s =
     (case cs of
        None \<Rightarrow> Inr None
      | Some c \<Rightarrow>
          (case ReadDir (cs_storage c) ''.'' s of
             Inl e \<Rightarrow> Inl (errorf_w (''reading '' @ wd @ '' failed: '') e)
           | Inr entries \<Rightarrow>
               (case stats_entries c info (now - cl_RetentionDuration (cs_config c)) entries s
                  \<lparr>stats_ShardName = sh_Name (cs_shard c), TotalDirectories = 0, EligibleForDeletion = 0, TotalSize = 0,
                    stats_RetentionDuration = cl_RetentionDuration (cs_config c)\<rparr> of
                  Inl e \<Rightarrow> Inl e | Inr st \<Rightarrow> Inr (Some st))))"

section \<open>What a run deletes\<close>

text \<open>
  The directories a run is meant to delete: isolated directories of the shard, not younger
  than the retention, with at least one file under \<open>uploaded/\<close>.
\<close>

definition expired :: "string \<Rightarrow> int \<Rightarrow> tree \<Rightarrow> string \<Rightarrow> bool" where
  "expired name cutoffTime t dir \<longleftrightarrow>
     directoryPattern name dir \<and> t [dir] = Some Dir \<and>
     (\<exists>i. parse_instant (drop (length name + 1) dir) = Some i \<and> i \<le> cutoffTime) \<and>
     (\<exists>n b. t [dir, ''uploaded'', n] = Some (Reg b))"

text \<open>
  The directories of a listing that are due, and what going through the listing makes of the
  counts and the tree: some of those directories are gone, all of them if no error was met.
\<close>

definition due :: "string \<Rightarrow> int \<Rightarrow> tree \<Rightarrow> (string \<times> bool) list \<Rightarrow> string set" where
  "due name cutoffTime t es = {dir. (dir, True) \<in> set es \<and> expired name cutoffTime t dir}"

definition swept ::
  "string \<Rightarrow> int \<Rightarrow> (string \<times> bool) list \<Rightarrow> tree \<Rightarrow> nat \<times> nat \<Rightarrow> nat \<times> nat \<Rightarrow> tree \<Rightarrow> bool" where
  "swept name cutoffTime es t cnt cnt' t' \<longleftrightarrow>
     snd cnt \<le> snd cnt' \<and>
     (\<exists>D. D \<subseteq> due name cutoffTime t es \<and> (snd cnt' = snd cnt \<longrightarrow> D = due name cutoffTime t es) \<and>
       fst cnt' = fst cnt + card D \<and> t' = (\<lambda>q. if \<exists>dir\<in>D. prefix [dir] q then None else t q))"

lemma finite_due: "finite (due name cutoffTime t es)"
  by (rule finite_subset[of _ "fst ` set es"]) (force simp: due_def, simp)

lemma due_Cons:
  "due name cutoffTime t ((dir, b) # es) = (if b \<and> expired name cutoffTime t dir then {dir} else {}) \<union> due name cutoffTime t es"
  by (auto simp: due_def)

lemma swept_Nil: "swept name cutoffTime [] t cnt cnt t"
  by (simp add: swept_def due_def)

lemma swept_kept:
  assumes "swept name cutoffTime es t (d, er'') cnt' t'" and "er \<le> er''"
    and "er'' = er \<longrightarrow> \<not> (b \<and> expired name cutoffTime t dir)"
  shows "swept name cutoffTime ((dir, b) # es) t (d, er) cnt' t'"
proof -
  from assms(1) obtain D where "er'' \<le> snd cnt'" "D \<subseteq> due name cutoffTime t es"
    "snd cnt' = er'' \<longrightarrow> D = due name cutoffTime t es" "fst cnt' = d + card D"
    "t' = (\<lambda>q. if \<exists>dir\<in>D. prefix [dir] q then None else t q)"
    unfolding swept_def by auto
  with assms(2,3) show ?thesis unfolding swept_def by (intro conjI exI[of _ D]) (auto simp: due_Cons)
qed

lemma expired_other:
  "k \<noteq> dir \<Longrightarrow> expired name cutoffTime (t_remove [dir] t) k = expired name cutoffTime t k"
  by (simp add: expired_def t_remove_def)

lemma swept_deleted:
  assumes "swept name cutoffTime es (t_remove [dir] t) (Suc d, er) cnt' t'"
    and "dir \<notin> fst ` set es" and "expired name cutoffTime t dir"
  shows "swept name cutoffTime ((dir, True) # es) t (d, er) cnt' t'"
proof -
  have notin: "dir \<notin> due name cutoffTime u es" for u using assms(2) by (force simp: due_def)
  have "k \<noteq> dir" if "(k, True) \<in> set es" for k using that assms(2) by force
  then have same: "due name cutoffTime (t_remove [dir] t) es = due name cutoffTime t es"
    by (auto simp: due_def expired_other)
  from assms(1) obtain D where D: "er \<le> snd cnt'" "D \<subseteq> due name cutoffTime t es"
    "snd cnt' = er \<longrightarrow> D = due name cutoffTime t es" "fst cnt' = Suc d + card D"
    "t' = (\<lambda>q. if \<exists>dir\<in>D. prefix [dir] q then None else t_remove [dir] t q)"
    unfolding swept_def same by auto
  have "finite D" "dir \<notin> D" using D(2) finite_due notin by (auto intro: finite_subset)
  then have "fst cnt' = d + card (insert dir D)" using D(4) by simp
  with D assms(3) show ?thesis unfolding swept_def
    by (intro conjI exI[of _ "insert dir D"]) (auto simp: due_Cons t_remove_def fun_eq_iff)
qed

context chest_tree
begin

lemma should_delete_iff:
  assumes "inv s" and "cs_storage cs = c" and "node s [dir] = Some Dir"
    and "directoryPattern (sh_Name (cs_shard cs)) dir"
    and "shouldDeleteDirectory cs dir cutoffTime s = Inr b"
  shows "b \<longleftrightarrow> expired (sh_Name (cs_shard cs)) cutoffTime (node s) dir"
proof -
  have pl: "plain_name dir" using plain_nodes[OF assms(1), of "[dir]"] assms(3) by simp
  then have base: "filepath_Base dir = dir" by (rule Base_name)
  have up: "plain_name ''uploaded''" by (simp add: plain_name_def)
  have pp: "plain_path [dir, ''uploaded'']" using pl up by (simp add: plain_path_def)
  have j: "filepath_Join [dir, ''uploaded''] = rel_path [dir, ''uploaded'']"
    using pl up by (intro Join_names) simp_all
  note rd = read_dir_iff[OF assms(1) pp]
  have nodir: "node s [dir, ''uploaded''] \<noteq> Some Dir" if "ReadDir c (rel_path [dir, ''uploaded'']) s = Inl e" for e
    using read_dir_ok[OF assms(1) pp] that by auto
  have par: "node s [dir, ''uploaded'', n] \<noteq> None \<Longrightarrow> node s [dir, ''uploaded''] = Some Dir" for n
    using parent_dir[OF assms(1), of "[dir, ''uploaded'']" n] by simp
  have nod: "node s [dir, ''uploaded'', n] = Some (Reg x) \<Longrightarrow> (n, False) \<in> set es"
    if "ReadDir c (rel_path [dir, ''uploaded'']) s = Inr es" for n x es
    using rd[OF that, of n False] by simp
  have rev: "(n, False) \<in> set es \<Longrightarrow> \<exists>x. node s [dir, ''uploaded'', n] = Some (Reg x)"
    if "ReadDir c (rel_path [dir, ''uploaded'']) s = Inr es" for n es
    using rd[OF that, of n False] by (auto) (metis node.exhaust)
  from assms(5) obtain i where i: "parse_instant (drop (length (sh_Name (cs_shard cs)) + 1) dir) = Some i"
    by (auto simp: shouldDeleteDirectory_def base Let_def split: if_splits option.splits)
  show ?thesis
  proof (cases "i > cutoffTime")
    case True
    with assms(5) i show ?thesis
      by (auto simp: shouldDeleteDirectory_def base Let_def expired_def split: if_splits)
  next
    case False
    show ?thesis
    proof (cases "ReadDir c (rel_path [dir, ''uploaded'']) s")
      case (Inl e)
      with assms(2,5) i False have "\<not> b"
        by (auto simp: shouldDeleteDirectory_def base Let_def j split: if_splits)
      moreover have "\<not> expired (sh_Name (cs_shard cs)) cutoffTime (node s) dir"
        using nodir[OF Inl] par by (auto simp: expired_def)
      ultimately show ?thesis by simp
    next
      case (Inr es)
      with assms(2,5) i False have "b \<longleftrightarrow> list_ex (\<lambda>e. \<not> snd e) es"
        by (auto simp: shouldDeleteDirectory_def base Let_def j split: if_splits)
      also have "\<dots> \<longleftrightarrow> (\<exists>n. (n, False) \<in> set es)" by (force simp: list_ex_iff)
      also have "\<dots> \<longleftrightarrow> (\<exists>n x. node s [dir, ''uploaded'', n] = Some (Reg x))"
        using nod[OF Inr] rev[OF Inr] by blast
      also have "\<dots> \<longleftrightarrow> expired (sh_Name (cs_shard cs)) cutoffTime (node s) dir"
        using assms(3,4) i False by (auto simp: expired_def)
      finally show ?thesis .
    qed
  qed
qed

text \<open>One entry of the listing: it stays, unless it is due and could be deleted.\<close>

lemma cleanup_entry:
  assumes "inv s" and "cs_storage cs = c" and dir: "b \<longrightarrow> node s [dir] = Some Dir"
    and run: "cleanup_entries cs cutoffTime ((dir, b) # es) (d, er) s = r"
  obtains (kept) er'' s1 where "inv s1" "node s1 = node s" "er \<le> er''"
      "er'' = er \<longrightarrow> \<not> (b \<and> expired (sh_Name (cs_shard cs)) cutoffTime (node s) dir)"
      "cleanup_entries cs cutoffTime es (d, er'') s1 = r"
    | (deleted) s1 where "b" "expired (sh_Name (cs_shard cs)) cutoffTime (node s) dir" "inv s1"
      "node s1 = t_remove [dir] (node s)" "cleanup_entries cs cutoffTime es (Suc d, er) s1 = r"
proof (cases "b \<and> directoryPattern (sh_Name (cs_shard cs)) dir")
  case False
  then have "cleanup_entries cs cutoffTime es (d, er) s = r" using run by (auto split: if_splits)
  with False show thesis by (intro kept[OF assms(1) refl order_refl[of er]]) (auto simp: expired_def)
next
  case pat: True
  then have node: "node s [dir] = Some Dir" using dir by simp
  note iff = should_delete_iff[OF assms(1,2) node]
  have pp: "plain_path [dir]" using plain_nodes[OF assms(1), of "[dir]"] node by (simp add: plain_path_def)
  consider x where "shouldDeleteDirectory cs dir cutoffTime s = Inl x"
    | "shouldDeleteDirectory cs dir cutoffTime s = Inr False" | "shouldDeleteDirectory cs dir cutoffTime s = Inr True"
    by (metis sum.exhaust bool.exhaust)
  then show thesis
  proof cases
    case 1
    then show thesis using run pat by (intro kept[OF assms(1) refl, of "Suc er"]) simp_all
  next
    case 2
    then show thesis using run pat iff[OF _ 2] by (intro kept[OF assms(1) refl, of er]) simp_all
  next
    case del: 3
    obtain x s1 where rm: "RmdirAll c (rel_path [dir]) s = (x, s1)" by fastforce
    show thesis
    proof (cases x)
      case None
      with rmdir_done[OF assms(1) pp] rm have "inv s1" "node s1 = t_remove [dir] (node s)" by auto
      then show thesis using run pat del rm None assms(2) iff[OF _ del] by (intro deleted) (simp_all add: deleteDirectory_def)
    next
      case (Some e)
      with rmdir_failed[OF assms(1) pp] rm have "inv s1" "node s1 = node s" by auto
      then show thesis using run pat del rm Some assms(2)
        by (intro kept[of s1 "Suc er"]) (simp_all add: deleteDirectory_def)
    qed
  qed
qed

text \<open>A run deletes some of the expired directories it listed, all of them when it met no error.\<close>

lemma cleanup_entries_effect:
  assumes "inv s" and "cs_storage cs = c" and "distinct (map fst es)"
    and "\<forall>e\<in>set es. snd e \<longrightarrow> node s [fst e] = Some Dir"
    and "cleanup_entries cs cutoffTime es (d, er) s = (cnt', s')"
  shows "inv s' \<and> swept (sh_Name (cs_shard cs)) cutoffTime es (node s) (d, er) cnt' (node s')"
  using assms(1,3-5)
proof (induction es arbitrary: d er s)
  case Nil
  then show ?case by (auto simp: swept_Nil)
next
  case (Cons e es)
  obtain dir b where e: "e = (dir, b)" by (cases e)
  have ds: "distinct (map fst es)" "dir \<notin> fst ` set es" using Cons.prems(2) e by auto
  have "b \<longrightarrow> node s [dir] = Some Dir" using Cons.prems(3) e by simp
  from cleanup_entry[OF Cons.prems(1) assms(2) this Cons.prems(4)[unfolded e]] show ?case
  proof cases
    case kept: (1 er'' s1)
    have "\<forall>e\<in>set es. snd e \<longrightarrow> node s1 [fst e] = Some Dir" using Cons.prems(3) kept(2) by simp
    from Cons.IH[OF kept(1) ds(1) this kept(5)] swept_kept[OF _ kept(3,4)] show ?thesis
      unfolding e kept(2) by blast
  next
    case deleted: (2 s1)
    have "\<forall>e\<in>set es. snd e \<longrightarrow> node s1 [fst e] = Some Dir"
      using Cons.prems(3) ds(2) unfolding deleted(4) by (auto simp: t_remove_def)
    from Cons.IH[OF deleted(3) ds(1) this deleted(5)] swept_deleted[OF _ ds(2) deleted(2)] show ?thesis
      unfolding e deleted(4) using deleted(1) by simp
  qed
qed

lemma run_cleanup_effect:
  assumes "inv s" and "cs_storage cs = c" and "runCleanup cs now s = ((st, d, er), s')"
  shows "inv s' \<and>
    (\<exists>D. D \<subseteq> Collect (expired (sh_Name (cs_shard cs)) (now - cl_RetentionDuration (cs_config cs)) (node s)) \<and>
      (st = Run_success \<longrightarrow> D = Collect (expired (sh_Name (cs_shard cs)) (now - cl_RetentionDuration (cs_config cs)) (node s))) \<and>
      d = card D \<and> (\<forall>q. node s' q = (if \<exists>dir\<in>D. prefix [dir] q then None else node s q)))"
proof -
  let ?E = "expired (sh_Name (cs_shard cs)) (now - cl_RetentionDuration (cs_config cs)) (node s)"
  obtain es where es: "ReadDir c ''.'' s = Inr es" using read_root_ok[OF assms(1)] by blast
  have run: "cleanup_entries cs (now - cl_RetentionDuration (cs_config cs)) es (0, 0) s = ((d, er), s')"
    and st: "st = (if er = 0 then Run_success else Run_partial_error)"
    using assms(2,3) es by (auto simp: runCleanup_def split: prod.splits)
  have mem: "(k, b) \<in> set es \<longleftrightarrow> (\<exists>m. node s [k] = Some m \<and> b = (m = Dir))" for k b
    using read_root_iff[OF assms(1) es] .
  have dist: "distinct (map fst es)" using read_root_sorted[OF assms(1) es] by blast
  have "\<forall>e\<in>set es. snd e \<longrightarrow> node s [fst e] = Some Dir"
    using mem by (metis prod.collapse)
  note eff = cleanup_entries_effect[OF assms(1,2) dist this run]
  then obtain D where D: "D \<subseteq> {dir. (dir, True) \<in> set es \<and> ?E dir}"
    "er = 0 \<longrightarrow> D = {dir. (dir, True) \<in> set es \<and> ?E dir}" "d = 0 + card D"
    "node s' = (\<lambda>q. if \<exists>dir\<in>D. prefix [dir] q then None else node s q)"
    unfolding swept_def due_def fst_conv snd_conv by blast
  have "?E dir \<Longrightarrow> (dir, True) \<in> set es" for dir unfolding mem by (simp add: expired_def)
  then have "{dir. (dir, True) \<in> set es \<and> ?E dir} = Collect ?E" by blast
  with D st eff show ?thesis by (intro conjI exI[of _ D]) (simp_all split: if_splits)
qed

end

section \<open>Properties\<close>

text \<open>
  C29. A cleanup run deletes only isolated directories of its shard that are at least as old
  as the retention and hold an uploaded file; when it reports success it has deleted all of
  them; every other file and directory is left exactly as it was.
\<close>

theorem cleanup_deletes_exactly_expired:
  assumes "disk_chest root (cs_storage cs)" and "fs_inv root s"
    and "runCleanup cs now s = ((st, d, er), s')"
  shows "\<exists>D. D \<subseteq> Collect (expired (sh_Name (cs_shard cs)) (now - cl_RetentionDuration (cs_config cs)) (fs_node root s)) \<and>
    (st = Run_success \<longrightarrow>
       D = Collect (expired (sh_Name (cs_shard cs)) (now - cl_RetentionDuration (cs_config cs)) (fs_node root s))) \<and>
    d = card D \<and> (\<forall>q. fs_node root s' q = (if \<exists>dir\<in>D. prefix [dir] q then None else fs_node root s q))"
  using chest_tree.run_cleanup_effect[OF disk_chest_tree[OF assms(1)] assms(2) refl assms(3)] by blast

definition sample_cleanup :: "os cleanup_service" where
  "sample_cleanup = \<lparr>cs_storage = filesystem_chest ''/data'', cs_shard = sample_shard,
     cs_config = \<lparr>cl_Enabled = True, cl_RetentionDuration = 0, cl_CheckInterval = 1\<rparr>\<rparr>"

definition sample_old_disk :: os where
  "sample_old_disk = [([''data''], Dir), ([''data'', ''prod-00000101-000000''], Dir),
     ([''data'', ''prod-00000101-000000'', ''uploaded''], Dir),
     ([''data'', ''prod-00000101-000000'', ''uploaded'', ''x.ach''], Reg [])]"

lemma cleanup_deletes_exactly_expired_witness:
  "\<exists>D. ''prod-00000101-000000'' \<in> D \<and>
    (\<forall>q. fs_node ''/data'' (snd (runCleanup sample_cleanup 1 sample_old_disk)) q =
       (if \<exists>dir\<in>D. prefix [dir] q then None else fs_node ''/data'' sample_old_disk q))"
proof -
  have c: "disk_chest ''/data'' (cs_storage sample_cleanup)" by (simp add: disk_chest_def sample_cleanup_def)
  have i: "fs_inv ''/data'' sample_old_disk" by code_simp
  have r: "runCleanup sample_cleanup 1 sample_old_disk = ((Run_success, 1, 0), snd (runCleanup sample_cleanup 1 sample_old_disk))"
    by (rule prod_eqI) code_simp+
  have p: "directoryPattern (sh_Name (cs_shard sample_cleanup)) ''prod-00000101-000000''" by code_simp
  have t: "parse_instant (drop (length (sh_Name (cs_shard sample_cleanup)) + 1) ''prod-00000101-000000'') = Some (- 62167219200000000000)" by code_simp
  have n: "fs_node ''/data'' sample_old_disk [''prod-00000101-000000''] = Some Dir"
    "fs_node ''/data'' sample_old_disk [''prod-00000101-000000'', ''uploaded'', ''x.ach''] = Some (Reg [])" by code_simp+
  have z: "(- 62167219200000000000::int) \<le> 1 - cl_RetentionDuration (cs_config sample_cleanup)" by (simp add: sample_cleanup_def)
  have "expired (sh_Name (cs_shard sample_cleanup)) (1 - cl_RetentionDuration (cs_config sample_cleanup))
      (fs_node ''/data'' sample_old_disk) ''prod-00000101-000000''"
    unfolding expired_def using p t n z by blast
  with cleanup_deletes_exactly_expired[OF c i r] show ?thesis by auto
qed

text \<open>
  The directory a cutoff isolates is safe from cleanup until the retention has passed,
  whatever it holds: within that time no run changes anything in it.
\<close>

theorem cleanup_keeps_recent_cutoff:
  assumes "disk_chest root (cs_storage cs)" and "fs_inv root s" and "valid_civil t"
    and "civil_instant t > now - cl_RetentionDuration (cs_config cs)"
    and "runCleanup cs now s = (r, s')"
  shows "fs_node root s' ((sh_Name (cs_shard cs) @ ''-'' @ format_stamp t) # q) =
    fs_node root s ((sh_Name (cs_shard cs) @ ''-'' @ format_stamp t) # q)"
proof -
  let ?dir = "sh_Name (cs_shard cs) @ ''-'' @ format_stamp t"
  obtain st d er where r: "r = (st, d, er)" by (cases r)
  obtain D where D: "D \<subseteq> Collect (expired (sh_Name (cs_shard cs)) (now - cl_RetentionDuration (cs_config cs)) (fs_node root s))"
    "\<forall>q. fs_node root s' q = (if \<exists>dir\<in>D. prefix [dir] q then None else fs_node root s q)"
    using chest_tree.run_cleanup_effect[OF disk_chest_tree[OF assms(1)] assms(2) refl assms(5)[unfolded r]] by blast
  have "drop (length (sh_Name (cs_shard cs)) + 1) ?dir = format_stamp t" by simp
  then have "\<not> expired (sh_Name (cs_shard cs)) (now - cl_RetentionDuration (cs_config cs)) (fs_node root s) ?dir"
    using parse_instant_format[OF assms(3)] assms(4) by (simp add: expired_def)
  with D(1) have "?dir \<notin> D" by blast
  with D(2) show ?thesis by auto
qed

lemma cleanup_keeps_recent_cutoff_witness:
  "fs_node ''/data'' (snd (runCleanup sample_cleanup (- 62167219200000000001) sample_old_disk)) (''prod-00000101-000000'' # [''uploaded'']) =
   fs_node ''/data'' sample_old_disk (''prod-00000101-000000'' # [''uploaded''])"
proof -
  let ?t = "\<lparr>c_year = 0, c_month = 1, c_day = 1, c_hour = 0, c_min = 0, c_sec = 0\<rparr>"
  have c: "disk_chest ''/data'' (cs_storage sample_cleanup)" by (simp add: disk_chest_def sample_cleanup_def)
  have i: "fs_inv ''/data'' sample_old_disk" by code_simp
  have v: "valid_civil ?t" by code_simp
  have lt: "civil_instant ?t > - 62167219200000000001 - cl_RetentionDuration (cs_config sample_cleanup)" by code_simp
  have "sh_Name (cs_shard sample_cleanup) @ ''-'' @ format_stamp ?t = ''prod-00000101-000000''" by code_simp
  with cleanup_keeps_recent_cutoff[OF c i v lt surjective_pairing] show ?thesis by metis
qed

end
