(* ===== verification/Compliance.thy ===== *)
theory Compliance
  imports Models
begin

text \<open>
  Protecting and revealing events (\<open>pkg/compliance\<close>): an event's JSON is encrypted, then
  encoded, and the other way round on arrival. Coders and cryptors share the interface
  \<open>codec\<close>, whose contract is the locale \<open>codec_ok\<close>. gzip and AES-GCM are the parameter
  \<open>crypto_lib\<close>; the nonce drawn by \<open>Encrypt\<close> is an input.
\<close>

record codec =
  Encode :: "bytes \<Rightarrow> err + bytes"
  Decode :: "bytes \<Rightarrow> err + bytes"

record crypto_lib =
  gz_Write :: "bytes \<Rightarrow> err + bytes"
  gz_Open :: "bytes \<Rightarrow> err option"
  gz_ReadAll :: "bytes \<Rightarrow> err + bytes"
  aes_NewGCM :: "bytes \<Rightarrow> err option"
  gcm_NonceSize :: nat
  gcm_Seal :: "bytes \<Rightarrow> bytes \<Rightarrow> bytes \<Rightarrow> bytes"
  gcm_Open :: "bytes \<Rightarrow> bytes \<Rightarrow> bytes \<Rightarrow> err + bytes"

section \<open>Coders\<close>

definition mockCoder :: codec where
  "mockCoder = \<lparr>Encode = Inr, Decode = Inr\<rparr>"

definition gzipCoder_Encode :: "crypto_lib \<Rightarrow> bytes \<Rightarrow> err + bytes" where
  "gzipCoder_Encode C data =
     (case gz_Write C data of Inl e \<Rightarrow> Inl (errorf_v ''gzip encode: '' e) | Inr bs \<Rightarrow> Inr bs)"

definition gzipCoder_Decode :: "crypto_lib \<Rightarrow> bytes \<Rightarrow> err + bytes" where
  "gzipCoder_Decode C data =
     (case gz_Open C data of
        Some e \<Rightarrow> if errors_Is e GzipHeader then Inr data else Inl (errorf_v ''gzip decoder: '' e)
      | None \<Rightarrow> (case gz_ReadAll C data of
                   Inl e \<Rightarrow> Inl (errorf_v ''gzip readall: '' e) | Inr bs \<Rightarrow> Inr bs))"

definition gzipCoder :: "crypto_lib \<Rightarrow> codec" where
  "gzipCoder C = \<lparr>Encode = gzipCoder_Encode C, Decode = gzipCoder_Decode C\<rparr>"

text \<open>
  \<open>Decode\<close> returns the whole buffer of \<open>DecodedLen\<close> bytes: what the decoder did not fill
  (when the input holds line breaks) stays zero.
\<close>

definition base64Coder_Decode :: "bytes \<Rightarrow> err + bytes" where
  "base64Coder_Decode data =
     (case b64_decode_raw data of
        Inl e \<Rightarrow> Inl e
      | Inr bs \<Rightarrow> Inr (bs @ replicate (b64_decoded_len (length data) - length bs) (CHR 0x00)))"

definition base64Coder :: codec where
  "base64Coder = \<lparr>Encode = (\<lambda>data. Inr (b64_encode_raw data)), Decode = base64Coder_Decode\<rparr>"

definition newCoder :: "crypto_lib \<Rightarrow> EncodingConfig option \<Rightarrow> err + codec" where
  "newCoder C cfg =
     (case cfg of
        None \<Rightarrow> Inr mockCoder
      | Some c \<Rightarrow>
          if enc_Compress c then Inr (gzipCoder C)
          else if enc_Base64 c then Inr base64Coder
          else Inl (errors_New ''unknown coding''))"

section \<open>Cryptors\<close>

definition mockCryptor :: codec where
  "mockCryptor = \<lparr>Encode = Inr, Decode = Inr\<rparr>"

definition aesCryptor_Encrypt :: "crypto_lib \<Rightarrow> err + bytes \<Rightarrow> AESConfig \<Rightarrow> bytes \<Rightarrow> err + bytes" where
  "aesCryptor_Encrypt C nonce cfg data =
     (case aes_NewGCM C (aes_Key cfg) of
        Some e \<Rightarrow> Inl e
      | None \<Rightarrow> (case nonce of Inl e \<Rightarrow> Inl e
                 | Inr n \<Rightarrow> Inr (n @ gcm_Seal C (aes_Key cfg) n data)))"

definition aesCryptor_Decrypt :: "crypto_lib \<Rightarrow> AESConfig \<Rightarrow> bytes \<Rightarrow> err + bytes" where
  "aesCryptor_Decrypt C cfg ciphertext =
     (case aes_NewGCM C (aes_Key cfg) of
        Some e \<Rightarrow> Inl e
      | None \<Rightarrow>
          if length ciphertext < gcm_NonceSize C then Inl (errors_New ''nonce is too small'')
          else gcm_Open C (aes_Key cfg) (take (gcm_NonceSize C) ciphertext) (drop (gcm_NonceSize C) ciphertext))"

definition aesCryptor :: "crypto_lib \<Rightarrow> err + bytes \<Rightarrow> AESConfig \<Rightarrow> codec" where
  "aesCryptor C nonce cfg = \<lparr>Encode = aesCryptor_Encrypt C nonce cfg, Decode = aesCryptor_Decrypt C cfg\<rparr>"

definition newCryptor :: "crypto_lib \<Rightarrow> err + bytes \<Rightarrow> EncryptionConfig option \<Rightarrow> err + codec" where
  "newCryptor C nonce cfg =
     (case cfg of
        None \<Rightarrow> Inr mockCryptor
      | Some c \<Rightarrow> (case enc_AES c of
                     Some a \<Rightarrow> Inr (aesCryptor C nonce a)
                   | None \<Rightarrow> Inl (errors_New ''unknown encryption'')))"

section \<open>Protect and Reveal\<close>

definition Protect ::
  "json_lib \<Rightarrow> crypto_lib \<Rightarrow> err + bytes \<Rightarrow> TransformConfig option \<Rightarrow> payload \<Rightarrow> err + bytes" where
  "Protect J C nonce cfg evt =
     (case Event_MarshalJSON J evt of
        Inl e \<Rightarrow> Inl e
      | Inr bs \<Rightarrow>
     (case cfg of
        None \<Rightarrow> Inr bs
      | Some t \<Rightarrow>
     (case newCryptor C nonce (Encryption t) of
        Inl e \<Rightarrow> Inl e
      | Inr cc \<Rightarrow>
     (case Encode cc bs of
        Inl e \<Rightarrow> Inl e
      | Inr bs1 \<Rightarrow>
     (case newCoder C (Encoding t) of
        Inl e \<Rightarrow> Inl e
      | Inr ec \<Rightarrow> Encode ec bs1)))))"

definition compliance_Reveal :: "crypto_lib \<Rightarrow> TransformConfig option \<Rightarrow> bytes \<Rightarrow> err + bytes" where
  "compliance_Reveal C cfg data =
     (case cfg of
        None \<Rightarrow> Inr data
      | Some t \<Rightarrow>
     (case newCoder C (Encoding t) of
        Inl e \<Rightarrow> Inl e
      | Inr ec \<Rightarrow>
     (case Decode ec data of
        Inl e \<Rightarrow> Inl e
      | Inr bs \<Rightarrow>
     (case newCryptor C (Inr []) (Encryption t) of
        Inl e \<Rightarrow> Inl e
      | Inr cc \<Rightarrow> Decode cc bs))))"

section \<open>The contract of a codec\<close>

locale codec_ok =
  fixes k :: codec
  assumes roundtrip: "Encode k d = Inr e \<Longrightarrow> Decode k e = Inr d"

text \<open>Two codecs one after the other, as \<open>Protect\<close> applies them.\<close>

locale codec_pair = inner: codec_ok i + outer: codec_ok j for i :: codec and j :: codec
begin

lemma pair_roundtrip:
  "Encode i d = Inr m \<Longrightarrow> Encode j m = Inr e \<Longrightarrow> Decode j e = Inr m \<and> Decode i m = Inr d"
  by (blast intro: inner.roundtrip outer.roundtrip)

end

interpretation plain_codec: codec_ok mockCoder
  by unfold_locales (simp add: mockCoder_def)

interpretation plain_cryptor: codec_ok mockCryptor
  by unfold_locales (simp add: mockCryptor_def)

interpretation b64_codec: codec_ok base64Coder
  by unfold_locales
     (auto simp: base64Coder_def base64Coder_Decode_def b64_raw_roundtrip b64_decoded_len_encode)

interpretation b64_plain: codec_pair mockCryptor base64Coder
  by unfold_locales

text \<open>
  What is relied on of the standard library: a gzip stream opens and reads back, a sealed
  message opens under its nonce, and the nonce has the cipher's size.
\<close>

definition crypto_ok :: "crypto_lib \<Rightarrow> err + bytes \<Rightarrow> bool" where
  "crypto_ok C nonce \<longleftrightarrow>
     (\<forall>d e. gz_Write C d = Inr e \<longrightarrow> gz_Open C e = None \<and> gz_ReadAll C e = Inr d) \<and>
     (\<forall>key n d. length n = gcm_NonceSize C \<longrightarrow> gcm_Open C key n (gcm_Seal C key n d) = Inr d) \<and>
     (\<forall>n. nonce = Inr n \<longrightarrow> length n = gcm_NonceSize C)"

lemma gzip_codec: "crypto_ok C nonce \<Longrightarrow> codec_ok (gzipCoder C)"
  by unfold_locales
     (auto simp: crypto_ok_def gzipCoder_def gzipCoder_Encode_def gzipCoder_Decode_def split: sum.splits)

lemma aes_codec: "crypto_ok C nonce \<Longrightarrow> codec_ok (aesCryptor C nonce cfg)"
  by unfold_locales
     (auto simp: crypto_ok_def aesCryptor_def aesCryptor_Encrypt_def aesCryptor_Decrypt_def
       split: sum.splits option.splits)

lemma newCoder_ok: "crypto_ok C nonce \<Longrightarrow> newCoder C cfg = Inr ec \<Longrightarrow> codec_ok ec"
  by (auto simp: newCoder_def gzip_codec plain_codec.codec_ok_axioms b64_codec.codec_ok_axioms
      split: option.splits if_splits)

lemma newCryptor_ok: "crypto_ok C nonce \<Longrightarrow> newCryptor C nonce cfg = Inr cc \<Longrightarrow> codec_ok cc"
  by (auto simp: newCryptor_def aes_codec plain_cryptor.codec_ok_axioms split: option.splits)

text \<open>Decryption does not look at the nonce that was drawn for encryption.\<close>

lemma newCryptor_Decode:
  "newCryptor C n cfg = Inr cc \<Longrightarrow> \<exists>cc'. newCryptor C n' cfg = Inr cc' \<and> Decode cc' = Decode cc"
  by (auto simp: newCryptor_def aesCryptor_def split: option.splits)

lemma Protect_Reveal:
  assumes "crypto_ok C nonce" and "Protect J C nonce cfg evt = Inr bs"
  shows "\<exists>data. Event_MarshalJSON J evt = Inr data \<and> compliance_Reveal C cfg bs = Inr data"
proof -
  obtain data where data: "Event_MarshalJSON J evt = Inr data"
    using assms(2) by (auto simp: Protect_def split: sum.splits)
  show ?thesis
  proof (cases cfg)
    case None
    with data assms(2) show ?thesis by (simp add: Protect_def compliance_Reveal_def)
  next
    case (Some t)
    with data assms(2) obtain cc m ec where
      steps: "newCryptor C nonce (Encryption t) = Inr cc" "Encode cc data = Inr m"
        "newCoder C (Encoding t) = Inr ec" "Encode ec m = Inr bs"
      by (auto simp: Protect_def split: sum.splits)
    have "codec_pair cc ec"
      using newCryptor_ok[OF assms(1) steps(1)] newCoder_ok[OF assms(1) steps(3)] by (rule codec_pair.intro)
    from codec_pair.pair_roundtrip[OF this steps(2,4)]
    have dec: "Decode ec bs = Inr m" "Decode cc m = Inr data" by blast+
    obtain cc' where "newCryptor C (Inr []) (Encryption t) = Inr cc'" "Decode cc' = Decode cc"
      using newCryptor_Decode[OF steps(1)] by blast
    with Some data steps(3) dec show ?thesis by (simp add: compliance_Reveal_def)
  qed
qed

text \<open>C27. What \<open>Protect\<close> produces, \<open>Reveal\<close> turns back into the event's JSON, under the same configuration.\<close>

theorem protect_reveal:
  assumes "crypto_ok C nonce" and "Protect J C nonce cfg evt = Inr bs"
  shows "\<exists>data. Event_MarshalJSON J evt = Inr data \<and> compliance_Reveal C cfg bs = Inr data"
  using assms by (rule Protect_Reveal)

definition plain_crypto :: crypto_lib where
  "plain_crypto = \<lparr>gz_Write = Inr, gz_Open = (\<lambda>_. None), gz_ReadAll = Inr, aes_NewGCM = (\<lambda>_. None),
     gcm_NonceSize = 2, gcm_Seal = (\<lambda>_ _ d. rev d), gcm_Open = (\<lambda>_ _ d. Inr (rev d))\<rparr>"

definition plain_json :: json_lib where
  "plain_json = \<lparr>json_envelope = (\<lambda>bs. Inr (bs, [])), json_into = (\<lambda>_ p. (p, None)),
     json_nil_error = errors_New ''nil'', json_event = (\<lambda>_ t. Inr t)\<rparr>"

lemma protect_reveal_witness:
  "\<exists>data. Event_MarshalJSON plain_json (CancelACHFile \<lparr>cancel_FileID = ''f'', cancel_ShardKey = ''s''\<rparr>) = Inr data \<and>
     compliance_Reveal plain_crypto (Some \<lparr>Encoding = Some \<lparr>enc_Base64 = True, enc_Compress = False\<rparr>,
        Encryption = Some \<lparr>enc_AES = Some \<lparr>aes_Key = ''k''\<rparr>\<rparr>\<rparr>)
       (b64_encode_raw (''no'' @ rev ''CancelACHFile'')) = Inr data"
  by (rule protect_reveal[of plain_crypto "Inr ''no''"])
     (auto simp: crypto_ok_def plain_crypto_def Protect_def Event_MarshalJSON_def plain_json_def newCryptor_def
       newCoder_def aesCryptor_def aesCryptor_Encrypt_def base64Coder_def)

end
