(* ===== verification/Outgoing.thy ===== *)
theory Outgoing
  imports Storage Ach Service_Config
begin

text \<open>
  What happens to a merged file before it is sent: the transforms of
  \<open>internal/transform\<close> (GPG encryption and signing, with the keys of \<open>internal/gpgx\<close>), the output formats of
  \<open>internal/output\<close>, and the audit trail of \<open>internal/audittrail\<close>. OpenPGP, the ACH writer
  with a line ending and the blob bucket are parameters.
\<close>

section \<open>Transforming\<close>

record transform_result =
  result_File :: "ach_file option"
  Encrypted :: bytes

text \<open>
  cryptfs and the OpenPGP library. \<open>Decrypt_key\<close> unlocks a private key with a password and gives
  the key afterwards; \<open>ArmoredDetachSign\<close> gives an armored signature of a message, apart from it.
\<close>

record pgp_entity =
  PrivateKey :: "bytes option"
  Subkeys :: "bytes option list"
  ent_other :: bytes

record gpg_lib =
  NewGPGEncryptorFile :: "string \<Rightarrow> err + cryptfs"
  gpg_ReadFile :: "string \<Rightarrow> err + bytes"
  ReadArmoredKeyRing :: "bytes \<Rightarrow> err + pgp_entity list"
  Decrypt_key :: "string \<Rightarrow> bytes \<Rightarrow> bytes \<times> err option"
  ArmoredDetachSign :: "pgp_entity \<Rightarrow> bytes \<Rightarrow> err + bytes"

section \<open>Keys\<close>

definition ReadArmoredKeyFile :: "gpg_lib \<Rightarrow> string \<Rightarrow> err + pgp_entity list" where
  "ReadArmoredKeyFile G path =
     (case gpg_ReadFile G path of Inl e \<Rightarrow> Inl e | Inr bs \<Rightarrow> ReadArmoredKeyRing G bs)"

text \<open>The error of unlocking a key is dropped.\<close>

definition unlock :: "gpg_lib \<Rightarrow> string \<Rightarrow> bytes option \<Rightarrow> bytes option" where
  "unlock G password k =
     (case k of
        None \<Rightarrow> None
      | Some x \<Rightarrow> if length password > 0 then Some (fst (Decrypt_key G password x)) else Some x)"

definition ReadPrivateKeyFile :: "gpg_lib \<Rightarrow> string \<Rightarrow> string \<Rightarrow> err + pgp_entity list" where
  "ReadPrivateKeyFile G path password =
     (case ReadArmoredKeyFile G path of
        Inl e \<Rightarrow> Inl e
      | Inr [] \<Rightarrow> Inl (errors_New ''gpg: no entities found'')
      | Inr (x # xs) \<Rightarrow>
          Inr (x\<lparr>PrivateKey := unlock G password (PrivateKey x), Subkeys := map (unlock G password) (Subkeys x)\<rparr> # xs))"

definition gpgx_Sign :: "gpg_lib \<Rightarrow> bytes \<Rightarrow> pgp_entity list \<Rightarrow> err + bytes" where
  "gpgx_Sign G message pubKey =
     (case pubKey of
        [] \<Rightarrow> Inl (errors_New ''sign: missing Entity'')
      | k # _ \<Rightarrow> (case ArmoredDetachSign G k message of Inl e \<Rightarrow> Inl e | Inr out \<Rightarrow> Inr out))"

section \<open>The GPG transform\<close>

record GPGEncryption =
  encryptor :: cryptfs
  signingKey :: "pgp_entity list"

definition NewGPGEncryptor :: "gpg_lib \<Rightarrow> string \<Rightarrow> GPG option \<Rightarrow> err + GPGEncryption" where
  "NewGPGEncryptor G env cfg =
     (case cfg of
        None \<Rightarrow> Inl (errors_New ''missing GPG config'')
      | Some c \<Rightarrow>
          (case NewGPGEncryptorFile G (gpg_KeyFile c) of
             Inl e \<Rightarrow> Inl e
           | Inr cc \<Rightarrow>
               (case gpg_Signer c of
                  None \<Rightarrow> Inr \<lparr>encryptor = cc, signingKey = []\<rparr>
                | Some sg \<Rightarrow>
                    (case ReadPrivateKeyFile G (sg_KeyFile sg) (Signer_Password env sg) of
                       Inl e \<Rightarrow> Inl e
                     | Inr ks \<Rightarrow> Inr \<lparr>encryptor = cc, signingKey = ks\<rparr>))))"

text \<open>The result is handed back unchanged beside an error.\<close>

definition GPG_Transform ::
  "ach_lib \<Rightarrow> gpg_lib \<Rightarrow> GPGEncryption \<Rightarrow> transform_result \<Rightarrow> transform_result \<times> err option" where
  "GPG_Transform L G morph res =
     (case result_File res of
        None \<Rightarrow> (res, Some nil_dereference)
      | Some f \<Rightarrow>
     (case ach_Write L f of
        Inl e \<Rightarrow> (res, Some e)
      | Inr buf \<Rightarrow>
     (case Disfigure (encryptor morph) buf of
        Inl e \<Rightarrow> (res, Some e)
      | Inr bs \<Rightarrow>
          if signingKey morph = [] then (res\<lparr>Encrypted := bs\<rparr>, None)
          else (case gpgx_Sign G bs (signingKey morph) of
                  Inl e \<Rightarrow> (res, Some e)
                | Inr signed \<Rightarrow> (res\<lparr>Encrypted := signed\<rparr>, None)))))"

definition GPG_String :: "GPGEncryption option \<Rightarrow> string" where
  "GPG_String morph = (case morph of None \<Rightarrow> ''GPG: <nil>'' | Some _ \<Rightarrow> ''GPG{...}'')"

type_synonym pre_upload = "transform_result \<Rightarrow> transform_result \<times> err option"

fun transform_each :: "pre_upload list \<Rightarrow> transform_result \<Rightarrow> transform_result \<times> err option" where
  "transform_each [] res = (res, None)"
| "transform_each (f # fs) res =
     (case f res of
        (res', Some e) \<Rightarrow> (res', Some e)
      | (res', None) \<Rightarrow> transform_each fs res')"

definition ForUpload :: "ach_file option \<Rightarrow> pre_upload list \<Rightarrow> transform_result \<times> err option" where
  "ForUpload file funcs = transform_each funcs \<lparr>result_File = file, Encrypted = []\<rparr>"

definition transform_Multi :: "ach_lib \<Rightarrow> gpg_lib \<Rightarrow> string \<Rightarrow> PreUpload option \<Rightarrow> err + pre_upload list" where
  "transform_Multi L G env cfg =
     (case cfg of
        None \<Rightarrow> Inr []
      | Some c \<Rightarrow>
          (case pu_GPG c of
             None \<Rightarrow> Inr []
           | Some g \<Rightarrow> (case NewGPGEncryptor G env (Some g) of
                          Inl e \<Rightarrow> Inl e | Inr pc \<Rightarrow> Inr [GPG_Transform L G pc])))"

section \<open>Output formats\<close>

text \<open>The ACH writer with its line ending set.\<close>

type_synonym line_writer = "string \<Rightarrow> ach_file \<Rightarrow> err + bytes"

datatype formatter =
    NACHA string           \<comment> \<open>the line ending, empty for the writer's own\<close>
  | Base64_format string
  | Encrypted_format

definition NACHA_Format :: "ach_lib \<Rightarrow> line_writer \<Rightarrow> string \<Rightarrow> transform_result \<Rightarrow> err + bytes" where
  "NACHA_Format L W lineEnding res =
     (case result_File res of
        None \<Rightarrow> Inl nil_dereference
      | Some f \<Rightarrow>
          (case (if lineEnding \<noteq> [] then W lineEnding f else ach_Write L f) of
             Inl e \<Rightarrow> Inl (errorf_v ''unable to write Nacha file: '' e)
           | Inr bs \<Rightarrow> Inr bs))"

definition Base64_Format :: "ach_lib \<Rightarrow> line_writer \<Rightarrow> string \<Rightarrow> transform_result \<Rightarrow> err + bytes" where
  "Base64_Format L W lineEnding res =
     (if Encrypted res \<noteq> [] then Inr (b64_encode_std (Encrypted res))
      else (case NACHA_Format L W lineEnding res of
              Inl e \<Rightarrow> Inl e | Inr bs \<Rightarrow> Inr (b64_encode_std bs)))"

fun Format :: "ach_lib \<Rightarrow> line_writer \<Rightarrow> formatter \<Rightarrow> transform_result \<Rightarrow> err + bytes" where
  "Format L W (NACHA le) res = NACHA_Format L W le res"
| "Format L W (Base64_format le) res = Base64_Format L W le res"
| "Format L W Encrypted_format res = Inr (Encrypted res)"

definition NewFormatter :: "Output_cfg option \<Rightarrow> err + formatter" where
  "NewFormatter cfg =
     (case cfg of
        None \<Rightarrow> Inr (NACHA [])
      | Some c \<Rightarrow>
          if out_Format c = [] then Inr (NACHA [])
          else
            let format = ToLower (out_Format c);
                lineEnding = (if HasSuffix format ''-crlf'' then [CHR 0x0D, CHR 0x0A] else [CHR 0x0A])
            in if EqualFold format ''encrypted-bytes'' then Inr Encrypted_format
               else if HasPrefix format ''base64'' then Inr (Base64_format lineEnding)
               else if HasPrefix format ''nacha'' then Inr (NACHA lineEnding)
               else Inl (errors_New ''unknown output format''))"

section \<open>The audit trail\<close>

record 's audit_storage =
  SaveFile :: "string \<Rightarrow> bytes \<Rightarrow> 's \<Rightarrow> err option \<times> 's"
  GetFile :: "string \<Rightarrow> 's \<Rightarrow> err + bytes"
  audit_Close :: "'s \<Rightarrow> err option \<times> 's"

text \<open>
  A gocloud bucket: \<open>bk_Write\<close> is the writer's \<open>Write\<close> and \<open>Close\<close>, each with its error.
\<close>

record 's bucket =
  bk_Exists :: "string \<Rightarrow> 's \<Rightarrow> bool \<times> err option"
  bk_NewWriter :: "string \<Rightarrow> 's \<Rightarrow> err option"
  bk_Write :: "string \<Rightarrow> bytes \<Rightarrow> 's \<Rightarrow> (err option \<times> err option) \<times> 's"
  bk_Read :: "string \<Rightarrow> 's \<Rightarrow> err + bytes"
  bk_Close :: "'s \<Rightarrow> err option \<times> 's"

definition show_err :: "err option \<Rightarrow> string" where
  "show_err e = (case e of None \<Rightarrow> ''<nil>'' | Some x \<Rightarrow> err_text x)"

definition blob_SaveFile :: "'s bucket \<Rightarrow> cryptfs option \<Rightarrow> string \<Rightarrow> bytes \<Rightarrow> 's \<Rightarrow> err option \<times> 's" where
  "blob_SaveFile b cryptor path data s =
     (case (case cryptor of None \<Rightarrow> Inr data | Some c \<Rightarrow> Disfigure c data) of
        Inl e \<Rightarrow> (Some e, s)
      | Inr encrypted \<Rightarrow>
     (case bk_Exists b path s of
        (True, _) \<Rightarrow> (None, s)
      | (False, Some e) \<Rightarrow> (Some e, s)
      | (False, None) \<Rightarrow>
     (case bk_NewWriter b path s of
        Some e \<Rightarrow> (Some e, s)
      | None \<Rightarrow>
     (case bk_Write b path encrypted s of
        ((copyErr, closeErr), s1) \<Rightarrow>
          if copyErr \<noteq> None \<or> closeErr \<noteq> None
          then (Some (errors_New (''copyErr='' @ show_err copyErr @ '' closeErr='' @ show_err closeErr)), s1)
          else (None, s1)))))"

definition blob_GetFile :: "'s bucket \<Rightarrow> string \<Rightarrow> 's \<Rightarrow> err + bytes" where
  "blob_GetFile b path s =
     (case bk_Read b path s of Inl e \<Rightarrow> Inl (errorf_v ''get file: '' e) | Inr bs \<Rightarrow> Inr bs)"

definition newBlobStorage :: "(string \<Rightarrow> err + 's bucket) \<Rightarrow> gpg_lib \<Rightarrow> AuditTrail \<Rightarrow> err + 's audit_storage" where
  "newBlobStorage open_bucket G cfg =
     (case open_bucket (au_BucketURI cfg) of
        Inl e \<Rightarrow> Inl e
      | Inr b \<Rightarrow>
          (case (case au_GPG cfg of
                   None \<Rightarrow> Inr None
                 | Some g \<Rightarrow> (case NewGPGEncryptorFile G (gpg_KeyFile g) of Inl e \<Rightarrow> Inl e | Inr c \<Rightarrow> Inr (Some c))) of
             Inl e \<Rightarrow> Inl e
           | Inr cryptor \<Rightarrow> Inr \<lparr>SaveFile = blob_SaveFile b cryptor, GetFile = blob_GetFile b, audit_Close = bk_Close b\<rparr>))"

definition audit_NewStorage ::
  "(string \<Rightarrow> err + 's bucket) \<Rightarrow> gpg_lib \<Rightarrow> 's audit_storage \<Rightarrow> AuditTrail option \<Rightarrow> err + 's audit_storage" where
  "audit_NewStorage open_bucket G mock cfg =
     (case cfg of
        None \<Rightarrow> Inr mock
      | Some c \<Rightarrow> if au_BucketURI c \<noteq> [] then newBlobStorage open_bucket G c
                  else Inl (errors_New ''unknown storage config''))"

record mock_audit =
  mock_audit_Err :: "err option"
  SavedFilepath :: string
  SavedContents :: bytes

definition MockAudit :: "mock_audit audit_storage" where
  "MockAudit =
     \<lparr>SaveFile = (\<lambda>path data s. if mock_audit_Err s \<noteq> None then (mock_audit_Err s, s)
                              else (None, s\<lparr>SavedFilepath := path, SavedContents := data\<rparr>)),
      GetFile = (\<lambda>_ s. case mock_audit_Err s of Some e \<Rightarrow> Inl e | None \<Rightarrow> Inr (SavedContents s)),
      audit_Close = (\<lambda>s. (mock_audit_Err s, s))\<rparr>"

section \<open>What leaves the gateway\<close>

text \<open>With GPG configured the transforms are the one encryption step.\<close>

lemma transform_Multi_GPG:
  "transform_Multi L G env (Some \<lparr>pu_GPG = Some g\<rparr>) = Inr fs \<Longrightarrow> \<exists>pc. NewGPGEncryptor G env (Some g) = Inr pc \<and> fs = [GPG_Transform L G pc]"
  by (auto simp: transform_Multi_def split: sum.splits)

lemma ForUpload_GPG:
  assumes "ForUpload (Some x) [GPG_Transform L G pc] = (res, None)"
  shows "result_File res = Some x \<and> (\<exists>plain c. ach_Write L x = Inr plain \<and> Disfigure (encryptor pc) plain = Inr c \<and>
    (if signingKey pc = [] then Encrypted res = c else gpgx_Sign G c (signingKey pc) = Inr (Encrypted res)))"
  using assms by (auto simp: ForUpload_def GPG_Transform_def split: sum.splits if_splits)

text \<open>
  C35. A shard with GPG configured and the format \<open>encrypted-bytes\<close> uploads exactly the
  ciphertext of the written file. If a signer is configured too it uploads the detached signature of
  that ciphertext in its place: the file itself is not in what is sent.
\<close>

theorem encrypted_format_sends_ciphertext:
  assumes "transform_Multi L G env (Some \<lparr>pu_GPG = Some g\<rparr>) = Inr fs"
    and "EqualFold fmt ''encrypted-bytes''" and "NewFormatter (Some \<lparr>out_Format = fmt\<rparr>) = Inr f"
    and "ForUpload (Some x) fs = (res, None)" and "Format L W f res = Inr sent"
  shows "\<exists>cc plain c. NewGPGEncryptorFile G (gpg_KeyFile g) = Inr cc \<and> ach_Write L x = Inr plain \<and> Disfigure cc plain = Inr c \<and>
    (case gpg_Signer g of
       None \<Rightarrow> sent = c
     | Some sg \<Rightarrow> \<exists>k ks. ReadPrivateKeyFile G (sg_KeyFile sg) (Signer_Password env sg) = Inr (k # ks) \<and>
                         ArmoredDetachSign G k c = Inr sent)"
proof -
  obtain pc where pc: "NewGPGEncryptor G env (Some g) = Inr pc" "fs = [GPG_Transform L G pc]"
    using transform_Multi_GPG[OF assms(1)] by blast
  have lower: "ToLower ''encrypted-bytes'' = ''encrypted-bytes''" by code_simp
  have "fmt \<noteq> []" using assms(2) by (auto simp: EqualFold_def ToLower_def)
  with assms(2,3) have "f = Encrypted_format" by (auto simp: NewFormatter_def EqualFold_def Let_def lower split: if_splits)
  with assms(5) have "sent = Encrypted res" by simp
  with ForUpload_GPG[of x L G pc res] assms(4) pc obtain plain c where w: "ach_Write L x = Inr plain"
    "Disfigure (encryptor pc) plain = Inr c" "if signingKey pc = [] then sent = c else gpgx_Sign G c (signingKey pc) = Inr sent"
    by (auto split: if_splits)
  with pc(1) show ?thesis
    by (auto simp: NewGPGEncryptor_def gpgx_Sign_def ReadPrivateKeyFile_def split: sum.splits option.splits list.splits)
qed

text \<open>An ACH library that writes the file's id, for the witnesses below.\<close>

definition id_lib :: "ach_lib \<Rightarrow> ach_lib" where
  "id_lib L = L\<lparr>ach_Write := (\<lambda>f. Inr (file_ID f))\<rparr>"

lemma id_lib_Write [simp]: "ach_Write (id_lib L) f = Inr (file_ID f)"
  by (simp add: id_lib_def)

definition plain_encryptor :: cryptfs where
  "plain_encryptor = \<lparr>Disfigure = (\<lambda>b. Inr (''PGP '' @ b)), Reveal = (\<lambda>b. Inr (drop 4 b))\<rparr>"

definition plain_gpg :: gpg_lib where
  "plain_gpg = \<lparr>NewGPGEncryptorFile = (\<lambda>_. Inr plain_encryptor),
     gpg_ReadFile = Inr, ReadArmoredKeyRing = (\<lambda>b. Inr [\<lparr>PrivateKey = Some b, Subkeys = [], ent_other = []\<rparr>]),
     Decrypt_key = (\<lambda>_ k. (k, None)), ArmoredDetachSign = (\<lambda>_ _. Inr ''SIGNATURE'')\<rparr>"

definition plain_GPG_transform :: "ach_lib \<Rightarrow> pre_upload" where
  "plain_GPG_transform L = GPG_Transform (id_lib L) plain_gpg \<lparr>encryptor = plain_encryptor, signingKey = []\<rparr>"

lemma plain_gpg_runs:
  "transform_Multi (id_lib L) plain_gpg [] (Some \<lparr>pu_GPG = Some \<lparr>gpg_KeyFile = ''k'', gpg_Signer = None\<rparr>\<rparr>) =
     Inr [plain_GPG_transform L]"
  "ForUpload (Some x) [plain_GPG_transform L] = (\<lparr>result_File = Some x, Encrypted = ''PGP '' @ file_ID x\<rparr>, None)"
  by (simp_all add: transform_Multi_def NewGPGEncryptor_def plain_gpg_def plain_encryptor_def ForUpload_def
      GPG_Transform_def plain_GPG_transform_def)

definition signing_gpg :: GPG where
  "signing_gpg = \<lparr>gpg_KeyFile = ''k'', gpg_Signer = Some \<lparr>sg_KeyFile = ''s'', sg_KeyPassword = []\<rparr>\<rparr>"

lemma encrypted_format_sends_ciphertext_witness:
  "\<forall>L W x. \<exists>fs. transform_Multi (id_lib L) plain_gpg [] (Some \<lparr>pu_GPG = Some signing_gpg\<rparr>) = Inr fs \<and>
     Format (id_lib L) W Encrypted_format (fst (ForUpload (Some x) [plain_GPG_transform L])) = Inr (''PGP '' @ file_ID x) \<and>
     Format (id_lib L) W Encrypted_format (fst (ForUpload (Some x) fs)) = Inr ''SIGNATURE''"
proof (intro allI)
  fix L :: ach_lib and W :: line_writer and x :: ach_file
  have e: "EqualFold ''Encrypted-Bytes'' ''encrypted-bytes''" by code_simp
  have f: "NewFormatter (Some \<lparr>out_Format = ''Encrypted-Bytes''\<rparr>) = Inr Encrypted_format" by code_simp
  have sent: "Format (id_lib L) W Encrypted_format r = Inr (Encrypted r)" for r by simp
  note r = encrypted_format_sends_ciphertext[OF plain_gpg_runs(1) e f plain_gpg_runs(2) sent]
  obtain fs where fs: "transform_Multi (id_lib L) plain_gpg [] (Some \<lparr>pu_GPG = Some signing_gpg\<rparr>) = Inr fs"
    by (simp add: transform_Multi_def NewGPGEncryptor_def ReadPrivateKeyFile_def ReadArmoredKeyFile_def plain_gpg_def signing_gpg_def)
  obtain res where res: "ForUpload (Some x) fs = (res, None)"
    using fs by (auto simp: transform_Multi_def NewGPGEncryptor_def ReadPrivateKeyFile_def ReadArmoredKeyFile_def plain_gpg_def
        signing_gpg_def ForUpload_def GPG_Transform_def plain_encryptor_def gpgx_Sign_def)
  from encrypted_format_sends_ciphertext[OF fs e f res sent] have "Encrypted res = ''SIGNATURE''"
    by (auto simp: plain_gpg_def signing_gpg_def)
  with r fs res show "\<exists>fs. transform_Multi (id_lib L) plain_gpg [] (Some \<lparr>pu_GPG = Some signing_gpg\<rparr>) = Inr fs \<and>
     Format (id_lib L) W Encrypted_format (fst (ForUpload (Some x) [plain_GPG_transform L])) = Inr (''PGP '' @ file_ID x) \<and>
     Format (id_lib L) W Encrypted_format (fst (ForUpload (Some x) fs)) = Inr ''SIGNATURE''"
    unfolding plain_gpg_runs(2) by (simp add: plain_gpg_def plain_encryptor_def)
qed

text \<open>
  C36. Without an output format, or with a \<open>nacha\<close> one, what is uploaded is the plain file
  even when GPG is configured and the encryption succeeded: its ciphertext is dropped.
\<close>

theorem nacha_format_sends_plaintext:
  assumes "transform_Multi L G env (Some \<lparr>pu_GPG = Some g\<rparr>) = Inr fs" and "NewFormatter cfg = Inr (NACHA le)"
    and "ForUpload (Some x) fs = (res, None)" and "Format L W (NACHA le) res = Inr sent"
  shows "(if le = [] then ach_Write L x else W le x) = Inr sent"
proof -
  obtain pc where "fs = [GPG_Transform L G pc]" using transform_Multi_GPG[OF assms(1)] by blast
  with ForUpload_GPG[of x L G pc res] assms(3) have "result_File res = Some x" by blast
  with assms(4) show ?thesis by (auto simp: NACHA_Format_def split: sum.splits if_splits)
qed

lemma nacha_format_sends_plaintext_witness:
  "\<forall>L W x. NewFormatter None = Inr (NACHA []) \<and> (if ([] :: string) = [] then ach_Write (id_lib L) x else W [] x) = Inr (file_ID x)"
proof (intro allI conjI)
  fix L :: ach_lib and W :: line_writer and x :: ach_file
  show n: "NewFormatter None = Inr (NACHA [])" by (simp add: NewFormatter_def)
  have "Format (id_lib L) W (NACHA []) \<lparr>result_File = Some x, Encrypted = ''PGP '' @ file_ID x\<rparr> = Inr (file_ID x)"
    by (simp add: NACHA_Format_def)
  then show "(if ([] :: string) = [] then ach_Write (id_lib L) x else W [] x) = Inr (file_ID x)"
    by (rule nacha_format_sends_plaintext[OF plain_gpg_runs(1) n plain_gpg_runs(2)])
qed

section \<open>The first copy stays\<close>

text \<open>
  What a bucket documents: existence and reading follow its contents, and a write that
  reports no error stored the bytes at its path and nothing else.
\<close>

definition bucket_ok :: "'s bucket \<Rightarrow> ('s \<Rightarrow> bool) \<Rightarrow> ('s \<Rightarrow> string \<rightharpoonup> bytes) \<Rightarrow> bool" where
  "bucket_ok b ok contents \<longleftrightarrow>
     (\<forall>s. ok s \<longrightarrow> (\<forall>p e x. bk_Exists b p s = (x, e) \<longrightarrow> (if x then contents s p \<noteq> None else e = None \<longrightarrow> contents s p = None)) \<and>
        (\<forall>p d s'. bk_Write b p d s = ((None, None), s') \<longrightarrow> ok s' \<and> contents s' = (contents s)(p \<mapsto> d)) \<and>
        (\<forall>p d. contents s p = Some d \<longrightarrow> bk_Read b p s = Inr d \<and> bk_Exists b p s = (True, None)))"

lemma blob_SaveFile_new:
  assumes "bucket_ok b ok contents" and "ok s" and "contents s path = None"
    and "blob_SaveFile b cr path data s = (None, s')"
  shows "\<exists>enc. (case cr of None \<Rightarrow> Inr data | Some c \<Rightarrow> Disfigure c data) = Inr enc \<and> ok s' \<and> contents s' = (contents s)(path \<mapsto> enc)"
proof -
  have "\<not> fst (bk_Exists b path s)"
    using assms(1-3) unfolding bucket_ok_def by (metis prod.collapse)
  with assms(4) obtain enc where "(case cr of None \<Rightarrow> Inr data | Some c \<Rightarrow> Disfigure c data) = Inr enc"
    "bk_Write b path enc s = ((None, None), s')"
    by (auto simp: blob_SaveFile_def split: sum.splits option.splits prod.splits if_splits)
  with assms(1,2) show ?thesis unfolding bucket_ok_def by blast
qed

text \<open>
  The audit trail keeps the first copy: once a path was saved, saving it again with other
  contents reports success, changes nothing, and reading it gives the first copy's bytes.
\<close>

theorem audit_keeps_first_copy:
  assumes "bucket_ok b ok contents" and "ok s"
    and "contents s path = None" and "blob_SaveFile b cr path data s = (None, s1)"
    and "(case cr of None \<Rightarrow> True | Some c \<Rightarrow> \<exists>y. Disfigure c later = Inr y)"
  shows "blob_SaveFile b cr path later s1 = (None, s1) \<and>
    (\<exists>enc. (case cr of None \<Rightarrow> Inr data | Some c \<Rightarrow> Disfigure c data) = Inr enc \<and> blob_GetFile b path s1 = Inr enc)"
proof -
  obtain enc where enc: "(case cr of None \<Rightarrow> Inr data | Some c \<Rightarrow> Disfigure c data) = Inr enc" and i: "ok s1"
    and c: "contents s1 = (contents s)(path \<mapsto> enc)"
    using blob_SaveFile_new[OF assms(1-4)] by blast
  have "contents s1 path = Some enc" using c by simp
  with assms(1) i have "bk_Read b path s1 = Inr enc" "bk_Exists b path s1 = (True, None)" unfolding bucket_ok_def by blast+
  moreover obtain x where "(case cr of None \<Rightarrow> Inr later | Some c \<Rightarrow> Disfigure c later) = Inr x"
    using assms(5) by (auto split: option.splits)
  ultimately show ?thesis using enc by (simp add: blob_SaveFile_def blob_GetFile_def)
qed

text \<open>A bucket in memory.\<close>

definition mem_bucket :: "(string \<times> bytes) list bucket" where
  "mem_bucket = \<lparr>bk_Exists = (\<lambda>p s. (map_of s p \<noteq> None, None)), bk_NewWriter = (\<lambda>_ _. None),
     bk_Write = (\<lambda>p d s. ((None, None), (p, d) # s)),
     bk_Read = (\<lambda>p s. case map_of s p of None \<Rightarrow> Inl (errors_New ''not found'') | Some d \<Rightarrow> Inr d),
     bk_Close = (\<lambda>s. (None, s))\<rparr>"

lemma mem_bucket_ok: "bucket_ok mem_bucket (\<lambda>_. True) map_of"
  unfolding bucket_ok_def mem_bucket_def by (auto simp: fun_eq_iff)

lemma audit_keeps_first_copy_witness:
  "blob_SaveFile mem_bucket None ''outbound'' ''two'' [(''outbound'', ''one'')] = (None, [(''outbound'', ''one'')]) \<and>
     blob_GetFile mem_bucket ''outbound'' [(''outbound'', ''one'')] = Inr ''one''"
proof -
  have s: "blob_SaveFile mem_bucket None ''outbound'' ''one'' [] = (None, [(''outbound'', ''one'')])"
    by (simp add: blob_SaveFile_def mem_bucket_def)
  from audit_keeps_first_copy[OF mem_bucket_ok _ _ s, of "''two''"] show ?thesis by simp
qed

end
