(* ===== verification/Notify.thy ===== *)
theory Notify
  imports Upload Compliance
begin

text \<open>
  Notifications (\<open>internal/notify\<close>): the messages written for each channel, the senders and
  the multi-sender with its retries.
  The mail dialer, the PagerDuty, Slack and Kafka clients, URL parsing, templates and the
  number printer of x/text are parameters. Where Go would panic (a nil file, a template that
  does not parse) the model has an error value.
\<close>

section \<open>Messages\<close>

datatype direction = Upload_direction | Download_direction

fun show_direction :: "direction \<Rightarrow> string" where
  "show_direction Upload_direction = ''upload''"
| "show_direction Download_direction = ''download''"

text \<open>The zero value of a direction is the empty string, which no message of the sources but
  the holiday notice has; that one is sent by its \<open>Contents\<close>.\<close>

record message =
  Direction :: direction
  msg_Filename :: string
  msg_File :: "ach_file option"
  msg_Hostname :: string
  Contents :: string

type_synonym dollar_printer = "int \<Rightarrow> string"

definition countEntries :: "ach_file option \<Rightarrow> nat" where
  "countEntries file =
     (case file of None \<Rightarrow> 0 | Some f \<Rightarrow> sum_list (map (\<lambda>b. length (GetEntries b)) (Batches f)))"

record 's sender =
  send_Info :: "message \<Rightarrow> 's \<Rightarrow> err option \<times> 's"
  send_Critical :: "message \<Rightarrow> 's \<Rightarrow> err option \<times> 's"
  senderType :: string

section \<open>Email\<close>

record email_uri =
  uri_Scheme :: string
  uri_Hostname :: string
  uri_SplitHost :: string
  uri_Port :: string
  uri_Username :: string
  uri_Password :: string
  uri_skip_verify :: bool

record email_dialer =
  ServerName :: string
  InsecureSkipVerify :: bool
  SSL :: bool
  dl_Host :: string
  dl_Port :: nat
  dl_Username :: string
  dl_Password :: string

text \<open>\<open>strconv.ParseInt(s, 10, 64)\<close> of a URL's port, which is empty or digits.\<close>

definition port_number :: "string \<Rightarrow> nat" where
  "port_number s = (if s \<noteq> [] \<and> list_all is_digit s then read_digits 0 s else 0)"

definition setupGoMailClient :: "(string \<Rightarrow> err + email_uri) \<Rightarrow> Email \<Rightarrow> err + email_dialer" where
  "setupGoMailClient parse cfg =
     (case parse (em_ConnectionURI cfg) of
        Inl e \<Rightarrow> Inl e
      | Inr uri \<Rightarrow>
          let port = port_number (uri_Port uri);
              host = uri_SplitHost uri
          in if int port > 65535 then Inl (errors_New (''invalid port: '' @ show_nat port))
             else Inr \<lparr>ServerName = host, InsecureSkipVerify = uri_skip_verify uri,
                       SSL = (EqualFold (uri_Scheme uri) ''smtps'' \<and> \<not> Contains host ''.gmail.com''),
                       dl_Host = uri_Hostname uri, dl_Port = port, dl_Username = uri_Username uri,
                       dl_Password = uri_Password uri\<rparr>)"

record email_data =
  ed_CompanyName :: string
  ed_Verb :: string
  ed_Filename :: string
  ed_Hostname :: string
  ed_Successful :: bool
  ed_DebitTotal :: string
  ed_CreditTotal :: string
  ed_BatchCount :: int
  ed_EntryCount :: nat

type_synonym template_lib = "string \<Rightarrow> email_data \<Rightarrow> err + string"

definition marshalSubject :: "Email \<Rightarrow> message \<Rightarrow> string \<Rightarrow> bool \<Rightarrow> string" where
  "marshalSubject cfg msg filename successful =
     (if successful then filename @ '' '' @ show_direction (Direction msg) @ ''ed by '' @ em_CompanyName cfg
      else filename @ '' FAILED '' @ show_direction (Direction msg) @ '' by '' @ em_CompanyName cfg)"

definition marshalEmail ::
  "dollar_printer \<Rightarrow> template_lib \<Rightarrow> Email \<Rightarrow> message \<Rightarrow> bool \<Rightarrow> err + string" where
  "marshalEmail D T cfg msg successful =
     (if Contents msg \<noteq> [] then Inr (Contents msg)
      else
        let base = \<lparr>ed_CompanyName = em_CompanyName cfg, ed_Verb = show_direction (Direction msg),
                    ed_Filename = msg_Filename msg, ed_Hostname = msg_Hostname msg, ed_Successful = successful,
                    ed_DebitTotal = [], ed_CreditTotal = [], ed_BatchCount = 0, ed_EntryCount = 0\<rparr>;
            data = (case msg_File msg of
                      None \<Rightarrow> base
                    | Some f \<Rightarrow> base\<lparr>ed_BatchCount := BatchCount (Control f), ed_EntryCount := countEntries (Some f),
                                   ed_DebitTotal := D (TotalDebit (Control f)),
                                   ed_CreditTotal := D (TotalCredit (Control f))\<rparr>)
        in T (em_Template cfg) data)"

text \<open>A mail as it is handed to the dialer.\<close>

record mail =
  From :: string
  To :: "string list"
  Subject :: string
  Body :: string

type_synonym 's mail_lib = "email_dialer \<Rightarrow> mail \<Rightarrow> 's \<Rightarrow> err option \<times> 's"

fun send_tries :: "('s \<Rightarrow> err option \<times> 's) \<Rightarrow> nat \<Rightarrow> err option \<Rightarrow> 's \<Rightarrow> err option \<times> 's" where
  "send_tries dial 0 outErr s = (outErr, s)"
| "send_tries dial (Suc n) outErr s =
     (case dial s of
        (None, s1) \<Rightarrow> (None, s1)
      | (Some e, s1) \<Rightarrow> if Contains (err_text e) ''i/o timeout'' then send_tries dial n (Some e) s1 else (Some e, s1))"

definition max_tries :: "Email \<Rightarrow> nat" where
  "max_tries cfg = (if em_MaxRetries cfg > 0 then nat (em_MaxRetries cfg) else 3)"

definition sendEmail :: "'s mail_lib \<Rightarrow> Email \<Rightarrow> email_dialer \<Rightarrow> string \<Rightarrow> string \<Rightarrow> 's \<Rightarrow> err option \<times> 's" where
  "sendEmail M cfg dialer subject body s =
     send_tries (M dialer \<lparr>From = em_From cfg, To = em_To cfg, Subject = subject, Body = body\<rparr>) (max_tries cfg) None s"

definition email_send ::
  "dollar_printer \<Rightarrow> template_lib \<Rightarrow> 's mail_lib \<Rightarrow> Email \<Rightarrow> email_dialer \<Rightarrow> bool \<Rightarrow> message \<Rightarrow> 's \<Rightarrow> err option \<times> 's" where
  "email_send D T M cfg dialer successful msg s =
     (let subject = marshalSubject cfg msg (msg_Filename msg) successful
      in (case marshalEmail D T cfg msg successful of
            Inl e \<Rightarrow> (Some e, s)
          | Inr contents \<Rightarrow> sendEmail M cfg dialer subject contents s))"

section \<open>PagerDuty, Slack and Kafka\<close>

record incident =
  Title :: string
  Details :: string
  Service :: string
  Urgency :: string

text \<open>\<open>pd_Abilities\<close> is how many abilities the account lists.\<close>

record 's pagerduty_lib =
  pd_Abilities :: "string \<Rightarrow> err + nat"
  CreateIncident :: "string \<Rightarrow> string \<Rightarrow> incident \<Rightarrow> 's \<Rightarrow> err option \<times> 's"

definition pagerduty_Ping :: "'s pagerduty_lib \<Rightarrow> string \<Rightarrow> err option" where
  "pagerduty_Ping P key =
     (case pd_Abilities P key of
        Inl e \<Rightarrow> Some (errorf_v ''pagerduty list abilities: '' e)
      | Inr n \<Rightarrow> if n = 0 then Some (errors_New ''pagerduty: missing abilities'') else None)"

text \<open>Uploads that went well are not told to PagerDuty.\<close>

definition pagerduty_Info :: "message \<Rightarrow> 's \<Rightarrow> err option \<times> 's" where
  "pagerduty_Info msg s = (None, s)"

definition createIncident :: "'s pagerduty_lib \<Rightarrow> PagerDuty \<Rightarrow> incident \<Rightarrow> 's \<Rightarrow> err option \<times> 's" where
  "createIncident P cfg opts s = CreateIncident P (pd_ApiKey cfg) (pd_From cfg) opts s"

definition pagerduty_Critical :: "'s pagerduty_lib \<Rightarrow> PagerDuty \<Rightarrow> message \<Rightarrow> 's \<Rightarrow> err option \<times> 's" where
  "pagerduty_Critical P cfg msg s =
     createIncident P cfg
       \<lparr>Title = ''ERROR during file '' @ show_direction (Direction msg),
        Details = ''FAILURE on '' @ show_direction (Direction msg) @ '' of '' @ msg_Filename msg,
        Service = pd_ServiceKey cfg,
        Urgency = (if Direction msg = Download_direction then ''low'' else [])\<rparr> s"

definition NewPagerDuty :: "'s pagerduty_lib \<Rightarrow> PagerDuty \<Rightarrow> err + 's sender" where
  "NewPagerDuty P cfg =
     (case pagerduty_Ping P (pd_ApiKey cfg) of
        Some e \<Rightarrow> Inl e
      | None \<Rightarrow> Inr \<lparr>send_Info = pagerduty_Info, send_Critical = pagerduty_Critical P cfg, senderType = ''PagerDuty''\<rparr>)"

definition email_Info ::
  "dollar_printer \<Rightarrow> template_lib \<Rightarrow> 's mail_lib \<Rightarrow> Email \<Rightarrow> email_dialer \<Rightarrow> message \<Rightarrow> 's \<Rightarrow> err option \<times> 's" where
  "email_Info D T M cfg dialer = email_send D T M cfg dialer True"

definition email_Critical ::
  "dollar_printer \<Rightarrow> template_lib \<Rightarrow> 's mail_lib \<Rightarrow> Email \<Rightarrow> email_dialer \<Rightarrow> message \<Rightarrow> 's \<Rightarrow> err option \<times> 's" where
  "email_Critical D T M cfg dialer = email_send D T M cfg dialer False"

definition NewEmail ::
  "dollar_printer \<Rightarrow> template_lib \<Rightarrow> 's mail_lib \<Rightarrow> (string \<Rightarrow> err + email_uri) \<Rightarrow> Email \<Rightarrow> err + 's sender" where
  "NewEmail D T M parse cfg =
     (case setupGoMailClient parse cfg of
        Inl e \<Rightarrow> Inl e
      | Inr dialer \<Rightarrow> Inr \<lparr>send_Info = email_Info D T M cfg dialer,
                          send_Critical = email_Critical D T M cfg dialer, senderType = ''Email''\<rparr>)"

definition marshalSlackMessage :: "dollar_printer \<Rightarrow> string \<Rightarrow> message \<Rightarrow> err + string" where
  "marshalSlackMessage D status msg =
     (if Contents msg \<noteq> [] then Inr (Contents msg)
      else (case msg_File msg of
              None \<Rightarrow> Inl nil_dereference
            | Some f \<Rightarrow>
                Inr (status @ '' '' @ show_direction (Direction msg) @ '' of '' @ msg_Filename msg @
                  (if msg_Hostname msg \<noteq> [] then
                     (if Direction msg = Upload_direction then '' to '' else '' from '') @ msg_Hostname msg else []) @
                  '' with ODFI server'' @ [CHR 0x0A] @
                  show_nat (countEntries (Some f)) @ '' Entries | Debits: '' @ D (TotalDebit (Control f)) @
                  '' | Credits: '' @ D (TotalCredit (Control f)))))"

text \<open>The POST of \<open>{"text": ...}\<close> to a webhook.\<close>

type_synonym 's slack_lib = "string \<Rightarrow> string \<Rightarrow> 's \<Rightarrow> err option \<times> 's"

definition slack_send :: "'s slack_lib \<Rightarrow> string \<Rightarrow> string \<Rightarrow> 's \<Rightarrow> err option \<times> 's" where
  "slack_send S url msg s = S url msg s"

definition slack_Info :: "dollar_printer \<Rightarrow> 's slack_lib \<Rightarrow> string \<Rightarrow> message \<Rightarrow> 's \<Rightarrow> err option \<times> 's" where
  "slack_Info D S url msg s =
     (case marshalSlackMessage D ''SUCCESSFUL'' msg of Inl e \<Rightarrow> (Some e, s) | Inr slackMsg \<Rightarrow> slack_send S url slackMsg s)"

definition slack_Critical :: "dollar_printer \<Rightarrow> 's slack_lib \<Rightarrow> string \<Rightarrow> message \<Rightarrow> 's \<Rightarrow> err option \<times> 's" where
  "slack_Critical D S url msg s =
     (case marshalSlackMessage D ''FAILED'' msg of Inl e \<Rightarrow> (Some e, s) | Inr slackMsg \<Rightarrow> slack_send S url slackMsg s)"

definition NewSlack :: "dollar_printer \<Rightarrow> 's slack_lib \<Rightarrow> Slack \<Rightarrow> err + 's sender" where
  "NewSlack D S cfg =
     (case Slack_Validate cfg of
        Some e \<Rightarrow> Inl e
      | None \<Rightarrow>
          let url = TrimSpace (sl_WebhookURL cfg)
          in Inr \<lparr>send_Info = slack_Info D S url, send_Critical = slack_Critical D S url, senderType = ''Slack''\<rparr>)"

definition marshalKafkaMessage :: "dollar_printer \<Rightarrow> string \<Rightarrow> message \<Rightarrow> err + notify_event" where
  "marshalKafkaMessage D status msg =
     (case msg_File msg of
        None \<Rightarrow> Inl nil_dereference
      | Some f \<Rightarrow> Inr \<lparr>ne_Direction = show_direction (Direction msg), ne_FileName = msg_Filename msg,
                     ne_Entries = int (countEntries (Some f)), ne_DebitTotal = D (TotalDebit (Control f)),
                     ne_CreditTotal = D (TotalCredit (Control f)), ne_Hostname = msg_Hostname msg,
                     ne_UploadStatus = status\<rparr>)"

definition kafka_send ::
  "json_lib \<Rightarrow> crypto_lib \<Rightarrow> err + bytes \<Rightarrow> (bytes \<Rightarrow> 's \<Rightarrow> err option \<times> 's) \<Rightarrow> KafkaConfig \<Rightarrow> notify_event \<Rightarrow> 's \<Rightarrow> err option \<times> 's" where
  "kafka_send J C nonce publish cfg evt s =
     (case Protect J C nonce (kf_Transform cfg) (NotifierEvent evt) of
        Inl e \<Rightarrow> (Some (errorf_v ''unable to protect notifer kafka event: '' e), s)
      | Inr bs \<Rightarrow> publish bs s)"

text \<open>A connected topic (its \<open>Send\<close>) with its configuration.\<close>

record 's Kafka =
  kafka_publisher :: "bytes \<Rightarrow> 's \<Rightarrow> err option \<times> 's"
  kafka_cfg :: KafkaConfig

definition kafka_Info ::
  "json_lib \<Rightarrow> crypto_lib \<Rightarrow> err + bytes \<Rightarrow> dollar_printer \<Rightarrow> 's Kafka \<Rightarrow> message \<Rightarrow> 's \<Rightarrow> err option \<times> 's" where
  "kafka_Info J C nonce D k msg s =
     (case marshalKafkaMessage D ''SUCCESSFUL'' msg of
        Inl e \<Rightarrow> (Some e, s) | Inr evt \<Rightarrow> kafka_send J C nonce (kafka_publisher k) (kafka_cfg k) evt s)"

definition kafka_Critical ::
  "json_lib \<Rightarrow> crypto_lib \<Rightarrow> err + bytes \<Rightarrow> dollar_printer \<Rightarrow> 's Kafka \<Rightarrow> message \<Rightarrow> 's \<Rightarrow> err option \<times> 's" where
  "kafka_Critical J C nonce D k msg s =
     (case marshalKafkaMessage D ''FAILED'' msg of
        Inl e \<Rightarrow> (Some e, s) | Inr evt \<Rightarrow> kafka_send J C nonce (kafka_publisher k) (kafka_cfg k) evt s)"

definition NewKafka :: "(KafkaConfig \<Rightarrow> err + (bytes \<Rightarrow> 's \<Rightarrow> err option \<times> 's)) \<Rightarrow> KafkaConfig \<Rightarrow> err + 's Kafka" where
  "NewKafka open_topic cfg =
     (case open_topic cfg of
        Inl e \<Rightarrow> Inl e
      | Inr publisher \<Rightarrow> Inr \<lparr>kafka_publisher = publisher, kafka_cfg = cfg\<rparr>)"

section \<open>Sending to all of them\<close>

record 's notify_lib =
  dollars :: dollar_printer
  templates :: template_lib
  mails :: "'s mail_lib"
  url_Parse :: "string \<Rightarrow> err + email_uri"
  pagerduty :: "'s pagerduty_lib"
  slack :: "'s slack_lib"
  notify_retry :: "'s retry_lib"

record 's MultiSender =
  senders :: "'s sender list"
  retryConfig :: "NotificationRetries option"

text \<open>Every constructor of the list must succeed; the first error is returned.\<close>

fun new_all :: "('c \<Rightarrow> err + 'a) \<Rightarrow> 'c list \<Rightarrow> err + 'a list" where
  "new_all f [] = Inr []"
| "new_all f (c # cs) =
     (case f c of Inl e \<Rightarrow> Inl e
      | Inr a \<Rightarrow> (case new_all f cs of Inl e \<Rightarrow> Inl e | Inr r \<Rightarrow> Inr (a # r)))"

definition NewMultiSender ::
  "'s notify_lib \<Rightarrow> Notifications option \<Rightarrow> UploadNotifiers option \<Rightarrow> err + 's MultiSender" where
  "NewMultiSender N cfg notifiers =
     (case (cfg, notifiers) of
        (Some c, Some n) \<Rightarrow>
          (case new_all (NewEmail (dollars N) (templates N) (mails N) (url_Parse N)) (FindEmails c (un_Email n)) of
             Inl e \<Rightarrow> Inl e
           | Inr emails \<Rightarrow>
          (case new_all (NewPagerDuty (pagerduty N)) (FindPagerDutys c (un_PagerDuty n)) of
             Inl e \<Rightarrow> Inl e
           | Inr pds \<Rightarrow>
          (case new_all (NewSlack (dollars N) (slack N)) (FindSlacks c (un_Slack n)) of
             Inl e \<Rightarrow> Inl e
           | Inr slacks \<Rightarrow> Inr \<lparr>senders = emails @ pds @ slacks, retryConfig = nt_Retry c\<rparr>)))
      | _ \<Rightarrow> Inr \<lparr>senders = [], retryConfig = None\<rparr>)"

definition setupBackoff :: "'s retry_lib \<Rightarrow> NotificationRetries \<Rightarrow> err option" where
  "setupBackoff R cfg =
     (if NewFibonacci R (nr_Interval cfg) then None
      else Some (errors_New (''problem creating '' @ show_duration (nr_Interval cfg) @ '' as fibonacci'')))"

definition multi_retry ::
  "'s retry_lib \<Rightarrow> NotificationRetries option \<Rightarrow> ('s \<Rightarrow> err option \<times> 's) \<Rightarrow> 's \<Rightarrow> err option \<times> 's" where
  "multi_retry R cfg f s =
     (case cfg of
        None \<Rightarrow> f s
      | Some c \<Rightarrow>
          (case setupBackoff R c of
             Some e \<Rightarrow> (Some (errorf_v ''retry: '' e), s)
           | None \<Rightarrow>
               (case retry_Do R (nr_Interval c) (nr_MaxRetries c)
                  (\<lambda>(s, v). case f s of (e, s') \<Rightarrow> (isRetryableError e, s', v))
                  (s, \<lparr>cell_files = [], cell_file = None, cell_rest = []\<rparr>) of
                (e, s', v) \<Rightarrow> (e, s'))))"

text \<open>The loop of \<open>Info\<close> and \<open>Critical\<close>: all senders, the first error kept.\<close>

fun send_all ::
  "'s retry_lib \<Rightarrow> NotificationRetries option \<Rightarrow> ('s sender \<Rightarrow> message \<Rightarrow> 's \<Rightarrow> err option \<times> 's) \<Rightarrow> message
     \<Rightarrow> 's sender list \<Rightarrow> err option \<Rightarrow> 's \<Rightarrow> err option \<times> 's" where
  "send_all R cfg how msg [] firstError s = (firstError, s)"
| "send_all R cfg how msg (x # xs) firstError s =
     (case multi_retry R cfg (how x msg) s of
        (e, s1) \<Rightarrow> send_all R cfg how msg xs (if firstError = None then e else firstError) s1)"

definition multi_Info :: "'s notify_lib \<Rightarrow> 's MultiSender \<Rightarrow> message \<Rightarrow> 's \<Rightarrow> err option \<times> 's" where
  "multi_Info N ms msg s = send_all (notify_retry N) (retryConfig ms) send_Info msg (senders ms) None s"

definition multi_Critical :: "'s notify_lib \<Rightarrow> 's MultiSender \<Rightarrow> message \<Rightarrow> 's \<Rightarrow> err option \<times> 's" where
  "multi_Critical N ms msg s = send_all (notify_retry N) (retryConfig ms) send_Critical msg (senders ms) None s"

text \<open>The sender the tests record messages with.\<close>

record mock_sender =
  infoCalled :: bool
  criticalCalled :: bool
  mock_msg :: "message option"
  mock_send_Err :: "err option"

definition MockSender :: "mock_sender sender" where
  "MockSender =
     \<lparr>send_Info = (\<lambda>m s. (mock_send_Err s, s\<lparr>infoCalled := True, mock_msg := Some m\<rparr>)),
      send_Critical = (\<lambda>m s. (mock_send_Err s, s\<lparr>criticalCalled := True, mock_msg := Some m\<rparr>)),
      senderType = ''MockSender''\<rparr>"

section \<open>Bounded delivery, and what retrying hides\<close>

definition mail_timeout :: "err option \<Rightarrow> bool" where
  "mail_timeout e \<longleftrightarrow> (\<exists>x. e = Some x \<and> Contains (err_text x) ''i/o timeout'')"

lemma send_tries_trace:
  "\<exists>n\<le>k. (\<forall>i<n. mail_timeout (fst (d (nth_try i d s)))) \<and> (n < k \<longrightarrow> \<not> mail_timeout (fst (d (nth_try n d s)))) \<and>
     send_tries d (Suc k) r s = d (nth_try n d s)"
proof (induction k arbitrary: r s)
  case 0
  show ?case by (auto split: prod.splits option.splits)
next
  case (Suc k)
  obtain e s1 where d: "d s = (e, s1)" by fastforce
  show ?case
  proof (cases "mail_timeout e")
    case False
    with d have "send_tries d (Suc (Suc k)) r s = d s" by (auto simp: mail_timeout_def split: option.splits)
    with False d show ?thesis by (intro exI[of _ 0]) simp
  next
    case True
    then obtain x where x: "e = Some x" "Contains (err_text x) ''i/o timeout''" by (auto simp: mail_timeout_def)
    with d have run: "send_tries d (Suc (Suc k)) r s = send_tries d (Suc k) (Some x) s1" by simp
    from Suc.IH[of s1 "Some x"] obtain n where n: "n \<le> k" "\<forall>i<n. mail_timeout (fst (d (nth_try i d s1)))"
      "n < k \<longrightarrow> \<not> mail_timeout (fst (d (nth_try n d s1)))" "send_tries d (Suc k) (Some x) s1 = d (nth_try n d s1)" by blast
    have "\<forall>i<Suc n. mail_timeout (fst (d (nth_try i d s)))"
      using n(2) d True by (auto simp: less_Suc_eq_0_disj)
    with n d run show ?thesis by (intro exI[of _ "Suc n"]) auto
  qed
qed

text \<open>
  A mail is tried at least once and at most \<open>MaxRetries\<close> times (three without a setting):
  every try but the last met an i/o timeout, and the caller gets the outcome of the last one;
  a success or any other error ends the tries at once.
\<close>

theorem email_tries_bounded:
  "let d = M dialer \<lparr>From = em_From cfg, To = em_To cfg, Subject = subject, Body = body\<rparr>
   in \<exists>n<max_tries cfg. (\<forall>i<n. mail_timeout (fst (d (nth_try i d s)))) \<and>
      (n + 1 < max_tries cfg \<longrightarrow> \<not> mail_timeout (fst (d (nth_try n d s)))) \<and>
      sendEmail M cfg dialer subject body s = d (nth_try n d s)"
proof -
  let ?d = "M dialer \<lparr>From = em_From cfg, To = em_To cfg, Subject = subject, Body = body\<rparr>"
  obtain k where k: "max_tries cfg = Suc k" by (cases "max_tries cfg") (auto simp: max_tries_def split: if_splits)
  from send_tries_trace[of k ?d s None] show ?thesis
    unfolding sendEmail_def Let_def k by (auto simp: less_Suc_eq_le)
qed

definition sample_email :: Email where
  "sample_email = \<lparr>em_ID = ''ops'', em_From = ''a@b'', em_To = [''c@d''], em_ConnectionURI = [], em_MaxRetries = 2,
     em_Template = [], em_CompanyName = ''Moov''\<rparr>"

definition sample_dialer :: email_dialer where
  "sample_dialer = \<lparr>ServerName = [], InsecureSkipVerify = False, SSL = False, dl_Host = [], dl_Port = 25,
     dl_Username = [], dl_Password = []\<rparr>"

lemma email_tries_bounded_witness:
  "\<exists>n<max_tries sample_email. sendEmail (\<lambda>_ _ s. (Some (Err ''i/o timeout'' []), Suc s)) sample_email sample_dialer [] [] 0 =
     (Some (Err ''i/o timeout'' []), Suc (nth_try n (\<lambda>s. (Some (Err ''i/o timeout'' []), Suc s)) 0))"
  using email_tries_bounded[of "\<lambda>_ _ s. (Some (Err ''i/o timeout'' []), Suc s)" sample_dialer sample_email "[]" "[]" 0] by (auto simp: Let_def)

text \<open>
  With retries configured, a channel whose failure is not considered worth retrying (a
  rejected webhook, a refused login) is tried once and reported as delivered: the critical
  notice of a failed upload can be lost without an error.
\<close>

theorem critical_notice_lost_silently:
  assumes "retry_documented (notify_retry N)" and "retryConfig ms = Some c" and "senders ms = [x]"
    and "send_Critical x msg s = (Some e, s')"
    and "\<not> errors_Is e Timeout" and "\<not> Contains (err_text e) ''no such host''"
  shows "multi_Critical N ms msg s = (None, s')"
proof -
  let ?v = "\<lparr>cell_files = [], cell_file = None, cell_rest = []\<rparr>"
  have "retry_run (nr_MaxRetries c) (\<lambda>(s, v). case send_Critical x msg s of (e, s') \<Rightarrow> (isRetryableError e, s', v)) (s, ?v)
      = (None, s', ?v)"
    using assms(4-6) by (cases "nr_MaxRetries c") (simp_all add: isRetryableError_def)
  then show ?thesis
    using assms(1-3) by (simp add: multi_Critical_def multi_retry_def setupBackoff_def retry_documented_def)
qed

definition sample_notify :: "'s notify_lib" where
  "sample_notify = \<lparr>dollars = (\<lambda>_. []), templates = (\<lambda>_ _. Inr []), mails = (\<lambda>_ _ s. (None, s)), url_Parse = (\<lambda>_. Inl ENOENT),
     pagerduty = \<lparr>pd_Abilities = (\<lambda>_. Inr 1), CreateIncident = (\<lambda>_ _ _ s. (None, s))\<rparr>,
     slack = (\<lambda>_ _ s. (None, s)), notify_retry = plain_retry\<rparr>"

definition sample_message :: message where
  "sample_message = \<lparr>Direction = Upload_direction, msg_Filename = ''f.ach'', msg_File = None, msg_Hostname = [], Contents = ''down''\<rparr>"

definition failing_sender :: "nat sender" where
  "failing_sender = \<lparr>send_Info = (\<lambda>_ s. (None, s)), send_Critical = (\<lambda>_ s. (Some (Err ''denied'' []), Suc s)),
     senderType = ''Slack''\<rparr>"

lemma critical_notice_lost_silently_witness:
  "multi_Critical sample_notify
     \<lparr>senders = [failing_sender], retryConfig = Some \<lparr>nr_Interval = 1, nr_MaxRetries = 3\<rparr>\<rparr> sample_message 0 = (None, Suc 0)"
  by (rule critical_notice_lost_silently[where e = "Err ''denied'' []" and x = failing_sender])
     (simp_all add: sample_notify_def failing_sender_def plain_retry_documented errors_Is_def Contains_eval)

end
