(* ===== verification/Events.thy ===== *)
theory Events
  imports Compliance
begin

text \<open>
  Publishing and receiving (\<open>internal/incoming/stream\<close>) and the event emitters
  (\<open>internal/events\<close>) over them: the stream service, the webhook and the mock. The pub/sub
  and HTTP clients are parameters. A nil publisher is \<open>None\<close>: calling it panics, which is
  the error value \<open>nil_dereference\<close> here.
\<close>

section \<open>Streams\<close>

record 's publisher =
  pub_Send :: "bytes \<Rightarrow> 's \<Rightarrow> err option \<times> 's"
  pub_Shutdown :: "'s \<Rightarrow> err option \<times> 's"

text \<open>A message and what acknowledging it does.\<close>

record 's pub_message =
  msg_Body :: bytes
  Ack :: "'s \<Rightarrow> 's"

record 's subscription =
  Receive :: "'s \<Rightarrow> ('s pub_message option \<times> err option) \<times> 's"
  sub_Shutdown :: "'s \<Rightarrow> err option \<times> 's"

datatype sarama_error = Single_error err | Multiple_errors "err list" err | Other_error

record 's pubsub_lib =
  split_URL :: "string \<Rightarrow> err + string \<times> string"
  OpenTopic :: "string \<Rightarrow> err + 's publisher"
  OpenSub :: "string \<Rightarrow> err + 's subscription"
  kafka_OpenTopic :: "KafkaConfig \<Rightarrow> err + 's publisher"
  kafka_OpenSub :: "KafkaConfig \<Rightarrow> err + 's subscription"
  ProducerError_As :: "err \<Rightarrow> sarama_error"
  ConsumerError_As :: "err \<Rightarrow> sarama_error"

definition producer_error :: "'s pubsub_lib \<Rightarrow> err \<Rightarrow> err" where
  "producer_error P e =
     (case ProducerError_As P e of
        Single_error x \<Rightarrow> errorf_w ''producer error: '' x
      | Multiple_errors (x # xs) _ \<Rightarrow>
          errorf_w (''first producer error (of '' @ show_nat (length (x # xs)) @ '') - '') x
      | Multiple_errors [] all \<Rightarrow> errorf_w ''producer errors: '' all
      | Other_error \<Rightarrow> errorf_w ''error sending message: '' e)"

definition kafkaProducer :: "'s pubsub_lib \<Rightarrow> 's publisher \<Rightarrow> 's publisher" where
  "kafkaProducer P topic =
     topic\<lparr>pub_Send := (\<lambda>m s. case pub_Send topic m s of (e, s1) \<Rightarrow> (map_option (producer_error P) e, s1))\<rparr>"

definition stream_Topic :: "'s pubsub_lib \<Rightarrow> InMemory option \<Rightarrow> KafkaConfig option \<Rightarrow> err + 's publisher option" where
  "stream_Topic P inmem kafka =
     (case inmem of
        Some im \<Rightarrow>
          (case split_URL P (im_URL im) of
             Inl e \<Rightarrow> Inl (errorf_v ''parsing inbound in-mem url: '' e)
           | Inr (scheme, host) \<Rightarrow>
               (case OpenTopic P (scheme @ ''://'' @ host) of Inl e \<Rightarrow> Inl e | Inr t \<Rightarrow> Inr (Some t)))
      | None \<Rightarrow>
          (case kafka of
             None \<Rightarrow> Inr None
           | Some k \<Rightarrow> (case kafka_OpenTopic P k of
                          Inl e \<Rightarrow> Inl (errorf_w ''creating topic: '' e)
                        | Inr t \<Rightarrow> Inr (Some (kafkaProducer P t)))))"

definition consumer_error :: "'s pubsub_lib \<Rightarrow> err \<Rightarrow> err" where
  "consumer_error P e =
     (case ConsumerError_As P e of
        Single_error x \<Rightarrow> errorf_w ''consumer error receiving message: '' x
      | Multiple_errors _ all \<Rightarrow> errorf_w ''consumer errors receiving message: '' all
      | Other_error \<Rightarrow> errorf_w ''error receiving message: '' e)"

definition kafkaSubscription :: "'s pubsub_lib \<Rightarrow> 's subscription \<Rightarrow> 's subscription" where
  "kafkaSubscription P sub =
     sub\<lparr>Receive := (\<lambda>s. case Receive sub s of ((m, e), s1) \<Rightarrow> ((m, map_option (consumer_error P) e), s1))\<rparr>"

definition stream_OpenSubscription ::
  "'s pubsub_lib \<Rightarrow> InMemory option \<Rightarrow> KafkaConfig option \<Rightarrow> err + 's subscription option" where
  "stream_OpenSubscription P inmem kafka =
     (case inmem of
        Some im \<Rightarrow> (case OpenSub P (im_URL im) of Inl e \<Rightarrow> Inl e | Inr s \<Rightarrow> Inr (Some s))
      | None \<Rightarrow>
          (case kafka of
             None \<Rightarrow> Inr None
           | Some k \<Rightarrow> (case kafka_OpenSub P k of
                          Inl e \<Rightarrow> Inl e | Inr s \<Rightarrow> Inr (Some (kafkaSubscription P s)))))"

section \<open>Emitters\<close>

record event_lib =
  json :: json_lib
  crypto :: crypto_lib
  event_nonce :: "err + bytes"
  event_ach :: ach_lib

type_synonym 's emitter = "payload \<Rightarrow> 's \<Rightarrow> err option \<times> 's"

text \<open>The events are sent without their \<open>Type\<close> field set, so its name is missing in the error.\<close>

definition stream_Send :: "event_lib \<Rightarrow> TransformConfig option \<Rightarrow> 's publisher option \<Rightarrow> 's emitter" where
  "stream_Send E cfg topic evt s =
     (case Protect (json E) (crypto E) (event_nonce E) cfg evt of
        Inl e \<Rightarrow> (Some e, s)
      | Inr bs \<Rightarrow>
          (case topic of
             None \<Rightarrow> (Some nil_dereference, s)
           | Some t \<Rightarrow>
               (case pub_Send t bs s of
                  (Some e, s1) \<Rightarrow> (Some (errorf_w ''error emitting : '' e), s1)
                | (None, s1) \<Rightarrow> (None, s1))))"

definition newStreamService ::
  "event_lib \<Rightarrow> 's pubsub_lib \<Rightarrow> TransformConfig option \<Rightarrow> EventsStream option \<Rightarrow> err + 's emitter" where
  "newStreamService E P transform cfg =
     (case cfg of
        None \<Rightarrow> Inl (errors_New ''nil EventsStream config'')
      | Some c \<Rightarrow>
          (case stream_Topic P (es_InMem c) (es_Kafka c) of
             Inl e \<Rightarrow> Inl (errorf_v ''service.Inbound events stream: '' e)
           | Inr topic \<Rightarrow> Inr (stream_Send E transform topic)))"

text \<open>The HTTP client: preparing a request may fail, sending it may fail.\<close>

record 's webhook_lib =
  parse_endpoint :: "string \<Rightarrow> err + string"
  NewRequest :: "string \<Rightarrow> bytes \<Rightarrow> err option"
  client_Do :: "string \<Rightarrow> bytes \<Rightarrow> 's \<Rightarrow> err option \<times> 's"

definition webhook_Send :: "event_lib \<Rightarrow> 's webhook_lib \<Rightarrow> TransformConfig option \<Rightarrow> string \<Rightarrow> 's emitter" where
  "webhook_Send E H cfg endpoint evt s =
     (case Protect (json E) (crypto E) (event_nonce E) cfg evt of
        Inl e \<Rightarrow> (Some e, s)
      | Inr bs \<Rightarrow>
          (case NewRequest H endpoint bs of
             Some e \<Rightarrow> (Some (errorf_v ''error preparing request: '' e), s)
           | None \<Rightarrow> (None, snd (client_Do H endpoint bs s))))"

text \<open>Without an endpoint the service is a nil pointer, on which \<open>Send\<close> panics.\<close>

definition newWebhookService ::
  "event_lib \<Rightarrow> 's webhook_lib \<Rightarrow> TransformConfig option \<Rightarrow> WebhookConfig option \<Rightarrow> err + 's emitter" where
  "newWebhookService E H transform cfg =
     (case cfg of
        None \<Rightarrow> Inr (\<lambda>_ s. (Some nil_dereference, s))
      | Some c \<Rightarrow>
          if wh_Endpoint c = [] then Inr (\<lambda>_ s. (Some nil_dereference, s))
          else (case parse_endpoint H (wh_Endpoint c) of
                  Inl e \<Rightarrow> Inl (errorf_v ''webhook: '' e)
                | Inr u \<Rightarrow> Inr (webhook_Send E H transform u)))"

definition NewEmitter ::
  "event_lib \<Rightarrow> 's pubsub_lib \<Rightarrow> 's webhook_lib \<Rightarrow> 's emitter \<Rightarrow> EventsConfig option \<Rightarrow> err + 's emitter" where
  "NewEmitter E P H mock cfg =
     (case cfg of
        None \<Rightarrow> Inr mock
      | Some c \<Rightarrow>
          if ev_Stream c \<noteq> None then newStreamService E P (ev_Transform c) (ev_Stream c)
          else if ev_Webhook c \<noteq> None then newWebhookService E H (ev_Transform c) (ev_Webhook c)
          else Inl (errors_New ''unknown events config''))"

text \<open>The mock emitter keeps the events it was sent, as they read back.\<close>

definition mock_opts :: "payload \<Rightarrow> validate_opts option" where
  "mock_opts evt =
     (case evt of
        ReconciliationEntry _ \<Rightarrow>
          Some (zero_opts\<lparr>AllowMissingFileControl := True, AllowMissingFileHeader := True, AllowUnorderedBatchNumbers := True\<rparr>)
      | ReconciliationFile f \<Rightarrow> (case rf_File f of None \<Rightarrow> None | Some x \<Rightarrow> GetValidation x)
      | _ \<Rightarrow> None)"

definition MockEmitter_Send :: "event_lib \<Rightarrow> (string \<times> payload option) list emitter" where
  "MockEmitter_Send E evt sent =
     (case Protect (json E) (crypto E) (event_nonce E) None evt of
        Inl e \<Rightarrow> (Some (errorf_w ''mock emitter - protect: '' e), sent)
      | Inr bs \<Rightarrow>
     (case compliance_Reveal (crypto E) None bs of
        Inl e \<Rightarrow> (Some (errorf_w ''mock emitter - reveal: '' e), sent)
      | Inr bs1 \<Rightarrow>
     (case ReadWithOpts (json E) (event_ach E) bs1 (mock_opts evt) of
        (_, Some e) \<Rightarrow> (Some (errorf_w ''mock emitter - read: '' e), sent)
      | (None, None) \<Rightarrow> (None, sent)
      | (Some found, None) \<Rightarrow> (None, sent @ [found]))))"

section \<open>From the emitter to a reader\<close>

text \<open>
  An event the stream service sent without an error was published as bytes that a reader
  with the same transform configuration reveals and reads as an event of the same type.
\<close>

theorem emitted_event_is_readable:
  assumes "crypto_ok (crypto E) (event_nonce E)" and "json_types_ok (json E)"
    and "stream_Send E cfg (Some t) evt s = (None, s')" and "payload_type evt \<noteq> ''event''"
  shows "\<exists>bs data p e. pub_Send t bs s = (None, s') \<and> compliance_Reveal (crypto E) cfg bs = Inr data \<and>
    models_Read (json E) L data = (Some (payload_type evt, Some p), e)"
proof -
  obtain bs where bs: "Protect (json E) (crypto E) (event_nonce E) cfg evt = Inr bs" "pub_Send t bs s = (None, s')"
    using assms(3) by (auto simp: stream_Send_def split: sum.splits option.splits prod.splits)
  obtain data where data: "Event_MarshalJSON (json E) evt = Inr data" "compliance_Reveal (crypto E) cfg bs = Inr data"
    using Protect_Reveal[OF assms(1) bs(1)] by blast
  obtain raw where raw: "json_envelope (json E) data = Inr (payload_type evt, raw)"
    using assms(2) data(1) unfolding json_types_ok_def Event_MarshalJSON_def by blast
  obtain shell where sh: "event_shell L (Some zero_opts) (payload_type evt) = Some shell"
    using event_shell_kind[OF assms(4), of L "Some zero_opts"] by blast
  obtain p e where p: "json_into (json E) raw shell = (p, e)" by fastforce
  have "\<exists>e'. models_Read (json E) L data = (Some (payload_type evt, Some p), e')"
    unfolding models_Read_def ReadWithOpts_def using raw sh p by (auto split: option.splits)
  with bs(2) data(2) show ?thesis by blast
qed

definition sample_events :: "ach_lib \<Rightarrow> event_lib" where
  "sample_events L = \<lparr>json = plain_json, crypto = plain_crypto, event_nonce = Inr ''no'', event_ach = L\<rparr>"

definition list_publisher :: "bytes list publisher" where
  "list_publisher = \<lparr>pub_Send = (\<lambda>b s. (None, s @ [b])), pub_Shutdown = (\<lambda>s. (None, s))\<rparr>"

lemma emitted_event_is_readable_witness:
  "\<forall>L. \<exists>bs data p e. pub_Send list_publisher bs [] = (None, [''CancelACHFile'']) \<and>
     compliance_Reveal plain_crypto None bs = Inr data \<and> models_Read plain_json L data = (Some (''CancelACHFile'', Some p), e)"
proof
  fix L
  let ?evt = "CancelACHFile \<lparr>cancel_FileID = ''f'', cancel_ShardKey = ''s''\<rparr>"
  have "crypto_ok (crypto (sample_events L)) (event_nonce (sample_events L))"
    by (simp add: crypto_ok_def plain_crypto_def sample_events_def)
  moreover have "json_types_ok (json (sample_events L))" by (simp add: json_types_ok_def plain_json_def sample_events_def)
  moreover have "stream_Send (sample_events L) None (Some list_publisher) ?evt [] = (None, [''CancelACHFile''])"
    by (simp add: stream_Send_def sample_events_def list_publisher_def Protect_def Event_MarshalJSON_def plain_json_def)
  ultimately show "\<exists>bs data p e. pub_Send list_publisher bs [] = (None, [''CancelACHFile'']) \<and>
     compliance_Reveal plain_crypto None bs = Inr data \<and> models_Read plain_json L data = (Some (''CancelACHFile'', Some p), e)"
    using emitted_event_is_readable[of "sample_events L" None list_publisher ?evt "[]" "[''CancelACHFile'']" L]
    by (simp add: sample_events_def)
qed

end
