(* ===== verification/Alerting.thy ===== *)
theory Alerting
  imports Service_Config
begin

text \<open>
  Alerts about errors (\<open>internal/alerting\<close>): the Slack and PagerDuty alerters and the list
  that runs them. The two clients, the host name, the call stack and SHA-256 are parameters;
  the PagerDuty event's time stamp is left out.
\<close>

record 's alerter =
  AlertError :: "err option \<Rightarrow> 's \<Rightarrow> err option \<times> 's"

type_synonym 's alerters = "'s alerter list"

definition MockAlerter :: "'s alerter" where
  "MockAlerter = \<lparr>AlertError = (\<lambda>e s. (None, s))\<rparr>"

section \<open>Slack\<close>

text \<open>\<open>slack_Auth\<close> gives the user id of an access token.\<close>

record 's slack_client =
  slack_Auth :: "string \<Rightarrow> err + string"
  PostMessage :: "string \<Rightarrow> string \<Rightarrow> string \<Rightarrow> 's \<Rightarrow> err option \<times> 's"

definition slack_AuthTest :: "'s slack_client \<Rightarrow> SlackAlerting \<Rightarrow> err option" where
  "slack_AuthTest K cfg =
     (case slack_Auth K (sla_AccessToken cfg) of
        Inl e \<Rightarrow> Some (errorf_v ''slack auth test: '' e)
      | Inr user \<Rightarrow> if user = [] then Some (errors_New ''slack: missing user_id'') else None)"

definition slack_AlertError :: "'s slack_client \<Rightarrow> SlackAlerting \<Rightarrow> err option \<Rightarrow> 's \<Rightarrow> err option \<times> 's" where
  "slack_AlertError K cfg e s =
     (case e of
        None \<Rightarrow> (None, s)
      | Some x \<Rightarrow>
          (case PostMessage K (sla_AccessToken cfg) (sla_ChannelID cfg) (err_text x) s of
             (Some err, s1) \<Rightarrow> (Some (errorf_v ''sending slack message: '' err), s1)
           | (None, s1) \<Rightarrow> (None, s1)))"

definition NewSlackAlerter :: "'s slack_client \<Rightarrow> SlackAlerting \<Rightarrow> err + 's alerter" where
  "NewSlackAlerter K cfg =
     (case slack_AuthTest K cfg of
        Some e \<Rightarrow> Inl e
      | None \<Rightarrow> Inr \<lparr>AlertError = slack_AlertError K cfg\<rparr>)"

section \<open>PagerDuty\<close>

record pd_event =
  RoutingKey :: string
  DedupKey :: string
  Summary :: string
  Source :: string
  pd_Details :: "(string \<times> string) list"

record v2_response =
  v2_Status :: string
  v2_Message :: string
  v2_Errors :: "string list"

text \<open>
  The client of an API key: its abilities, and sending an event. A failed call has its error,
  the response if one was decoded, and the body of the last HTTP response.
\<close>

record 's pd_client =
  ListAbilities :: "string \<Rightarrow> err + nat"
  ManageEvent :: "string \<Rightarrow> pd_event \<Rightarrow> 's \<Rightarrow> (err \<times> v2_response option \<times> string) option \<times> 's"

text \<open>What the process knows of itself: its host name and the callers up the stack.\<close>

record process =
  os_Hostname :: "err + string"
  runtime_Caller :: "nat \<Rightarrow> (string \<times> nat) option"
  sum256_hex :: "bytes \<Rightarrow> string"

definition pd_ping :: "'s pd_client \<Rightarrow> string \<Rightarrow> err option" where
  "pd_ping K key =
     (case ListAbilities K key of
        Inl e \<Rightarrow> Some (errorf_v ''pagerduty list abilities: '' e)
      | Inr n \<Rightarrow> if n \<le> 0 then Some (errors_New ''pagerduty: missing abilities'') else None)"

text \<open>The callers 1 to 4 that are known, with the key they have among the details.\<close>

definition callers :: "process \<Rightarrow> (string \<times> string) list" where
  "callers p = concat (map (\<lambda>i. case runtime_Caller p i of
     None \<Rightarrow> []
   | Some (file, line) \<Rightarrow> [(''trace_'' @ show_nat i, file @ '':'' @ show_nat line)]) [1..<5])"

definition pd_dedupKey :: "process \<Rightarrow> err \<Rightarrow> string" where
  "pd_dedupKey p e = sum256_hex p (hd (SplitChar (CHR '':'') (err_text e)) @ concat (map snd (callers p)))"

definition pd_AlertError :: "'s pd_client \<Rightarrow> process \<Rightarrow> PagerDutyAlerting \<Rightarrow> err option \<Rightarrow> 's \<Rightarrow> err option \<times> 's" where
  "pd_AlertError K p cfg e s =
     (case e of
        None \<Rightarrow> (None, s)
      | Some x \<Rightarrow>
     (case os_Hostname p of
        Inl err \<Rightarrow> (Some (errorf_v ''getting host name: '' err), s)
      | Inr hostName \<Rightarrow>
          let event = \<lparr>RoutingKey = pda_RoutingKey cfg, DedupKey = pd_dedupKey p x,
                       Summary = (if length (err_text x) > 1024 then take 1024 (err_text x) else err_text x),
                       Source = hostName, pd_Details = callers p\<rparr>
          in (case ManageEvent K (pda_ApiKey cfg) event s of
                (None, s1) \<Rightarrow> (None, s1)
              | (Some (err, Some r, _), s1) \<Rightarrow>
                  (Some (errors_New (v2_Status r @ '' problem creating PagerDuty event caused by '' @ v2_Message r @
                     '': '' @ JoinSep '', '' (v2_Errors r))), s1)
              | (Some (err, None, body), s1) \<Rightarrow>
                  (Some (errorf_v (''unexpected response of '' @ body @ '' from creating event in PagerDuty: '') err), s1))))"

definition NewPagerDutyAlerter :: "'s pd_client \<Rightarrow> process \<Rightarrow> PagerDutyAlerting \<Rightarrow> err + 's alerter" where
  "NewPagerDutyAlerter K p cfg =
     (case pd_ping K (pda_ApiKey cfg) of
        Some e \<Rightarrow> Inl e
      | None \<Rightarrow> Inr \<lparr>AlertError = pd_AlertError K p cfg\<rparr>)"

section \<open>All of them\<close>

record 's alert_lib =
  alert_slack :: "'s slack_client"
  alert_pd :: "'s pd_client"
  this_process :: process

definition NewAlerters :: "'s alert_lib \<Rightarrow> ErrorAlerting \<Rightarrow> err + 's alerters" where
  "NewAlerters A cfg =
     (case (case ea_Slack cfg of
              None \<Rightarrow> Inr []
            | Some c \<Rightarrow> (case NewSlackAlerter (alert_slack A) c of Inl e \<Rightarrow> Inl e | Inr a \<Rightarrow> Inr [a])) of
        Inl e \<Rightarrow> Inl e
      | Inr slacks \<Rightarrow>
          (case (case ea_PagerDuty cfg of
                   None \<Rightarrow> Inr []
                 | Some c \<Rightarrow> (case NewPagerDutyAlerter (alert_pd A) (this_process A) c of
                                Inl e \<Rightarrow> Inl e | Inr a \<Rightarrow> Inr [a])) of
             Inl e \<Rightarrow> Inl e
           | Inr pds \<Rightarrow> Inr (if slacks @ pds = [] then [MockAlerter] else slacks @ pds)))"

text \<open>The first alerter that fails ends the loop.\<close>

fun alert_each :: "'s alerters \<Rightarrow> err \<Rightarrow> 's \<Rightarrow> err option \<times> 's" where
  "alert_each [] e s = (None, s)"
| "alert_each (a # as) e s =
     (case AlertError a (Some e) s of
        (Some x, s1) \<Rightarrow> (Some (errorf_v ''alerting error: '' x), s1)
      | (None, s1) \<Rightarrow> alert_each as e s1)"

definition Alerters_AlertError :: "'s alerters \<Rightarrow> err option \<Rightarrow> 's \<Rightarrow> err option \<times> 's" where
  "Alerters_AlertError as e s = (case e of None \<Rightarrow> (None, s) | Some x \<Rightarrow> alert_each as x s)"

section \<open>What an alert says\<close>

lemma alert_each_append:
  "alert_each (as @ bs) e s =
     (case alert_each as e s of (Some x, s1) \<Rightarrow> (Some x, s1) | (None, s1) \<Rightarrow> alert_each bs e s1)"
  by (induction as arbitrary: s) (auto split: prod.splits option.splits)

lemma SplitChar_hd: "hd (SplitChar c (xs @ c # ys)) = hd (SplitChar c xs)"
  by (induction xs) (auto split: list.splits)

text \<open>
  Two errors that agree up to their first colon, alerted from the same place, are one
  PagerDuty incident: their events carry the same deduplication key.
\<close>

theorem alerts_deduplicated:
  "pd_dedupKey p (Err (pre @ '':'' @ x) cs) = pd_dedupKey p (Err (pre @ '':'' @ y) ds)"
  using SplitChar_hd[of "CHR '':''" pre x] SplitChar_hd[of "CHR '':''" pre y] by (simp add: pd_dedupKey_def)

end
