(* ===== verification/Schedule.thy ===== *)
theory Schedule
  imports Go_Format "HOL-Library.Char_ord" "HOL-Library.List_Lexorder"
begin

text \<open>
  The ticker of a shard's cutoffs (\<open>internal/schedule/cutoff.go\<close>). The cron library and the
  banking calendar of moov-io/base are parameters: \<open>cron_Parse\<close> says whether a schedule is
  accepted, and the calendar classifies a day. Local times are civil times; the location a
  job converts the time to is its name, \<open>None\<close> for the nil location of an unknown zone.
\<close>

section \<open>The clock of a window\<close>

text \<open>
  \<open>time.Parse("15:04", s)\<close>: one or two digits for the hour, exactly two for the minute, the
  ranges checked, nothing left over.
\<close>

definition parse_clock :: "string \<Rightarrow> (nat \<times> nat) option" where
  "parse_clock s =
     (case s of
        [] \<Rightarrow> None
      | a # s1 \<Rightarrow>
          if \<not> is_digit a then None
          else
            let (hour, rest) =
                  (case s1 of b # s2 \<Rightarrow> if is_digit b then (digit_val a * 10 + digit_val b, s2) else (digit_val a, s1)
                   | [] \<Rightarrow> (digit_val a, []))
            in (case rest of
                  [c, d, e] \<Rightarrow>
                    if c = CHR '':'' \<and> is_digit d \<and> is_digit e \<and> hour < 24 \<and> digit_val d * 10 + digit_val e < 60
                    then Some (hour, digit_val d * 10 + digit_val e) else None
                | _ \<Rightarrow> None))"

definition format_clock :: "nat \<Rightarrow> nat \<Rightarrow> string" where
  "format_clock h m = fixed_digits 2 h @ '':'' @ fixed_digits 2 m"

section \<open>Registering\<close>

record cron_job =
  job_Schedule :: string
  job_Location :: "string option"

record CutoffTimes =
  jobs :: "cron_job list"
  firstCutoff :: string

text \<open>
  \<open>known_zone\<close> is whether \<open>time.LoadLocation\<close> finds a zone, \<open>clock_error\<close> what \<open>time.Parse\<close>
  says of a bad time. The error of \<open>AddFunc\<close> is dropped: such a window never fires.
\<close>

record cron_lib =
  cron_Parse :: "string \<Rightarrow> bool"
  known_zone :: "string \<Rightarrow> bool"
  clock_error :: "string \<Rightarrow> err"

definition register :: "cron_lib \<Rightarrow> string \<Rightarrow> string \<Rightarrow> CutoffTimes \<Rightarrow> err + CutoffTimes" where
  "register C tz timestamp ct =
     (case parse_clock timestamp of
        None \<Rightarrow> Inl (errorf_v (''failed to parse '' @ [CHR 0x27] @ timestamp @ [CHR 0x27] @ '' error='') (clock_error C timestamp))
      | Some (hour, minute) \<Rightarrow>
          let zone = (if tz \<noteq> [] then ''CRON_TZ='' @ tz else []);
              location = (if tz \<noteq> [] then (if known_zone C tz then Some tz else None) else Some ''UTC'');
              schedule = zone @ '' '' @ show_nat minute @ '' '' @ show_nat hour @ '' * * *''
          in Inr (if cron_Parse C schedule
                  then ct\<lparr>jobs := jobs ct @ [\<lparr>job_Schedule = schedule, job_Location = location\<rparr>]\<rparr> else ct))"

fun register_each :: "cron_lib \<Rightarrow> string \<Rightarrow> string list \<Rightarrow> CutoffTimes \<Rightarrow> err + CutoffTimes" where
  "register_each C tz [] ct = Inr ct"
| "register_each C tz (t # ts) ct =
     (case register C tz t ct of
        Inl e \<Rightarrow> Inl (errorf_v (''timestamp='' @ t @ '' error='') e)
      | Inr ct1 \<Rightarrow> register_each C tz ts ct1)"

definition registerCutoffs :: "cron_lib \<Rightarrow> string \<Rightarrow> string list \<Rightarrow> CutoffTimes \<Rightarrow> err + CutoffTimes" where
  "registerCutoffs C tz timestamps ct =
     (if timestamps = [] then Inl (errors_New ''missing cutoff times'') else register_each C tz timestamps ct)"

definition ForCutoffTimes :: "cron_lib \<Rightarrow> string \<Rightarrow> string list \<Rightarrow> err + CutoffTimes" where
  "ForCutoffTimes C tz timestamps =
     (let sorted = sort timestamps;
          ct = \<lparr>jobs = [], firstCutoff = (if timestamps \<noteq> [] then hd sorted else [])\<rparr>
      in registerCutoffs C tz sorted ct)"

section \<open>Ticking\<close>

text \<open>moov-io/base: what kind of day a local time is on.\<close>

record calendar =
  IsWeekend_base :: "civil \<Rightarrow> bool"
  IsBankingDay_base :: "civil \<Rightarrow> bool"
  IsHoliday_base :: "civil \<Rightarrow> bool"
  GetHoliday :: "civil \<Rightarrow> string option"

record Day =
  day_Time :: civil
  day_Holiday :: "string option"
  IsBankingDay :: bool
  IsHoliday :: bool
  IsWeekend :: bool
  FirstWindow :: bool

text \<open>The day sent on the channel when a job fires; \<open>now\<close> is local to the job's location.\<close>

definition maybeTick :: "calendar \<Rightarrow> CutoffTimes \<Rightarrow> civil \<Rightarrow> Day option" where
  "maybeTick B ct now =
     (if \<not> IsWeekend_base B now
      then Some \<lparr>day_Time = now, day_Holiday = GetHoliday B now, IsBankingDay = IsBankingDay_base B now,
                 IsHoliday = IsHoliday_base B now, IsWeekend = IsWeekend_base B now,
                 FirstWindow = (format_clock (c_hour now) (c_min now) = firstCutoff ct)\<rparr>
      else None)"

section \<open>The first window of a day\<close>

lemma digit_of_val: "n < 10 \<Longrightarrow> digit_val (digit n) = n"
  by (simp add: digit_val_def digit_def of_char_of)

lemma is_digit_digit [simp]: "is_digit (digit n)"
proof -
  have "n mod 10 < 10" by simp
  then have "48 + n mod 10 < 256" by linarith
  then show ?thesis by (simp add: is_digit_def digit_def of_char_of)
qed

lemma fixed_digits_2: "fixed_digits 2 n = [digit (n div 10), digit n]"
  by (simp add: numeral_2_eq_2)

lemma digit_mod: "digit (n mod 10) = digit n"
  by (simp add: digit_def)

lemma digit_less: "a < 10 \<Longrightarrow> b < 10 \<Longrightarrow> digit a < digit b \<longleftrightarrow> a < b"
  by (simp add: digit_def less_char_def of_char_of)

lemma digit_eq: "a < 10 \<Longrightarrow> b < 10 \<Longrightarrow> digit a = digit b \<longleftrightarrow> a = b"
  by (metis digit_of_val)

lemma two_digits_val: "n < 100 \<Longrightarrow> digit_val (digit (n div 10)) * 10 + digit_val (digit n) = n"
  using digit_of_val[of "n div 10"] digit_of_val[of "n mod 10"]
  by (simp add: digit_mod mult.commute)

lemma tens_less: "b < 10 \<Longrightarrow> d < 10 \<Longrightarrow> (10 * a + b < 10 * c + d) = (a < c \<or> a = c \<and> b < d)" for a b c d :: nat
  by (cases "a < c"; cases "a = c") auto

lemma two_digits_less:
  assumes "n < 100" and "k < 100"
  shows "fixed_digits 2 n @ xs < fixed_digits 2 k @ ys \<longleftrightarrow> n < k \<or> n = k \<and> xs < ys"
proof -
  let ?a = "n div 10" and ?b = "n mod 10" and ?c = "k div 10" and ?d = "k mod 10"
  have t: "?a < 10" "?b < 10" "?c < 10" "?d < 10" using assms by linarith+
  have f: "fixed_digits 2 n = [digit ?a, digit ?b]" "fixed_digits 2 k = [digit ?c, digit ?d]"
    by (simp_all add: fixed_digits_2 digit_mod)
  have "fixed_digits 2 n @ xs < fixed_digits 2 k @ ys \<longleftrightarrow> ?a < ?c \<or> ?a = ?c \<and> (?b < ?d \<or> ?b = ?d \<and> xs < ys)"
    unfolding f append_Cons append_Nil Cons_less_Cons digit_less[OF t(1,3)] digit_less[OF t(2,4)]
      digit_eq[OF t(1,3)] digit_eq[OF t(2,4)] by (rule refl)
  moreover have "n = 10 * ?a + ?b" "k = 10 * ?c + ?d" by simp_all
  then have "n < k \<longleftrightarrow> ?a < ?c \<or> ?a = ?c \<and> ?b < ?d" "n = k \<longleftrightarrow> ?a = ?c \<and> ?b = ?d"
    using tens_less[OF t(2,4), of ?a ?c] by (metis, metis)
  ultimately show ?thesis by blast
qed

lemma parse_format_clock: "h < 24 \<Longrightarrow> m < 60 \<Longrightarrow> parse_clock (format_clock h m) = Some (h, m)"
  using two_digits_val[of h] two_digits_val[of m] by (simp add: parse_clock_def format_clock_def fixed_digits_2)

lemma format_clock_less:
  assumes "h < 24" and "m < 60" and "h' < 24" and "m' < 60"
  shows "format_clock h m < format_clock h' m' \<longleftrightarrow> h * 60 + m < h' * 60 + m'"
proof -
  have "format_clock h m < format_clock h' m' \<longleftrightarrow> h < h' \<or> h = h' \<and> (fixed_digits 2 m @ [] < fixed_digits 2 m' @ [])"
    using assms two_digits_less[of h h' "CHR '':'' # fixed_digits 2 m" "CHR '':'' # fixed_digits 2 m'"]
    by (simp add: format_clock_def)
  also have "\<dots> \<longleftrightarrow> h < h' \<or> h = h' \<and> m < m'" using assms two_digits_less[of m m' "[]" "[]"] by simp
  finally show ?thesis using assms by auto
qed

lemma register_each_first: "register_each C tz ts ct = Inr ct' \<Longrightarrow> firstCutoff ct' = firstCutoff ct"
  by (induction ts arbitrary: ct) (auto simp: register_def Let_def split: sum.splits option.splits if_splits)

lemma ForCutoffTimes_first:
  assumes "ForCutoffTimes C tz ts = Inr ct"
  shows "ts \<noteq> [] \<and> firstCutoff ct = Min (set ts)"
proof -
  have ne: "ts \<noteq> []" using assms by (auto simp: ForCutoffTimes_def registerCutoffs_def Let_def split: if_splits)
  then have s: "sort ts \<noteq> []" by (metis length_0_conv length_sort)
  with assms ne have "firstCutoff ct = hd (sort ts)"
    by (auto simp: ForCutoffTimes_def registerCutoffs_def Let_def dest: register_each_first)
  also have "hd (sort ts) = Min (set (sort ts))"
  proof (rule Min_eqI[symmetric])
    show "hd (sort ts) \<in> set (sort ts)" using s by (rule hd_in_set)
    show "y \<ge> hd (sort ts)" if "y \<in> set (sort ts)" for y
      using that sorted_sort[of ts] s by (cases "sort ts") auto
  qed simp
  finally show ?thesis using ne by simp
qed

text \<open>
  C40. Of the windows of a shard, all written with two digits for the hour, exactly the
  earliest is the first window of its day: the day sent when a window fires is marked as the
  first one just when no other window is earlier.
\<close>

theorem first_window_is_earliest:
  assumes "ForCutoffTimes C tz windows = Inr ct"
    and "\<forall>w\<in>set windows. \<exists>h m. h < 24 \<and> m < 60 \<and> w = format_clock h m"
    and "maybeTick B ct now = Some day" and "c_hour now < 24" and "c_min now < 60"
    and "format_clock (c_hour now) (c_min now) \<in> set windows"
  shows "FirstWindow day \<longleftrightarrow>
    (\<forall>h m. h < 24 \<longrightarrow> m < 60 \<longrightarrow> format_clock h m \<in> set windows \<longrightarrow> c_hour now * 60 + c_min now \<le> h * 60 + m)"
proof -
  note f = ForCutoffTimes_first[OF assms(1)]
  let ?now = "format_clock (c_hour now) (c_min now)"
  have "FirstWindow day \<longleftrightarrow> ?now = Min (set windows)"
    using assms(3) f by (auto simp: maybeTick_def split: if_splits)
  also have "\<dots> \<longleftrightarrow> (\<forall>w\<in>set windows. ?now \<le> w)"
    using assms(6) by (metis Min_eqI Min_le List.finite_set)
  also have "\<dots> \<longleftrightarrow> (\<forall>h m. h < 24 \<longrightarrow> m < 60 \<longrightarrow> format_clock h m \<in> set windows \<longrightarrow> \<not> format_clock h m < ?now)"
    using assms(2) by (metis not_less)
  finally show ?thesis using format_clock_less[OF _ _ assms(4,5)] by (simp add: not_less)
qed

definition sample_cron :: cron_lib where
  "sample_cron = \<lparr>cron_Parse = (\<lambda>_. True), known_zone = (\<lambda>_. True), clock_error = (\<lambda>_. errors_New ''parsing time'')\<rparr>"

definition sample_calendar :: calendar where
  "sample_calendar = \<lparr>IsWeekend_base = (\<lambda>c. c_day c \<in> {6, 7}), IsBankingDay_base = (\<lambda>c. c_day c \<notin> {4, 6, 7}),
     IsHoliday_base = (\<lambda>c. c_day c = 4), GetHoliday = (\<lambda>c. if c_day c = 4 then Some ''Independence Day'' else None)\<rparr>"

definition sample_clock :: "nat \<Rightarrow> nat \<Rightarrow> nat \<Rightarrow> civil" where
  "sample_clock d h m = \<lparr>c_year = 24, c_month = 7, c_day = d, c_hour = h, c_min = m, c_sec = 0\<rparr>"

lemma first_window_is_earliest_witness:
  "\<exists>ct day. ForCutoffTimes sample_cron [] [''16:20'', ''09:30''] = Inr ct \<and>
     maybeTick sample_calendar ct (sample_clock 2 9 30) = Some day \<and> FirstWindow day"
proof -
  define ct where "ct = projr (ForCutoffTimes sample_cron [] [''16:20'', ''09:30''])"
  define day where "day = the (maybeTick sample_calendar ct (sample_clock 2 9 30))"
  have c: "ForCutoffTimes sample_cron [] [''16:20'', ''09:30''] = Inr ct" unfolding ct_def by code_simp
  have d: "maybeTick sample_calendar ct (sample_clock 2 9 30) = Some day" unfolding day_def ct_def by code_simp
  have e: "''16:20'' = format_clock 16 20" "''09:30'' = format_clock 9 30" by code_simp+
  have now: "c_hour (sample_clock 2 9 30) = 9" "c_min (sample_clock 2 9 30) = 30" by code_simp+
  have "\<forall>w\<in>set [''16:20'', ''09:30'']. \<exists>h m. h < 24 \<and> m < 60 \<and> w = format_clock h m"
  proof (intro ballI)
    fix w assume "w \<in> set [''16:20'', ''09:30'']"
    then consider "w = format_clock 16 20" | "w = format_clock 9 30" unfolding e by auto
    then show "\<exists>h m. h < 24 \<and> m < 60 \<and> w = format_clock h m"
      by cases (rule exI[where x = 16], rule exI[where x = 20], simp, rule exI[where x = 9], rule exI[where x = 30], simp)
  qed
  moreover have "9 * 60 + 30 \<le> h * 60 + m"
    if "h < 24" "m < 60" "format_clock h m \<in> set [''16:20'', ''09:30'']" for h m
    using that parse_format_clock[OF that(1,2)] parse_format_clock[of 16 20] parse_format_clock[of 9 30]
    unfolding e by auto
  ultimately have "FirstWindow day"
    using first_window_is_earliest[OF c _ d] now e by auto
  with c d show ?thesis by blast
qed

end
