(* ===== verification/Aggregator.thy ===== *)
theory Aggregator
  imports Cutoff_Proofs Cleanup_Service Outgoing Notify Events Alerting Schedule
begin

text \<open>
  The aggregator of a shard (\<open>internal/pipeline/aggregate.go\<close>,
  \<open>internal/upload/filename_template.go\<close>): accepting and cancelling files, automatic and manual
  cutoffs, what happens to each merged file (transform, name, format, audit, upload, notify,
  alert) and the events about uploaded files.

  The agents created so far (\<open>created\<close>) are a variable of the process shared by all shards;
  they are passed beside the state. A panic is the outcome \<open>None\<close>. Times are inputs: the
  record \<open>clock\<close> says what \<open>time.Now\<close> gives at each place. The template engine is a parameter.
\<close>

section \<open>Merging behind an interface\<close>

text \<open>\<open>XferMerging\<close>; \<open>xm_filesystem\<close> is what the type assertion to \<open>*filesystemMerging\<close> finds.\<close>

record 's xfer_merging =
  xm_HandleXfer :: "queue_file \<Rightarrow> 's \<Rightarrow> err option \<times> 's"
  xm_HandleCancel :: "cancel_file \<Rightarrow> 's \<Rightarrow> (cancel_response \<times> err option) \<times> 's"
  xm_WithEachMerged :: "string \<Rightarrow> 's callback \<Rightarrow> 's agent list \<Rightarrow> 's
     \<Rightarrow> (mergedFile list \<times> err option) option \<times> 's agent list \<times> 's"
  xm_filesystem :: "'s filesystemMerging option"

definition filesystem_merger :: "'s outside \<Rightarrow> 's filesystemMerging \<Rightarrow> 's xfer_merging" where
  "filesystem_merger X m =
     \<lparr>xm_HandleXfer = HandleXfer (lib X) m, xm_HandleCancel = HandleCancel m,
      xm_WithEachMerged = WithEachMerged X m, xm_filesystem = Some m\<rparr>"

record mock_merging =
  LatestFile :: "queue_file option"
  LatestCancel :: "cancel_file option"
  mock_Response :: cancel_response
  mock_merged :: "mergedFile list"
  merging_Err :: "err option"

definition MockXferMerging :: "mock_merging xfer_merging" where
  "MockXferMerging =
     \<lparr>xm_HandleXfer = (\<lambda>x s. (merging_Err s, s\<lparr>LatestFile := Some x\<rparr>)),
      xm_HandleCancel = (\<lambda>x s. ((mock_Response s, merging_Err s), s\<lparr>LatestCancel := Some x\<rparr>)),
      xm_WithEachMerged = (\<lambda>_ f created s.
        (Some (case merging_Err s of Some e \<Rightarrow> ([], Some e) | None \<Rightarrow> (mock_merged s, None)), created, s)),
      xm_filesystem = None\<rparr>"

section \<open>The state of an aggregator\<close>

record 's aggregator =
  agg_eventEmitter :: "'s emitter"
  agg_shard :: Shard
  agg_uploadAgents :: UploadAgents
  agg_cutoffs :: CutoffTimes
  agg_merger :: "'s xfer_merging"
  agg_auditStorage :: "'s audit_storage"
  agg_transformers :: "pre_upload list"
  agg_outputFormatter :: formatter
  agg_alerters :: "'s alerters"
  agg_cleanup :: "'s cleanup_service option"

record FilenameData =
  fd_RoutingNumber :: string
  fd_GPG :: bool
  fd_Index :: nat
  fd_ShardName :: string

text \<open>
  The outside of an aggregator, beyond that of merging: the template engine with its function
  table (\<open>text/template\<close>), the ACH writer with a line ending, the notification clients and the
  machine's host name.
\<close>

record 's pipeline_lib =
  pl_outside :: "'s outside"
  template_Render :: "string \<Rightarrow> FilenameData \<Rightarrow> err + string"
  pl_writer :: line_writer
  pl_notify :: "'s notify_lib"
  pl_hostname :: string

text \<open>\<open>today i\<close> when file \<open>i\<close> is uploaded, \<open>uploaded_at i k\<close> when the event of its \<open>k\<close>-th input is built.\<close>

record clock =
  stamp :: string
  today :: "nat \<Rightarrow> string"
  uploaded_at :: "nat \<Rightarrow> nat \<Rightarrow> int"

definition RenderACHFilename :: "'s pipeline_lib \<Rightarrow> string \<Rightarrow> FilenameData \<Rightarrow> err + string" where
  "RenderACHFilename P raw data =
     (case template_Render P (TrimSpace raw) data of Inl e \<Rightarrow> Inl e | Inr n \<Rightarrow> Inr (TrimSpace n))"

section \<open>Creating an aggregator\<close>

record 's setup_lib =
  su_merger :: "Shard \<Rightarrow> UploadAgents \<Rightarrow> 's \<Rightarrow> (err + 's filesystemMerging) \<times> 's"
  su_bucket :: "string \<Rightarrow> err + 's bucket"
  su_gpg :: gpg_lib
  su_env :: string
  su_mock_audit :: "'s audit_storage"
  su_cron :: cron_lib
  su_alert :: "'s alert_lib"

definition newAggregator ::
  "'s pipeline_lib \<Rightarrow> 's setup_lib \<Rightarrow> 's emitter \<Rightarrow> Shard \<Rightarrow> UploadAgents \<Rightarrow> ErrorAlerting \<Rightarrow> 's
     \<Rightarrow> (err + 's aggregator) \<times> 's" where
  "newAggregator P U emitter shard uploadAgents errorAlerting s =
     (case su_merger U shard uploadAgents s of
        (Inl e, s1) \<Rightarrow> (Inl (errorf_v ''error creating xfer merger: '' e), s1)
      | (Inr m, s1) \<Rightarrow>
     (case audit_NewStorage (su_bucket U) (su_gpg U) (su_mock_audit U) (sh_Audit shard) of
        Inl e \<Rightarrow> (Inl e, s1)
      | Inr auditStorage \<Rightarrow>
     (case transform_Multi (lib (pl_outside P)) (su_gpg U) (su_env U) (sh_PreUpload shard) of
        Inl e \<Rightarrow> (Inl e, s1)
      | Inr transformers \<Rightarrow>
     (case NewFormatter (sh_Output shard) of
        Inl e \<Rightarrow> (Inl e, s1)
      | Inr out \<Rightarrow>
     (case ForCutoffTimes (su_cron U) (cut_Timezone (sh_Cutoffs shard)) (cut_Windows (sh_Cutoffs shard)) of
        Inl e \<Rightarrow> (Inl (errorf_v ''error creating cutoffs: '' e), s1)
      | Inr cutoffs \<Rightarrow>
     (case NewAlerters (su_alert U) errorAlerting of
        Inl e \<Rightarrow> (Inl (errorf_v ''error setting up alerters: '' e), s1)
      | Inr alerters \<Rightarrow>
          (Inr \<lparr>agg_eventEmitter = emitter, agg_shard = shard, agg_uploadAgents = uploadAgents, agg_cutoffs = cutoffs,
                agg_merger = filesystem_merger (pl_outside P) m, agg_auditStorage = auditStorage,
                agg_transformers = transformers, agg_outputFormatter = out, agg_alerters = alerters,
                agg_cleanup = (case mg_Cleanup (ua_Merging uploadAgents) of
                                 Some c \<Rightarrow> if cl_Enabled c then NewCleanupService (fm_storage m) shard (Some c) else None
                               | None \<Rightarrow> None)\<rparr>, s1)))))))"

section \<open>Files in and out of the pending directory\<close>

definition acceptFile :: "'s aggregator \<Rightarrow> queue_file \<Rightarrow> 's \<Rightarrow> (queue_response \<times> err option) \<times> 's" where
  "acceptFile g msg s =
     (case xm_HandleXfer (agg_merger g) msg s of
        (e, s1) \<Rightarrow>
          ((\<lparr>qr_FileID = FileID msg, qr_ShardKey = FileShardKey msg,
             qr_Error = (case e of None \<Rightarrow> [] | Some x \<Rightarrow> err_text x)\<rparr>, e), s1))"

definition cancelFile :: "'s aggregator \<Rightarrow> cancel_file \<Rightarrow> 's \<Rightarrow> (cancel_response \<times> err option) \<times> 's" where
  "cancelFile g msg s =
     (case xm_HandleCancel (agg_merger g) msg s of
        ((_, Some e), s1) \<Rightarrow> ((\<lparr>resp_FileID = [], resp_ShardKey = [], Successful = False\<rparr>, Some e), s1)
      | ((response, None), s1) \<Rightarrow>
          (case agg_eventEmitter g (FileCancellationResponse response) s1 of
             (Some e, s2) \<Rightarrow> ((response, Some (errorf_w ''problem emitting file cancellation response: '' e)), s2)
           | (None, s2) \<Rightarrow> ((response, None), s2)))"

section \<open>Alerts and notifications\<close>

text \<open>What goes wrong while alerting is only logged.\<close>

definition alertOnError :: "'s aggregator option \<Rightarrow> err option \<Rightarrow> 's \<Rightarrow> 's" where
  "alertOnError g e s =
     (case g of None \<Rightarrow> s
      | Some a \<Rightarrow> (case e of None \<Rightarrow> s | Some x \<Rightarrow> snd (Alerters_AlertError (agg_alerters a) (Some x) s)))"

definition notifyAfterUpload ::
  "'s pipeline_lib \<Rightarrow> 's aggregator \<Rightarrow> string \<Rightarrow> ach_file option \<Rightarrow> 's agent \<Rightarrow> err option \<Rightarrow> 's \<Rightarrow> err option \<times> 's" where
  "notifyAfterUpload P g filename file agent uploadErr s =
     (let msg = \<lparr>Direction = Upload_direction, msg_Filename = filename, msg_File = file,
                 msg_Hostname = Hostname agent, Contents = []\<rparr>
      in (case UploadAgents_Find (agg_uploadAgents g) (agent_ID agent) of
            None \<Rightarrow> (Some (errors_New (''no uploadAgent found for id='' @ agent_ID agent)), s)
          | Some ua \<Rightarrow>
              (case NewMultiSender (pl_notify P) (sh_Notifications (agg_shard g)) (ag_Notifications ua) of
                 Inl e \<Rightarrow> (Some (errorf_v ''notify: unable to create multi-sender: '' e), s)
               | Inr notifier \<Rightarrow>
                   if uploadErr \<noteq> None
                   then (case multi_Critical (pl_notify P) notifier msg s of
                           (Some e, s1) \<Rightarrow> (Some (errorf_v (''problem sending critical notification for file='' @ filename @ '': '') e), s1)
                         | (None, s1) \<Rightarrow> (None, s1))
                   else (case multi_Info (pl_notify P) notifier msg s of
                           (Some e, s1) \<Rightarrow> (Some (errorf_v (''problem sending info notification for file='' @ filename @ '': '') e), s1)
                         | (None, s1) \<Rightarrow> (None, s1)))))"

text \<open>\<open>time.Format\<close> of the layout \<open>Jan 02\<close>.\<close>

definition month_abbrev :: "nat \<Rightarrow> string" where
  "month_abbrev m = [''Jan'', ''Feb'', ''Mar'', ''Apr'', ''May'', ''Jun'', ''Jul'', ''Aug'', ''Sep'', ''Oct'', ''Nov'', ''Dec''] ! ((m + 11) mod 12)"

definition formatHolidayMessage :: "'s pipeline_lib \<Rightarrow> Day \<Rightarrow> string \<Rightarrow> string" where
  "formatHolidayMessage P day shardName =
     (let name = (case day_Holiday day of None \<Rightarrow> ''is a holiday'' | Some n \<Rightarrow> ''('' @ n @ '') is a holiday'');
          shard = (if shardName \<noteq> [] then ''for '' @ shardName else [])
      in TrimSpace (month_abbrev (c_month (day_Time day)) @ '' '' @ fixed_digits 2 (c_day (day_Time day)) @ '' '' @ name @
           '' so '' @ pl_hostname P @ '' will skip processing '' @ shard))"

text \<open>The loop over the Slack targets: an error of one does not stop the next.\<close>

fun notify_slacks :: "'s pipeline_lib \<Rightarrow> string \<Rightarrow> Slack list \<Rightarrow> 's \<Rightarrow> 's" where
  "notify_slacks P contents [] s = s"
| "notify_slacks P contents (c # cs) s =
     (case NewSlack (dollars (pl_notify P)) (slack (pl_notify P)) c of
        Inl _ \<Rightarrow> notify_slacks P contents cs s
      | Inr ss \<Rightarrow>
          notify_slacks P contents cs
            (snd (send_Info ss \<lparr>Direction = Upload_direction, msg_Filename = [], msg_File = None,
                    msg_Hostname = [], Contents = contents\<rparr> s)))"

text \<open>
  \<open>None\<close> is the panic of a missing holiday (its name is read before it is tested for nil) or
  of a shard without notifications.
\<close>

definition notifyAboutHoliday :: "'s pipeline_lib \<Rightarrow> 's aggregator \<Rightarrow> Day \<Rightarrow> 's \<Rightarrow> 's option" where
  "notifyAboutHoliday P g day s =
     (if \<not> FirstWindow day then Some s
      else (case UploadAgents_Find (agg_uploadAgents g) (sh_UploadAgent (agg_shard g)) of
              None \<Rightarrow> Some s
            | Some ua \<Rightarrow>
                (case day_Holiday day of
                   None \<Rightarrow> None
                 | Some _ \<Rightarrow>
                     (case ag_Notifications ua of
                        None \<Rightarrow> Some s
                      | Some un \<Rightarrow>
                          (case sh_Notifications (agg_shard g) of
                             None \<Rightarrow> None
                           | Some nt \<Rightarrow>
                               Some (notify_slacks P (formatHolidayMessage P day (sh_Name (agg_shard g)))
                                       (FindSlacks nt (un_Slack un)) s))))))"

section \<open>Uploading a merged file\<close>

definition prepareShardName :: "string \<Rightarrow> string" where
  "prepareShardName shardName = ToUpper (ReplaceAllChar shardName (CHR '' '') ''-'')"

definition audit_path :: "'s aggregator \<Rightarrow> clock \<Rightarrow> nat \<Rightarrow> 's agent \<Rightarrow> string \<Rightarrow> string" where
  "audit_path g c i agent filename =
     (let basePath = (case sh_Audit (agg_shard g) of None \<Rightarrow> ''outbound'' | Some a \<Rightarrow> strx_Or [au_BasePath a, ''outbound''])
      in basePath @ ''/'' @ Hostname agent @ ''/'' @ today c i @ ''/'' @ filename)"

definition uploadFile ::
  "'s pipeline_lib \<Rightarrow> 's aggregator \<Rightarrow> clock \<Rightarrow> nat \<Rightarrow> 's agent \<Rightarrow> transform_result \<Rightarrow> 's \<Rightarrow> (string \<times> err option) \<times> 's" where
  "uploadFile P g c i agent res s =
     (case result_File res of
        None \<Rightarrow> (([], Some (errors_New ''uploadFile: nil Result / File'')), s)
      | Some f \<Rightarrow>
          let data = \<lparr>fd_RoutingNumber = ImmediateDestination (Header f), fd_GPG = (length (Encrypted res) > 0),
                      fd_Index = i, fd_ShardName = prepareShardName (sh_Name (agg_shard g))\<rparr>
          in (case RenderACHFilename P (FilenameTemplate (Some (agg_shard g))) data of
                Inl e \<Rightarrow> (([], Some (errorf_v ''problem rendering filename template: '' e)), s)
              | Inr filename \<Rightarrow>
             (case Format (lib (pl_outside P)) (pl_writer P) (agg_outputFormatter g) res of
                Inl e \<Rightarrow> (([], Some (errorf_v ''problem formatting output: '' e)), s)
              | Inr buf \<Rightarrow>
             (case SaveFile (agg_auditStorage g) (audit_path g c i agent filename) buf s of
                (Some e, s1) \<Rightarrow> (([], Some (errorf_v ''problem saving file in audit record: '' e)), s1)
              | (None, s1) \<Rightarrow>
             (case UploadFile agent filename buf s1 of
                ((upErr, _), s2) \<Rightarrow>
             (case notifyAfterUpload P g filename (Some f) agent upErr s2 of
                (nErr, s3) \<Rightarrow>
                  ((filename, upErr), (case nErr of None \<Rightarrow> s3 | Some e \<Rightarrow> alertOnError (Some g) (Some e) s3))))))))"

definition runTransformers :: "'s pipeline_lib \<Rightarrow> 's aggregator \<Rightarrow> clock \<Rightarrow> 's callback" where
  "runTransformers P g c i agent outgoing s =
     (case ForUpload (Some outgoing) (agg_transformers g) of
        (_, Some e) \<Rightarrow> (([], Some e), s)
      | (result, None) \<Rightarrow> uploadFile P g c i agent result s)"

section \<open>Events about uploaded files\<close>

definition uploaded_event :: "clock \<Rightarrow> nat \<Rightarrow> nat \<Rightarrow> mergedFile \<Rightarrow> string \<Rightarrow> payload" where
  "uploaded_event c i k mf p =
     FileUploaded \<lparr>up_FileID = TrimSuffix (snd (filepath_Split p)) ''.ach'', up_ShardKey = merged_Shard mf,
                   up_Filename = UploadedFilename mf, UploadedAt = uploaded_at c i k\<rparr>"

fun emit_inputs :: "'s emitter \<Rightarrow> clock \<Rightarrow> nat \<Rightarrow> nat \<Rightarrow> mergedFile \<Rightarrow> string list \<Rightarrow> error_list \<Rightarrow> 's \<Rightarrow> error_list \<times> 's" where
  "emit_inputs em c i k mf [] el s = (el, s)"
| "emit_inputs em c i k mf (p # ps) el s =
     (case em (uploaded_event c i k mf p) s of (e, s1) \<Rightarrow> emit_inputs em c i (Suc k) mf ps (add_err e el) s1)"

fun emit_merged :: "'s emitter \<Rightarrow> clock \<Rightarrow> nat \<Rightarrow> mergedFile list \<Rightarrow> error_list \<Rightarrow> 's \<Rightarrow> error_list \<times> 's" where
  "emit_merged em c i [] el s = (el, s)"
| "emit_merged em c i (mf # ms) el s =
     (case emit_inputs em c i 0 mf (InputFilepaths mf) el s of (el1, s1) \<Rightarrow> emit_merged em c (Suc i) ms el1 s1)"

definition emitFilesUploaded :: "'s aggregator \<Rightarrow> clock \<Rightarrow> mergedFile list \<Rightarrow> 's \<Rightarrow> err option \<times> 's" where
  "emitFilesUploaded g c merged s =
     (case emit_merged (agg_eventEmitter g) c 0 merged [] s of (el, s1) \<Rightarrow> (ErrorList_Err el, s1))"

section \<open>Cutoffs\<close>

text \<open>The error of a cutoff, or \<open>None\<close> for a panic. What emitting the events gives is only logged.\<close>

definition withEachFile ::
  "'s pipeline_lib \<Rightarrow> 's aggregator \<Rightarrow> clock \<Rightarrow> 's agent list \<Rightarrow> 's \<Rightarrow> err option option \<times> 's agent list \<times> 's" where
  "withEachFile P g c created s =
     (case xm_WithEachMerged (agg_merger g) (stamp c) (runTransformers P g c) created s of
        (None, created1, s1) \<Rightarrow> (None, created1, s1)
      | (Some (_, Some e), created1, s1) \<Rightarrow> (Some (Some (errorf_v ''merging ACH files: '' e)), created1, s1)
      | (Some (merged, None), created1, s1) \<Rightarrow> (Some None, created1, snd (emitFilesUploaded g c merged s1)))"

text \<open>The first component is what the waiter receives.\<close>

definition manualCutoff ::
  "'s pipeline_lib \<Rightarrow> 's aggregator \<Rightarrow> clock \<Rightarrow> 's agent list \<Rightarrow> 's \<Rightarrow> err option option \<times> 's agent list \<times> 's" where
  "manualCutoff P g c created s =
     (case xm_WithEachMerged (agg_merger g) (stamp c) (runTransformers P g c) created s of
        (None, created1, s1) \<Rightarrow> (None, created1, s1)
      | (Some (_, Some e), created1, s1) \<Rightarrow> (Some (Some e), created1, s1)
      | (Some (merged, None), created1, s1) \<Rightarrow> (Some None, created1, snd (emitFilesUploaded g c merged s1)))"

text \<open>What wakes the loop of \<open>Start\<close>.\<close>

datatype wakeup = Cutoff_tick Day | Manual_trigger | Context_done

text \<open>What \<open>Shutdown\<close> does to the state; its channels are in \<open>Shutdown_Races\<close>.\<close>

definition agg_Shutdown :: "'s aggregator \<Rightarrow> 's \<Rightarrow> 's" where
  "agg_Shutdown g s = snd (audit_Close (agg_auditStorage g) s)"

text \<open>
  One turn of the loop: whether it goes on, then the agents and the state; \<open>None\<close> is a panic.
\<close>

definition agg_step ::
  "'s pipeline_lib \<Rightarrow> 's aggregator \<Rightarrow> clock \<Rightarrow> wakeup \<Rightarrow> 's agent list \<times> 's \<Rightarrow> (bool \<times> 's agent list \<times> 's) option" where
  "agg_step P g c ev cs =
     (case cs of (created, s) \<Rightarrow>
       (case ev of
          Cutoff_tick day \<Rightarrow>
            if IsBankingDay day \<or> cut_On (sh_Cutoffs (agg_shard g)) = ''all-days''
            then (case withEachFile P g c created s of
                    (None, _) \<Rightarrow> None
                  | (Some None, created1, s1) \<Rightarrow> Some (True, created1, s1)
                  | (Some (Some e), created1, s1) \<Rightarrow>
                      Some (True, created1, alertOnError (Some g) (Some (errorf_v ''merging files: '' e)) s1))
            else if IsHoliday day \<and> \<not> IsWeekend day
            then map_option (\<lambda>s1. (True, created, s1)) (notifyAboutHoliday P g day s)
            else Some (True, created, s)
        | Manual_trigger \<Rightarrow>
            (case manualCutoff P g c created s of
               (None, _) \<Rightarrow> None
             | (Some _, created1, s1) \<Rightarrow> Some (True, created1, s1))
        | Context_done \<Rightarrow> Some (False, created, agg_Shutdown g s)))"

text \<open>The loop over what wakes it; it stops at the first \<open>Context_done\<close> or panic.\<close>

fun agg_Start ::
  "'s pipeline_lib \<Rightarrow> 's aggregator \<Rightarrow> (clock \<times> wakeup) list \<Rightarrow> 's agent list \<times> 's \<Rightarrow> ('s agent list \<times> 's) option" where
  "agg_Start P g [] cs = Some cs"
| "agg_Start P g ((c, ev) # evs) cs =
     (case agg_step P g c ev cs of
        None \<Rightarrow> None
      | Some (False, cs1) \<Rightarrow> Some cs1
      | Some (True, cs1) \<Rightarrow> agg_Start P g evs cs1)"

end
