(* ===== verification/Database.thy ===== *)
theory Database
  imports Service_Config
begin

text \<open>
  The two tables of \<open>migrations/\<close> under the statements the sources execute. A table is its
  rows in insertion order; its primary key is the file id, or the shard key, compared byte
  by byte. \<open>db_err\<close> is what every statement returns while the database cannot be reached.
\<close>

record file_row =
  row_file_id :: string
  row_shard_key :: string
  row_hostname :: string
  row_accepted_at :: int
  row_canceled_at :: "int option"

record db =
  files_tbl :: "file_row list"
  mappings_tbl :: "ShardMapping list"
  db_err :: "err option"

definition DuplicateEntry :: err where
  "DuplicateEntry = Err ''Error 1062: Duplicate entry'' [UniqueViolation]"

definition insert_file :: "file_row \<Rightarrow> db \<Rightarrow> err option \<times> db" where
  "insert_file r d =
     (case db_err d of
        Some e \<Rightarrow> (Some e, d)
      | None \<Rightarrow> if row_file_id r \<in> row_file_id ` set (files_tbl d) then (Some DuplicateEntry, d)
                else (None, d\<lparr>files_tbl := files_tbl d @ [r]\<rparr>))"

definition delete_files :: "(file_row \<Rightarrow> bool) \<Rightarrow> db \<Rightarrow> err option \<times> db" where
  "delete_files P d =
     (case db_err d of
        Some e \<Rightarrow> (Some e, d)
      | None \<Rightarrow> (None, d\<lparr>files_tbl := filter (\<lambda>r. \<not> P r) (files_tbl d)\<rparr>))"

definition update_files :: "(file_row \<Rightarrow> file_row) \<Rightarrow> (file_row \<Rightarrow> bool) \<Rightarrow> db \<Rightarrow> err option \<times> db" where
  "update_files f P d =
     (case db_err d of
        Some e \<Rightarrow> (Some e, d)
      | None \<Rightarrow> (None, d\<lparr>files_tbl := map (\<lambda>r. if P r then f r else r) (files_tbl d)\<rparr>))"

text \<open>The number of affected rows, or the error.\<close>

definition insert_mapping :: "ShardMapping \<Rightarrow> db \<Rightarrow> (err + nat) \<times> db" where
  "insert_mapping m d =
     (case db_err d of
        Some e \<Rightarrow> (Inl e, d)
      | None \<Rightarrow> if ShardKey m \<in> ShardKey ` set (mappings_tbl d) then (Inl DuplicateEntry, d)
                else (Inr 1, d\<lparr>mappings_tbl := mappings_tbl d @ [m]\<rparr>))"

text \<open>Primary keys stay unique.\<close>

definition wf_db :: "db \<Rightarrow> bool" where
  "wf_db d \<longleftrightarrow> distinct (map row_file_id (files_tbl d)) \<and> distinct (map ShardKey (mappings_tbl d))"

lemma insert_file_wf: "insert_file r d = (e, d') \<Longrightarrow> wf_db d \<Longrightarrow> wf_db d'"
  by (auto simp: insert_file_def wf_db_def split: option.splits if_splits)

lemma delete_files_wf: "delete_files P d = (e, d') \<Longrightarrow> wf_db d \<Longrightarrow> wf_db d'"
  by (auto simp: delete_files_def wf_db_def distinct_map_filter split: option.splits)

lemma update_files_wf:
  assumes "\<And>r. row_file_id (f r) = row_file_id r" and "update_files f P d = (e, d')" and "wf_db d"
  shows "wf_db d'"
proof -
  have ids: "map row_file_id (map (\<lambda>r. if P r then f r else r) rs) = map row_file_id rs" for rs
    using assms(1) by (induction rs) auto
  show ?thesis
  proof (cases "db_err d")
    case None
    with assms(2) have "files_tbl d' = map (\<lambda>r. if P r then f r else r) (files_tbl d)" "mappings_tbl d' = mappings_tbl d"
      by (auto simp: update_files_def)
    with assms(3) show ?thesis by (simp only: wf_db_def ids)
  qed (use assms(2,3) in \<open>auto simp: update_files_def\<close>)
qed

lemma insert_mapping_wf: "insert_mapping m d = (e, d') \<Longrightarrow> wf_db d \<Longrightarrow> wf_db d'"
  by (auto simp: insert_mapping_def wf_db_def split: option.splits if_splits)

end
