(* ===== verification/Files_Repo.thy ===== *)
theory Files_Repo
  imports Database
begin

text \<open>
  The record of accepted files (\<open>internal/files\<close>): the \<open>Repository\<close> interface, its MySQL,
  Spanner and mock implementations, and the contract that makes a file id be handled once.
  The clock is an input.
\<close>

record accepted_file =
  af_FileID :: string
  af_ShardKey :: string
  af_Hostname :: string
  af_AcceptedAt :: int

record 's files_repository =
  Record :: "accepted_file \<Rightarrow> 's \<Rightarrow> err option \<times> 's"
  repo_Cleanup :: "accepted_file \<Rightarrow> 's \<Rightarrow> err option \<times> 's"
  Cancel :: "string \<Rightarrow> 's \<Rightarrow> err option \<times> 's"

definition wrap_err :: "string \<Rightarrow> err option \<times> 's \<Rightarrow> err option \<times> 's" where
  "wrap_err pre r = (case r of (e, s) \<Rightarrow> (map_option (errorf_w pre) e, s))"

definition row_of :: "accepted_file \<Rightarrow> file_row" where
  "row_of f = \<lparr>row_file_id = af_FileID f, row_shard_key = af_ShardKey f, row_hostname = af_Hostname f,
     row_accepted_at = af_AcceptedAt f, row_canceled_at = None\<rparr>"

section \<open>MySQL\<close>

definition sql_Record :: "accepted_file \<Rightarrow> db \<Rightarrow> err option \<times> db" where
  "sql_Record file d = wrap_err ''recording file failed: '' (insert_file (row_of file) d)"

definition sql_Cleanup :: "accepted_file \<Rightarrow> db \<Rightarrow> err option \<times> db" where
  "sql_Cleanup file d = wrap_err ''cleaning up fileID record: ''
     (delete_files (\<lambda>r. row_file_id r = af_FileID file \<and> row_shard_key r = af_ShardKey file) d)"

definition sql_Cancel :: "int \<Rightarrow> string \<Rightarrow> db \<Rightarrow> err option \<times> db" where
  "sql_Cancel now fid d = wrap_err ''saving file cancellation failed: ''
     (update_files (\<lambda>r. r\<lparr>row_canceled_at := Some now\<rparr>)
        (\<lambda>r. row_file_id r = fid \<and> row_canceled_at r = None) d)"

definition sqlRepository :: "int \<Rightarrow> db files_repository" where
  "sqlRepository now = \<lparr>Record = sql_Record, repo_Cleanup = sql_Cleanup, Cancel = sql_Cancel now\<rparr>"

section \<open>Spanner\<close>

text \<open>An \<open>Update\<close> mutation of a missing row fails, a \<open>Delete\<close> of one does not.\<close>

definition RowNotFound :: err where
  "RowNotFound = Err ''rpc error: code = NotFound'' []"

definition spanner_Record :: "accepted_file \<Rightarrow> db \<Rightarrow> err option \<times> db" where
  "spanner_Record file d = wrap_err ''recording file failed: '' (insert_file (row_of file) d)"

definition spanner_Cleanup :: "accepted_file \<Rightarrow> db \<Rightarrow> err option \<times> db" where
  "spanner_Cleanup file d = wrap_err ''cleanup of files record failed: ''
     (delete_files (\<lambda>r. row_file_id r = af_FileID file) d)"

definition spanner_Cancel :: "int \<Rightarrow> string \<Rightarrow> db \<Rightarrow> err option \<times> db" where
  "spanner_Cancel now fid d = wrap_err ''saving file cancellation failed: ''
     (if db_err d = None \<and> fid \<notin> row_file_id ` set (files_tbl d) then (Some RowNotFound, d)
      else update_files (\<lambda>r. r\<lparr>row_canceled_at := Some now\<rparr>) (\<lambda>r. row_file_id r = fid) d)"

definition spannerRepository :: "int \<Rightarrow> db files_repository" where
  "spannerRepository now =
     \<lparr>Record = spanner_Record, repo_Cleanup = spanner_Cleanup, Cancel = spanner_Cancel now\<rparr>"

section \<open>Mock and constructors\<close>

definition MockRepository :: "err option \<Rightarrow> 's files_repository" where
  "MockRepository e = \<lparr>Record = (\<lambda>_ s. (e, s)), repo_Cleanup = (\<lambda>_ s. (e, s)), Cancel = (\<lambda>_ s. (e, s))\<rparr>"

text \<open>Without a database handle the repository is the mock, which accepts every file again.\<close>

definition files_NewRepository :: "bool \<Rightarrow> int \<Rightarrow> db files_repository" where
  "files_NewRepository has_db now = (if has_db then sqlRepository now else MockRepository None)"

definition files_NewSpannerRepository :: "bool \<Rightarrow> int \<Rightarrow> db files_repository" where
  "files_NewSpannerRepository has_db now = (if has_db then spannerRepository now else MockRepository None)"

section \<open>The contract\<close>

text \<open>
  \<open>known s\<close> gives the shard key of every id the repository knows. Recording is the test and
  the mark in one step: it succeeds only for an unknown id, and cleaning up the same record
  forgets it again. A failed statement changes nothing.
\<close>

locale files_repo =
  fixes r :: "'s files_repository" and inv :: "'s \<Rightarrow> bool" and known :: "'s \<Rightarrow> string \<rightharpoonup> string"
  assumes record_new: "inv s \<Longrightarrow> Record r f s = (None, s') \<Longrightarrow>
        inv s' \<and> known s (af_FileID f) = None \<and> known s' = (known s)(af_FileID f \<mapsto> af_ShardKey f)"
    and record_failed: "inv s \<Longrightarrow> Record r f s = (Some e, s') \<Longrightarrow> inv s' \<and> known s' = known s"
    and record_known: "inv s \<Longrightarrow> Record r f s = (Some e, s') \<Longrightarrow> errors_Is e UniqueViolation \<Longrightarrow>
        known s (af_FileID f) \<noteq> None"
    and cleanup_done: "inv s \<Longrightarrow> repo_Cleanup r f s = (None, s') \<Longrightarrow>
        known s (af_FileID f) = Some (af_ShardKey f) \<Longrightarrow>
        inv s' \<and> known s' = (known s)(af_FileID f := None)"
    and cleanup_failed: "inv s \<Longrightarrow> repo_Cleanup r f s = (Some e, s') \<Longrightarrow> inv s' \<and> known s' = known s"
    and cancel_keeps: "inv s \<Longrightarrow> Cancel r i s = (c, s') \<Longrightarrow> inv s' \<and> known s' = known s"
begin

lemma record_twice:
  "inv s \<Longrightarrow> Record r f s = (None, s') \<Longrightarrow> af_FileID g = af_FileID f \<Longrightarrow> fst (Record r g s') \<noteq> None"
  using record_new[of s f s'] record_new[of s' g "snd (Record r g s')"]
  by (cases "Record r g s'") auto

lemma record_then_cleanup:
  "inv s \<Longrightarrow> Record r f s = (None, s1) \<Longrightarrow> inv s2 \<Longrightarrow> known s2 = known s1 \<Longrightarrow>
     repo_Cleanup r f s2 = (None, s3) \<Longrightarrow> known s3 = known s"
  using record_new[of s f s1] cleanup_done[of s2 f s3] by (auto simp: fun_eq_iff)

end

definition db_files :: "db \<Rightarrow> string \<rightharpoonup> string" where
  "db_files d = map_of (map (\<lambda>r. (row_file_id r, row_shard_key r)) (files_tbl d))"

lemma wrap_err_None: "wrap_err pre r = (None, s) \<longleftrightarrow> r = (None, s)"
  by (auto simp: wrap_err_def split: prod.splits)

lemma wrap_err_Some: "wrap_err pre r = (Some e, s) \<longleftrightarrow> (\<exists>x. r = (Some x, s) \<and> e = errorf_w pre x)"
  by (auto simp: wrap_err_def split: prod.splits)

lemma errorf_w_Is [simp]: "errors_Is (errorf_w pre e) c = errors_Is e c"
  by (simp add: errors_Is_def errorf_w_def)

lemma db_files_None: "db_files d i = None \<longleftrightarrow> i \<notin> row_file_id ` set (files_tbl d)"
  by (auto simp: db_files_def map_of_eq_None_iff image_image)

lemma db_files_row:
  assumes "wf_db d" and "r \<in> set (files_tbl d)"
  shows "db_files d (row_file_id r) = Some (row_shard_key r)"
proof -
  have "distinct (map fst (map (\<lambda>r. (row_file_id r, row_shard_key r)) (files_tbl d)))" using assms(1) by (simp add: wf_db_def o_def)
  then show ?thesis unfolding db_files_def using assms(2) by (intro map_of_is_SomeI) auto
qed

lemma insert_file_new:
  "insert_file (row_of f) d = (None, d') \<Longrightarrow>
     db_files d (af_FileID f) = None \<and> db_files d' = (db_files d)(af_FileID f \<mapsto> af_ShardKey f)"
proof -
  assume ins: "insert_file (row_of f) d = (None, d')"
  then have new: "af_FileID f \<notin> row_file_id ` set (files_tbl d)" and d': "files_tbl d' = files_tbl d @ [row_of f]"
    by (auto simp: insert_file_def row_of_def split: option.splits if_splits)
  have snoc: "map_of (xs @ [(k, v)]) = (map_of xs)(k \<mapsto> v)" if "map_of xs k = None" for xs and k v :: string
    using that by (auto simp: map_add_def fun_eq_iff split: option.splits)
  have none: "db_files d (af_FileID f) = None" using new by (simp only: db_files_None not_False_eq_True)
  from snoc[OF none[unfolded db_files_def], of "af_ShardKey f"]
  have "db_files d' = (db_files d)(af_FileID f \<mapsto> af_ShardKey f)"
    by (simp only: db_files_def d' map_append list.map row_of_def file_row.select_convs)
  with none show ?thesis by simp
qed

lemma insert_file_err:
  "insert_file r d = (Some e, d') \<Longrightarrow> d' = d \<and> (db_err d = None \<longrightarrow> row_file_id r \<in> row_file_id ` set (files_tbl d))"
  by (auto simp: insert_file_def split: option.splits if_splits)

lemma delete_files_known:
  assumes "wf_db d" and "delete_files P d = (None, d')" and "db_files d i = Some k"
    and "\<And>r. P r \<Longrightarrow> row_file_id r = i" and "\<And>r. row_file_id r = i \<Longrightarrow> row_shard_key r = k \<Longrightarrow> P r"
  shows "db_files d' = (db_files d)(i := None)"
proof -
  from assms(2) have d': "files_tbl d' = filter (\<lambda>r. \<not> P r) (files_tbl d)"
    by (auto simp: delete_files_def split: option.splits)
  have "map_of (map (\<lambda>r. (row_file_id r, row_shard_key r)) (filter (\<lambda>r. \<not> P r) rs)) =
      (map_of (map (\<lambda>r. (row_file_id r, row_shard_key r)) rs))(i := None)"
    if "\<forall>r\<in>set rs. row_file_id r = i \<longrightarrow> P r" for rs
  proof -
    have "filter (\<lambda>r. \<not> P r) rs = filter (\<lambda>r. row_file_id r \<noteq> i) rs"
      using that assms(4) by (intro filter_cong) blast+
    moreover have "map_of (map (\<lambda>r. (row_file_id r, row_shard_key r)) (filter (\<lambda>r. row_file_id r \<noteq> i) rs)) =
        (map_of (map (\<lambda>r. (row_file_id r, row_shard_key r)) rs))(i := None)"
      by (induction rs) (auto simp: fun_eq_iff)
    ultimately show ?thesis by simp
  qed
  moreover have "\<forall>r\<in>set (files_tbl d). row_file_id r = i \<longrightarrow> P r"
  proof (intro ballI impI)
    fix r assume r: "r \<in> set (files_tbl d)" "row_file_id r = i"
    with db_files_row[OF assms(1) r(1)] assms(3,5) show "P r" by simp
  qed
  ultimately show ?thesis by (simp add: db_files_def d')
qed

lemma update_files_same:
  "update_files (\<lambda>r. r\<lparr>row_canceled_at := Some now\<rparr>) P d = (e, d') \<Longrightarrow> wf_db d \<Longrightarrow> wf_db d' \<and> db_files d' = db_files d"
proof -
  assume u: "update_files (\<lambda>r. r\<lparr>row_canceled_at := Some now\<rparr>) P d = (e, d')" and wf: "wf_db d"
  have "map (\<lambda>r. (row_file_id r, row_shard_key r)) (map (\<lambda>r. if P r then r\<lparr>row_canceled_at := Some now\<rparr> else r) rs)
      = map (\<lambda>r. (row_file_id r, row_shard_key r)) rs" for rs
    by (induction rs) auto
  with u have "db_files d' = db_files d"
    by (auto simp: update_files_def db_files_def simp del: map_map split: option.splits)
  with update_files_wf[OF _ u wf] show ?thesis by simp
qed

interpretation sql_files: files_repo "sqlRepository now" "\<lambda>d. wf_db d \<and> (\<forall>e. db_err d = Some e \<longrightarrow> \<not> errors_Is e UniqueViolation)" db_files
proof (unfold_locales, goal_cases)
  case (1 s f s')
  then have i: "insert_file (row_of f) s = (None, s')" by (simp add: sqlRepository_def sql_Record_def wrap_err_None)
  moreover from i have "db_err s' = db_err s" by (auto simp: insert_file_def split: option.splits if_splits)
  ultimately show ?case using 1 insert_file_new[OF i] insert_file_wf[OF i] by simp
next
  case (2 s f e s')
  then show ?case by (auto simp: sqlRepository_def sql_Record_def wrap_err_Some dest: insert_file_err)
next
  case (3 s f e s')
  then obtain x where "insert_file (row_of f) s = (Some x, s')" "errors_Is x UniqueViolation"
    by (auto simp: sqlRepository_def sql_Record_def wrap_err_Some)
  with 3(1) have "af_FileID f \<in> row_file_id ` set (files_tbl s)"
    by (auto simp: insert_file_def row_of_def split: option.splits if_splits)
  then show ?case using db_files_None[of s "af_FileID f"] by blast
next
  case (4 s f s')
  then have d: "delete_files (\<lambda>r. row_file_id r = af_FileID f \<and> row_shard_key r = af_ShardKey f) s = (None, s')"
    by (simp add: sqlRepository_def sql_Cleanup_def wrap_err_None)
  have "db_err s' = db_err s" using d by (auto simp: delete_files_def split: option.splits)
  moreover have "wf_db s'" using delete_files_wf[OF d] 4(1) by blast
  moreover have "db_files s' = (db_files s)(af_FileID f := None)"
    using 4(1) by (intro delete_files_known[OF _ d 4(3)]) simp_all
  ultimately show ?case using 4(1) by simp
next
  case (5 s f e s')
  then show ?case by (auto simp: sqlRepository_def sql_Cleanup_def wrap_err_Some delete_files_def split: option.splits)
next
  case (6 s i c s')
  then obtain x where u: "update_files (\<lambda>r. r\<lparr>row_canceled_at := Some now\<rparr>)
      (\<lambda>r. row_file_id r = i \<and> row_canceled_at r = None) s = (x, s')"
    by (auto simp: sqlRepository_def sql_Cancel_def wrap_err_def split: prod.splits)
  moreover from u have "db_err s' = db_err s" by (auto simp: update_files_def split: option.splits)
  ultimately show ?case using 6 update_files_same[OF u] by simp
qed

interpretation spanner_files: files_repo "spannerRepository now" "\<lambda>d. wf_db d \<and> (\<forall>e. db_err d = Some e \<longrightarrow> \<not> errors_Is e UniqueViolation)" db_files
proof (unfold_locales, goal_cases)
  case (1 s f s')
  then have "Record (sqlRepository now) f s = (None, s')"
    by (simp add: spannerRepository_def sqlRepository_def spanner_Record_def sql_Record_def)
  from sql_files.record_new[OF 1(1) this] show ?case .
next
  case (2 s f e s')
  then have "Record (sqlRepository now) f s = (Some e, s')"
    by (simp add: spannerRepository_def sqlRepository_def spanner_Record_def sql_Record_def)
  from sql_files.record_failed[OF 2(1) this] show ?case .
next
  case (3 s f e s')
  then have "Record (sqlRepository now) f s = (Some e, s')"
    by (simp add: spannerRepository_def sqlRepository_def spanner_Record_def sql_Record_def)
  from sql_files.record_known[OF 3(1) this 3(3)] show ?case .
next
  case (4 s f s')
  then have d: "delete_files (\<lambda>r. row_file_id r = af_FileID f) s = (None, s')"
    by (simp add: spannerRepository_def spanner_Cleanup_def wrap_err_None)
  have "db_err s' = db_err s" using d by (auto simp: delete_files_def split: option.splits)
  moreover have "wf_db s'" using delete_files_wf[OF d] 4(1) by blast
  moreover have "db_files s' = (db_files s)(af_FileID f := None)"
    using 4(1) by (intro delete_files_known[OF _ d 4(3)]) simp_all
  ultimately show ?case using 4(1) by simp
next
  case (5 s f e s')
  then show ?case by (auto simp: spannerRepository_def spanner_Cleanup_def wrap_err_Some delete_files_def split: option.splits)
next
  case (6 s i c s')
  show ?case
  proof (cases "db_err s = None \<and> i \<notin> row_file_id ` set (files_tbl s)")
    case True
    with 6 show ?thesis by (auto simp: spannerRepository_def spanner_Cancel_def wrap_err_def)
  next
    case False
    with 6 obtain x where u: "update_files (\<lambda>r. r\<lparr>row_canceled_at := Some now\<rparr>) (\<lambda>r. row_file_id r = i) s = (x, s')"
      by (auto simp: spannerRepository_def spanner_Cancel_def wrap_err_def split: prod.splits if_splits)
    moreover from u have "db_err s' = db_err s" by (auto simp: update_files_def split: option.splits)
    ultimately show ?thesis using 6 update_files_same[OF u] by simp
  qed
qed

end
