(* ===== verification/Shards_Repo.thy ===== *)
theory Shards_Repo
  imports Database
begin

text \<open>
  Shard mappings (\<open>internal/shards\<close>): the \<open>Repository\<close> interface with its MySQL, Spanner and
  in-memory implementations, the mapping service and the HTTP handlers over it. The in-memory
  repository keeps its mappings in the same table, where keys may repeat.
\<close>

record 's shard_repository =
  Lookup :: "string \<Rightarrow> 's \<Rightarrow> string \<times> err option"
  shards_List :: "'s \<Rightarrow> err + ShardMapping list"
  Add :: "ShardMapping \<Rightarrow> err option \<Rightarrow> 's \<Rightarrow> err option \<times> 's"

definition ErrNoRows :: err where
  "ErrNoRows = Err ''sql: no rows in result set'' [NoRows]"

text \<open>\<open>errors.Wrap\<close> of pkg/errors: no error stays no error.\<close>

definition errors_Wrap :: "err option \<Rightarrow> string \<Rightarrow> err option" where
  "errors_Wrap e msg = map_option (\<lambda>x. Err (msg @ '': '' @ err_text x) (err_classes x)) e"

section \<open>MySQL\<close>

text \<open>An unmapped key gives an empty name without an error.\<close>

definition sql_Lookup :: "string \<Rightarrow> db \<Rightarrow> string \<times> err option" where
  "sql_Lookup key d =
     (case db_err d of
        Some e \<Rightarrow> ([], Some e)
      | None \<Rightarrow> (case find (\<lambda>m. ShardKey m = key) (mappings_tbl d) of
                   None \<Rightarrow> ([], None) | Some m \<Rightarrow> (ShardName m, None)))"

definition queryScanShardMappings :: "db \<Rightarrow> err + ShardMapping list" where
  "queryScanShardMappings d =
     (case db_err d of
        Some e \<Rightarrow> Inl (the (errors_Wrap (Some e) ''querying''))
      | None \<Rightarrow> Inr (mappings_tbl d))"

definition sql_List :: "db \<Rightarrow> err + ShardMapping list" where
  "sql_List d = queryScanShardMappings d"

text \<open>
  The insert runs in a transaction; \<open>run\<close> is what the function passed in returned. Returning
  before the commit rolls back.
\<close>

definition sql_Add :: "ShardMapping \<Rightarrow> err option \<Rightarrow> db \<Rightarrow> err option \<times> db" where
  "sql_Add create run d =
     (case db_err d of
        Some e \<Rightarrow> (errors_Wrap (Some e) ''start adding shard mapping'', d)
      | None \<Rightarrow>
          (case insert_mapping create d of
             (Inl e, _) \<Rightarrow> (errors_Wrap (Some e) ''executing add'', d)
           | (Inr cnt, d1) \<Rightarrow>
               if cnt \<noteq> 1 then (errors_Wrap None ''affecting no rows'', d)
               else if run \<noteq> None then (run, d)
               else (None, d1)))"

definition sql_write :: "string \<Rightarrow> string \<Rightarrow> db \<Rightarrow> err option \<times> db" where
  "sql_write key name d =
     (case insert_mapping \<lparr>ShardKey = key, ShardName = name\<rparr> d of
        (Inl e, d1) \<Rightarrow> (Some e, d1)
      | (Inr cnt, d1) \<Rightarrow>
          if cnt < 1 then (Some (errors_New (''db failed to write shard mapping for shard '' @ key @ ''-'' @ name)), d1)
          else (None, d1))"

definition sql_shards :: "db shard_repository" where
  "sql_shards = \<lparr>Lookup = sql_Lookup, shards_List = sql_List, Add = sql_Add\<rparr>"

section \<open>Spanner\<close>

definition SpannerNotFound :: err where
  "SpannerNotFound = Err ''spanner: code = NotFound'' []"

definition spanner_Lookup :: "string \<Rightarrow> db \<Rightarrow> string \<times> err option" where
  "spanner_Lookup key d =
     (case db_err d of
        Some e \<Rightarrow> ([], Some e)
      | None \<Rightarrow> (case find (\<lambda>m. ShardKey m = key) (mappings_tbl d) of
                   None \<Rightarrow> ([], Some SpannerNotFound) | Some m \<Rightarrow> (ShardName m, None)))"

definition spanner_List :: "db \<Rightarrow> err + ShardMapping list" where
  "spanner_List d = (case db_err d of Some e \<Rightarrow> Inl (Err (''querying: '' @ err_text e) (err_classes e))
                     | None \<Rightarrow> Inr (mappings_tbl d))"

definition spanner_Add :: "ShardMapping \<Rightarrow> err option \<Rightarrow> db \<Rightarrow> err option \<times> db" where
  "spanner_Add create run d =
     (case insert_mapping create d of
        (Inl e, d1) \<Rightarrow> (Some (errorf_w ''recording file failed: '' e), d1)
      | (Inr _, d1) \<Rightarrow> (None, d1))"

definition spanner_shards :: "db shard_repository" where
  "spanner_shards = \<lparr>Lookup = spanner_Lookup, shards_List = spanner_List, Add = spanner_Add\<rparr>"

section \<open>In memory\<close>

definition inmem_Lookup :: "string \<Rightarrow> db \<Rightarrow> string \<times> err option" where
  "inmem_Lookup key d =
     (case find (\<lambda>m. ShardKey m = key) (mappings_tbl d) of
        Some m \<Rightarrow> (ShardName m, None)
      | None \<Rightarrow> ([], Some (errorf_w (''unknown shardKey '' @ key @ '': '') ErrNoRows)))"

definition inmem_List :: "db \<Rightarrow> err + ShardMapping list" where
  "inmem_List d = Inr (mappings_tbl d)"

definition inmem_Add :: "ShardMapping \<Rightarrow> err option \<Rightarrow> db \<Rightarrow> err option \<times> db" where
  "inmem_Add create run d = (None, d\<lparr>mappings_tbl := mappings_tbl d @ [create]\<rparr>)"

definition inmem_shards :: "db shard_repository" where
  "inmem_shards = \<lparr>Lookup = inmem_Lookup, shards_List = inmem_List, Add = inmem_Add\<rparr>"

definition shards_NewRepository :: "bool \<Rightarrow> db shard_repository" where
  "shards_NewRepository has_db = (if has_db then sql_shards else inmem_shards)"

definition shards_NewSpannerRepository :: "bool \<Rightarrow> db shard_repository" where
  "shards_NewSpannerRepository has_db = (if has_db then spanner_shards else inmem_shards)"

section \<open>The mapping service and its HTTP handlers\<close>

definition mapping_Create :: "'s shard_repository \<Rightarrow> ShardMapping option \<Rightarrow> 's \<Rightarrow> (err + ShardMapping) \<times> 's" where
  "mapping_Create r create s =
     (case ShardMapping_Validate create of
        Some e \<Rightarrow> (Inl (the (errors_Wrap (Some e) ''validating'')), s)
      | None \<Rightarrow>
          let created = \<lparr>ShardKey = ShardKey (the create), ShardName = ShardName (the create)\<rparr>
          in (case Add r created None s of
                (Some e, s') \<Rightarrow> (Inl (the (errors_Wrap (Some e) ''adding Facilitator'')), s')
              | (None, s') \<Rightarrow> (Inr created, s')))"

datatype shard_body = NoBody | OneMapping ShardMapping | ManyMappings "ShardMapping list"

text \<open>Status and body; the decoded body is an error when it was not a mapping in JSON.\<close>

definition http_Create :: "'s shard_repository \<Rightarrow> err + ShardMapping \<Rightarrow> 's \<Rightarrow> (nat \<times> shard_body) \<times> 's" where
  "http_Create r body s =
     (case body of
        Inl _ \<Rightarrow> ((400, NoBody), s)
      | Inr m \<Rightarrow> (case mapping_Create r (Some m) s of
                    (Inl _, s') \<Rightarrow> ((400, NoBody), s')
                  | (Inr _, s') \<Rightarrow> ((201, NoBody), s')))"

definition http_Get :: "'s shard_repository \<Rightarrow> string \<Rightarrow> 's \<Rightarrow> nat \<times> shard_body" where
  "http_Get r key s =
     (case Lookup r key s of
        (name, Some _) \<Rightarrow> (404, NoBody)
      | (name, None) \<Rightarrow> (200, OneMapping \<lparr>ShardKey = key, ShardName = name\<rparr>))"

definition http_List :: "'s shard_repository \<Rightarrow> 's \<Rightarrow> nat \<times> shard_body" where
  "http_List r s =
     (case shards_List r s of Inl _ \<Rightarrow> (500, NoBody) | Inr ms \<Rightarrow> (200, ManyMappings ms))"

section \<open>The contract\<close>

text \<open>
  \<open>mapped s\<close> is the mapping in force. An unmapped key is not an error, or is the no-rows
  error; a successful addition maps a new key and never remaps an old one.
\<close>

locale shard_repo =
  fixes r :: "'s shard_repository" and inv :: "'s \<Rightarrow> bool" and mapped :: "'s \<Rightarrow> string \<rightharpoonup> string"
  assumes lookup_mapped: "inv s \<Longrightarrow> mapped s k = Some n \<Longrightarrow> Lookup r k s = (n, None)"
    and lookup_unmapped: "inv s \<Longrightarrow> mapped s k = None \<Longrightarrow>
        fst (Lookup r k s) = [] \<and> (\<forall>e. snd (Lookup r k s) = Some e \<longrightarrow> errors_Is e NoRows)"
    and add_new: "inv s \<Longrightarrow> mapped s (ShardKey m) = None \<Longrightarrow> Add r m None s = (None, s') \<Longrightarrow>
        inv s' \<and> mapped s' = (mapped s)(ShardKey m \<mapsto> ShardName m)"
    and add_old: "inv s \<Longrightarrow> mapped s (ShardKey m) \<noteq> None \<Longrightarrow> Add r m run s = (c, s') \<Longrightarrow>
        inv s' \<and> mapped s' = mapped s"
    and add_failed: "inv s \<Longrightarrow> Add r m run s = (Some e, s') \<Longrightarrow> inv s' \<and> mapped s' = mapped s"
begin

lemma create_then_get:
  assumes "inv s" and "http_Create r (Inr m) s = ((201, b), s')" and "mapped s (ShardKey m) = None"
  shows "http_Get r (ShardKey m) s' = (200, OneMapping m) \<and> mapped s' = (mapped s)(ShardKey m \<mapsto> ShardName m)"
proof -
  from assms(2) have "Add r m None s = (None, s')"
    by (cases m) (auto simp: http_Create_def mapping_Create_def Let_def split: prod.splits sum.splits option.splits)
  from add_new[OF assms(1,3) this] have "inv s'" "mapped s' = (mapped s)(ShardKey m \<mapsto> ShardName m)" by blast+
  with lookup_mapped[of s' "ShardKey m" "ShardName m"] show ?thesis by (cases m) (simp add: http_Get_def)
qed

end

definition db_mapped :: "db \<Rightarrow> string \<rightharpoonup> string" where
  "db_mapped d k = map_option ShardName (find (\<lambda>m. ShardKey m = k) (mappings_tbl d))"

lemma db_mapped_None: "db_mapped d k = None \<longleftrightarrow> k \<notin> ShardKey ` set (mappings_tbl d)"
  by (auto simp: db_mapped_def find_None_iff)

lemma find_snoc: "find P (xs @ [x]) = (case find P xs of None \<Rightarrow> if P x then Some x else None | Some y \<Rightarrow> Some y)"
  by (induction xs) auto

lemma db_mapped_snoc:
  "mappings_tbl d' = mappings_tbl d @ [m] \<Longrightarrow>
     db_mapped d' k = (case db_mapped d k of Some n \<Rightarrow> Some n | None \<Rightarrow> if ShardKey m = k then Some (ShardName m) else None)"
  by (auto simp: db_mapped_def find_snoc split: option.splits)

lemma insert_mapping_done:
  "insert_mapping m d = (Inr c, d') \<Longrightarrow> c = 1 \<and> db_err d' = db_err d \<and> db_mapped d (ShardKey m) = None \<and>
     mappings_tbl d' = mappings_tbl d @ [m]"
  by (auto simp: insert_mapping_def db_mapped_None split: option.splits if_splits)

lemma insert_mapping_failed: "insert_mapping m d = (Inl e, d') \<Longrightarrow> d' = d"
  by (auto simp: insert_mapping_def split: option.splits if_splits)

interpretation sql_mappings: shard_repo sql_shards "\<lambda>d. db_err d = None" db_mapped
proof (unfold_locales, goal_cases)
  case (1 s k n) then show ?case by (auto simp: sql_shards_def sql_Lookup_def db_mapped_def)
next
  case (2 s k) then show ?case by (auto simp: sql_shards_def sql_Lookup_def db_mapped_def)
next
  case (3 s m s')
  then have "insert_mapping m s = (Inr 1, s')"
    by (auto simp: sql_shards_def sql_Add_def errors_Wrap_def dest!: insert_mapping_done split: prod.splits sum.splits if_splits)
  from insert_mapping_done[OF this] 3 show ?case by (auto simp: db_mapped_snoc fun_eq_iff split: option.splits)
next
  case (4 s m run e s')
  then have "s' = s"
    by (auto simp: sql_shards_def sql_Add_def dest!: insert_mapping_done split: prod.splits sum.splits if_splits option.splits)
  with 4 show ?case by simp
next
  case (5 s m run e s')
  then have "s' = s"
    by (auto simp: sql_shards_def sql_Add_def errors_Wrap_def dest!: insert_mapping_done split: prod.splits sum.splits if_splits)
  with 5 show ?case by simp
qed

interpretation inmem_mappings: shard_repo inmem_shards "\<lambda>_. True" db_mapped
proof (unfold_locales, goal_cases)
  case (1 s k n) then show ?case by (auto simp: inmem_shards_def inmem_Lookup_def db_mapped_def)
next
  case (2 s k)
  then show ?case
    by (auto simp: inmem_shards_def inmem_Lookup_def db_mapped_def errors_Is_def errorf_w_def ErrNoRows_def)
next
  case (3 s m s')
  then show ?case by (auto simp: inmem_shards_def inmem_Add_def db_mapped_snoc fun_eq_iff split: option.splits)
next
  case (4 s m run e s')
  then show ?case by (auto simp: inmem_shards_def inmem_Add_def db_mapped_snoc fun_eq_iff split: option.splits)
next
  case (5 s m run e s')
  then show ?case by (simp add: inmem_shards_def inmem_Add_def)
qed

text \<open>
  A shard mapping accepted over HTTP for a key that had none is what later lookups of the
  key return, and no other key is affected, with the MySQL and with the in-memory repository.
\<close>

theorem mapping_created_is_found:
  assumes "(r = sql_shards \<and> db_err d = None) \<or> r = inmem_shards"
    and "http_Create r (Inr m) d = ((201, b), d')" and "db_mapped d (ShardKey m) = None"
  shows "http_Get r (ShardKey m) d' = (200, OneMapping m) \<and> db_mapped d' = (db_mapped d)(ShardKey m \<mapsto> ShardName m)"
  using assms sql_mappings.create_then_get inmem_mappings.create_then_get by blast

definition empty_db :: db where
  "empty_db = \<lparr>files_tbl = [], mappings_tbl = [], db_err = None\<rparr>"

lemma mapping_created_is_found_witness:
  "\<exists>d'. http_Create sql_shards (Inr \<lparr>ShardKey = ''k'', ShardName = ''live''\<rparr>) empty_db = ((201, NoBody), d') \<and>
     http_Get sql_shards ''k'' d' = (200, OneMapping \<lparr>ShardKey = ''k'', ShardName = ''live''\<rparr>)"
proof -
  let ?m = "\<lparr>ShardKey = ''k'', ShardName = ''live''\<rparr>"
  have c: "http_Create sql_shards (Inr ?m) empty_db = ((201, NoBody), empty_db\<lparr>mappings_tbl := [?m]\<rparr>)"
    by (simp add: http_Create_def mapping_Create_def ShardMapping_Validate_def sql_shards_def sql_Add_def
        insert_mapping_def empty_db_def Let_def)
  have "http_Get sql_shards (ShardKey ?m) (empty_db\<lparr>mappings_tbl := [?m]\<rparr>) = (200, OneMapping ?m)"
    using mapping_created_is_found[OF _ c] by (simp add: empty_db_def db_mapped_def)
  with c show ?thesis by simp
qed

end
