(* ===== verification/Receiver.thy ===== *)
theory Receiver
  imports Aggregator Files_Repo Shards_Repo
begin

text \<open>
  The file receiver (\<open>internal/pipeline/file_receiver.go\<close>, \<open>pipeline.go\<close>): taking messages
  from the HTTP and stream subscriptions, reading them as events, finding the shard's
  aggregator, accepting each file once, cancelling files, acknowledging, and reporting files
  that could not be processed.

  The two response channels are the lists of what was sent on them; their reader is the web
  controller. The database, the storage and everything else an operation changes is one state
  \<open>'s\<close>. Errors made by the logger (\<open>LogErrorf(...).Err()\<close>) are errors with that text.
\<close>

record channels =
  QueueFileResponses :: "queue_response list"
  CancellationResponses :: "cancel_response list"

record 's FileReceiver =
  defaultShardName :: string
  fr_Kafka :: "KafkaConfig option"
  fr_InMem :: "InMemory option"
  fr_eventEmitter :: "'s emitter"
  fr_shardRepository :: "'s shard_repository"
  shardAggregators :: "(string \<times> 's aggregator option) list"
  fr_fileRepository :: "'s files_repository"
  httpFiles :: "'s subscription option"
  streamFiles :: "'s subscription option"
  fr_transformConfig :: "TransformConfig option"

text \<open>What the receiver calls outside: the event codecs and the pub/sub clients, its host name.\<close>

record 's receiver_lib =
  rl_events :: event_lib
  rl_pubsub :: "'s pubsub_lib"
  rl_hostname :: string

section \<open>Connecting\<close>

definition reconnect :: "'s receiver_lib \<Rightarrow> 's FileReceiver \<Rightarrow> 's \<Rightarrow> (err option \<times> 's FileReceiver) \<times> 's" where
  "reconnect V fr s =
     (let s1 = (case streamFiles fr of None \<Rightarrow> s | Some sub \<Rightarrow> snd (sub_Shutdown sub s))
      in (case stream_OpenSubscription (rl_pubsub V) (fr_InMem fr) (fr_Kafka fr) of
            Inl e \<Rightarrow> ((Some (errorf_v ''creating stream subscription: '' e), fr), s1)
          | Inr sub \<Rightarrow> ((None, fr\<lparr>streamFiles := sub\<rparr>), s1)))"

definition newFileReceiver ::
  "'s receiver_lib \<Rightarrow> Config \<Rightarrow> 's emitter \<Rightarrow> 's shard_repository \<Rightarrow> (string \<times> 's aggregator option) list
     \<Rightarrow> 's files_repository \<Rightarrow> 's subscription option \<Rightarrow> TransformConfig option \<Rightarrow> 's \<Rightarrow> (err + 's FileReceiver) \<times> 's" where
  "newFileReceiver V cfg emitter shards aggs repo http transform s =
     (case reconnect V \<lparr>defaultShardName = Default (cf_Sharding cfg), fr_Kafka = in_Kafka (cf_Inbound cfg),
              fr_InMem = in_InMem (cf_Inbound cfg), fr_eventEmitter = emitter, fr_shardRepository = shards,
              shardAggregators = aggs, fr_fileRepository = repo, httpFiles = http, streamFiles = None,
              fr_transformConfig = transform\<rparr> s of
        ((Some e, _), s1) \<Rightarrow> (Inl e, s1)
      | ((None, fr), s1) \<Rightarrow> (Inr fr, s1))"

definition fr_Shutdown :: "'s FileReceiver \<Rightarrow> 's \<Rightarrow> 's" where
  "fr_Shutdown fr s =
     (let s1 = (case httpFiles fr of None \<Rightarrow> s | Some sub \<Rightarrow> snd (sub_Shutdown sub s))
      in (case streamFiles fr of None \<Rightarrow> s1 | Some sub \<Rightarrow> snd (sub_Shutdown sub s1)))"

definition contains_any :: "err \<Rightarrow> string list \<Rightarrow> bool" where
  "contains_any e options = list_ex (\<lambda>o'. Contains (err_text e) o') options"

definition isNetworkError :: "err \<Rightarrow> bool" where
  "isNetworkError e = contains_any e [''connect: '', ''write:'', ''broken pipe'', ''pubsub'', ''EOF'']"

definition shouldAutocommit :: "'s FileReceiver \<Rightarrow> bool" where
  "shouldAutocommit fr = (case fr_Kafka fr of None \<Rightarrow> False | Some k \<Rightarrow> kf_AutoCommit k)"

section \<open>Finding the aggregator\<close>

text \<open>\<open>None\<close> when the lookup failed for another reason than a missing row, or no shard is left.\<close>

definition getAggregator :: "'s FileReceiver \<Rightarrow> string \<Rightarrow> 's \<Rightarrow> 's aggregator option" where
  "getAggregator fr shardKey s =
     (case Lookup (fr_shardRepository fr) shardKey s of
        (name, e) \<Rightarrow>
          if (case e of None \<Rightarrow> False | Some x \<Rightarrow> \<not> errors_Is x NoRows) then None
          else
            let shardName = (if name = [] then shardKey else name)
            in (case map_of (shardAggregators fr) shardName of
                  Some agg \<Rightarrow> agg
                | None \<Rightarrow> (case map_of (shardAggregators fr) (defaultShardName fr) of
                             None \<Rightarrow> None | Some agg \<Rightarrow> agg)))"

section \<open>Accepting and cancelling\<close>

text \<open>\<open>now\<close> and the host name are what the acceptance record is filled with.\<close>

definition acceptance :: "'s receiver_lib \<Rightarrow> int \<Rightarrow> queue_file \<Rightarrow> accepted_file" where
  "acceptance V now file = \<lparr>af_FileID = FileID file, af_ShardKey = FileShardKey file, af_Hostname = rl_hostname V,
     af_AcceptedAt = now\<rparr>"

text \<open>
  After a failed acceptance the error that is returned quotes the wrong variable, the nil
  error of the validation before.
\<close>

definition processACHFile ::
  "'s receiver_lib \<Rightarrow> 's FileReceiver \<Rightarrow> int \<Rightarrow> queue_file \<Rightarrow> channels \<times> 's \<Rightarrow> err option \<times> channels \<times> 's" where
  "processACHFile V fr now file st =
     (case st of (ch, s) \<Rightarrow>
       if FileID file = [] \<or> FileShardKey file = [] then (Some (errors_New ''missing fileID or shardKey''), ch, s)
       else if ACHFile_Validate file \<noteq> None then (None, ch, s)
       else (case getAggregator fr (FileShardKey file) s of
          None \<Rightarrow> (Some (errors_New (''no aggregator for shard key '' @ FileShardKey file @ '' found'')), ch, s)
        | Some agg \<Rightarrow>
            let acceptanceData = acceptance V now file
            in (case Record (fr_fileRepository fr) acceptanceData s of
                  (Some e, s1) \<Rightarrow>
                    if errors_Is e UniqueViolation then (None, ch, s1)
                    else (Some (errorf_v ''not handling received ACH file: '' e), ch, s1)
                | (None, s1) \<Rightarrow>
                    (case acceptFile agg file s1 of
                       ((_, Some _), s2) \<Rightarrow>
                         (case repo_Cleanup (fr_fileRepository fr) acceptanceData s2 of
                            (_, s3) \<Rightarrow> (Some (errors_New ''problem accepting file: <nil>''), ch, s3))
                     | ((resp, None), s2) \<Rightarrow>
                         (None, ch\<lparr>QueueFileResponses := QueueFileResponses ch @ [resp]\<rparr>, s2)))))"

definition cancelACHFile ::
  "'s FileReceiver \<Rightarrow> cancel_file option \<Rightarrow> channels \<times> 's \<Rightarrow> err option \<times> channels \<times> 's" where
  "cancelACHFile fr cancel st =
     (case st of (ch, s) \<Rightarrow>
       (case cancel of
          None \<Rightarrow> (Some (errors_New ''missing fileID or shardKey''), ch, s)
        | Some x \<Rightarrow>
       if cancel_FileID x = [] \<or> cancel_ShardKey x = [] then (Some (errors_New ''missing fileID or shardKey''), ch, s)
       else (case getAggregator fr (cancel_ShardKey x) s of
          None \<Rightarrow> (None, ch, s)
        | Some agg \<Rightarrow>
            (case Cancel (fr_fileRepository fr) (cancel_FileID x) s of
               (Some e, s1) \<Rightarrow> (Some (errorf_v ''problem recording cancellation: '' e), ch, s1)
             | (None, s1) \<Rightarrow>
                 (case cancelFile agg x s1 of
                    ((_, Some e), s2) \<Rightarrow> (Some (errorf_v ''problem canceling file: '' e), ch, s2)
                  | ((response, None), s2) \<Rightarrow>
                      (None, ch\<lparr>CancellationResponses := CancellationResponses ch @ [response]\<rparr>, s2))))))"

definition produceInvalidQueueFile ::
  "'s receiver_lib \<Rightarrow> 's FileReceiver \<Rightarrow> queue_file \<Rightarrow> err \<Rightarrow> 's \<Rightarrow> err option \<times> 's" where
  "produceInvalidQueueFile V fr file e s =
     fr_eventEmitter fr (InvalidQueueFile \<lparr>iv_File = file, iv_Error = err_text e, iv_Hostname = rl_hostname V\<rparr>) s"

section \<open>Messages\<close>

definition ack :: "bool \<Rightarrow> 's pub_message \<Rightarrow> channels \<times> 's \<Rightarrow> channels \<times> 's" where
  "ack committed msg st = (if committed then st else (fst st, Ack msg (snd st)))"

definition processMessage ::
  "'s receiver_lib \<Rightarrow> 's FileReceiver \<Rightarrow> int \<Rightarrow> 's pub_message \<Rightarrow> channels \<times> 's \<Rightarrow> err option \<times> channels \<times> 's" where
  "processMessage V fr now msg st0 =
     (let committed = shouldAutocommit fr;
          st = ack (\<not> committed) msg st0;
          E = rl_events V
      in (case compliance_Reveal (crypto E) (fr_transformConfig fr) (msg_Body msg) of
            Inl e \<Rightarrow> (Some (errorf_v ''unable to reveal event: '' e), st)
          | Inr data \<Rightarrow>
         (case models_Read (json E) (event_ach E) data of
            (None, _) \<Rightarrow> (None, st)
          | (Some (t, Some (CancelACHFile x)), _) \<Rightarrow>
              (case cancelACHFile fr (Some x) st of
                 (Some e, st1) \<Rightarrow> (Some e, st1)
               | (None, st1) \<Rightarrow> (None, ack committed msg st1))
          | (Some (t, Some (QueueACHFile file)), Some readErr) \<Rightarrow>
              (case produceInvalidQueueFile V fr file readErr (snd st) of
                 (Some e, s1) \<Rightarrow> (Some (errorf_w ''problem producing InvalidQueueFile: '' e), fst st, s1)
               | (None, s1) \<Rightarrow> (Some readErr, fst st, s1))
          | (Some (t, Some (QueueACHFile file)), None) \<Rightarrow>
              (case processACHFile V fr now file st of
                 (Some e, ch1, s1) \<Rightarrow>
                   (case produceInvalidQueueFile V fr file e s1 of
                      (Some e2, s2) \<Rightarrow>
                        (Some (errorf_w ''problem producing InvalidQueueFile after processing file: '' e2), ch1, s2)
                    | (None, s2) \<Rightarrow> (Some e, ch1, s2))
               | (None, st1) \<Rightarrow> (None, ack committed msg st1))
          | (Some _, _) \<Rightarrow> (Some (errors_New ''unhandled message''), st))))"

text \<open>
  What an iteration of the loop gets from a subscription: nothing before its context ends, or
  the result of the message. With \<open>cancelled\<close> the context ends between receiving a message
  and taking it: the message is dropped without an acknowledgement.
\<close>

datatype handled = Waits | Handled "err option"

definition handleMessage ::
  "'s receiver_lib \<Rightarrow> 's FileReceiver \<Rightarrow> int \<Rightarrow> bool \<Rightarrow> 's subscription option \<Rightarrow> channels \<times> 's \<Rightarrow> handled \<times> channels \<times> 's" where
  "handleMessage V fr now cancelled sub st =
     (case sub of
        None \<Rightarrow> (Waits, st)
      | Some sb \<Rightarrow>
          (case Receive sb (snd st) of
             ((m, e), s1) \<Rightarrow>
               if (case e of None \<Rightarrow> False
                   | Some x \<Rightarrow> errors_Is x Canceled \<or> Contains (err_text x) ''Subscription has been Shutdown'')
               then (Waits, fst st, s1)
               else if (case e of None \<Rightarrow> False | Some x \<Rightarrow> isNetworkError x) then (Handled e, fst st, s1)
               else if cancelled then (Handled None, fst st, s1)
               else (case m of
                       None \<Rightarrow> (Handled None, fst st, s1)
                     | Some msg \<Rightarrow> (case processMessage V fr now msg (fst st, s1) of (r, st2) \<Rightarrow> (Handled r, st2)))))"

text \<open>One turn of \<open>Start\<close>, by the subscription whose result comes first.\<close>

datatype origin = From_http | From_stream

definition receiver_turn ::
  "'s receiver_lib \<Rightarrow> int \<Rightarrow> origin \<Rightarrow> 's FileReceiver \<times> channels \<times> 's \<Rightarrow> 's FileReceiver \<times> channels \<times> 's" where
  "receiver_turn V now src w =
     (case w of (fr, st) \<Rightarrow>
       (case src of
          From_http \<Rightarrow> (fr, snd (handleMessage V fr now False (httpFiles fr) st))
        | From_stream \<Rightarrow>
            (case handleMessage V fr now False (streamFiles fr) st of
               (Handled (Some e), ch, s1) \<Rightarrow>
                 if isNetworkError e
                 then (case reconnect V fr s1 of ((_, fr1), s2) \<Rightarrow> (fr1, ch, s2))
                 else (fr, ch, s1)
             | (_, st1) \<Rightarrow> (fr, st1))))"

section \<open>Starting the pipeline\<close>

text \<open>The aggregators of the configured shards; the first that fails ends the start.\<close>

fun start_aggregators ::
  "'s pipeline_lib \<Rightarrow> 's setup_lib \<Rightarrow> 's emitter \<Rightarrow> Config \<Rightarrow> Shard list \<Rightarrow> 's
     \<Rightarrow> (err + (string \<times> 's aggregator option) list) \<times> 's" where
  "start_aggregators P U em cfg [] s = (Inr [], s)"
| "start_aggregators P U em cfg (sh # shs) s =
     (case newAggregator P U em sh (cf_Upload cfg) (cf_Errors cfg) s of
        (Inl e, s1) \<Rightarrow> (Inl (errorf_v (''problem starting shard='' @ sh_Name sh @ '': '') e), s1)
      | (Inr g, s1) \<Rightarrow>
          (case start_aggregators P U em cfg shs s1 of
             (Inl e, s2) \<Rightarrow> (Inl e, s2)
           | (Inr gs, s2) \<Rightarrow> (Inr (gs @ [(sh_Name sh, Some g)]), s2)))"

text \<open>Later shards of the same name replace earlier ones in the map, so they come first here.\<close>

definition pipeline_Start ::
  "'s pipeline_lib \<Rightarrow> 's setup_lib \<Rightarrow> 's receiver_lib \<Rightarrow> 's webhook_lib \<Rightarrow> 's emitter \<Rightarrow> Config \<Rightarrow> 's shard_repository
     \<Rightarrow> 's files_repository \<Rightarrow> 's subscription option \<Rightarrow> 's \<Rightarrow> (err + 's FileReceiver) \<times> 's" where
  "pipeline_Start P U V H mock cfg shards repo http s =
     (case NewEmitter (rl_events V) (rl_pubsub V) H mock (cf_Events cfg) of
        Inl e \<Rightarrow> (Inl (errorf_v ''pipeline: error creating event emitter: '' e), s)
      | Inr em \<Rightarrow>
          (case start_aggregators P U em cfg (Shards (cf_Sharding cfg)) s of
             (Inl e, s1) \<Rightarrow> (Inl e, s1)
           | (Inr aggs, s1) \<Rightarrow>
               newFileReceiver V cfg em shards aggs repo http
                 (case in_Kafka (cf_Inbound cfg) of None \<Rightarrow> None | Some k \<Rightarrow> kf_Transform k) s1))"

end
