(* ===== verification/World.thy ===== *)
theory World
  imports Receiver
begin

text \<open>
  The parts of a running gateway in one state: its database, its disk and the events it has
  published. The operations of the components act on their part of it; the contracts of the
  components carry over. A gateway is the receiver with one aggregator for each shard, all
  on this state.
\<close>

record world =
  w_db :: db
  w_disk :: os
  w_sent :: "payload list"

definition on_disk :: "(os \<Rightarrow> 'r \<times> os) \<Rightarrow> world \<Rightarrow> 'r \<times> world" where
  "on_disk f w = (case f (w_disk w) of (r, d) \<Rightarrow> (r, w\<lparr>w_disk := d\<rparr>))"

definition on_db :: "(db \<Rightarrow> 'r \<times> db) \<Rightarrow> world \<Rightarrow> 'r \<times> world" where
  "on_db f w = (case f (w_db w) of (r, d) \<Rightarrow> (r, w\<lparr>w_db := d\<rparr>))"

lemma on_disk_eq: "on_disk f w = (r, w') \<longleftrightarrow> (\<exists>d. f (w_disk w) = (r, d) \<and> w' = w\<lparr>w_disk := d\<rparr>)"
  by (auto simp: on_disk_def split: prod.splits)

lemma on_db_eq: "on_db f w = (r, w') \<longleftrightarrow> (\<exists>d. f (w_db w) = (r, d) \<and> w' = w\<lparr>w_db := d\<rparr>)"
  by (auto simp: on_db_def split: prod.splits)

lemma fst_on_disk: "fst (on_disk f w) = fst (f (w_disk w))"
  by (simp add: on_disk_def split: prod.splits)

definition world_chest :: "os chest \<Rightarrow> world chest" where
  "world_chest c =
     \<lparr>Open = (\<lambda>p w. Open c p (w_disk w)), Glob = (\<lambda>p w. Glob c p (w_disk w)),
      ReadDir = (\<lambda>p w. ReadDir c p (w_disk w)), ReplaceFile = (\<lambda>a b. on_disk (ReplaceFile c a b)),
      ReplaceDir = (\<lambda>a b. on_disk (ReplaceDir c a b)), MkdirAll = (\<lambda>p. on_disk (MkdirAll c p)),
      RmdirAll = (\<lambda>p. on_disk (RmdirAll c p)), WriteFile = (\<lambda>p d. on_disk (WriteFile c p d))\<rparr>"

definition world_files :: "db files_repository \<Rightarrow> world files_repository" where
  "world_files r = \<lparr>Record = (\<lambda>f. on_db (Record r f)), repo_Cleanup = (\<lambda>f. on_db (repo_Cleanup r f)),
     Cancel = (\<lambda>i. on_db (Cancel r i))\<rparr>"

definition world_shards :: "db shard_repository \<Rightarrow> world shard_repository" where
  "world_shards r = \<lparr>Lookup = (\<lambda>k w. Lookup r k (w_db w)), shards_List = (\<lambda>w. shards_List r (w_db w)),
     Add = (\<lambda>m e. on_db (Add r m e))\<rparr>"

text \<open>An emitter whose publishing fails or not by \<open>outcome\<close> and otherwise adds to what was sent.\<close>

definition world_emitter :: "(payload \<Rightarrow> err option) \<Rightarrow> world emitter" where
  "world_emitter outcome e w =
     (case outcome e of Some x \<Rightarrow> (Some x, w) | None \<Rightarrow> (None, w\<lparr>w_sent := w_sent w @ [e]\<rparr>))"

section \<open>The contracts carry over\<close>

lemma world_chest_tree:
  assumes "chest_tree c ok node"
  shows "chest_tree (world_chest c) (\<lambda>w. ok (w_disk w)) (\<lambda>w. node (w_disk w))"
proof (unfold_locales, unfold world_chest_def chest.select_convs on_disk_eq fst_on_disk, goal_cases)
  case 1 then show ?case by (rule chest_tree.root_dir[OF assms])
next
  case 2 then show ?case by (rule chest_tree.parent_dir[OF assms])
next
  case 3 then show ?case by (rule chest_tree.plain_nodes[OF assms])
next
  case 4 then show ?case by (auto dest: chest_tree.write_done[OF assms])
next
  case 5 then show ?case by (auto dest: chest_tree.write_failed[OF assms])
next
  case 6 then show ?case by (auto dest: chest_tree.replace_file_done[OF assms])
next
  case 7 then show ?case by (auto dest: chest_tree.replace_file_failed[OF assms])
next
  case 8 then show ?case by (rule chest_tree.replace_file_ok[OF assms])
next
  case 9 then show ?case by (auto dest: chest_tree.replace_dir_done[OF assms])
next
  case 10 then show ?case by (auto dest: chest_tree.replace_dir_failed[OF assms])
next
  case 11 then show ?case by (rule chest_tree.replace_dir_ok[OF assms])
next
  case 12 then show ?case by (auto dest: chest_tree.mkdir_done[OF assms])
next
  case 13 then show ?case by (auto dest: chest_tree.mkdir_failed[OF assms])
next
  case 14 then show ?case by (auto dest: chest_tree.rmdir_done[OF assms])
next
  case 15 then show ?case by (auto dest: chest_tree.rmdir_failed[OF assms])
next
  case 16 then show ?case by (rule chest_tree.glob_iff[OF assms])
next
  case 17 then show ?case by (rule chest_tree.glob_ok[OF assms])
next
  case 18 then show ?case by (rule chest_tree.read_dir_iff[OF assms])
next
  case 19 then show ?case by (rule chest_tree.read_dir_sorted[OF assms])
next
  case 20 then show ?case by (rule chest_tree.read_dir_ok[OF assms])
next
  case 21 then show ?case by (rule chest_tree.read_root_iff[OF assms])
next
  case 22 then show ?case by (rule chest_tree.read_root_ok[OF assms])
next
  case 23 then show ?case by (rule chest_tree.read_root_sorted[OF assms])
next
  case 24 then show ?case by (rule chest_tree.open_node[OF assms])
qed

interpretation world_disk: chest_tree "world_chest (filesystem_chest root)" "\<lambda>w. fs_inv root (w_disk w)"
  "\<lambda>w. fs_node root (w_disk w)"
  by (rule world_chest_tree, unfold_locales)

definition db_ok :: "db \<Rightarrow> bool" where
  "db_ok d \<longleftrightarrow> wf_db d \<and> (\<forall>e. db_err d = Some e \<longrightarrow> \<not> errors_Is e UniqueViolation)"

lemma world_files_repo:
  assumes "files_repo r ok known"
  shows "files_repo (world_files r) (\<lambda>w. ok (w_db w)) (\<lambda>w. known (w_db w))"
proof (unfold_locales, unfold world_files_def files_repository.select_convs on_db_eq, goal_cases)
  case 1 then show ?case by (auto dest: files_repo.record_new[OF assms])
next
  case 2 then show ?case by (auto dest: files_repo.record_failed[OF assms])
next
  case 3 then show ?case by (auto dest: files_repo.record_known[OF assms])
next
  case 4 then show ?case by (auto dest: files_repo.cleanup_done[OF assms])
next
  case 5 then show ?case by (auto dest: files_repo.cleanup_failed[OF assms])
next
  case 6 then show ?case by (auto dest: files_repo.cancel_keeps[OF assms])
qed

interpretation world_sql: files_repo "world_files (sqlRepository now)" "\<lambda>w. db_ok (w_db w)" "\<lambda>w. db_files (w_db w)"
  unfolding db_ok_def by (rule world_files_repo) (rule sql_files.files_repo_axioms)

lemma world_shard_repo:
  assumes "shard_repo r ok mapped"
  shows "shard_repo (world_shards r) (\<lambda>w. ok (w_db w)) (\<lambda>w. mapped (w_db w))"
proof (unfold_locales, unfold world_shards_def shard_repository.select_convs on_db_eq, goal_cases)
  case 1 then show ?case by (rule shard_repo.lookup_mapped[OF assms])
next
  case 2 then show ?case by (rule shard_repo.lookup_unmapped[OF assms])
next
  case 3 then show ?case by (auto dest: shard_repo.add_new[OF assms])
next
  case 4 then show ?case by (auto dest: shard_repo.add_old[OF assms])
next
  case 5 then show ?case by (auto dest: shard_repo.add_failed[OF assms])
qed

interpretation world_mappings: shard_repo "world_shards sql_shards" "\<lambda>w. db_err (w_db w) = None" "\<lambda>w. db_mapped (w_db w)"
  by (rule world_shard_repo) (rule sql_mappings.shard_repo_axioms)

interpretation world_inmem: shard_repo "world_shards inmem_shards" "\<lambda>_. True" "\<lambda>w. db_mapped (w_db w)"
  by (rule world_shard_repo[where ok = "\<lambda>_. True"]) (rule inmem_mappings.shard_repo_axioms)

section \<open>A gateway\<close>

record gateway =
  gw_outside :: "world outside"
  gw_root :: string
  gw_agents :: UploadAgents
  gw_shards :: "Shard list"
  gw_default :: string
  gw_kafka :: "KafkaConfig option"
  gw_transform :: "TransformConfig option"
  gw_outcome :: "payload \<Rightarrow> err option"
  gw_audit :: "world audit_storage"
  gw_transformers :: "Shard \<Rightarrow> pre_upload list"
  gw_output :: "Shard \<Rightarrow> formatter"
  gw_alerters :: "world alerters"
  gw_now :: int

definition gw_merging :: "gateway \<Rightarrow> Shard \<Rightarrow> world filesystemMerging" where
  "gw_merging G shard = \<lparr>fm_cfg = gw_agents G, fm_storage = world_chest (filesystem_chest (gw_root G)), fm_shard = shard\<rparr>"

definition gw_aggregator :: "gateway \<Rightarrow> Shard \<Rightarrow> world aggregator" where
  "gw_aggregator G shard =
     \<lparr>agg_eventEmitter = world_emitter (gw_outcome G), agg_shard = shard, agg_uploadAgents = gw_agents G,
      agg_cutoffs = \<lparr>jobs = [], firstCutoff = []\<rparr>, agg_merger = filesystem_merger (gw_outside G) (gw_merging G shard),
      agg_auditStorage = gw_audit G, agg_transformers = gw_transformers G shard,
      agg_outputFormatter = gw_output G shard, agg_alerters = gw_alerters G,
      agg_cleanup = (case mg_Cleanup (ua_Merging (gw_agents G)) of
                       Some c \<Rightarrow> if cl_Enabled c then NewCleanupService (fm_storage (gw_merging G shard)) shard (Some c) else None
                     | None \<Rightarrow> None)\<rparr>"

definition gw_receiver :: "gateway \<Rightarrow> world FileReceiver" where
  "gw_receiver G =
     \<lparr>defaultShardName = gw_default G, fr_Kafka = gw_kafka G, fr_InMem = None,
      fr_eventEmitter = world_emitter (gw_outcome G), fr_shardRepository = world_shards sql_shards,
      shardAggregators = map (\<lambda>sh. (sh_Name sh, Some (gw_aggregator G sh))) (gw_shards G),
      fr_fileRepository = world_files (sqlRepository (gw_now G)), httpFiles = None, streamFiles = None,
      fr_transformConfig = gw_transform G\<rparr>"

end
