(* ===== verification/Sample_Gateway.thy ===== *)
theory Sample_Gateway
  imports World
begin

text \<open>
  A concrete gateway over the sample disk, for the witnesses: one shard, an empty database,
  events written as a letter and a file id. \<open>Q\<close> queues a file, \<open>C\<close> cancels one, \<open>B\<close> queues
  one whose contents cannot be read.
\<close>

definition sample_envelope :: "bytes \<Rightarrow> err + string \<times> bytes" where
  "sample_envelope bs =
     (case bs of
        [] \<Rightarrow> Inl (errors_New ''unexpected end of JSON input'')
      | c # raw \<Rightarrow>
          if c = CHR ''Q'' then Inr (''QueueACHFile'', raw)
          else if c = CHR ''B'' then Inr (''QueueACHFile'', [])
          else if c = CHR ''C'' then Inr (''CancelACHFile'', raw)
          else Inr (''Unknown'', raw))"

definition sample_into :: "bytes \<Rightarrow> payload \<Rightarrow> payload \<times> err option" where
  "sample_into raw p =
     (case p of
        QueueACHFile q \<Rightarrow> if raw = [] then (p, Some (errors_New ''invalid file'')) else (QueueACHFile (sample_queue_file raw), None)
      | CancelACHFile _ \<Rightarrow> (CancelACHFile (sample_cancel raw), None)
      | _ \<Rightarrow> (p, None))"

definition sample_json :: json_lib where
  "sample_json = \<lparr>json_envelope = sample_envelope, json_into = sample_into, json_nil_error = errors_New ''nil'',
     json_event = (\<lambda>_ t. Inr t)\<rparr>"

definition sample_pubsub :: "'s pubsub_lib" where
  "sample_pubsub = \<lparr>split_URL = (\<lambda>_. Inl ENOENT), OpenTopic = (\<lambda>_. Inl ENOENT), OpenSub = (\<lambda>_. Inl ENOENT),
     kafka_OpenTopic = (\<lambda>_. Inl ENOENT), kafka_OpenSub = (\<lambda>_. Inl ENOENT),
     ProducerError_As = (\<lambda>_. Other_error), ConsumerError_As = (\<lambda>_. Other_error)\<rparr>"

definition sample_receiver_lib :: "'s receiver_lib" where
  "sample_receiver_lib =
     \<lparr>rl_events = \<lparr>json = sample_json, crypto = plain_crypto, event_nonce = Inr ''no'', event_ach = sample_lib\<rparr>,
      rl_pubsub = sample_pubsub, rl_hostname = ''host''\<rparr>"

definition sample_audit :: "'s audit_storage" where
  "sample_audit = \<lparr>SaveFile = (\<lambda>_ _ s. (None, s)), GetFile = (\<lambda>_ _. Inr []), audit_Close = (\<lambda>s. (None, s))\<rparr>"

definition sample_gateway :: gateway where
  "sample_gateway =
     \<lparr>gw_outside = sample_outside, gw_root = ''/data'', gw_agents = sample_agents, gw_shards = [sample_shard],
      gw_default = ''prod'', gw_kafka = None, gw_transform = None, gw_outcome = (\<lambda>_. None),
      gw_audit = sample_audit, gw_transformers = (\<lambda>_. []), gw_output = (\<lambda>_. NACHA []), gw_alerters = [], gw_now = 7\<rparr>"

definition sample_world :: world where
  "sample_world = \<lparr>w_db = \<lparr>files_tbl = [], mappings_tbl = [], db_err = None\<rparr>, w_disk = sample_disk, w_sent = []\<rparr>"

definition sample_message :: "bytes \<Rightarrow> 's pub_message" where
  "sample_message b = \<lparr>msg_Body = b, Ack = (\<lambda>s. s)\<rparr>"

end
