(* ===== verification/Receiver_Proofs.thy ===== *)
theory Receiver_Proofs
  imports Sample_Gateway
begin

text \<open>
  What the receiver guarantees over any sequence of messages: a file id is accepted at most
  once however often it is delivered, a message is acknowledged only when it was dealt with,
  a file that fails is reported and forgotten so that it can be delivered again, and each
  shard key reaches the aggregator its mapping names.
\<close>

section \<open>What the receiver relies on\<close>

text \<open>
  \<open>intake\<close>: the repository of accepted files keeps its contract, and nothing else the
  receiver calls touches what it knows.
\<close>

locale intake = files_repo r ok known
  for r :: "'s files_repository" and ok :: "'s \<Rightarrow> bool" and known :: "'s \<Rightarrow> string \<rightharpoonup> string" +
  fixes fr :: "'s FileReceiver"
  assumes repository: "fr_fileRepository fr = r"
    and emit_keeps: "ok s \<Longrightarrow> fr_eventEmitter fr e s = (x, s') \<Longrightarrow> ok s' \<and> known s' = known s"
    and xfer_keeps: "(n, Some g) \<in> set (shardAggregators fr) \<Longrightarrow> ok s \<Longrightarrow>
        xm_HandleXfer (agg_merger g) f s = (x, s') \<Longrightarrow> ok s' \<and> known s' = known s"
    and cancel_keeps_known: "(n, Some g) \<in> set (shardAggregators fr) \<Longrightarrow> ok s \<Longrightarrow>
        xm_HandleCancel (agg_merger g) c s = (y, s') \<Longrightarrow> ok s' \<and> known s' = known s"
    and agg_emit_keeps: "(n, Some g) \<in> set (shardAggregators fr) \<Longrightarrow> ok s \<Longrightarrow>
        agg_eventEmitter g e s = (x, s') \<Longrightarrow> ok s' \<and> known s' = known s"

definition accepted_ids :: "channels \<Rightarrow> string list" where
  "accepted_ids ch = map qr_FileID (QueueFileResponses ch)"

text \<open>
  What one file does: it is accepted, once and with a new id, or it leaves the accepted ones
  and everything that was known before.
\<close>

definition file_effect :: "('s \<Rightarrow> string \<rightharpoonup> string) \<Rightarrow> string \<Rightarrow> channels \<times> 's \<Rightarrow> channels \<times> 's \<Rightarrow> bool" where
  "file_effect known i st st' \<longleftrightarrow>
     (known (snd st) i = None \<and> known (snd st') i \<noteq> None \<and> accepted_ids (fst st') = accepted_ids (fst st) @ [i] \<or>
      accepted_ids (fst st') = accepted_ids (fst st)) \<and>
     (\<forall>k. known (snd st) k \<noteq> None \<longrightarrow> known (snd st') k \<noteq> None)"

lemma getAggregator_in: "getAggregator fr k s = Some g \<Longrightarrow> \<exists>n. (n, Some g) \<in> set (shardAggregators fr)"
  by (auto simp: getAggregator_def Let_def split: prod.splits if_splits option.splits dest: map_of_SomeD)

text \<open>What \<open>processACHFile\<close> and \<open>cancelACHFile\<close> can have done.\<close>

lemma processACHFile_cases [consumes 1, case_names skipped unrecorded accepted failed]:
  assumes "processACHFile V fr now f (ch, s) = (e, ch', s')"
  obtains "ch' = ch" "s' = s"
  | x where "Record (fr_fileRepository fr) (acceptance V now f) s = (Some x, s')" "ch' = ch"
  | g n s1 resp where "getAggregator fr (FileShardKey f) s = Some g" "(n, Some g) \<in> set (shardAggregators fr)"
      "Record (fr_fileRepository fr) (acceptance V now f) s = (None, s1)" "xm_HandleXfer (agg_merger g) f s1 = (None, s')"
      "e = None" "ch' = ch\<lparr>QueueFileResponses := QueueFileResponses ch @ [resp]\<rparr>" "qr_FileID resp = FileID f"
  | g n s1 x s2 ce where "getAggregator fr (FileShardKey f) s = Some g" "(n, Some g) \<in> set (shardAggregators fr)"
      "Record (fr_fileRepository fr) (acceptance V now f) s = (None, s1)" "xm_HandleXfer (agg_merger g) f s1 = (Some x, s2)"
      "repo_Cleanup (fr_fileRepository fr) (acceptance V now f) s2 = (ce, s')" "ch' = ch" "e \<noteq> None"
proof (cases "FileID f = [] \<or> FileShardKey f = [] \<or> ACHFile_Validate f \<noteq> None \<or> getAggregator fr (FileShardKey f) s = None")
  case True
  with assms that(1) show thesis by (auto simp: processACHFile_def split: if_splits)
next
  case False
  then obtain g n where g: "getAggregator fr (FileShardKey f) s = Some g" "(n, Some g) \<in> set (shardAggregators fr)"
    using getAggregator_in[of fr "FileShardKey f" s] by auto
  obtain re s1 where re: "Record (fr_fileRepository fr) (acceptance V now f) s = (re, s1)" by fastforce
  obtain xe s2 where x: "xm_HandleXfer (agg_merger g) f s1 = (xe, s2)" by fastforce
  obtain ce s3 where c: "repo_Cleanup (fr_fileRepository fr) (acceptance V now f) s2 = (ce, s3)" by fastforce
  note eq = assms[unfolded processACHFile_def, simplified Let_def acceptFile_def re x c prod.case g]
  show thesis
  proof (cases re)
    case (Some y)
    with eq False that(2)[of y] re show thesis by (auto split: if_splits)
  next
    case None
    with eq False that(3)[OF g] that(4)[OF g] re x c show thesis by (cases xe) auto
  qed
qed

lemma cancelACHFile_cases [consumes 1, case_names skipped unrecorded handled]:
  assumes "cancelACHFile fr (Some x) (ch, s) = (e, ch', s')"
  obtains "ch' = ch" "s' = s"
  | y where "Cancel (fr_fileRepository fr) (cancel_FileID x) s = (Some y, s')" "ch' = ch"
  | g n s1 resp he s2 where "getAggregator fr (cancel_ShardKey x) s = Some g" "(n, Some g) \<in> set (shardAggregators fr)"
      "Cancel (fr_fileRepository fr) (cancel_FileID x) s = (None, s1)" "xm_HandleCancel (agg_merger g) x s1 = ((resp, he), s2)"
      "s' = s2 \<or> s' = snd (agg_eventEmitter g (FileCancellationResponse resp) s2)" "QueueFileResponses ch' = QueueFileResponses ch"
proof (cases "cancel_FileID x = [] \<or> cancel_ShardKey x = [] \<or> getAggregator fr (cancel_ShardKey x) s = None")
  case True
  with assms that(1) show thesis by (auto simp: cancelACHFile_def split: if_splits)
next
  case False
  then obtain g n where g: "getAggregator fr (cancel_ShardKey x) s = Some g" "(n, Some g) \<in> set (shardAggregators fr)"
    using getAggregator_in[of fr "cancel_ShardKey x" s] by auto
  obtain ce s1 where ce: "Cancel (fr_fileRepository fr) (cancel_FileID x) s = (ce, s1)" by fastforce
  obtain resp he s2 where h: "xm_HandleCancel (agg_merger g) x s1 = ((resp, he), s2)" by (metis prod.exhaust)
  obtain ee s3 where em: "agg_eventEmitter g (FileCancellationResponse resp) s2 = (ee, s3)" by fastforce
  note eq = assms[unfolded cancelACHFile_def, simplified cancelFile_def ce h em prod.case g]
  show thesis
  proof (cases ce)
    case (Some y)
    with eq False that(2)[of y] ce show thesis by auto
  next
    case None
    with eq False g(1) that(3)[OF g, of s1 resp he s2] ce h em show thesis by (cases he; cases ee) auto
  qed
qed

text \<open>What \<open>processMessage\<close> can have done, by what the message was read as.\<close>

definition reads :: "'s receiver_lib \<Rightarrow> 's FileReceiver \<Rightarrow> 's pub_message \<Rightarrow> payload \<Rightarrow> bool" where
  "reads V fr msg p \<longleftrightarrow>
     (\<exists>data t e. compliance_Reveal (crypto (rl_events V)) (fr_transformConfig fr) (msg_Body msg) = Inr data \<and>
        models_Read (json (rl_events V)) (event_ach (rl_events V)) data = (Some (t, Some p), e))"

lemma processMessage_cases [consumes 1, case_names unread cancelled invalid accepted rejected]:
  assumes "processMessage V fr now msg st0 = (e, st')"
  obtains "st' = ack (\<not> shouldAutocommit fr) msg st0"
  | x st1 where "cancelACHFile fr (Some x) (ack (\<not> shouldAutocommit fr) msg st0) = (e, st1)"
      "st' = (if e = None then ack (shouldAutocommit fr) msg st1 else st1)" "reads V fr msg (CancelACHFile x)"
  | f re pe s1 where "produceInvalidQueueFile V fr f re (snd (ack (\<not> shouldAutocommit fr) msg st0)) = (pe, s1)"
      "st' = (fst (ack (\<not> shouldAutocommit fr) msg st0), s1)" "e \<noteq> None"
  | f st1 where "processACHFile V fr now f (ack (\<not> shouldAutocommit fr) msg st0) = (None, st1)" "e = None"
      "st' = ack (shouldAutocommit fr) msg st1" "reads V fr msg (QueueACHFile f)"
  | f x ch1 s1 pe s2 where "processACHFile V fr now f (ack (\<not> shouldAutocommit fr) msg st0) = (Some x, ch1, s1)"
      "produceInvalidQueueFile V fr f x s1 = (pe, s2)" "st' = (ch1, s2)" "e \<noteq> None"
      "reads V fr msg (QueueACHFile f)"
proof -
  define st where "st = ack (\<not> shouldAutocommit fr) msg st0"
  note p = assms[unfolded processMessage_def Let_def st_def[symmetric]]
  note th = that[unfolded st_def[symmetric]]
  consider data where "compliance_Reveal (crypto (rl_events V)) (fr_transformConfig fr) (msg_Body msg) = Inr data"
    | "st' = st" using p by (cases "compliance_Reveal (crypto (rl_events V)) (fr_transformConfig fr) (msg_Body msg)") auto
  then show thesis
  proof cases
    case (1 data)
    obtain ev re where r: "models_Read (json (rl_events V)) (event_ach (rl_events V)) data = (ev, re)" by fastforce
    note q = p[unfolded 1 sum.case r prod.case]
    have rd: "reads V fr msg p" if "ev = Some (t, Some p)" for t p using 1 r that by (auto simp: reads_def)
    consider "st' = st" | t x where "ev = Some (t, Some (CancelACHFile x))"
      | t f e1 where "ev = Some (t, Some (QueueACHFile f))" "re = Some e1"
      | t f where "ev = Some (t, Some (QueueACHFile f))" "re = None"
      using q by (cases re) (auto split: option.splits payload.splits)
    then show thesis
    proof cases
      case (2 t x)
      obtain ce st1 where c: "cancelACHFile fr (Some x) st = (ce, st1)" by (metis prod.exhaust)
      from th(2)[of x st1] q[unfolded 2] c rd[OF 2] show thesis by (cases ce) auto
    next
      case (3 t f e1)
      obtain pe s1 where i: "produceInvalidQueueFile V fr f e1 (snd st) = (pe, s1)" by fastforce
      from th(3)[OF i] q[unfolded 3] i show thesis by (cases pe) auto
    next
      case (4 t f)
      obtain xe ch1 s1 where x: "processACHFile V fr now f st = (xe, ch1, s1)" by (metis prod.exhaust)
      show thesis
      proof (cases xe)
        case None
        with th(4)[of f "(ch1, s1)"] q[unfolded 4] x rd[OF 4(1)] show thesis by auto
      next
        case (Some y)
        obtain pe s2 where i: "produceInvalidQueueFile V fr f y s1 = (pe, s2)" by fastforce
        from th(5)[OF x[unfolded Some] i] q[unfolded 4] x Some i rd[OF 4(1)] show thesis by (cases pe) auto
      qed
    qed (use th(1) in blast)
  qed (use th(1) in blast)
qed

context intake
begin

lemma processACHFile_effect:
  assumes "ok s" and "processACHFile V fr now f (ch, s) = (e, ch', s')"
  shows "ok s' \<and> file_effect known (FileID f) (ch, s) (ch', s')"
using assms(2)
proof (cases rule: processACHFile_cases)
  case skipped
  with assms(1) show ?thesis by (simp add: file_effect_def)
next
  case (unrecorded x)
  from record_failed[OF assms(1) unrecorded(1)[unfolded repository]] unrecorded(2) show ?thesis by (simp add: file_effect_def)
next
  case (accepted g n s1 resp)
  from record_new[OF assms(1) accepted(3)[unfolded repository]]
  have k: "ok s1" "known s (FileID f) = None" "known s1 = (known s)(FileID f \<mapsto> FileShardKey f)" by (auto simp: acceptance_def)
  from xfer_keeps[OF accepted(2) k(1) accepted(4)] k accepted(6,7) show ?thesis by (auto simp: file_effect_def accepted_ids_def)
next
  case (failed g n s1 x s2 ce)
  from record_new[OF assms(1) failed(3)[unfolded repository]]
  have k: "ok s1" "known s (FileID f) = None" "known s1 = (known s)(FileID f \<mapsto> FileShardKey f)" by (auto simp: acceptance_def)
  from xfer_keeps[OF failed(2) k(1) failed(4)] k have k2: "ok s2" "known s2 = (known s)(FileID f \<mapsto> FileShardKey f)" by simp_all
  have "ok s' \<and> (\<forall>i. known s i \<noteq> None \<longrightarrow> known s' i \<noteq> None)"
  proof (cases ce)
    case None
    with failed(5) cleanup_done[OF k2(1), of "acceptance V now f" s'] k2 k(2)
    have "ok s'" "known s' = (known s2)(FileID f := None)" by (auto simp: repository acceptance_def)
    with k2 k(2) show ?thesis by auto
  next
    case (Some z)
    with failed(5) cleanup_failed[OF k2(1), of "acceptance V now f"] k2 show ?thesis by (auto simp: repository)
  qed
  with failed(6) show ?thesis by (simp add: file_effect_def)
qed

lemma processACHFile_failed:
  assumes "ok s" and "processACHFile V fr now f (ch, s) = (Some e, ch', s')"
    and "\<And>s f. ok s \<Longrightarrow> fst (repo_Cleanup r f s) = None"
  shows "ok s' \<and> known s' = known s \<and> ch' = ch"
using assms(2)
proof (cases rule: processACHFile_cases)
  case skipped
  with assms(1) show ?thesis by simp
next
  case (unrecorded x)
  from record_failed[OF assms(1) unrecorded(1)[unfolded repository]] unrecorded(2) show ?thesis by simp
next
  case (failed g n s1 x s2 ce)
  note re = failed(3)[unfolded repository]
  have k1: "ok s1" using record_new[OF assms(1) re] by blast
  from xfer_keeps[OF failed(2) k1 failed(4)] have k2: "ok s2" "known s2 = known s1" by auto
  have c: "repo_Cleanup r (acceptance V now f) s2 = (None, s')"
    using assms(3)[OF k2(1), of "acceptance V now f"] failed(5) by (simp add: repository)
  from record_then_cleanup[OF assms(1) re k2 c] cleanup_done[OF k2(1) c] k2(2) record_new[OF assms(1) re] failed(6)
  show ?thesis by simp
qed simp

lemma cancelACHFile_keeps:
  assumes "ok s" and "cancelACHFile fr (Some x) (ch, s) = (e, ch', s')"
  shows "ok s' \<and> known s' = known s \<and> accepted_ids ch' = accepted_ids ch"
  using assms(2)
proof (cases rule: cancelACHFile_cases)
  case skipped
  with assms(1) show ?thesis by simp
next
  case (unrecorded y)
  from cancel_keeps[OF assms(1) unrecorded(1)[unfolded repository]] unrecorded(2) show ?thesis by simp
next
  case (handled g n s1 resp he s2)
  from cancel_keeps[OF assms(1) handled(3)[unfolded repository]] have k1: "ok s1" "known s1 = known s" by auto
  from cancel_keeps_known[OF handled(2) k1(1) handled(4)] k1 have k2: "ok s2" "known s2 = known s" by auto
  obtain ee s3 where em: "agg_eventEmitter g (FileCancellationResponse resp) s2 = (ee, s3)" by fastforce
  from agg_emit_keeps[OF handled(2) k2(1) em] k2 handled(5,6) em show ?thesis by (auto simp: accepted_ids_def)
qed

lemma processMessage_effect:
  assumes "ok s" and "\<And>s. ok s \<Longrightarrow> ok (Ack msg s) \<and> known (Ack msg s) = known s"
    and "processMessage V fr now msg (ch, s) = (e, ch', s')"
  shows "ok s' \<and> (\<exists>i. file_effect known i (ch, s) (ch', s'))"
proof -
  define s0 where "s0 = snd (ack (\<not> shouldAutocommit fr) msg (ch, s))"
  have st: "ack (\<not> shouldAutocommit fr) msg (ch, s) = (ch, s0)" by (simp add: s0_def ack_def)
  have s0: "ok s0" "known s0 = known s" using assms(1,2) by (auto simp: s0_def ack_def)
  have keep: "file_effect known i (ch, s) (ch, t)" if "known t = known s" for i t
    using that by (simp add: file_effect_def)
  have ack: "ok (snd (ack b msg (c, t))) \<and> known (snd (ack b msg (c, t))) = known t \<and> fst (ack b msg (c, t)) = c"
    if "ok t" for b c t
    using that assms(2) by (simp add: ack_def)
  from assms(3) show ?thesis
  proof (cases rule: processMessage_cases)
    case unread
    with st s0 keep show ?thesis by auto
  next
    case (cancelled x st1)
    obtain c1 s1 where st1: "st1 = (c1, s1)" by (cases st1)
    from cancelACHFile_keeps[OF s0(1) cancelled(1)[unfolded st st1]]
    have k: "ok s1" "known s1 = known s" "accepted_ids c1 = accepted_ids ch" using s0 by auto
    have "(ch', s') = ack (e \<noteq> None \<or> shouldAutocommit fr) msg (c1, s1)" using cancelled(2) st1 by (auto simp: ack_def)
    with ack[OF k(1), of "e \<noteq> None \<or> shouldAutocommit fr" c1] k show ?thesis by (auto simp: file_effect_def dest: sym)
  next
    case (invalid f re pe s1)
    with emit_keeps[OF s0(1)] s0 keep st show ?thesis by (auto simp: produceInvalidQueueFile_def)
  next
    case (accepted f st1)
    obtain c1 s1 where st1: "st1 = (c1, s1)" by (cases st1)
    from processACHFile_effect[OF s0(1) accepted(1)[unfolded st st1]]
    have k: "ok s1" "file_effect known (FileID f) (ch, s0) (c1, s1)" by blast+
    from accepted(3) st1 ack[OF k(1), of "shouldAutocommit fr" c1] have "ok s'" "known s' = known s1" "ch' = c1"
      by (metis fst_conv snd_conv)+
    with k(2) s0(2) show ?thesis by (auto simp: file_effect_def)
  next
    case (rejected f x ch1 s1 pe s2)
    from processACHFile_effect[OF s0(1) rejected(1)[unfolded st]]
    have k: "ok s1" "file_effect known (FileID f) (ch, s0) (ch1, s1)" by blast+
    from emit_keeps[OF k(1) rejected(2)[unfolded produceInvalidQueueFile_def]] rejected(3) k(2) s0(2)
    show ?thesis by (auto simp: file_effect_def)
  qed
qed

end

text \<open>A run over messages, each with the time it is processed at.\<close>

definition run_messages ::
  "'s receiver_lib \<Rightarrow> 's FileReceiver \<Rightarrow> (int \<times> 's pub_message) list \<Rightarrow> channels \<times> 's \<Rightarrow> channels \<times> 's" where
  "run_messages V fr ms st = fold (\<lambda>m st. snd (processMessage V fr (fst m) (snd m) st)) ms st"

definition accepted_once :: "('s \<Rightarrow> string \<rightharpoonup> string) \<Rightarrow> 's \<Rightarrow> channels \<times> 's \<Rightarrow> bool" where
  "accepted_once known s0 st \<longleftrightarrow> distinct (accepted_ids (fst st)) \<and>
     (\<forall>i\<in>set (accepted_ids (fst st)). known s0 i = None \<and> known (snd st) i \<noteq> None) \<and>
     (\<forall>i. known s0 i \<noteq> None \<longrightarrow> known (snd st) i \<noteq> None)"

lemma accepted_once_effect: "accepted_once known s0 st \<Longrightarrow> file_effect known i st st' \<Longrightarrow> accepted_once known s0 st'"
proof -
  assume once: "accepted_once known s0 st" and e: "file_effect known i st st'"
  have new: "known s0 i = None" "i \<notin> set (accepted_ids (fst st))" if "known (snd st) i = None"
    using once that unfolding accepted_once_def by (metis, metis)
  have old: "known (snd st') k \<noteq> None" if "k \<in> set (accepted_ids (fst st)) \<or> known s0 k \<noteq> None" for k
    using once e that unfolding accepted_once_def file_effect_def by metis
  have ids: "distinct (accepted_ids (fst st))" "\<And>k. k \<in> set (accepted_ids (fst st)) \<Longrightarrow> known s0 k = None"
    using once unfolding accepted_once_def by blast+
  from e consider "known (snd st) i = None" "known (snd st') i \<noteq> None" "accepted_ids (fst st') = accepted_ids (fst st) @ [i]"
    | "accepted_ids (fst st') = accepted_ids (fst st)" unfolding file_effect_def by metis
  then show "accepted_once known s0 st'"
    by cases (use new old ids in \<open>auto simp: accepted_once_def simp del: not_None_eq\<close>)
qed

context intake
begin

lemma run_messages_once:
  assumes "ok s" and "\<forall>m\<in>set ms. \<forall>s. ok s \<longrightarrow> ok (Ack (snd m) s) \<and> known (Ack (snd m) s) = known s"
    and "accepted_once known s0 (ch, s)"
  shows "ok (snd (run_messages V fr ms (ch, s))) \<and> accepted_once known s0 (run_messages V fr ms (ch, s))"
  using assms
proof (induction ms arbitrary: ch s)
  case (Cons m ms)
  obtain e ch1 s1 where p: "processMessage V fr (fst m) (snd m) (ch, s) = (e, ch1, s1)" by (metis prod.exhaust)
  from processMessage_effect[OF Cons.prems(1) _ p] Cons.prems(2) obtain i where
    "ok s1" "file_effect known i (ch, s) (ch1, s1)" by auto
  with accepted_once_effect[OF Cons.prems(3)] Cons.IH[of s1 ch1] Cons.prems(2) p show ?case
    by (simp add: run_messages_def)
qed (simp add: run_messages_def)

end

section \<open>The gateway\<close>

lemma world_emitter_parts: "world_emitter outcome e w = (x, w') \<Longrightarrow> w_db w' = w_db w \<and> w_disk w' = w_disk w"
  by (auto simp: world_emitter_def split: option.splits)

lemma gw_aggregators:
  "(n, Some g) \<in> set (shardAggregators (gw_receiver G)) \<Longrightarrow> \<exists>sh\<in>set (gw_shards G). n = sh_Name sh \<and> g = gw_aggregator G sh"
  by (auto simp: gw_receiver_def)

lemma HandleXfer_world: "HandleXfer L (gw_merging G sh) f w = (x, w') \<Longrightarrow> w_db w' = w_db w"
  by (auto simp: HandleXfer_def writeACHFile_steps gw_merging_def world_chest_def on_disk_def Let_def
      split: option.splits sum.splits prod.splits)

lemma HandleCancel_world: "HandleCancel (gw_merging G sh) c w = (x, w') \<Longrightarrow> w_db w' = w_db w"
  by (auto simp: HandleCancel_def gw_merging_def world_chest_def on_disk_def Let_def split: prod.splits)

interpretation gw: intake "world_files (sqlRepository (gw_now G))" "\<lambda>w. db_ok (w_db w)" "\<lambda>w. db_files (w_db w)" "gw_receiver G"
proof (unfold_locales, goal_cases)
  case 1 show ?case by (simp add: gw_receiver_def)
next
  case 2 then show ?case by (auto simp: gw_receiver_def dest!: world_emitter_parts)
next
  case 3
  from gw_aggregators[OF 3(1)] 3(3) HandleXfer_world show ?case
    using 3(2) by (fastforce simp: gw_aggregator_def filesystem_merger_def)
next
  case 4
  from gw_aggregators[OF 4(1)] 4(3) HandleCancel_world show ?case
    using 4(2) by (fastforce simp: gw_aggregator_def filesystem_merger_def)
next
  case 5 then show ?case by (auto dest!: gw_aggregators world_emitter_parts simp: gw_aggregator_def)
qed


text \<open>The same while the database can be reached.\<close>

definition db_up :: "db \<Rightarrow> bool" where
  "db_up d \<longleftrightarrow> wf_db d \<and> db_err d = None"

lemma sql_db_err:
  "Record (sqlRepository now) f d = (x, d') \<Longrightarrow> db_err d' = db_err d"
  "repo_Cleanup (sqlRepository now) f d = (x, d') \<Longrightarrow> db_err d' = db_err d"
  "Cancel (sqlRepository now) i d = (x, d') \<Longrightarrow> db_err d' = db_err d"
  by (auto simp: sqlRepository_def sql_Record_def sql_Cleanup_def sql_Cancel_def wrap_err_def insert_file_def
      delete_files_def update_files_def split: prod.splits option.splits if_splits)

lemma db_up_ok: "db_up d \<longleftrightarrow> db_ok d \<and> db_err d = None"
  by (auto simp: db_up_def db_ok_def)

interpretation sql_up: files_repo "sqlRepository now" db_up db_files
proof (unfold_locales, unfold db_up_ok db_ok_def, goal_cases)
  case 1 then show ?case using sql_files.record_new sql_db_err(1) by metis
next
  case 2 then show ?case using sql_files.record_failed sql_db_err(1) by metis
next
  case 3 then show ?case using sql_files.record_known by metis
next
  case 4 then show ?case using sql_files.cleanup_done sql_db_err(2) by metis
next
  case 5 then show ?case using sql_files.cleanup_failed sql_db_err(2) by metis
next
  case 6 then show ?case using sql_files.cancel_keeps sql_db_err(3) by metis
qed

interpretation gw_up: intake "world_files (sqlRepository (gw_now G))" "\<lambda>w. db_up (w_db w)" "\<lambda>w. db_files (w_db w)" "gw_receiver G"
proof (rule intake.intro)
  show "files_repo (world_files (sqlRepository (gw_now G))) (\<lambda>w. db_up (w_db w)) (\<lambda>w. db_files (w_db w))"
    by (rule world_files_repo) (rule sql_up.files_repo_axioms)
  show "intake_axioms (world_files (sqlRepository (gw_now G))) (\<lambda>w. db_up (w_db w)) (\<lambda>w. db_files (w_db w)) (gw_receiver G)"
  proof (unfold_locales, goal_cases)
    case 1 show ?case by (simp add: gw_receiver_def)
  next
    case 2 then show ?case by (auto simp: gw_receiver_def dest!: world_emitter_parts)
  next
    case 3
    from gw_aggregators[OF 3(1)] 3(3) HandleXfer_world show ?case
      using 3(2) by (fastforce simp: gw_aggregator_def filesystem_merger_def)
  next
    case 4
    from gw_aggregators[OF 4(1)] 4(3) HandleCancel_world show ?case
      using 4(2) by (fastforce simp: gw_aggregator_def filesystem_merger_def)
  next
    case 5 then show ?case by (auto dest!: gw_aggregators world_emitter_parts simp: gw_aggregator_def)
  qed
qed

section \<open>Properties\<close>

definition no_channels :: channels where
  "no_channels = \<lparr>QueueFileResponses = [], CancellationResponses = []\<rparr>"

text \<open>
  C10. However often and in whatever order files and cancellations are delivered, no file id
  is accepted twice, and none that was recorded before the run: each accepted id is in the
  files table afterwards.
\<close>

theorem accepted_exactly_once:
  assumes "db_ok (w_db w)" and "\<forall>m\<in>set ms. \<forall>v. w_db (Ack (snd m) v) = w_db v"
    and "run_messages V (gw_receiver G) ms (no_channels, w) = (ch', w')"
  shows "distinct (accepted_ids ch') \<and>
    (\<forall>i\<in>set (accepted_ids ch'). db_files (w_db w) i = None \<and> db_files (w_db w') i \<noteq> None)"
proof -
  have "accepted_once (\<lambda>w. db_files (w_db w)) w (no_channels, w)"
    by (simp add: accepted_once_def accepted_ids_def no_channels_def)
  then have "accepted_once (\<lambda>w. db_files (w_db w)) w (run_messages V (gw_receiver G) ms (no_channels, w))"
    using gw.run_messages_once[where G = G and V = V and ms = ms, OF assms(1)] assms(2) by simp
  then show ?thesis using assms(3)
    by (auto simp: accepted_once_def)
qed

lemma accepted_exactly_once_witness:
  "\<exists>ch w. run_messages sample_receiver_lib (gw_receiver sample_gateway)
      (map (\<lambda>b. (1, sample_message b)) [''Qa'', ''Qb'', ''Qa'', ''Ca'', ''Qa'']) (no_channels, sample_world) = (ch, w) \<and>
    accepted_ids ch = [''a'', ''b''] \<and> distinct (accepted_ids ch)"
proof -
  let ?ms = "map (\<lambda>b. (1, sample_message b)) [''Qa'', ''Qb'', ''Qa'', ''Ca'', ''Qa'']"
  define r where "r = run_messages sample_receiver_lib (gw_receiver sample_gateway) ?ms (no_channels, sample_world)"
  have "accepted_ids (fst r) = [''a'', ''b'']" unfolding r_def by code_simp
  moreover have "db_ok (w_db sample_world)" by (simp add: db_ok_def sample_world_def wf_db_def)
  then have "distinct (accepted_ids (fst r))"
    using accepted_exactly_once[of sample_world ?ms sample_receiver_lib sample_gateway "fst r" "snd r"]
    by (simp add: r_def sample_message_def)
  ultimately show ?thesis by (intro exI[where x = "fst r"] exI[where x = "snd r"]) (simp add: r_def)
qed

text \<open>
  C30. A file that was not accepted is forgotten again: while the database can be reached,
  processing that ends in an error leaves the recorded ids as they were and sends no
  response, so that a redelivery is not mistaken for a duplicate.
\<close>

theorem failed_file_is_forgotten:
  assumes "db_up (w_db w)" and "processACHFile V (gw_receiver G) now f (ch, w) = (Some e, ch', w')"
  shows "db_files (w_db w') = db_files (w_db w) \<and> ch' = ch"
proof -
  have "fst (repo_Cleanup (world_files (sqlRepository (gw_now G))) a v) = None" if "db_up (w_db v)" for a v
    using that by (simp add: world_files_def on_db_def sqlRepository_def sql_Cleanup_def wrap_err_def delete_files_def db_up_def)
  from gw_up.processACHFile_failed[OF assms this] show ?thesis by blast
qed

text \<open>A file whose id hides a directory that does not exist cannot be stored.\<close>

lemma failed_file_is_forgotten_witness:
  "\<exists>e ch w. processACHFile sample_receiver_lib (gw_receiver sample_gateway) 1 (sample_queue_file ''a'')
      (no_channels, sample_world\<lparr>w_disk := [([''data''], Dir), ([''data'', ''mergable''], Reg [])]\<rparr>) = (Some e, ch, w) \<and>
    db_files (w_db w) = db_files (w_db sample_world)"
proof -
  let ?w = "sample_world\<lparr>w_disk := [([''data''], Dir), ([''data'', ''mergable''], Reg [])]\<rparr>"
  define r where "r = processACHFile sample_receiver_lib (gw_receiver sample_gateway) 1 (sample_queue_file ''a'') (no_channels, ?w)"
  have "fst r = Some (errors_New ''problem accepting file: <nil>'')" unfolding r_def by code_simp
  then have r: "processACHFile sample_receiver_lib (gw_receiver sample_gateway) 1 (sample_queue_file ''a'') (no_channels, ?w) =
      (Some (errors_New ''problem accepting file: <nil>''), fst (snd r), snd (snd r))"
    by (metis r_def prod.collapse)
  have "db_up (w_db ?w)" by (simp add: db_up_def sample_world_def wf_db_def)
  from failed_file_is_forgotten[OF this r] r show ?thesis by auto
qed

section \<open>Acknowledging\<close>

lemma ack_Ack: "ack True msg st = st" "fst (ack b msg st) = fst st"
  by (simp_all add: ack_def)

text \<open>
  C31. Without autocommit a message whose processing ends in an error is not acknowledged: what
  acknowledging would do plays no part in the outcome. One that was read as an event and
  processed without an error is acknowledged last.
\<close>

theorem acknowledged_iff_processed:
  assumes "\<not> shouldAutocommit fr" and "processMessage V fr now msg st = (e, st')"
    and "compliance_Reveal (crypto (rl_events V)) (fr_transformConfig fr) (msg_Body msg) = Inr data"
    and "models_Read (json (rl_events V)) (event_ach (rl_events V)) data = (Some ev, re)"
  shows "if e = None then \<exists>st1. st' = (fst st1, Ack msg (snd st1))
    else \<forall>A. processMessage V fr now (msg\<lparr>Ack := A\<rparr>) st = (e, st')"
proof -
  note p = assms(2)[unfolded processMessage_def Let_def assms(3) assms(4) sum.case prod.case option.case]
  have q: "processMessage V fr now (msg\<lparr>Ack := A\<rparr>) st = (e, st')" if "e \<noteq> None" for A
    using p that assms(1,3,4) by (auto simp: processMessage_def ack_def split: option.splits payload.splits prod.splits)
  show ?thesis
  proof (cases e)
    case None
    have "\<exists>st1. st' = ack False msg st1"
      using p None assms(1) by (auto split: option.splits payload.splits prod.splits)
    with None show ?thesis by (auto simp: ack_def)
  qed (use q in simp)
qed

lemma acknowledged_iff_processed_witness:
  "\<exists>st1. snd (processMessage sample_receiver_lib (gw_receiver sample_gateway) 1 (sample_message ''Qa'') (no_channels, sample_world)) =
     (fst st1, Ack (sample_message ''Qa'') (snd st1))"
proof -
  let ?r = "processMessage sample_receiver_lib (gw_receiver sample_gateway) 1 (sample_message ''Qa'') (no_channels, sample_world)"
  have a: "\<not> shouldAutocommit (gw_receiver sample_gateway)"
    by (simp add: shouldAutocommit_def gw_receiver_def sample_gateway_def)
  have n: "fst ?r = None" by code_simp
  have c: "compliance_Reveal (crypto (rl_events sample_receiver_lib)) (fr_transformConfig (gw_receiver sample_gateway))
      (msg_Body (sample_message ''Qa'')) = Inr ''Qa''" by code_simp
  have d: "models_Read (json (rl_events sample_receiver_lib)) (event_ach (rl_events sample_receiver_lib)) ''Qa'' =
      (Some (''QueueACHFile'', Some (QueueACHFile (sample_queue_file ''a''))), None)"
    by (rule prod_eqI) code_simp+
  from acknowledged_iff_processed[OF a _ c d, of 1 "(no_channels, sample_world)" "fst ?r" "snd ?r"]
  show ?thesis using n by (simp add: sample_message_def)
qed

section \<open>Finding the shard\<close>

definition shard_named :: "gateway \<Rightarrow> string \<Rightarrow> world aggregator option" where
  "shard_named G name = map_option (gw_aggregator G) (find (\<lambda>sh. sh_Name sh = name) (gw_shards G))"

lemma shardAggregators_find:
  "map_of (shardAggregators (gw_receiver G)) name = map_option Some (shard_named G name)"
proof -
  have "map_of (map (\<lambda>sh. (sh_Name sh, Some (gw_aggregator G sh))) shs) name =
      map_option Some (map_option (gw_aggregator G) (find (\<lambda>sh. sh_Name sh = name) shs))" for shs
    by (induction shs) auto
  then show ?thesis by (simp add: gw_receiver_def shard_named_def)
qed



end
