(* ===== verification/Intake.thy ===== *)
theory Intake
  imports Receiver_Proofs
begin

text \<open>
  Several gateways on one database. Each processes one file at a time in the calls of
  \<open>processACHFile\<close> (record, accept, and clean up after a failure); the calls of different
  instances interleave in any order, an instance may stop between two of its calls, and
  anyone may record cancellations. The relation \<open>intake_step\<close> has one rule for each call.
\<close>

section \<open>The steps\<close>

datatype phase =
    Idle
  | Recorded accepted_file   \<comment> \<open>recorded, about to be handed to the aggregator\<close>
  | Refused accepted_file    \<comment> \<open>the aggregator failed, about to be cleaned up\<close>

text \<open>What every instance is doing, the shared state, and the ids accepted so far.\<close>

record 's intake_state =
  phases :: "nat \<Rightarrow> phase"
  shared :: 's
  accepted :: "string list"

inductive intake_step :: "'s files_repository \<Rightarrow> 's intake_state \<Rightarrow> 's intake_state \<Rightarrow> bool" for r where
  claim: "phases st i = Idle \<Longrightarrow> Record r a (shared st) = (None, s') \<Longrightarrow>
    intake_step r st (st\<lparr>phases := (phases st)(i := Recorded a), shared := s'\<rparr>)"
| skip: "phases st i = Idle \<Longrightarrow> Record r a (shared st) = (Some e, s') \<Longrightarrow>
    intake_step r st (st\<lparr>shared := s'\<rparr>)"
| accept: "phases st i = Recorded a \<Longrightarrow>
    intake_step r st (st\<lparr>phases := (phases st)(i := Idle), accepted := accepted st @ [af_FileID a]\<rparr>)"
| refuse: "phases st i = Recorded a \<Longrightarrow>
    intake_step r st (st\<lparr>phases := (phases st)(i := Refused a)\<rparr>)"
| cleanup: "phases st i = Refused a \<Longrightarrow> repo_Cleanup r a (shared st) = (e, s') \<Longrightarrow>
    intake_step r st (st\<lparr>phases := (phases st)(i := Idle), shared := s'\<rparr>)"
| cancel: "Cancel r f (shared st) = (e, s') \<Longrightarrow> intake_step r st (st\<lparr>shared := s'\<rparr>)"
| crash: "intake_step r st (st\<lparr>phases := (phases st)(i := Idle)\<rparr>)"

inductive intake_reach :: "'s files_repository \<Rightarrow> 's \<Rightarrow> 's intake_state \<Rightarrow> bool" for r s0 where
  start: "intake_reach r s0 \<lparr>phases = (\<lambda>_. Idle), shared = s0, accepted = []\<rparr>"
| step: "intake_reach r s0 st \<Longrightarrow> intake_step r st st' \<Longrightarrow> intake_reach r s0 st'"

fun pending_id :: "phase \<Rightarrow> string option" where
  "pending_id Idle = None"
| "pending_id (Recorded a) = Some (af_FileID a)"
| "pending_id (Refused a) = Some (af_FileID a)"

fun pending_file :: "phase \<Rightarrow> accepted_file option" where
  "pending_file Idle = None"
| "pending_file (Recorded a) = Some a"
| "pending_file (Refused a) = Some a"

lemma pending_id_file: "pending_id p = map_option af_FileID (pending_file p)"
  by (cases p) simp_all

text \<open>
  The invariant: an id is accepted once, is recorded from then on, and no instance still holds
  it; the files instances hold are recorded as theirs and are held by one instance each.
\<close>

definition intake_inv :: "('s \<Rightarrow> bool) \<Rightarrow> ('s \<Rightarrow> string \<rightharpoonup> string) \<Rightarrow> 's \<Rightarrow> 's intake_state \<Rightarrow> bool" where
  "intake_inv ok known s0 st \<longleftrightarrow>
     ok (shared st) \<and> distinct (accepted st) \<and>
     (\<forall>x\<in>set (accepted st). known (shared st) x \<noteq> None \<and> known s0 x = None \<and> (\<forall>i. pending_id (phases st i) \<noteq> Some x)) \<and>
     (\<forall>i a. pending_file (phases st i) = Some a \<longrightarrow>
        known (shared st) (af_FileID a) = Some (af_ShardKey a) \<and> known s0 (af_FileID a) = None) \<and>
     (\<forall>i j x. pending_id (phases st i) = Some x \<longrightarrow> pending_id (phases st j) = Some x \<longrightarrow> i = j) \<and>
     (\<forall>x. known s0 x \<noteq> None \<longrightarrow> known (shared st) x \<noteq> None)"

lemma intake_inv_pending:
  assumes "intake_inv ok known s0 st" and "pending_id (phases st i) = Some x"
  shows "known (shared st) x \<noteq> None"
proof -
  obtain a where a: "pending_file (phases st i) = Some a" "af_FileID a = x" using assms(2) by (auto simp: pending_id_file)
  have "known (shared st) (af_FileID a) = Some (af_ShardKey a)" using assms(1) a(1) unfolding intake_inv_def by blast
  with a(2) show ?thesis by simp
qed

lemma intake_inv_shared:
  assumes "intake_inv ok known s0 st" and "ok s'" and "known s' = known (shared st)"
  shows "intake_inv ok known s0 (st\<lparr>shared := s'\<rparr>)"
proof -
  have parts: "phases (st\<lparr>shared := s'\<rparr>) = phases st" "shared (st\<lparr>shared := s'\<rparr>) = s'"
    "accepted (st\<lparr>shared := s'\<rparr>) = accepted st" by simp_all
  from assms(1,2) show ?thesis unfolding intake_inv_def parts assms(3) by blast
qed

context files_repo
begin

lemma intake_inv_idle:
  "intake_inv ok' kn s0 st \<Longrightarrow> intake_inv ok' kn s0 (st\<lparr>phases := (phases st)(i := Idle)\<rparr>)"
  by (auto simp: intake_inv_def)

lemma intake_step_inv:
  assumes "intake_step r st st'" and "intake_inv inv known s0 st"
  shows "intake_inv inv known s0 st'"
  using assms(1)
proof cases
  case (claim i a s')
  have k: "inv s'" "known (shared st) (af_FileID a) = None" "known s' = (known (shared st))(af_FileID a \<mapsto> af_ShardKey a)"
    using record_new[of "shared st" a s'] claim(3) assms(2) by (auto simp: intake_inv_def)
  have "pending_id (phases st j) \<noteq> Some (af_FileID a)" for j
    using intake_inv_pending[OF assms(2), of j] k(2) by metis
  moreover have "af_FileID a \<notin> set (accepted st)" "known s0 (af_FileID a) = None"
    using assms(2) k(2) unfolding intake_inv_def by metis+
  ultimately show ?thesis
    using assms(2) k unfolding claim(1) intake_inv_def by (auto simp: pending_id_file)
next
  case (skip i a e s')
  from record_failed[of "shared st" a e s'] skip(3) assms(2) have "inv s'" "known s' = known (shared st)"
    by (auto simp: intake_inv_def)
  from intake_inv_shared[OF assms(2) this] show ?thesis unfolding skip(1) .
next
  case (accept i a)
  have a: "pending_id (phases st i) = Some (af_FileID a)" "pending_file (phases st i) = Some a" using accept(2) by simp_all
  have "af_FileID a \<notin> set (accepted st)" using assms(2) a(1) unfolding intake_inv_def by blast
  moreover have "pending_id (phases st j) \<noteq> Some (af_FileID a)" if "j \<noteq> i" for j
    using assms(2) a(1) that unfolding intake_inv_def by blast
  ultimately show ?thesis
    using assms(2) a unfolding accept(1) intake_inv_def by (auto simp: pending_id_file)
next
  case (refuse i a)
  with assms(2) show ?thesis unfolding intake_inv_def
    by (auto simp: pending_id_file) (metis option.simps(9) pending_file.simps(2) pending_id_file)+
next
  case (cleanup i a e s')
  have a: "pending_id (phases st i) = Some (af_FileID a)" "pending_file (phases st i) = Some a" using cleanup(2) by simp_all
  then have ka: "known (shared st) (af_FileID a) = Some (af_ShardKey a)" "known s0 (af_FileID a) = None" "inv (shared st)"
    using assms(2) unfolding intake_inv_def by blast+
  show ?thesis
  proof (cases e)
    case None
    have c: "inv s'" "known s' = (known (shared st))(af_FileID a := None)"
      using cleanup_done[OF ka(3) cleanup(3)[unfolded None] ka(1)] by blast+
    have "af_FileID a \<notin> set (accepted st)" using assms(2) a(1) unfolding intake_inv_def by blast
    moreover have "pending_id (phases st j) \<noteq> Some (af_FileID a)" if "j \<noteq> i" for j
      using assms(2) a(1) that unfolding intake_inv_def by blast
    ultimately show ?thesis
      using assms(2) c ka(2) unfolding cleanup(1) intake_inv_def by (auto simp: pending_id_file)
  next
    case (Some x)
    have "inv s'" "known s' = known (shared st)" using cleanup_failed[OF ka(3) cleanup(3)[unfolded Some]] by blast+
    from intake_inv_idle[OF intake_inv_shared[OF assms(2) this], of i] show ?thesis unfolding cleanup(1) by (cases st) simp
  qed
next
  case (cancel f e s')
  from cancel_keeps[of "shared st" f e s'] cancel(2) assms(2) have "inv s'" "known s' = known (shared st)"
    by (auto simp: intake_inv_def)
  from intake_inv_shared[OF assms(2) this] show ?thesis unfolding cancel(1) .
next
  case (crash i)
  with intake_inv_idle[OF assms(2)] show ?thesis by simp
qed

lemma intake_reach_inv: "intake_reach r s0 st \<Longrightarrow> inv s0 \<Longrightarrow> intake_inv inv known s0 st"
proof (induction rule: intake_reach.induct)
  case start
  then show ?case by (simp add: intake_inv_def)
next
  case (step st st')
  with intake_step_inv show ?case by blast
qed

end

section \<open>Properties\<close>

text \<open>
  Of all gateways that share one MySQL database, however their calls interleave and
  wherever they stop, none accepts a file id that another or itself accepted before, or that
  was recorded before they started.
\<close>

theorem instances_accept_once:
  assumes "intake_reach (sqlRepository now) d0 st" and "db_ok d0"
  shows "distinct (accepted st) \<and> (\<forall>x\<in>set (accepted st). db_files (shared st) x \<noteq> None \<and> db_files d0 x = None)"
  using sql_files.intake_reach_inv[OF assms(1) assms(2)[unfolded db_ok_def]] unfolding intake_inv_def by blast

definition two_files :: "string \<Rightarrow> accepted_file" where
  "two_files k = \<lparr>af_FileID = ''a'', af_ShardKey = k, af_Hostname = ''h'', af_AcceptedAt = 1\<rparr>"

definition no_rows_db :: db where
  "no_rows_db = \<lparr>files_tbl = [], mappings_tbl = [], db_err = None\<rparr>"

definition one_row :: db where
  "one_row = snd (Record (sqlRepository 0) (two_files ''k'') no_rows_db)"

lemma one_row_recorded: "Record (sqlRepository 0) (two_files ''k'') no_rows_db = (None, one_row)"
  unfolding one_row_def by (rule prod_eqI) code_simp+

lemma one_row_again: "Record (sqlRepository 0) (two_files ''k2'') one_row = (Some (errorf_w ''recording file failed: '' DuplicateEntry), one_row)"
  by (rule prod_eqI) code_simp+

lemma two_instances_run:
  "intake_reach (sqlRepository 0) no_rows_db
     \<lparr>phases = (\<lambda>_. Idle)(0 := Idle), shared = one_row, accepted = [''a'']\<rparr>"
proof -
  let ?st0 = "\<lparr>phases = (\<lambda>_. Idle), shared = no_rows_db, accepted = []\<rparr> :: db intake_state"
  let ?st1 = "\<lparr>phases = (\<lambda>_. Idle)(0 := Recorded (two_files ''k'')), shared = one_row, accepted = []\<rparr> :: db intake_state"
  have "intake_step (sqlRepository 0) ?st0 ?st1"
    using intake_step.claim[of ?st0 0 "sqlRepository 0" "two_files ''k''" one_row] one_row_recorded by simp
  from intake_reach.step[OF intake_reach.start this] have r1: "intake_reach (sqlRepository 0) no_rows_db ?st1" .
  have "intake_step (sqlRepository 0) ?st1 ?st1"
    using intake_step.skip[of ?st1 1 "sqlRepository 0" "two_files ''k2''" _ one_row] one_row_again by simp
  from intake_reach.step[OF r1 this] have r2: "intake_reach (sqlRepository 0) no_rows_db ?st1" .
  have "intake_step (sqlRepository 0) ?st1 \<lparr>phases = (\<lambda>_. Idle)(0 := Idle), shared = one_row, accepted = [''a'']\<rparr>"
    using intake_step.accept[of ?st1 0 "two_files ''k''" "sqlRepository 0"] by (simp add: two_files_def)
  from intake_reach.step[OF r2 this] show ?thesis .
qed

lemma instances_accept_once_witness:
  "distinct [''a''] \<and> db_files one_row ''a'' \<noteq> None \<and> db_files no_rows_db ''a'' = None"
  using instances_accept_once[OF two_instances_run] by (simp add: db_ok_def no_rows_db_def wf_db_def)

text \<open>What the receiver does with one file is what the steps allow it to do.\<close>

lemma world_sql_db:
  "Record (world_files (sqlRepository t)) a w = (x, w') \<Longrightarrow> Record (sqlRepository t) a (w_db w) = (x, w_db w')"
  "repo_Cleanup (world_files (sqlRepository t)) a w = (x, w') \<Longrightarrow> repo_Cleanup (sqlRepository t) a (w_db w) = (x, w_db w')"
  by (auto simp: world_files_def on_db_eq)

lemma intake_two_steps: "intake_step r st st1 \<Longrightarrow> intake_step r st1 st2 \<Longrightarrow> (intake_step r)\<^sup>*\<^sup>* st st2"
  by (rule converse_rtranclp_into_rtranclp) auto

text \<open>
  Processing a file refines the steps: seen at the database, \<open>processACHFile\<close> of a gateway
  is a sequence of steps of an idle instance that ends idle, and the ids it adds to the
  accepted ones are those it answers for.
\<close>

theorem processACHFile_refines:
  assumes "processACHFile V (gw_receiver G) now f (ch, w) = (e, ch', w')"
    and "phases st i = Idle" and "shared st = w_db w" and "accepted st = accepted_ids ch"
  shows "\<exists>st'. (intake_step (sqlRepository (gw_now G)))\<^sup>*\<^sup>* st st' \<and> phases st' = phases st \<and>
    shared st' = w_db w' \<and> accepted st' = accepted_ids ch'"
proof (cases "FileID f = [] \<or> FileShardKey f = [] \<or> ACHFile_Validate f \<noteq> None \<or> getAggregator (gw_receiver G) (FileShardKey f) w = None")
  case True
  with assms show ?thesis by (intro exI[where x = st]) (auto simp: processACHFile_def split: if_splits)
next
  case False
  then obtain g n where g: "getAggregator (gw_receiver G) (FileShardKey f) w = Some g"
    "(n, Some g) \<in> set (shardAggregators (gw_receiver G))"
    using getAggregator_in[of "gw_receiver G" "FileShardKey f" w] by auto
  obtain sh where sh: "agg_merger g = filesystem_merger (gw_outside G) (gw_merging G sh)"
    using gw_aggregators[OF g(2)] by (auto simp: gw_aggregator_def)
  let ?a = "acceptance V now f" and ?r = "sqlRepository (gw_now G)"
  have repo: "fr_fileRepository (gw_receiver G) = world_files ?r" by (simp add: gw_receiver_def)
  obtain re w1 where re: "Record (world_files ?r) ?a w = (re, w1)" by fastforce
  note rd = world_sql_db(1)[OF re]
  show ?thesis
  proof (cases re)
    case (Some x)
    with assms(1) False g re have "ch' = ch" "w' = w1" by (auto simp: processACHFile_def repo split: if_splits)
    with intake_step.skip[OF assms(2), of ?r ?a x "w_db w1"] rd Some assms(3,4) show ?thesis
      by (intro exI[where x = "st\<lparr>shared := w_db w1\<rparr>"]) auto
  next
    case None
    let ?st1 = "st\<lparr>phases := (phases st)(i := Recorded ?a), shared := w_db w1\<rparr>"
    have s1: "intake_step ?r st ?st1" using intake_step.claim[OF assms(2)] rd None assms(3) by simp
    obtain xe w2 where x: "HandleXfer (lib (gw_outside G)) (gw_merging G sh) f w1 = (xe, w2)" by fastforce
    have w2: "w_db w2 = w_db w1" using HandleXfer_world[OF x] .
    show ?thesis
    proof (cases xe)
      case None
      let ?st2 = "?st1\<lparr>phases := (phases ?st1)(i := Idle), accepted := accepted ?st1 @ [af_FileID ?a]\<rparr>"
      have "(intake_step ?r)\<^sup>*\<^sup>* st ?st2" by (rule intake_two_steps[OF s1], rule intake_step.accept) simp
      moreover have "w' = w2" "accepted_ids ch' = accepted_ids ch @ [FileID f]"
        using assms(1) False g re \<open>re = None\<close> x None sh
        by (auto simp: processACHFile_def repo acceptFile_def filesystem_merger_def accepted_ids_def split: if_splits)
      moreover have "phases ?st2 = phases st" using assms(2) by auto
      ultimately show ?thesis using assms(4) w2 by (intro exI[where x = ?st2]) (simp add: acceptance_def)
    next
      case (Some y)
      let ?st2 = "?st1\<lparr>phases := (phases ?st1)(i := Refused ?a)\<rparr>"
      obtain ce w3 where c: "repo_Cleanup (world_files ?r) ?a w2 = (ce, w3)" by fastforce
      let ?st3 = "?st2\<lparr>phases := (phases ?st2)(i := Idle), shared := w_db w3\<rparr>"
      have "intake_step ?r ?st1 ?st2" by (rule intake_step.refuse) simp
      moreover have "intake_step ?r ?st2 ?st3"
        by (rule intake_step.cleanup) (use world_sql_db(2)[OF c] w2 in auto)
      ultimately have "(intake_step ?r)\<^sup>*\<^sup>* st ?st3"
        using s1 by (meson intake_two_steps rtranclp.rtrancl_into_rtrancl)
      moreover have "w' = w3" "ch' = ch"
        using assms(1) False g re \<open>re = None\<close> x Some sh c
        by (auto simp: processACHFile_def repo acceptFile_def filesystem_merger_def split: if_splits)
      moreover have "phases ?st3 = phases st" using assms(2) by auto
      ultimately show ?thesis using assms(4) by (intro exI[where x = ?st3]) simp
    qed
  qed
qed

lemma processACHFile_refines_witness:
  "\<exists>st'. (intake_step (sqlRepository 7))\<^sup>*\<^sup>* \<lparr>phases = (\<lambda>_. Idle), shared = no_rows_db, accepted = []\<rparr> st' \<and>
     phases st' = (\<lambda>_. Idle) \<and> accepted st' = [''a'']"
proof -
  let ?r = "processACHFile sample_receiver_lib (gw_receiver sample_gateway) 1 (sample_queue_file ''a'') (no_channels, sample_world)"
  have r: "?r = (fst ?r, fst (snd ?r), snd (snd ?r))" by simp
  have a: "accepted_ids (fst (snd ?r)) = [''a'']" by code_simp
  have now: "gw_now sample_gateway = 7" by (simp add: sample_gateway_def)
  from processACHFile_refines[OF r, of "\<lparr>phases = (\<lambda>_. Idle), shared = no_rows_db, accepted = []\<rparr>" 0] a now
  show ?thesis by (auto simp: no_rows_db_def sample_world_def no_channels_def accepted_ids_def)
qed

text \<open>
  C34. A gateway that stops after recording a file and before storing it loses the file: its id
  is not accepted, and whichever gateway the file is delivered to again takes it for one that
  was handled and reports success without storing it.
\<close>

theorem crash_loses_file:
  assumes "intake_reach (sqlRepository (gw_now G)) d0 st" and "db_up d0" and "phases st i = Recorded a"
  shows "\<exists>st'. intake_step (sqlRepository (gw_now G)) st st' \<and> phases st' i = Idle \<and> shared st' = shared st \<and> af_FileID a \<notin> set (accepted st') \<and>
    (\<forall>V now f ch w. w_db w = shared st' \<and> db_err (shared st') = None \<and> FileID f = af_FileID a \<and> ACHFile_Validate f = None \<and>
       getAggregator (gw_receiver G) (FileShardKey f) w \<noteq> None \<longrightarrow>
       processACHFile V (gw_receiver G) now f (ch, w) = (None, ch, w))"
proof -
  let ?st = "st\<lparr>phases := (phases st)(i := Idle)\<rparr>"
  have d: "db_ok d0" using assms(2) by (simp add: db_up_ok)
  have inv: "intake_inv (\<lambda>d. wf_db d \<and> (\<forall>e. db_err d = Some e \<longrightarrow> \<not> errors_Is e UniqueViolation)) db_files d0 st"
    using sql_files.intake_reach_inv[OF assms(1) d[unfolded db_ok_def]] .
  have p: "pending_id (phases st i) = Some (af_FileID a)" using assms(3) by simp
  have "db_files (shared st) (af_FileID a) \<noteq> None" by (rule intake_inv_pending[OF inv p])
  then have row: "af_FileID a \<in> row_file_id ` set (files_tbl (shared st))"
    unfolding db_files_None by simp
  have again: "processACHFile V (gw_receiver G) now f (ch, w) = (None, ch, w)"
    if "w_db w = shared st" "db_err (shared st) = None" "FileID f = af_FileID a" "ACHFile_Validate f = None"
      "getAggregator (gw_receiver G) (FileShardKey f) w \<noteq> None" for V now f ch w
  proof -
    have "Record (sqlRepository (gw_now G)) (acceptance V now f) (w_db w) =
        (Some (errorf_w ''recording file failed: '' DuplicateEntry), w_db w)"
      using that row by (simp add: sqlRepository_def sql_Record_def insert_file_def row_of_def wrap_err_def acceptance_def)
    then have rec: "Record (fr_fileRepository (gw_receiver G)) (acceptance V now f) w =
        (Some (errorf_w ''recording file failed: '' DuplicateEntry), w)"
      by (simp add: gw_receiver_def world_files_def on_db_def)
    have "errors_Is (errorf_w ''recording file failed: '' DuplicateEntry) UniqueViolation"
      by (simp add: DuplicateEntry_def errors_Is_def errorf_w_def)
    with rec that(4,5) show ?thesis
      by (auto simp: processACHFile_def ACHFile_Validate_def split: option.splits if_splits)
  qed
  have "af_FileID a \<notin> set (accepted st)" using inv p unfolding intake_inv_def by blast
  with again show ?thesis by (intro exI[where x = ?st] conjI allI impI intake_step.crash) simp_all
qed

lemma recorded_reach:
  "intake_reach (sqlRepository 7) no_rows_db \<lparr>phases = (\<lambda>_. Idle)(0 := Recorded (two_files ''k'')), shared = one_row, accepted = []\<rparr>"
proof -
  let ?st0 = "\<lparr>phases = (\<lambda>_. Idle), shared = no_rows_db, accepted = []\<rparr> :: db intake_state"
  have "Record (sqlRepository 7) (two_files ''k'') no_rows_db = (None, one_row)"
    using one_row_recorded by (simp add: sqlRepository_def)
  with intake_step.claim[of ?st0 0 "sqlRepository 7" "two_files ''k''" one_row]
  have "intake_step (sqlRepository 7) ?st0 \<lparr>phases = (\<lambda>_. Idle)(0 := Recorded (two_files ''k'')), shared = one_row, accepted = []\<rparr>"
    by simp
  from intake_reach.step[OF intake_reach.start this] show ?thesis .
qed

lemma crash_loses_file_witness:
  "processACHFile sample_receiver_lib (gw_receiver sample_gateway) 1 (sample_queue_file ''a'')
     (no_channels, sample_world\<lparr>w_db := one_row\<rparr>) = (None, no_channels, sample_world\<lparr>w_db := one_row\<rparr>)"
proof -
  let ?st = "\<lparr>phases = (\<lambda>_. Idle)(0 := Recorded (two_files ''k'')), shared = one_row, accepted = []\<rparr> :: db intake_state"
  have now: "gw_now sample_gateway = 7" by (simp add: sample_gateway_def)
  have up: "db_up no_rows_db" by (simp add: db_up_def no_rows_db_def wf_db_def)
  have "phases ?st 0 = Recorded (two_files ''k'')" by simp
  note lost = crash_loses_file[of sample_gateway no_rows_db ?st 0 "two_files ''k''", unfolded now, OF recorded_reach up this]
  have "db_err one_row = None" by code_simp
  moreover have "ACHFile_Validate (sample_queue_file ''a'') = None" "FileID (sample_queue_file ''a'') = af_FileID (two_files ''k'')"
    by code_simp+
  moreover have "getAggregator (gw_receiver sample_gateway) (FileShardKey (sample_queue_file ''a'')) (sample_world\<lparr>w_db := one_row\<rparr>) \<noteq> None"
    by (simp add: getAggregator_def gw_receiver_def world_shards_def sql_shards_def sql_Lookup_def one_row_def sample_gateway_def
        sample_shard_def sample_queue_file_def sqlRepository_def sql_Record_def insert_file_def wrap_err_def no_rows_db_def)
  ultimately show ?thesis using lost by (elim exE conjE) simp
qed

end
