(* ===== verification/Admin.thy ===== *)
theory Admin
  imports Intake "HOL-Library.AList"
begin

text \<open>
  The admin handlers of the file receiver (\<open>internal/pipeline/manual_cutoff_times.go\<close>,
  \<open>pending_files_api.go\<close>, \<open>events_api.go\<close>): triggering cutoffs, listing and showing pending files,
  and repeating the events of an uploaded file.

  A reply is its status with the value that is written as JSON; the path variables and the
  decoded body of a request are arguments. A panic is the outcome \<open>None\<close>. What an aggregator
  answers to a manual trigger is what \<open>manualCutoff\<close> answers, run by the aggregator's loop while
  the handler waits.
\<close>

section \<open>Manual cutoffs\<close>

text \<open>The map of \<open>shardResponses\<close>, in the order of first assignment.\<close>

type_synonym shard_responses = "(string \<times> string option) list"

definition hasErrors :: "shard_responses \<Rightarrow> bool" where
  "hasErrors ss = list_ex (\<lambda>(_, e). e \<noteq> None) ss"

text \<open>\<open>clk k\<close> are the times while the cutoff of the \<open>k\<close>-th shard of the request runs.\<close>

fun trigger_shards ::
  "'s pipeline_lib \<Rightarrow> (nat \<Rightarrow> clock) \<Rightarrow> 's FileReceiver \<Rightarrow> nat \<Rightarrow> string list \<Rightarrow> shard_responses \<times> 's agent list \<times> 's
     \<Rightarrow> (shard_responses \<times> 's agent list \<times> 's) option" where
  "trigger_shards P clk fr k [] st = Some st"
| "trigger_shards P clk fr k (shardName # names) (responses, created, s) =
     (case map_of (shardAggregators fr) shardName of
        None \<Rightarrow>
          trigger_shards P clk fr (Suc k) names
            (AList.update shardName (Some (''unknown shard '' @ shardName)) responses, created, s)
      | Some None \<Rightarrow> None
      | Some (Some xfagg) \<Rightarrow>
          (case manualCutoff P xfagg (clk k) created s of
             (None, _) \<Rightarrow> None
           | (Some (Some e), created1, s1) \<Rightarrow>
               trigger_shards P clk fr (Suc k) names
                 (AList.update (sh_Name (agg_shard xfagg)) (Some (err_text e)) responses, created1,
                  alertOnError (Some xfagg) (Some e) s1)
           | (Some None, created1, s1) \<Rightarrow>
               trigger_shards P clk fr (Suc k) names
                 (AList.update (sh_Name (agg_shard xfagg)) None responses, created1, s1)))"

definition triggerManualCutoff ::
  "'s pipeline_lib \<Rightarrow> (nat \<Rightarrow> clock) \<Rightarrow> 's FileReceiver \<Rightarrow> string \<Rightarrow> string list \<Rightarrow> 's agent list \<times> 's
     \<Rightarrow> ((nat \<times> shard_responses option) \<times> 's agent list \<times> 's) option" where
  "triggerManualCutoff P clk fr meth shardNames cs =
     (if meth \<noteq> ''PUT'' then Some ((400, None), cs)
      else if shardNames = [] then Some ((400, None), cs)
      else (case trigger_shards P clk fr 0 shardNames ([], cs) of
              None \<Rightarrow> None
            | Some (responses, cs1) \<Rightarrow>
                Some ((if hasErrors responses then 400 else 200, Some responses), cs1)))"

text \<open>Two helpers that no handler calls any more; \<open>None\<close> is the panic on a nil aggregator.\<close>

definition exists_name :: "string list \<Rightarrow> string \<Rightarrow> bool" where
  "exists_name names shardName = list_ex (\<lambda>n. n = shardName) names"

definition getShardNames :: "'s FileReceiver \<Rightarrow> string list option" where
  "getShardNames fr = those (map (map_option (\<lambda>xfagg. sh_Name (agg_shard xfagg)) \<circ> snd) (shardAggregators fr))"

section \<open>Pending files\<close>

text \<open>The shards come in the unspecified order of the map; here in the order of the list.\<close>

definition listShards :: "'s FileReceiver \<Rightarrow> string list" where
  "listShards fr = remdups (map fst (shardAggregators fr))"

definition lookupAggregator :: "'s FileReceiver \<Rightarrow> string \<Rightarrow> 's aggregator option" where
  "lookupAggregator fr shardName =
     (if shardName = [] then None
      else (case map_of (shardAggregators fr) shardName of None \<Rightarrow> None | Some agg \<Rightarrow> agg))"

definition getStorage :: "'s aggregator \<Rightarrow> 's chest option" where
  "getStorage agg = map_option fm_storage (xm_filesystem (agg_merger agg))"

text \<open>File names with their paths; the base name of a match that ends in a slash is empty.\<close>

definition listShardFiles :: "'s FileReceiver \<Rightarrow> string \<Rightarrow> 's \<Rightarrow> nat \<times> (string \<times> string) list option" where
  "listShardFiles fr shardName s =
     (case lookupAggregator fr shardName of
        None \<Rightarrow> (404, None)
      | Some agg \<Rightarrow>
     (case getStorage agg of
        None \<Rightarrow> (400, None)
      | Some chest \<Rightarrow>
     (case Glob chest (''mergable/'' @ sh_Name (agg_shard agg) @ ''/*'') s of
        Inl _ \<Rightarrow> (400, None)
      | Inr ms \<Rightarrow>
          (200, Some (filter (\<lambda>(n, _). n \<noteq> []) (map (\<lambda>p. (snd (filepath_Split p), p)) ms))))))"

record getFileResponse =
  gf_Filename :: string
  ContentsBase64 :: string
  Valid :: "err option"

text \<open>\<open>ach_Validate\<close> is the library's check of a whole file.\<close>

definition marshalFile :: "ach_lib \<Rightarrow> (ach_file \<Rightarrow> err option) \<Rightarrow> ofile \<Rightarrow> string \<times> err option" where
  "marshalFile L ach_Validate contents =
     (case (case file_read contents of
              Inl e \<Rightarrow> Inl e
            | Inr bs \<Rightarrow> (case ach_Read L None bs of (_, Some e) \<Rightarrow> Inl e | (f, None) \<Rightarrow> Inr f)) of
        Inl e \<Rightarrow> (b64_encode_std [], Some e)
      | Inr f \<Rightarrow>
          (case ach_Write L f of
             Inl e \<Rightarrow> (b64_encode_std [], Some (errorf_v ''error writing file: '' e))
           | Inr buf \<Rightarrow> (b64_encode_std buf, ach_Validate f)))"

definition getShardFile ::
  "ach_lib \<Rightarrow> (ach_file \<Rightarrow> err option) \<Rightarrow> 's FileReceiver \<Rightarrow> string \<Rightarrow> string \<Rightarrow> 's \<Rightarrow> nat \<times> getFileResponse option" where
  "getShardFile L ach_Validate fr shardName path s =
     (case lookupAggregator fr shardName of
        None \<Rightarrow> (404, None)
      | Some agg \<Rightarrow>
     (case getStorage agg of
        None \<Rightarrow> (400, None)
      | Some chest \<Rightarrow>
     (case Open chest (''mergable/'' @ sh_Name (agg_shard agg) @ ''/'' @ path) s of
        Inl _ \<Rightarrow> (400, None)
      | Inr fd \<Rightarrow>
          (case marshalFile L ach_Validate fd of
             (contents, e) \<Rightarrow>
               (200, Some \<lparr>gf_Filename = file_name fd, ContentsBase64 = contents, Valid = e\<rparr>)))))"

section \<open>Repeating the events of an uploaded file\<close>

text \<open>The merged file has no \<open>ACHFile\<close> here and none is looked at; an empty one stands for it.\<close>

definition manuallyProduceFileUploaded ::
  "ach_lib \<Rightarrow> 's FileReceiver \<Rightarrow> clock \<Rightarrow> string \<Rightarrow> string \<Rightarrow> string \<Rightarrow> 's \<Rightarrow> nat \<times> 's" where
  "manuallyProduceFileUploaded L fr c shardName filename dir s =
     (case lookupAggregator fr shardName of
        None \<Rightarrow> (404, s)
      | Some agg \<Rightarrow>
     (case xm_filesystem (agg_merger agg) of
        None \<Rightarrow> (400, s)
      | Some m \<Rightarrow>
          if dir = [] then (400, s)
          else if Contains dir ''..'' \<or> filepath_IsAbs dir then (400, s)
          else
     (case getNonCanceledMatches m dir s of
        Inl _ \<Rightarrow> (400, s)
      | Inr ms \<Rightarrow>
          if ms = [] then (404, s)
          else (case emitFilesUploaded agg c
                       [\<lparr>InputFilepaths = ms, UploadedFilename = filename, merged_ACHFile = NewFile L,
                         merged_Shard = sh_Name (agg_shard agg)\<rparr>] s of
                  (Some _, s1) \<Rightarrow> (400, s1)
                | (None, s1) \<Rightarrow> (200, s1)))))"

end
