(* ===== verification/Aggregator_Proofs.thy ===== *)
theory Aggregator_Proofs
  imports Admin
begin

text \<open>
  What a whole cutoff leaves alone and what it tells: a predicate that storage, agents and the
  callback keep is kept by the cutoff; files are in the audit trail before they are uploaded;
  one event is sent for each input of an uploaded file, none after a failed cutoff; manual
  and scheduled cutoffs do the same.
\<close>

section \<open>What a cutoff keeps\<close>

definition chest_keeps :: "('s \<Rightarrow> bool) \<Rightarrow> 's chest \<Rightarrow> bool" where
  "chest_keeps I c \<longleftrightarrow> (\<forall>a b. keeps I (ReplaceDir c a b)) \<and> (\<forall>p. keeps I (MkdirAll c p)) \<and>
     (\<forall>p. keeps I (RmdirAll c p)) \<and> (\<forall>p d. keeps I (WriteFile c p d))"

text \<open>The same for the operations on the paths in \<open>Q\<close>.\<close>

definition chest_keeps_at :: "(string \<Rightarrow> bool) \<Rightarrow> ('s \<Rightarrow> bool) \<Rightarrow> 's chest \<Rightarrow> bool" where
  "chest_keeps_at Q I c \<longleftrightarrow>
     (\<forall>p. Q p \<longrightarrow> keeps I (MkdirAll c p) \<and> keeps I (RmdirAll c p) \<and> (\<forall>d. keeps I (WriteFile c p d)))"

lemma chest_keeps_anywhere: "chest_keeps I c \<Longrightarrow> chest_keeps_at (\<lambda>_. True) I c"
  by (simp add: chest_keeps_def chest_keeps_at_def)

lemma chest_keeps_atD:
  assumes "chest_keeps_at Q I c" and "I s" and "Q p"
  shows "MkdirAll c p s = (e, s') \<Longrightarrow> I s'" "RmdirAll c p s = (e, s') \<Longrightarrow> I s'" "WriteFile c p d s = (e, s') \<Longrightarrow> I s'"
  using assms unfolding chest_keeps_at_def by (blast intro: keepsD)+

text \<open>The paths a cutoff writes below \<open>dir\<close>.\<close>

definition cache_paths :: "'s outside \<Rightarrow> (string \<Rightarrow> bool) \<Rightarrow> string \<Rightarrow> bool" where
  "cache_paths X Q dir \<longleftrightarrow> (\<forall>b. Q (filepath_Join [dir, sha256_hex X b @ ''.ach'']) \<and> Q (filepath_Join [dir, sha256_hex X b @ ''.json'']))"

lemma saveMergedFile_keeps:
  assumes "chest_keeps_at Q I (fm_storage m)" and "cache_paths X Q dir" and "I s" and "saveMergedFile X m dir f s = (e, s')"
  shows "I s'"
proof -
  have q: "Q (filepath_Join [dir, sha256_hex X b @ ''.ach''])" "Q (filepath_Join [dir, sha256_hex X b @ ''.json''])" for b
    using assms(2) by (simp_all add: cache_paths_def)
  note w = chest_keeps_atD(3)[OF assms(1)]
  from assms(4) show ?thesis
    by (auto simp: saveMergedFile_def Let_def split: sum.splits option.splits prod.splits
        intro: w[OF assms(3) q(1)] w[OF w[OF assms(3) q(1)] q(2)]) (use assms(3) in simp)
qed

lemma cache_files_keeps:
  "chest_keeps_at Q I (fm_storage m) \<Longrightarrow> cache_paths X Q dir \<Longrightarrow> I s \<Longrightarrow> cache_files X m dir fs el s = (r, s') \<Longrightarrow> I s'"
proof (induction fs arbitrary: el s r)
  case (Cons f fs)
  from Cons.prems(4) show ?case
    by (auto simp: Let_def split: prod.splits intro: Cons.IH[OF Cons.prems(1,2)] saveMergedFile_keeps[OF Cons.prems(1-3)])
qed simp

lemma upload_files_keeps:
  "(\<And>i x. keeps I (f i a x)) \<Longrightarrow> I s \<Longrightarrow> upload_files f shard i a xs merged el s = (r, s') \<Longrightarrow> I s'"
proof (induction xs arbitrary: i merged el s r)
  case (Cons x xs)
  obtain p s1 where p: "f i a x s = (p, s1)" by fastforce
  with Cons.prems(1,2) have "I s1" by (blast intro: keepsD)
  with Cons.prems(3) p Cons.IH[OF Cons.prems(1)] show ?case by (auto split: prod.splits option.splits)
qed simp

lemma WithEachMerged_keeps_at:
  assumes "isolateMergableDir m t s = ((dir, e), s1)" and "I s1" and "chest_keeps_at Q I (fm_storage m)"
    and "e = None \<Longrightarrow> Q dir \<and> Q (filepath_Join [dir, ''uploaded'']) \<and> cache_paths X Q (filepath_Join [dir, ''uploaded''])"
    and "\<And>a created' i x. upload_New (dialing X) (retrying X) (mock_agent X) (fm_cfg m) (sh_UploadAgent (fm_shard m)) created = (Inr a, created')
      \<Longrightarrow> keeps I (f i a x)"
    and "WithEachMerged X m t f created s = (r, created', s')"
  shows "I s'"
proof -
  note iso = assms(1) and s1 = assms(2) and ck = chest_keeps_atD[OF assms(3)]
  show ?thesis
  proof (cases "e \<noteq> None \<or> isl (getCanceledFiles m dir s1)")
    case True
    with assms(6) iso s1 show ?thesis by (auto simp: WithEachMerged_def isl_def split: option.splits)
  next
    case False
    then obtain canceled where c: "e = None" "getCanceledFiles m dir s1 = Inr canceled"
      by (cases "getCanceledFiles m dir s1") auto
    define cond where "cond = (case mc_Conditions (sh_Mergable (fm_shard m)) of None \<Rightarrow> zero_conditions | Some c \<Rightarrow> c)"
    obtain files me where md: "mergeDir X dir cond (createMergeDirOptions m canceled) s1 = (files, me)" by fastforce
    define el0 where "el0 = add_err (map_option (errorf_v ''unable to merge files: '') me) []"
    obtain el1 s2 where r: "(if files = [] then (case RmdirAll (fm_storage m) dir s1 of (e, s') \<Rightarrow> (add_err e el0, s')) else (el0, s1)) = (el1, s2)"
      by fastforce
    note q = assms(4)[OF c(1)]
    have s2: "I s2" using r s1 ck(2)[OF s1 conjunct1[OF q]] by (auto split: if_splits prod.splits)
    define up where "up = filepath_Join [dir, ''uploaded'']"
    define s3 where "s3 = snd (MkdirAll (fm_storage m) up s2)"
    have s3: "I s3" using ck(1)[OF s2] q unfolding s3_def up_def by (metis prod.collapse)
    obtain ag cr where un: "upload_New (dialing X) (retrying X) (mock_agent X) (fm_cfg m) (sh_UploadAgent (fm_shard m)) created = (ag, cr)"
      by fastforce
    note unf = WithEachMerged_def iso c prod.case option.case sum.case cond_def[symmetric] md el0_def[symmetric] r up_def[symmetric] s3_def[symmetric] un Let_def
    show ?thesis
    proof (cases ag)
      case (Inl x)
      with assms(6) s3 show ?thesis unfolding unf by simp
    next
      case (Inr a)
      obtain files' el2 s4 where cf: "cache_files X m up files el1 s3 = ((files', el2), s4)" by (metis prod.exhaust)
      obtain merged el3 s5 where uf: "upload_files f (sh_Name (fm_shard m)) 0 a files' [] el2 s4 = ((merged, el3), s5)" by (metis prod.exhaust)
      have "I s4" using cache_files_keeps[OF assms(3) _ s3 cf] q up_def by blast
      moreover have "keeps I (f i a x)" for i x by (rule assms(5)[OF un[unfolded Inr]])
      ultimately have "I s5" using uf by (blast intro: upload_files_keeps)
      moreover have "s' = s5" using assms(6) unfolding unf Inr cf uf by (simp split: option.splits)
      ultimately show ?thesis by simp
    qed
  qed
qed

lemma WithEachMerged_keeps:
  assumes "chest_keeps I (fm_storage m)"
    and "\<And>a created' i x. upload_New (dialing X) (retrying X) (mock_agent X) (fm_cfg m) (sh_UploadAgent (fm_shard m)) created = (Inr a, created')
      \<Longrightarrow> keeps I (f i a x)"
    and "I s" and "WithEachMerged X m t f created s = (r, created', s')"
  shows "I s'"
proof -
  obtain dir e s1 where iso: "isolateMergableDir m t s = ((dir, e), s1)" by (metis prod.exhaust)
  then have "I s1"
    using assms(1,3) by (auto simp: isolateMergableDir_def chest_keeps_def Let_def split: prod.splits dest: keepsD)
  from WithEachMerged_keeps_at[OF iso this chest_keeps_anywhere[OF assms(1)] _ assms(2,4)] show ?thesis
    by (simp add: cache_paths_def)
qed

section \<open>The disk\<close>

lemma lift_os_wf: "lift_os f st r = (e, st') \<Longrightarrow> wf_os st \<Longrightarrow> (\<And>st1. r = Inr st1 \<Longrightarrow> wf_os st1) \<Longrightarrow> wf_os st'"
  by (auto simp: lift_os_def split: sum.splits)

lemma fs_wf:
  assumes "wf_os st"
  shows "fs_MkdirAll p st = (e, st') \<Longrightarrow> wf_os st'" "fs_Rename a b st = (e, st') \<Longrightarrow> wf_os st'"
    "storage_write p d st = (e, st') \<Longrightarrow> wf_os st'" "filesystem_RmdirAll root p st = (e, st') \<Longrightarrow> wf_os st'"
proof -
  show "fs_MkdirAll p st = (e, st') \<Longrightarrow> wf_os st'"
    unfolding fs_MkdirAll_def by (erule lift_os_wf[OF _ assms]) (rule MkdirAll_wf[OF _ assms])
  show "fs_Rename a b st = (e, st') \<Longrightarrow> wf_os st'"
    unfolding fs_Rename_def by (erule lift_os_wf[OF _ assms]) (rule Rename_wf[OF _ assms])
  show "storage_write p d st = (e, st') \<Longrightarrow> wf_os st'"
    unfolding storage_write_def by (erule lift_os_wf[OF _ assms]) (rule Write_wf[OF _ assms])
  have "wf_os st1" if "os_RemoveAll st q = Inr st1" for q st1
  proof (cases "q = []")
    case True
    with that have "st1 = []" by (auto simp: os_RemoveAll_def split: if_splits)
    then show ?thesis by simp
  qed (rule RemoveAll_wf[OF that assms])
  then show "filesystem_RmdirAll root p st = (e, st') \<Longrightarrow> wf_os st'"
    unfolding filesystem_RmdirAll_def Let_def using lift_os_wf[OF _ assms] by blast
qed

lemma ReplaceDir_wf: "filesystem_ReplaceDir root a b st = (e, st') \<Longrightarrow> wf_os st \<Longrightarrow> wf_os st'"
  by (auto simp: filesystem_ReplaceDir_def Let_def split: sum.splits if_splits dest: fs_wf(1,2))

lemma WriteFile_wf:
  assumes "filesystem_WriteFile root p d st = (e, st')" and "wf_os st"
  shows "wf_os st'"
proof -
  obtain dir name where n: "filepath_Split p = (dir, name)" by fastforce
  obtain e1 st1 where m: "fs_MkdirAll (filepath_Join [root, dir]) st = (e1, st1)" by fastforce
  note wf1 = fs_wf(1)[OF assms(2) m]
  from assms(1) wf1 show ?thesis
    by (cases e1) (auto simp: filesystem_WriteFile_def n m Let_def dest: fs_wf(3)[OF wf1])
qed

lemma on_disk_keeps: "(\<And>st e st'. f st = (e, st') \<Longrightarrow> wf_os st \<Longrightarrow> wf_os st') \<Longrightarrow> keeps (\<lambda>w. wf_os (w_disk w)) (on_disk f)"
  unfolding keeps_def on_disk_def by (metis (no_types, lifting) prod.collapse case_prod_conv snd_conv world.select_convs(2) world.surjective world.update_convs(2))

lemma disk_chest_keeps_tree: "chest_keeps (\<lambda>w. wf_os (w_disk w)) (world_chest (filesystem_chest root))"
  unfolding chest_keeps_def world_chest_def filesystem_chest_def chest.select_convs filesystem_MkdirAll_def
  by (intro conjI allI on_disk_keeps) (erule (1) ReplaceDir_wf WriteFile_wf fs_wf(1,4)[rotated])+



section \<open>The audit trail\<close>

text \<open>
  What the parts around a cutoff promise about the files that left (\<open>sent\<close>, with their bytes) and
  the paths in the audit trail: an upload adds at most its own file, saving adds the path if it
  reports no error, and nothing else touches either.
\<close>

definition quiet :: "('s \<Rightarrow> 'o) \<Rightarrow> ('s \<Rightarrow> 'r \<times> 's) \<Rightarrow> bool" where
  "quiet obs f \<longleftrightarrow> (\<forall>s. obs (snd (f s)) = obs s)"

definition outbound_ok ::
  "('s \<Rightarrow> (string \<times> bytes) set) \<Rightarrow> ('s \<Rightarrow> string set) \<Rightarrow> 's pipeline_lib \<Rightarrow> 's aggregator \<Rightarrow> bool" where
  "outbound_ok sent trail P g \<longleftrightarrow>
     (\<forall>p d s e s'. SaveFile (agg_auditStorage g) p d s = (e, s') \<longrightarrow>
        sent s' = sent s \<and> trail s \<subseteq> trail s' \<and> (e = None \<longrightarrow> p \<in> trail s')) \<and>
     (\<forall>n f a e. quiet (\<lambda>s. (sent s, trail s)) (notifyAfterUpload P g n f a e)) \<and>
     (\<forall>e. quiet (\<lambda>s. (sent s, trail s)) (Alerters_AlertError (agg_alerters g) e)) \<and>
     (\<forall>ev. quiet (\<lambda>s. (sent s, trail s)) (agg_eventEmitter g ev))"

definition agent_ok :: "('s \<Rightarrow> (string \<times> bytes) set) \<Rightarrow> ('s \<Rightarrow> string set) \<Rightarrow> 's agent \<Rightarrow> bool" where
  "agent_ok sent trail a \<longleftrightarrow>
     (\<forall>n b s r s'. UploadFile a n b s = (r, s') \<longrightarrow> sent s' \<subseteq> insert (n, b) (sent s) \<and> trail s' = trail s)"

definition quiet_chest :: "('s \<Rightarrow> 'o) \<Rightarrow> 's chest \<Rightarrow> bool" where
  "quiet_chest obs c \<longleftrightarrow> (\<forall>x. chest_keeps (\<lambda>s. obs s = x) c)"

lemma quiet_keeps: "quiet obs f \<Longrightarrow> keeps (\<lambda>s. I (obs s)) f"
  by (simp add: quiet_def keeps_def)

lemma quiet_chest_keeps: "quiet_chest obs c \<Longrightarrow> chest_keeps (\<lambda>s. I (obs s)) c"
  unfolding quiet_chest_def chest_keeps_def keeps_def by metis

lemma emit_keeps:
  assumes "\<And>ev. keeps I (em ev)"
  shows "I s \<Longrightarrow> I (snd (emit_merged em c i ms el s))"
proof -
  have inputs: "I s \<Longrightarrow> I (snd (emit_inputs em c i k mf ps el s))" for i k mf ps el s
    using assms unfolding keeps_def by (induction ps arbitrary: k el s) (auto split: prod.splits, metis snd_conv)
  show "I s \<Longrightarrow> I (snd (emit_merged em c i ms el s))"
    by (induction ms arbitrary: i el s) (auto split: prod.splits, metis inputs snd_conv)
qed

lemma uploadFile_cases [consumes 1, case_names refused unsaved uploaded]:
  assumes "uploadFile P g c i a res s = ((name, e), s')"
  obtains "s' = s" "e \<noteq> None"
  | p buf x where "SaveFile (agg_auditStorage g) p buf s = (Some x, s')" "e \<noteq> None"
  | f buf s1 u s2 nErr s3 where "result_File res = Some f"
      "Format (lib (pl_outside P)) (pl_writer P) (agg_outputFormatter g) res = Inr buf"
      "SaveFile (agg_auditStorage g) (audit_path g c i a name) buf s = (None, s1)"
      "UploadFile a name buf s1 = ((e, u), s2)" "notifyAfterUpload P g name (Some f) a e s2 = (nErr, s3)"
      "s' = (case nErr of None \<Rightarrow> s3 | Some x \<Rightarrow> alertOnError (Some g) (Some x) s3)"
  using assms by (auto simp: uploadFile_def Let_def split: option.splits sum.splits prod.splits)

lemma alert_quiet:
  "outbound_ok sent trail P g \<Longrightarrow> sent (alertOnError (Some g) e s) = sent s \<and> trail (alertOnError (Some g) e s) = trail s"
  by (auto simp: outbound_ok_def quiet_def alertOnError_def split: option.splits)

text \<open>What is uploaded beyond \<open>old\<close> has its path in the trail.\<close>

definition audited ::
  "('s \<Rightarrow> (string \<times> bytes) set) \<Rightarrow> ('s \<Rightarrow> string set) \<Rightarrow> 's aggregator \<Rightarrow> clock \<Rightarrow> (string \<times> bytes) set \<Rightarrow> 's \<Rightarrow> bool" where
  "audited sent trail g c old s \<longleftrightarrow> (\<forall>x\<in>sent s. x \<in> old \<or> (\<exists>i a. audit_path g c i a (fst x) \<in> trail s))"

lemma audited_mono: "audited sent trail g c old s \<Longrightarrow> sent s' = sent s \<Longrightarrow> trail s \<subseteq> trail s' \<Longrightarrow> audited sent trail g c old s'"
  unfolding audited_def by blast

lemma uploadFile_audited:
  assumes ok: "outbound_ok sent trail P g" and "agent_ok sent trail a"
    and "audited sent trail g c old s" and "uploadFile P g c i a res s = (r, s')"
  shows "audited sent trail g c old s'"
proof -
  have save: "sent s1 = sent s" "trail s \<subseteq> trail s1" "e = None \<Longrightarrow> p \<in> trail s1"
    if "SaveFile (agg_auditStorage g) p d s = (e, s1)" for p d e s1
    using ok that unfolding outbound_ok_def by blast+
  obtain name e where "r = (name, e)" by fastforce
  with assms(4) have "uploadFile P g c i a res s = ((name, e), s')" by simp
  then show ?thesis
  proof (cases rule: uploadFile_cases)
    case refused
    with assms(3) show ?thesis by simp
  next
    case (unsaved p buf x)
    with save assms(3) show ?thesis by (blast intro: audited_mono)
  next
    case (uploaded f buf s1 u s2 nErr s3)
    note s1 = save[OF uploaded(3)]
    have s2: "sent s2 \<subseteq> insert (name, buf) (sent s1)" "trail s2 = trail s1"
      using assms(2) uploaded(4) unfolding agent_ok_def by blast+
    have "audited sent trail g c old s2"
      using assms(3) s1 s2 unfolding audited_def by (metis fst_conv insert_iff subset_iff)
    moreover have "(sent s3, trail s3) = (sent s2, trail s2)"
      using ok uploaded(5) unfolding outbound_ok_def quiet_def by (metis snd_conv)
    ultimately have "audited sent trail g c old s3" by (simp add: audited_def)
    then show ?thesis
      using alert_quiet[OF ok] unfolding uploaded(6) by (auto simp: audited_def split: option.split)
  qed
qed


text \<open>
  C13. A cutoff that fails tells nobody about what it uploaded: one failing upload, or a file
  that could not be cached or traced, keeps back the \<open>FileUploaded\<close> events of all files of the
  cutoff, also of those the agent took.
\<close>

theorem failed_cutoff_reports_nothing:
  assumes "agg_merger g = filesystem_merger (pl_outside P) m"
    and "quiet_chest events (fm_storage m)"
    and "\<And>i a x created'. upload_New (dialing (pl_outside P)) (retrying (pl_outside P)) (mock_agent (pl_outside P)) (fm_cfg m)
        (sh_UploadAgent (fm_shard m)) created = (Inr a, created') \<Longrightarrow> quiet events (runTransformers P g c i a x)"
    and "withEachFile P g c created s = (Some (Some e), created', s')"
  shows "events s' = events s"
proof -
  obtain wr c1 s1 where w: "WithEachMerged (pl_outside P) m (stamp c) (runTransformers P g c) created s = (wr, c1, s1)" by (metis prod.exhaust)
  have "events s1 = events s"
    by (rule WithEachMerged_keeps[OF quiet_chest_keeps[OF assms(2)] quiet_keeps[OF assms(3)] _ w]) auto
  moreover have "s' = s1"
    using assms(4) w by (auto simp: withEachFile_def assms(1) filesystem_merger_def split: option.splits prod.splits)
  ultimately show ?thesis by simp
qed

subsection \<open>A disk, a server and a bucket\<close>

text \<open>The server refuses one file name; the template names files after their number.\<close>

record trail_state =
  ts_disk :: os
  ts_sent :: "(string \<times> bytes) list"
  ts_bucket :: "(string \<times> bytes) list"
  ts_events :: "payload list"

definition ts_on_disk :: "(os \<Rightarrow> 'r \<times> os) \<Rightarrow> trail_state \<Rightarrow> 'r \<times> trail_state" where
  "ts_on_disk f s = (case f (ts_disk s) of (r, d) \<Rightarrow> (r, s\<lparr>ts_disk := d\<rparr>))"

definition ts_chest :: "trail_state chest" where
  "ts_chest = (let c = filesystem_chest ''/data'' in
     \<lparr>Open = (\<lambda>p s. Open c p (ts_disk s)), Glob = (\<lambda>p s. Glob c p (ts_disk s)),
      ReadDir = (\<lambda>p s. ReadDir c p (ts_disk s)), ReplaceFile = (\<lambda>a b. ts_on_disk (ReplaceFile c a b)),
      ReplaceDir = (\<lambda>a b. ts_on_disk (ReplaceDir c a b)), MkdirAll = (\<lambda>p. ts_on_disk (MkdirAll c p)),
      RmdirAll = (\<lambda>p. ts_on_disk (RmdirAll c p)), WriteFile = (\<lambda>p d. ts_on_disk (WriteFile c p d))\<rparr>)"

definition ts_agent :: "trail_state agent" where
  "ts_agent = sample_agent\<lparr>UploadFile := (\<lambda>n b s. if n = ''1'' then ((Some ENOENT, b), s)
     else ((None, []), s\<lparr>ts_sent := ts_sent s @ [(n, b)]\<rparr>))\<rparr>"

definition ts_audit :: "trail_state audit_storage" where
  "ts_audit = \<lparr>SaveFile = (\<lambda>p d s. case blob_SaveFile mem_bucket None p d (ts_bucket s) of (e, b) \<Rightarrow> (e, s\<lparr>ts_bucket := b\<rparr>)),
     GetFile = (\<lambda>p s. blob_GetFile mem_bucket p (ts_bucket s)), audit_Close = (\<lambda>s. (None, s))\<rparr>"

definition ts_outside :: "trail_state outside" where
  "ts_outside = sample_outside\<lparr>mock_agent := ts_agent\<rparr>"

definition ts_lib :: "trail_state pipeline_lib" where
  "ts_lib = \<lparr>pl_outside = ts_outside, template_Render = (\<lambda>_ d. Inr (show_nat (fd_Index d))), pl_writer = (\<lambda>_. ach_Write sample_lib),
     pl_notify = sample_notify, pl_hostname = ''host''\<rparr>"

definition ts_agents :: UploadAgents where
  "ts_agents = sample_agents\<lparr>ua_Retry := None\<rparr>"

definition ts_merging :: "trail_state filesystemMerging" where
  "ts_merging = \<lparr>fm_cfg = ts_agents, fm_storage = ts_chest, fm_shard = sample_shard\<rparr>"

definition ts_aggregator :: "trail_state aggregator" where
  "ts_aggregator = \<lparr>agg_eventEmitter = (\<lambda>e s. (None, s\<lparr>ts_events := ts_events s @ [e]\<rparr>)), agg_shard = sample_shard,
     agg_uploadAgents = ts_agents, agg_cutoffs = \<lparr>jobs = [], firstCutoff = []\<rparr>,
     agg_merger = filesystem_merger ts_outside ts_merging, agg_auditStorage = ts_audit, agg_transformers = [],
     agg_outputFormatter = NACHA [], agg_alerters = [], agg_cleanup = None\<rparr>"

definition ts_clock :: clock where
  "ts_clock = \<lparr>stamp = ''1'', today = (\<lambda>_. ''2025-01-02''), uploaded_at = (\<lambda>_ _. 5)\<rparr>"

definition ts_merged :: "string \<Rightarrow> mergedFile" where
  "ts_merged name = \<lparr>InputFilepaths = [''d/a.ach'', ''d/b.ach''], UploadedFilename = name, merged_ACHFile = sample_file ''a'', merged_Shard = ''prod''\<rparr>"

definition ts_receiver :: "trail_state FileReceiver" where
  "ts_receiver = \<lparr>defaultShardName = ''prod'', fr_Kafka = None, fr_InMem = None, fr_eventEmitter = agg_eventEmitter ts_aggregator,
     fr_shardRepository = \<lparr>Lookup = (\<lambda>_ _. ([], None)), shards_List = (\<lambda>_. Inr []), Add = (\<lambda>_ _ s. (None, s))\<rparr>,
     shardAggregators = [(''prod'', Some ts_aggregator)],
     fr_fileRepository = \<lparr>Record = (\<lambda>_ s. (None, s)), repo_Cleanup = (\<lambda>_ s. (None, s)), Cancel = (\<lambda>_ s. (None, s))\<rparr>,
     httpFiles = None, streamFiles = None, fr_transformConfig = None\<rparr>"

text \<open>Files are pending under their names.\<close>

definition ts_start :: "string list \<Rightarrow> trail_state" where
  "ts_start names = \<lparr>ts_disk = [([''data''], Dir), ([''data'', ''mergable''], Dir), ([''data'', ''mergable'', ''prod''], Dir)] @
       map (\<lambda>n. ([''data'', ''mergable'', ''prod'', n @ ''.ach''], Reg n)) names,
     ts_sent = [], ts_bucket = [], ts_events = []\<rparr>"

lemma one_uploaded:
  "ts_sent (snd (snd (withEachFile ts_lib ts_aggregator ts_clock [] (ts_start [''a''])))) = [(''0'', ''a'')]"
  by code_simp

lemma one_failed:
  "(let (r, _, s) = withEachFile ts_lib ts_aggregator ts_clock [] (ts_start [''a'', ''b''])
    in case r of Some (Some e) \<Rightarrow> ts_sent s = [(''0'', ''a'')] | _ \<Rightarrow> False)"
  by code_simp

lemma ts_chest_quiet: "quiet_chest (\<lambda>s. f (ts_sent s) (ts_bucket s) (ts_events s)) ts_chest"
  by (simp add: quiet_chest_def chest_keeps_def keeps_def ts_chest_def ts_on_disk_def Let_def split: prod.split)

lemma ts_notify_quiet: "snd (notifyAfterUpload ts_lib ts_aggregator n f a e s) = s"
  by (simp add: notifyAfterUpload_def ts_aggregator_def ts_lib_def sample_shard_def NewMultiSender_def multi_Critical_def
      multi_Info_def multi_retry_def Let_def split: option.split prod.split)

lemma ts_outbound: "outbound_ok (\<lambda>s. set (ts_sent s)) (\<lambda>s. fst ` set (ts_bucket s)) ts_lib ts_aggregator"
  unfolding outbound_ok_def quiet_def ts_notify_quiet
  by (auto simp: ts_aggregator_def ts_audit_def blob_SaveFile_def mem_bucket_def Alerters_AlertError_def
      split: option.splits prod.splits if_splits bool.splits dest: map_of_SomeD) (force dest: map_of_SomeD)+

lemma ts_agent_made:
  "upload_New (dialing ts_outside) (retrying ts_outside) (mock_agent ts_outside) (fm_cfg ts_merging) (sh_UploadAgent (fm_shard ts_merging)) [] =
     (Inr ts_agent, [ts_agent])"
  by (simp add: upload_New_def build_agent_def UploadAgents_Find_def ts_merging_def ts_agents_def sample_agents_def plain_agents_def
      plain_agent_cfg_def ts_outside_def sample_outside_def sample_shard_def)

lemma ts_agent_ok: "agent_ok (\<lambda>s. set (ts_sent s)) (\<lambda>s. fst ` set (ts_bucket s)) ts_agent"
  by (auto simp: agent_ok_def ts_agent_def split: if_splits)

lemma ts_upload_quiet:
  assumes "uploadFile ts_lib ts_aggregator c i ts_agent res s = (r, s')"
  shows "ts_events s' = ts_events s"
proof -
  have save: "ts_events s1 = ts_events s" if "SaveFile (agg_auditStorage ts_aggregator) p d s = (e, s1)" for p d s e s1
    using that by (auto simp: ts_aggregator_def ts_audit_def split: prod.splits)
  have alert: "alertOnError (Some ts_aggregator) x s = s" for x s
    by (simp add: alertOnError_def ts_aggregator_def Alerters_AlertError_def split: option.split)
  obtain name e where "r = (name, e)" by fastforce
  with assms have "uploadFile ts_lib ts_aggregator c i ts_agent res s = ((name, e), s')" by simp
  then show ?thesis
  proof (cases rule: uploadFile_cases)
    case (uploaded f buf s1 u s2 nErr s3)
    have "s3 = s2" using uploaded(5) ts_notify_quiet by (metis snd_conv)
    moreover have "ts_events s2 = ts_events s1" using uploaded(4) by (auto simp: ts_agent_def split: if_splits)
    ultimately show ?thesis using save[OF uploaded(3)] uploaded(6) by (simp add: alert split: option.splits)
  qed (auto dest: save)
qed

lemma ts_run_quiet: "quiet ts_events (runTransformers ts_lib ts_aggregator c i ts_agent x)"
  unfolding quiet_def runTransformers_def
  by (auto split: prod.split option.split) (metis ts_upload_quiet prod.collapse)


lemma failed_cutoff_reports_nothing_witness:
  "ts_sent (snd (snd (withEachFile ts_lib ts_aggregator ts_clock [] (ts_start [''a'', ''b''])))) = [(''0'', ''a'')] \<and>
     ts_events (snd (snd (withEachFile ts_lib ts_aggregator ts_clock [] (ts_start [''a'', ''b''])))) = []"
proof -
  let ?r = "withEachFile ts_lib ts_aggregator ts_clock [] (ts_start [''a'', ''b''])"
  obtain e where e: "fst ?r = Some (Some e)" and s: "ts_sent (snd (snd ?r)) = [(''0'', ''a'')]"
    using one_failed by (auto simp: Let_def split: prod.splits option.splits)
  from e have r: "?r = (Some (Some e), fst (snd ?r), snd (snd ?r))" by (metis prod.collapse)
  have m: "agg_merger ts_aggregator = filesystem_merger (pl_outside ts_lib) ts_merging" by (simp add: ts_aggregator_def ts_lib_def)
  have "ts_events (snd (snd ?r)) = ts_events (ts_start [''a'', ''b''])"
  proof (rule failed_cutoff_reports_nothing[OF m _ _ r])
    show "quiet_chest ts_events (fm_storage ts_merging)"
      using ts_chest_quiet[of "\<lambda>_ _ c. c"] by (simp add: ts_merging_def)
    show "quiet ts_events (runTransformers ts_lib ts_aggregator ts_clock i a x)"
      if "upload_New (dialing (pl_outside ts_lib)) (retrying (pl_outside ts_lib)) (mock_agent (pl_outside ts_lib)) (fm_cfg ts_merging)
            (sh_UploadAgent (fm_shard ts_merging)) [] = (Inr a, created')" for i a x created'
      using that ts_agent_made ts_run_quiet by (simp add: ts_lib_def)
  qed
  with s show ?thesis by (simp add: ts_start_def)
qed

section \<open>Events about uploaded files\<close>

text \<open>The events of one cutoff in the order they are sent.\<close>

definition input_events :: "clock \<Rightarrow> nat \<Rightarrow> nat \<Rightarrow> mergedFile \<Rightarrow> string list \<Rightarrow> payload list" where
  "input_events c i k mf ps = map (\<lambda>(j, p). uploaded_event c i j mf p) (enumerate k ps)"

definition cutoff_events :: "clock \<Rightarrow> nat \<Rightarrow> mergedFile list \<Rightarrow> payload list" where
  "cutoff_events c i ms = concat (map (\<lambda>(j, mf). input_events c j 0 mf (InputFilepaths mf)) (enumerate i ms))"

definition failures :: "(payload \<Rightarrow> err option) \<Rightarrow> payload list \<Rightarrow> err list" where
  "failures outcome es = concat (map (\<lambda>e. case outcome e of None \<Rightarrow> [] | Some x \<Rightarrow> [x]) es)"

lemma emit_inputs_sent:
  "emit_inputs (world_emitter outcome) c i k mf ps el w =
     (el @ failures outcome (input_events c i k mf ps),
      w\<lparr>w_sent := w_sent w @ filter (\<lambda>e. outcome e = None) (input_events c i k mf ps)\<rparr>)"
  by (induction ps arbitrary: k el w)
     (auto simp: input_events_def failures_def world_emitter_def split: option.splits)

lemma emit_merged_sent:
  "emit_merged (world_emitter outcome) c i ms el w =
     (el @ failures outcome (cutoff_events c i ms), w\<lparr>w_sent := w_sent w @ filter (\<lambda>e. outcome e = None) (cutoff_events c i ms)\<rparr>)"
  by (induction ms arbitrary: i el w) (auto simp: emit_inputs_sent cutoff_events_def failures_def)

text \<open>
  C15. After a cutoff one \<open>FileUploaded\<close> event is sent for each input of each uploaded file, in
  order; one that cannot be sent is left out, does not keep the others back and is reported.
\<close>

theorem event_for_each_input:
  assumes "agg_eventEmitter g = world_emitter outcome"
  shows "emitFilesUploaded g c merged w =
    (ErrorList_Err (failures outcome (cutoff_events c 0 merged)),
     w\<lparr>w_sent := w_sent w @ filter (\<lambda>e. outcome e = None) (cutoff_events c 0 merged)\<rparr>)"
  using assms by (simp add: emitFilesUploaded_def emit_merged_sent)

lemma event_for_each_input_witness:
  "emitFilesUploaded (gw_aggregator (sample_gateway\<lparr>gw_outcome := (\<lambda>e. if e = uploaded_event ts_clock 0 0 (ts_merged ''o'') ''d/a.ach'' then Some ENOENT else None)\<rparr>) sample_shard)
     ts_clock [ts_merged ''o''] sample_world =
   (Some (Err ''no such file or directory'' []),
    sample_world\<lparr>w_sent := [FileUploaded \<lparr>up_FileID = ''b'', up_ShardKey = ''prod'', up_Filename = ''o'', UploadedAt = 5\<rparr>]\<rparr>)"
proof -
  let ?o = "\<lambda>e. if e = uploaded_event ts_clock 0 0 (ts_merged ''o'') ''d/a.ach'' then Some ENOENT else None"
  have "agg_eventEmitter (gw_aggregator (sample_gateway\<lparr>gw_outcome := ?o\<rparr>) sample_shard) = world_emitter ?o"
    by (simp add: gw_aggregator_def)
  note e = event_for_each_input[OF this, of ts_clock "[ts_merged ''o'']" sample_world]
  have f: "failures ?o (cutoff_events ts_clock 0 [ts_merged ''o'']) = [ENOENT]" by code_simp
  have g: "filter (\<lambda>e. ?o e = None) (cutoff_events ts_clock 0 [ts_merged ''o'']) =
      [FileUploaded \<lparr>up_FileID = ''b'', up_ShardKey = ''prod'', up_Filename = ''o'', UploadedAt = 5\<rparr>]" by code_simp
  show ?thesis unfolding e f g by (simp add: ErrorList_Err_def ENOENT_def sample_world_def)
qed

section \<open>Manual and scheduled cutoffs\<close>

text \<open>
  C16. Triggering the cutoff of a shard by hand does what its schedule would have done on a
  banking day: the same state and agents when it succeeds, the same up to the text of the
  alert when it fails, a panic in the same cases.
\<close>

theorem manual_cutoff_is_scheduled_cutoff:
  assumes "map_of (shardAggregators fr) n = Some (Some g)" and "IsBankingDay day"
  shows "case triggerManualCutoff P clk fr ''PUT'' [n] (created, s) of
      None \<Rightarrow> agg_step P g (clk 0) (Cutoff_tick day) (created, s) = None
    | Some ((status, body), created1, s1) \<Rightarrow>
        (\<exists>r s0. body = Some [(sh_Name (agg_shard g), map_option err_text r)] \<and> (status = 200 \<longleftrightarrow> r = None) \<and>
           s1 = alertOnError (Some g) r s0 \<and>
           agg_step P g (clk 0) (Cutoff_tick day) (created, s) =
             Some (True, created1, alertOnError (Some g) (map_option (\<lambda>e. errorf_v ''merging files: '' (errorf_v ''merging ACH files: '' e)) r) s0))"
proof -
  obtain r created1 s1 where w: "xm_WithEachMerged (agg_merger g) (stamp (clk 0)) (runTransformers P g (clk 0)) created s = (r, created1, s1)"
    by (metis prod.exhaust)
  note defs = triggerManualCutoff_def agg_step_def manualCutoff_def withEachFile_def hasErrors_def
  consider "r = None" | ms where "r = Some (ms, None)" | ms e where "r = Some (ms, Some e)" by (metis option.exhaust prod.exhaust)
  then show ?thesis
  proof cases
    case 1
    with w assms show ?thesis by (simp add: defs)
  next
    case (2 ms)
    with w assms show ?thesis by (auto simp: defs alertOnError_def intro!: exI[where x = None])
  next
    case (3 ms e)
    with w assms show ?thesis by (auto simp: defs intro!: exI[where x = "Some e"] exI[where x = s1])
  qed
qed

definition ts_day :: Day where
  "ts_day = \<lparr>day_Time = \<lparr>c_year = 2025, c_month = 1, c_day = 2, c_hour = 16, c_min = 20, c_sec = 0\<rparr>, day_Holiday = None,
     IsBankingDay = True, IsHoliday = False, IsWeekend = False, FirstWindow = True\<rparr>"

lemma manual_cutoff_is_scheduled_cutoff_witness:
  "case triggerManualCutoff ts_lib (\<lambda>_. ts_clock) ts_receiver ''PUT'' [''prod''] ([], ts_start [''a'']) of
      None \<Rightarrow> agg_step ts_lib ts_aggregator ts_clock (Cutoff_tick ts_day) ([], ts_start [''a'']) = None
    | Some ((status, body), created1, s1) \<Rightarrow>
        (\<exists>r s0. body = Some [(''prod'', map_option err_text r)] \<and> (status = 200 \<longleftrightarrow> r = None) \<and>
           s1 = alertOnError (Some ts_aggregator) r s0 \<and>
           agg_step ts_lib ts_aggregator ts_clock (Cutoff_tick ts_day) ([], ts_start [''a'']) =
             Some (True, created1, alertOnError (Some ts_aggregator) (map_option (\<lambda>e. errorf_v ''merging files: '' (errorf_v ''merging ACH files: '' e)) r) s0))"
proof -
  have n: "sh_Name (agg_shard ts_aggregator) = ''prod''" by (simp add: ts_aggregator_def sample_shard_def)
  show ?thesis
    by (rule manual_cutoff_is_scheduled_cutoff[where g = ts_aggregator and n = "''prod''" and fr = ts_receiver and day = ts_day
          and clk = "\<lambda>_. ts_clock", unfolded n])
       (simp_all add: ts_receiver_def ts_day_def)
qed

end
