(* ===== verification/Gateway.thy ===== *)
theory Gateway
  imports Aggregator_Proofs
begin

text \<open>
  A whole gateway at work: messages are processed, the loops of the shards' aggregators turn,
  old directories are cleaned up, the process restarts. Seen from outside it is a small
  machine of sets: each shard has files that were accepted and files that were cancelled, and
  a cutoff takes the difference and empties both. Every step of the gateway refines a step of
  that machine, whatever the other shards do meanwhile.
\<close>

section \<open>What a cutoff leaves alone\<close>

context chest_tree
begin

lemma below_dir_keeps:
  "chest_keeps_at (\<lambda>p. \<exists>ns. plain_path (dir # ns) \<and> p = rel_path (dir # ns))
     (\<lambda>s. inv s \<and> (\<forall>q. \<not> prefix [dir] q \<longrightarrow> node s q = t q)) c"
proof -
  have mk: "t_mkdir (dir # ns) u q = u q" if "\<not> prefix [dir] q" "u [] = Some Dir" for ns u q
    using that by (cases q) (auto simp: t_mkdir_def)
  have wr: "t_write (dir # ns) b u q = u q" if "\<not> prefix [dir] q" "u [] = Some Dir" for ns b u q
    using that by (cases q; cases ns) (auto simp: t_write_def t_mkdir_def)
  have rm: "t_remove (dir # ns) u q = u q" if "\<not> prefix [dir] q" for ns u q
    using that by (cases q) (auto simp: t_remove_def)
  let ?I = "\<lambda>s. inv s \<and> (\<forall>q. \<not> prefix [dir] q \<longrightarrow> node s q = t q)"
  have k: "keeps ?I f"
    if f: "\<And>s r s'. f s = (r, s') \<Longrightarrow> inv s \<Longrightarrow> inv s' \<and> (\<forall>q. \<not> prefix [dir] q \<longrightarrow> node s' q = node s q)"
    for f :: "'s \<Rightarrow> err option \<times> 's"
  proof (rule keepsI)
    fix s r s'
    assume "f s = (r, s')" and "?I s"
    with f[of s r s'] show "?I s'" by simp
  qed
  have "keeps ?I (MkdirAll c (rel_path (dir # ns)))" if p: "plain_path (dir # ns)" for ns
  proof (rule k)
    fix s r s'
    assume "MkdirAll c (rel_path (dir # ns)) s = (r, s')" and i: "inv s"
    with mkdir_done[OF i p] mkdir_failed[OF i p] mk root_dir[OF i]
    show "inv s' \<and> (\<forall>q. \<not> prefix [dir] q \<longrightarrow> node s' q = node s q)" by (cases r) simp_all
  qed
  moreover have "keeps ?I (RmdirAll c (rel_path (dir # ns)))" if p: "plain_path (dir # ns)" for ns
  proof (rule k)
    fix s r s'
    assume "RmdirAll c (rel_path (dir # ns)) s = (r, s')" and i: "inv s"
    with rmdir_done[OF i p] rmdir_failed[OF i p] rm
    show "inv s' \<and> (\<forall>q. \<not> prefix [dir] q \<longrightarrow> node s' q = node s q)" by (cases r) simp_all
  qed
  moreover have "keeps ?I (WriteFile c (rel_path (dir # ns)) d)" if p: "plain_path (dir # ns)" for ns d
  proof (rule k)
    fix s r s'
    assume w: "WriteFile c (rel_path (dir # ns)) d s = (r, s')" and i: "inv s"
    show "inv s' \<and> (\<forall>q. \<not> prefix [dir] q \<longrightarrow> node s' q = node s q)"
    proof (cases r)
      case None
      with write_done[OF i p] w obtain b where "inv s'" "node s' = t_write (dir # ns) b (node s)" by blast
      with wr root_dir[OF i] show ?thesis by simp
    next
      case (Some e)
      with write_failed[OF i p] w show ?thesis by simp
    qed
  qed
  ultimately show ?thesis unfolding chest_keeps_at_def by blast
qed

text \<open>All that a cutoff does after it has isolated the pending directory is below the isolated one.\<close>

lemma cutoff_isolates [consumes 9, case_names failed isolated]:
  assumes "inv s" and "shard_ok m" and "fm_storage m = c" and "slash \<notin> set tm"
    and "node s [sh_Name (fm_shard m) @ ''-'' @ tm] = None" and "\<not> is_reg (node s (pend_dir m))"
    and "\<forall>b. slash \<notin> set (sha256_hex X b)"
    and "\<forall>a created' i x. upload_New (dialing X) (retrying X) (mock_agent X) (fm_cfg m) (sh_UploadAgent (fm_shard m)) created = (Inr a, created')
      \<longrightarrow> quiet (\<lambda>s. (inv s, node s)) (f i a x)"
    and "WithEachMerged X m tm f created s = (r, created', s')"
  obtains dir x y where "isolateMergableDir m tm s = ((dir, Some x), s')" "inv s'" "node s' = node s" "r = Some ([], Some y)"
  | s1 where "isolateMergableDir m tm s = ((sh_Name (fm_shard m) @ ''-'' @ tm, None), s1)" "inv s'"
      "\<And>q. \<not> prefix [sh_Name (fm_shard m) @ ''-'' @ tm] q \<Longrightarrow> node s' q = node s1 q"
proof -
  let ?dir = "sh_Name (fm_shard m) @ ''-'' @ tm"
  note nm = isolated_name[OF assms(2,4)]
  obtain dir e s1 where iso: "isolateMergableDir m tm s = ((dir, e), s1)" by (metis prod.exhaust)
  show thesis
  proof (cases e)
    case (Some x)
    have rep: "ReplaceDir c (rel_path (pend_dir m)) (rel_path [?dir]) s = (Some x, s1)"
      using iso Some unfolding isolateMergableDir_def Let_def mergable_dir_rel[OF assms(2)] assms(3) nm(1)
      by (auto split: prod.splits)
    have "inv s1 \<and> node s1 = node s" by (rule replace_dir_failed[OF assms(1) plain_pend_dir[OF assms(2)] nm(2) rep])
    moreover obtain y where "s' = s1" "r = Some ([], Some y)" using assms(9) iso Some by (auto simp: WithEachMerged_def)
    ultimately show thesis using that(1) iso Some by simp
  next
    case None
    have dir: "dir = ?dir" using iso by (auto simp: isolateMergableDir_def nm(1) Let_def split: prod.splits)
    note i = isolate_effect[OF assms(1-4) iso[unfolded None] assms(5)[folded dir] assms(6)]
    let ?I = "\<lambda>s. inv s \<and> (\<forall>q. \<not> prefix [dir] q \<longrightarrow> node s q = node s1 q)"
    let ?Q = "\<lambda>p. \<exists>ns. plain_path (dir # ns) \<and> p = rel_path (dir # ns)"
    have I1: "?I s1" using i by simp
    have up: "plain_name ''uploaded''" by (simp add: plain_name_def)
    have pl: "plain_path [dir]" using nm(2) dir by simp
    have join: "filepath_Join [dir, ''uploaded''] = rel_path [dir, ''uploaded'']"
      using Join_names[of "[dir, ''uploaded'']"] pl up by (simp add: plain_path_def)
    have pu: "plain_path (dir # [''uploaded'', n])" if "plain_name n" for n using that pl up by (simp add: plain_path_def)
    have ju: "filepath_Join [rel_path [dir, ''uploaded''], n] = rel_path (dir # [''uploaded'', n])" if "plain_name n" for n
      using Join_path_name[of "[dir, ''uploaded'']" n] pl up that by (simp add: plain_path_def)
    have names: "plain_name (sha256_hex X b @ ''.ach'')" "plain_name (sha256_hex X b @ ''.json'')" for b
      using assms(7) by (auto intro!: plain_long)
    have "?Q dir" using pl by (intro exI[of _ "[]"]) simp
    moreover have "?Q (filepath_Join [dir, ''uploaded''])"
      using pl up by (intro exI[of _ "[''uploaded'']"]) (simp add: join plain_path_def)
    moreover have "cache_paths X ?Q (filepath_Join [dir, ''uploaded''])"
      unfolding cache_paths_def join using names pu ju by blast
    ultimately have Q: "?Q dir \<and> ?Q (filepath_Join [dir, ''uploaded'']) \<and> cache_paths X ?Q (filepath_Join [dir, ''uploaded''])" by blast
    have call: "keeps ?I (f i a x)"
      if "upload_New (dialing X) (retrying X) (mock_agent X) (fm_cfg m) (sh_UploadAgent (fm_shard m)) created = (Inr a, cr)" for a cr i x
      using assms(8)[rule_format, OF that, of i x] by (simp add: quiet_def keeps_def)
    have "?I s'" by (rule WithEachMerged_keeps_at[OF iso I1 _ Q call assms(9)]) (use below_dir_keeps assms(3) in auto)
    with that(2) iso None dir show thesis by simp
  qed
qed

text \<open>
  A cutoff that cannot isolate the pending directory changes nothing; otherwise the pending
  directory is gone and only the isolated one is new.
\<close>

lemma cutoff_effect:
  assumes "inv s" and "shard_ok m" and "fm_storage m = c" and "slash \<notin> set tm"
    and "node s [sh_Name (fm_shard m) @ ''-'' @ tm] = None" and "\<not> is_reg (node s (pend_dir m))"
    and "\<forall>b. slash \<notin> set (sha256_hex X b)"
    and "\<And>a created' i x. upload_New (dialing X) (retrying X) (mock_agent X) (fm_cfg m) (sh_UploadAgent (fm_shard m)) created = (Inr a, created')
      \<Longrightarrow> quiet (\<lambda>s. (inv s, node s)) (f i a x)"
    and "WithEachMerged X m tm f created s = (r, created', s')"
  shows "inv s' \<and> (node s' = node s \<and> (\<exists>e. r = Some ([], Some e)) \<or>
    (\<forall>q. node s' (pend_dir m @ q) = None) \<and>
    (\<forall>q. \<not> prefix [sh_Name (fm_shard m) @ ''-'' @ tm] q \<longrightarrow> \<not> prefix (pend_dir m) q \<longrightarrow> node s' q = node s q))"
proof -
  have "\<forall>a created' i x. upload_New (dialing X) (retrying X) (mock_agent X) (fm_cfg m) (sh_UploadAgent (fm_shard m)) created = (Inr a, created')
      \<longrightarrow> quiet (\<lambda>s. (inv s, node s)) (f i a x)"
    using assms(8) by blast
  from assms(1-7) this assms(9) show ?thesis
  proof (cases rule: cutoff_isolates)
    case (isolated s1)
    note i = isolate_effect[OF assms(1-4) isolated(1) assms(5,6)]
    have "\<not> prefix [sh_Name (fm_shard m) @ ''-'' @ tm] (pend_dir m @ q)" for q
      using isolated_name(3)[OF assms(2,4)] by (simp add: pend_dir_def)
    with i isolated(2,3) show ?thesis by auto
  qed simp
qed

end

section \<open>The steps of a gateway\<close>

text \<open>
  \<open>gs_channels\<close> is what was sent on the response channels, also before a restart. The steps are
  whole: a message is processed to its end before a cutoff starts, and the other way round.
\<close>

record gw_state =
  gs_channels :: channels
  gs_agents :: "world agent list"
  gs_world :: world

datatype gw_event =
    Deliver int "world pub_message"      \<comment> \<open>a message, at the time it is processed\<close>
  | Loop_turn string clock wakeup        \<comment> \<open>the aggregator of a shard wakes up\<close>
  | Cleanup_tick string int              \<comment> \<open>the cleanup service of a shard runs\<close>
  | Restart

text \<open>\<open>None\<close> is a panic.\<close>

fun gw_step :: "world receiver_lib \<Rightarrow> world pipeline_lib \<Rightarrow> gateway \<Rightarrow> gw_event \<Rightarrow> gw_state \<Rightarrow> gw_state option" where
  "gw_step V P G (Deliver now msg) st =
     (case processMessage V (gw_receiver G) now msg (gs_channels st, gs_world st) of
        (_, ch, w) \<Rightarrow> Some (st\<lparr>gs_channels := ch, gs_world := w\<rparr>))"
| "gw_step V P G (Loop_turn n c wk) st =
     (case shard_named G n of
        None \<Rightarrow> Some st
      | Some g \<Rightarrow>
          (case agg_step P g c wk (gs_agents st, gs_world st) of
             None \<Rightarrow> None
           | Some (_, as, w) \<Rightarrow> Some (st\<lparr>gs_agents := as, gs_world := w\<rparr>)))"
| "gw_step V P G (Cleanup_tick n now) st =
     (case shard_named G n of
        None \<Rightarrow> Some st
      | Some g \<Rightarrow>
          (case agg_cleanup g of
             None \<Rightarrow> Some st
           | Some cs \<Rightarrow> Some (st\<lparr>gs_world := snd (runCleanup cs now (gs_world st))\<rparr>)))"
| "gw_step V P G Restart st = Some (st\<lparr>gs_agents := []\<rparr>)"

fun gw_run :: "world receiver_lib \<Rightarrow> world pipeline_lib \<Rightarrow> gateway \<Rightarrow> gw_event list \<Rightarrow> gw_state \<Rightarrow> gw_state option" where
  "gw_run V P G [] st = Some st"
| "gw_run V P G (ev # evs) st = (case gw_step V P G ev st of None \<Rightarrow> None | Some st' \<Rightarrow> gw_run V P G evs st')"

section \<open>What it promises\<close>

text \<open>
  The ids accepted so far and those that left in a cutoff; for each shard the ids accepted and
  those cancelled since its last cutoff.
\<close>

record spec_state =
  sp_accepted :: "string set"
  sp_taken :: "string set"
  sp_pending :: "string \<Rightarrow> string set"
  sp_cancelled :: "string \<Rightarrow> string set"

datatype spec_action = Accepts string string | Cancels string string | Takes string "string set" | Stays

fun spec_step :: "spec_action \<Rightarrow> spec_state \<Rightarrow> spec_state option" where
  "spec_step (Accepts n i) a =
     (if i \<in> sp_accepted a then None
      else Some (a\<lparr>sp_accepted := insert i (sp_accepted a), sp_pending := (sp_pending a)(n := insert i (sp_pending a n))\<rparr>))"
| "spec_step (Cancels n i) a = Some (a\<lparr>sp_cancelled := (sp_cancelled a)(n := insert i (sp_cancelled a n))\<rparr>)"
| "spec_step (Takes n T) a =
     (if T = sp_pending a n - sp_cancelled a n
      then Some (a\<lparr>sp_taken := sp_taken a \<union> T, sp_pending := (sp_pending a)(n := {}), sp_cancelled := (sp_cancelled a)(n := {})\<rparr>)
      else None)"
| "spec_step Stays a = Some a"

fun spec_run :: "spec_action list \<Rightarrow> spec_state \<Rightarrow> spec_state option" where
  "spec_run [] a = Some a"
| "spec_run (x # xs) a = (case spec_step x a of None \<Rightarrow> None | Some b \<Rightarrow> spec_run xs b)"

definition spec_start :: spec_state where
  "spec_start = \<lparr>sp_accepted = {}, sp_taken = {}, sp_pending = (\<lambda>_. {}), sp_cancelled = (\<lambda>_. {})\<rparr>"

fun accepts :: "spec_action \<Rightarrow> string list" where
  "accepts (Accepts n i) = [i]"
| "accepts _ = []"

text \<open>Messages accept and cancel, the loop of a shard takes that shard's files, all else changes nothing.\<close>

fun cuts :: "spec_action \<Rightarrow> bool" where
  "cuts (Takes n T) = True"
| "cuts _ = False"

fun permits :: "gw_event \<Rightarrow> spec_action \<Rightarrow> bool" where
  "permits (Deliver now msg) act \<longleftrightarrow> \<not> cuts act"
| "permits (Loop_turn n c wk) act \<longleftrightarrow> act = Stays \<or> (\<exists>T. act = Takes n T)"
| "permits _ act \<longleftrightarrow> act = Stays"

section \<open>What it relies on\<close>

text \<open>The ids that name a file of their own in the pending directory.\<close>

definition plain_ids :: "string set" where
  "plain_ids = {x. slash \<notin> set x \<and> \<not> Contains x ''.canceled'' \<and> \<not> Contains x ''.ach''}"

lemma kept_plain: "x \<in> plain_ids \<Longrightarrow> kept_id x = x"
proof -
  assume "x \<in> plain_ids"
  then have "\<not> HasSuffix x ''.ach''" using Contains_suffix[of _ "''.ach''"] by (auto simp: plain_ids_def HasSuffix_def suffix_def)
  then show ?thesis by (simp add: kept_id_def TrimSuffix_def HasSuffix_def)
qed

abbreviation db_and_disk :: "world \<Rightarrow> db \<times> os" where
  "db_and_disk w \<equiv> (w_db w, w_disk w)"

definition quiet_agent :: "world agent \<Rightarrow> bool" where
  "quiet_agent a \<longleftrightarrow> (\<forall>n b. quiet db_and_disk (UploadFile a n b))"

text \<open>Uploading, auditing, alerting and notifying work elsewhere than in the database and the storage directory.\<close>

definition works_outside :: "world pipeline_lib \<Rightarrow> gateway \<Rightarrow> bool" where
  "works_outside P G \<longleftrightarrow>
     (\<forall>sh\<in>set (gw_shards G). \<forall>a created'.
        upload_New (dialing (gw_outside G)) (retrying (gw_outside G)) (mock_agent (gw_outside G)) (gw_agents G) (sh_UploadAgent sh) []
          = (Inr a, created') \<longrightarrow> quiet_agent a) \<and>
     (\<forall>p d. quiet db_and_disk (SaveFile (gw_audit G) p d)) \<and>
     (\<forall>sh\<in>set (gw_shards G). \<forall>n f a e. quiet db_and_disk (notifyAfterUpload P (gw_aggregator G sh) n f a e)) \<and>
     (\<forall>e. quiet db_and_disk (Alerters_AlertError (gw_alerters G) e)) \<and>
     quiet db_and_disk (audit_Close (gw_audit G)) \<and>
     (\<forall>sh\<in>set (gw_shards G). \<forall>day w w'. notifyAboutHoliday P (gw_aggregator G sh) day w = Some w' \<longrightarrow> db_and_disk w' = db_and_disk w)"

definition gw_ok :: "world pipeline_lib \<Rightarrow> gateway \<Rightarrow> bool" where
  "gw_ok P G \<longleftrightarrow> pl_outside P = gw_outside G \<and> distinct (map sh_Name (gw_shards G)) \<and>
     (\<forall>sh\<in>set (gw_shards G). shard_ok (gw_merging G sh) \<and> CHR ''.'' \<notin> set (sh_Name sh) \<and> merge_keeps_entries (gw_outside G) (gw_merging G sh)) \<and>
     flatten_keeps_entries (lib (gw_outside G)) \<and> (\<forall>b. slash \<notin> set (sha256_hex (gw_outside G) b)) \<and> works_outside P G"

text \<open>
  A message acknowledges elsewhere and names a plain id; the directory a cutoff isolates to is
  new, which the clock gives when cutoffs of one shard are at least a second apart.
\<close>

fun event_ok :: "world receiver_lib \<Rightarrow> gateway \<Rightarrow> gw_event \<Rightarrow> gw_state \<Rightarrow> bool" where
  "event_ok V G (Deliver now msg) st \<longleftrightarrow> (\<forall>w. db_and_disk (Ack msg w) = db_and_disk w) \<and>
     (\<forall>f. reads V (gw_receiver G) msg (QueueACHFile f) \<longrightarrow> FileID f \<in> plain_ids) \<and>
     (\<forall>x. reads V (gw_receiver G) msg (CancelACHFile x) \<longrightarrow> slash \<notin> set (cancel_FileID x) \<and> kept_id (cancel_FileID x) \<in> plain_ids)"
| "event_ok V G (Loop_turn n c wk) st \<longleftrightarrow> slash \<notin> set (stamp c) \<and> CHR ''.'' \<notin> set (stamp c) \<and>
     fs_node (gw_root G) (w_disk (gs_world st)) [n @ ''-'' @ stamp c] = None"
| "event_ok V G _ st \<longleftrightarrow> True"

fun run_ok :: "world receiver_lib \<Rightarrow> world pipeline_lib \<Rightarrow> gateway \<Rightarrow> gw_event list \<Rightarrow> gw_state \<Rightarrow> bool" where
  "run_ok V P G [] st \<longleftrightarrow> True"
| "run_ok V P G (ev # evs) st \<longleftrightarrow> event_ok V G ev st \<and> (case gw_step V P G ev st of None \<Rightarrow> True | Some st' \<Rightarrow> run_ok V P G evs st')"

text \<open>How the database and the disk stand for the sets.\<close>

definition shards_pending :: "gateway \<Rightarrow> spec_state \<Rightarrow> os \<Rightarrow> bool" where
  "shards_pending G a d \<longleftrightarrow> fs_inv (gw_root G) d \<and>
     (\<forall>sh\<in>set (gw_shards G).
        pending (fs_node (gw_root G) d) (pend_dir (gw_merging G sh)) plain_ids (sp_pending a (sh_Name sh)) (sp_cancelled a (sh_Name sh)))"

definition gw_rel :: "gateway \<Rightarrow> spec_state \<Rightarrow> gw_state \<Rightarrow> bool" where
  "gw_rel G a st \<longleftrightarrow> db_ok (w_db (gs_world st)) \<and> shards_pending G a (w_disk (gs_world st)) \<and>
     sp_accepted a = set (accepted_ids (gs_channels st)) \<and>
     (\<forall>i\<in>sp_accepted a. db_files (w_db (gs_world st)) i \<noteq> None) \<and> (\<forall>x\<in>set (gs_agents st). quiet_agent x)"

section \<open>Messages\<close>

lemma other_shard: "sh_Name sh \<noteq> sh_Name sh' \<Longrightarrow> outside (gw_merging G sh) (pend_dir (gw_merging G sh') @ q)"
  by (auto simp: outside_def pend_dir_def gw_merging_def prefix_def)

lemma distinct_shards: "distinct (map sh_Name shs) \<Longrightarrow> sh \<in> set shs \<Longrightarrow> sh' \<in> set shs \<Longrightarrow> sh_Name sh = sh_Name sh' \<Longrightarrow> sh = sh'"
  by (simp add: distinct_map inj_on_def)

lemma shards_pending_cong:
  "sp_pending a = sp_pending b \<Longrightarrow> sp_cancelled a = sp_cancelled b \<Longrightarrow> shards_pending G a = shards_pending G b"
  by (simp add: shards_pending_def fun_eq_iff)

text \<open>A step of one shard that leaves the pending directories of the others alone.\<close>

lemma shards_change:
  assumes "gw_ok P G" and "sh \<in> set (gw_shards G)" and "shards_pending G a d" and "fs_inv (gw_root G) d'"
    and "\<And>sh' q. sh_Name sh \<noteq> sh_Name sh' \<Longrightarrow>
      fs_node (gw_root G) d' (pend_dir (gw_merging G sh') @ q) = fs_node (gw_root G) d (pend_dir (gw_merging G sh') @ q)"
    and "pending (fs_node (gw_root G) d') (pend_dir (gw_merging G sh)) plain_ids A C"
    and "sp_pending b = (sp_pending a)(sh_Name sh := A)" and "sp_cancelled b = (sp_cancelled a)(sh_Name sh := C)"
  shows "shards_pending G b d'"
  unfolding shards_pending_def
proof (intro conjI ballI assms(4))
  fix sh' assume sh': "sh' \<in> set (gw_shards G)"
  show "pending (fs_node (gw_root G) d') (pend_dir (gw_merging G sh')) plain_ids (sp_pending b (sh_Name sh')) (sp_cancelled b (sh_Name sh'))"
  proof (cases "sh_Name sh = sh_Name sh'")
    case True
    with distinct_shards[OF _ assms(2) sh'] assms(1) have "sh' = sh" by (simp add: gw_ok_def)
    with assms(6-8) show ?thesis by simp
  next
    case False
    have "pending (fs_node (gw_root G) d') (pend_dir (gw_merging G sh')) = pending (fs_node (gw_root G) d) (pend_dir (gw_merging G sh'))"
      by (rule pending_cong) (use assms(5)[OF False] assms(5)[OF False, of "[]"] in simp_all)
    with False assms(3,7,8) sh' show ?thesis by (simp add: shards_pending_def)
  qed
qed

lemma gw_shard:
  assumes "gw_ok P G" and "sh \<in> set (gw_shards G)" and "shards_pending G a d"
  shows "fs_inv (gw_root G) d" "shard_ok (gw_merging G sh)" "CHR ''.'' \<notin> set (sh_Name sh)"
    "pending (fs_node (gw_root G) d) (pend_dir (gw_merging G sh)) plain_ids (sp_pending a (sh_Name sh)) (sp_cancelled a (sh_Name sh))"
  using assms by (simp_all add: gw_ok_def shards_pending_def)

lemma gw_storage: "fm_storage (gw_merging G sh) = world_chest (filesystem_chest (gw_root G))" "fm_shard (gw_merging G sh) = sh"
  by (simp_all add: gw_merging_def)

lemma xfer_shards:
  assumes "gw_ok P G" and "sh \<in> set (gw_shards G)" and "FileID f \<in> plain_ids" and "shards_pending G a (w_disk w)"
    and "HandleXfer L (gw_merging G sh) f w = (r, w')"
  shows "shards_pending G
    (a\<lparr>sp_pending := (sp_pending a)(sh_Name sh := (if r = None then insert (FileID f) else id) (sp_pending a (sh_Name sh)))\<rparr>) (w_disk w')"
proof -
  note g = gw_shard[OF assms(1,2,4)]
  have id: "slash \<notin> set (FileID f)" "kept_id (FileID f) \<in> plain_ids" using assms(3) kept_plain[OF assms(3)] by (simp_all add: plain_ids_def)
  note e = world_disk.pending_xfer[OF g(1,2) gw_storage(1) id g(4) assms(5), unfolded kept_plain[OF assms(3)]]
  have "fs_node (gw_root G) (w_disk w') q = fs_node (gw_root G) (w_disk w) q" if "outside (gw_merging G sh) q" for q
    by (rule world_disk.xfer_frame[OF g(1,2) gw_storage(1) id(1) assms(5) that])
  with e show ?thesis
    by (intro shards_change[OF assms(1,2,4)]) (auto intro: other_shard)
qed

lemma cancel_shards:
  assumes "gw_ok P G" and "sh \<in> set (gw_shards G)" and "slash \<notin> set (cancel_FileID x)" and "kept_id (cancel_FileID x) \<in> plain_ids"
    and "shards_pending G a (w_disk w)" and "HandleCancel (gw_merging G sh) x w = ((resp, r), w')"
  shows "shards_pending G
    (a\<lparr>sp_cancelled := (sp_cancelled a)(sh_Name sh := (if r = None then insert (kept_id (cancel_FileID x)) else id) (sp_cancelled a (sh_Name sh)))\<rparr>)
    (w_disk w')"
proof -
  note g = gw_shard[OF assms(1,2,5)]
  note e = world_disk.pending_cancel[OF g(1,2) gw_storage(1) assms(3,4) g(4) assms(6)]
  have "fs_node (gw_root G) (w_disk w') q = fs_node (gw_root G) (w_disk w) q" if "outside (gw_merging G sh) q" for q
    by (rule world_disk.cancel_frame[OF g(1,2) gw_storage(1) assms(3) pending_flat[OF g(4)] assms(6) that])
  with e show ?thesis
    by (intro shards_change[OF assms(1,2,5)]) (auto intro: other_shard)
qed

lemma gw_repo_disk:
  "Record (fr_fileRepository (gw_receiver G)) f w = (x, w') \<Longrightarrow> w_disk w' = w_disk w"
  "repo_Cleanup (fr_fileRepository (gw_receiver G)) f w = (x, w') \<Longrightarrow> w_disk w' = w_disk w"
  "Cancel (fr_fileRepository (gw_receiver G)) i w = (x, w') \<Longrightarrow> w_disk w' = w_disk w"
  by (auto simp: gw_receiver_def world_files_def on_db_eq)

lemma gw_merge_ops:
  "xm_HandleXfer (agg_merger (gw_aggregator G sh)) = HandleXfer (lib (gw_outside G)) (gw_merging G sh)"
  "xm_HandleCancel (agg_merger (gw_aggregator G sh)) = HandleCancel (gw_merging G sh)"
  by (simp_all add: gw_aggregator_def filesystem_merger_def)

lemma gw_agg_simps [simp]:
  "agg_merger (gw_aggregator G sh) = filesystem_merger (gw_outside G) (gw_merging G sh)"
  "agg_eventEmitter (gw_aggregator G sh) = world_emitter (gw_outcome G)" "agg_shard (gw_aggregator G sh) = sh"
  "agg_alerters (gw_aggregator G sh) = gw_alerters G" "agg_auditStorage (gw_aggregator G sh) = gw_audit G"
  by (simp_all add: gw_aggregator_def)

text \<open>The relation on channels and world alone.\<close>

definition stands_for :: "gateway \<Rightarrow> spec_state \<Rightarrow> channels \<times> world \<Rightarrow> bool" where
  "stands_for G a cw \<longleftrightarrow> db_ok (w_db (snd cw)) \<and> shards_pending G a (w_disk (snd cw)) \<and> sp_accepted a = set (accepted_ids (fst cw)) \<and>
     (\<forall>i\<in>sp_accepted a. db_files (w_db (snd cw)) i \<noteq> None)"

lemma gw_rel_stands:
  "gw_rel G a st \<longleftrightarrow> stands_for G a (gs_channels st, gs_world st) \<and> (\<forall>x\<in>set (gs_agents st). quiet_agent x)"
  by (simp add: gw_rel_def stands_for_def)

lemma stands_for_cong: "db_and_disk w' = db_and_disk w \<Longrightarrow> accepted_ids ch' = accepted_ids ch \<Longrightarrow> stands_for G a (ch', w') = stands_for G a (ch, w)"
  by (simp add: stands_for_def)

lemma file_step:
  assumes "gw_ok P G" and "stands_for G a (ch, w)" and "FileID f \<in> plain_ids"
    and "processACHFile V (gw_receiver G) now f (ch, w) = (e, ch', w')"
  shows "\<exists>act b. \<not> cuts act \<and> spec_step act a = Some b \<and> stands_for G b (ch', w') \<and> accepted_ids ch' = accepted_ids ch @ accepts act"
proof -
  have ok: "db_ok (w_db w)" and sp: "shards_pending G a (w_disk w)" and acc: "sp_accepted a = set (accepted_ids ch)"
    and known: "\<And>i. i \<in> sp_accepted a \<Longrightarrow> db_files (w_db w) i \<noteq> None"
    using assms(2) by (simp_all add: stands_for_def)
  from gw.processACHFile_effect[OF ok assms(4)]
  have ok': "db_ok (w_db w')" and fe: "file_effect (\<lambda>w. db_files (w_db w)) (FileID f) (ch, w) (ch', w')" by blast+
  have known': "db_files (w_db w') i \<noteq> None" if "i \<in> sp_accepted a" for i
    using fe known[OF that] unfolding file_effect_def by (simp only: fst_conv snd_conv) blast
  have stays: "\<exists>act b. \<not> cuts act \<and> spec_step act a = Some b \<and> stands_for G b (ch', w') \<and> accepted_ids ch' = accepted_ids ch @ accepts act"
    if "shards_pending G a (w_disk w')" "ch' = ch"
    using that ok' acc known' by (intro exI[where x = Stays]) (simp add: stands_for_def)
  from assms(4) show ?thesis
  proof (cases rule: processACHFile_cases)
    case skipped
    with sp show ?thesis by (intro stays) auto
  next
    case (unrecorded x)
    with sp gw_repo_disk(1)[OF unrecorded(1)] show ?thesis by (intro stays) auto
  next
    case (accepted g n s1 resp)
    from gw_aggregators[OF accepted(2)] obtain sh where sh: "sh \<in> set (gw_shards G)" "g = gw_aggregator G sh" by blast
    have d1: "shards_pending G a (w_disk s1)" using sp gw_repo_disk(1)[OF accepted(3)] by simp
    from xfer_shards[OF assms(1) sh(1) assms(3) d1 accepted(4)[unfolded sh(2) gw_merge_ops]]
    have d: "shards_pending G (a\<lparr>sp_pending := (sp_pending a)(sh_Name sh := insert (FileID f) (sp_pending a (sh_Name sh)))\<rparr>) (w_disk w')" by simp
    have ids: "accepted_ids ch' = accepted_ids ch @ [FileID f]" using accepted(6,7) by (simp add: accepted_ids_def)
    with fe have new: "db_files (w_db w) (FileID f) = None" "db_files (w_db w') (FileID f) \<noteq> None" unfolding file_effect_def by auto
    then have "FileID f \<notin> sp_accepted a" using known by blast
    then have "spec_step (Accepts (sh_Name sh) (FileID f)) a = Some (a\<lparr>sp_accepted := insert (FileID f) (sp_accepted a),
        sp_pending := (sp_pending a)(sh_Name sh := insert (FileID f) (sp_pending a (sh_Name sh)))\<rparr>)" by simp
    moreover have "shards_pending G (a\<lparr>sp_accepted := insert (FileID f) (sp_accepted a),
        sp_pending := (sp_pending a)(sh_Name sh := insert (FileID f) (sp_pending a (sh_Name sh)))\<rparr>) (w_disk w')"
      using shards_pending_cong[THEN fun_cong, THEN iffD1, OF _ _ d] by simp
    then have "stands_for G (a\<lparr>sp_accepted := insert (FileID f) (sp_accepted a),
        sp_pending := (sp_pending a)(sh_Name sh := insert (FileID f) (sp_pending a (sh_Name sh)))\<rparr>) (ch', w')"
      using ok' acc known' new(2) ids by (simp add: stands_for_def)
    ultimately show ?thesis using ids by (intro exI[where x = "Accepts (sh_Name sh) (FileID f)"]) simp
  next
    case (failed g n s1 x s2 ce)
    from gw_aggregators[OF failed(2)] obtain sh where sh: "sh \<in> set (gw_shards G)" "g = gw_aggregator G sh" by blast
    have d1: "shards_pending G a (w_disk s1)" using sp gw_repo_disk(1)[OF failed(3)] by simp
    from xfer_shards[OF assms(1) sh(1) assms(3) d1 failed(4)[unfolded sh(2) gw_merge_ops]]
    have "shards_pending G a (w_disk s2)" by simp
    with gw_repo_disk(2)[OF failed(5)] failed(6) show ?thesis by (intro stays) auto
  qed
qed

lemma emitter_obs: "world_emitter outcome ev w = (x, w') \<Longrightarrow> db_and_disk w' = db_and_disk w"
  using world_emitter_parts by blast

lemma cancel_step:
  assumes "gw_ok P G" and "stands_for G a (ch, w)" and "slash \<notin> set (cancel_FileID x)" and "kept_id (cancel_FileID x) \<in> plain_ids"
    and "cancelACHFile (gw_receiver G) (Some x) (ch, w) = (e, ch', w')"
  shows "\<exists>act b. \<not> cuts act \<and> spec_step act a = Some b \<and> stands_for G b (ch', w') \<and> accepted_ids ch' = accepted_ids ch @ accepts act"
proof -
  have ok: "db_ok (w_db w)" and sp: "shards_pending G a (w_disk w)"
    using assms(2) by (simp_all add: stands_for_def)
  from gw.cancelACHFile_keeps[OF ok assms(5)]
  have k: "db_ok (w_db w')" "db_files (w_db w') = db_files (w_db w)" "accepted_ids ch' = accepted_ids ch" by blast+
  have result: "\<exists>act b. \<not> cuts act \<and> spec_step act a = Some b \<and> stands_for G b (ch', w') \<and> accepted_ids ch' = accepted_ids ch @ accepts act"
    if "spec_step act a = Some b" "\<not> cuts act" "sp_accepted b = sp_accepted a" "shards_pending G b (w_disk w')" "accepts act = []" for act b
    using that assms(2) k by (intro exI[where x = act] exI[where x = b]) (simp add: stands_for_def)
  from assms(5) show ?thesis
  proof (cases rule: cancelACHFile_cases)
    case skipped
    with sp show ?thesis by (intro result[of Stays]) auto
  next
    case (unrecorded y)
    with sp gw_repo_disk(3)[OF unrecorded(1)] show ?thesis by (intro result[of Stays]) auto
  next
    case (handled g n s1 resp he s2)
    from gw_aggregators[OF handled(2)] obtain sh where sh: "sh \<in> set (gw_shards G)" "g = gw_aggregator G sh" by blast
    have d1: "shards_pending G a (w_disk s1)" using sp gw_repo_disk(3)[OF handled(3)] by simp
    note d2 = cancel_shards[OF assms(1) sh(1) assms(3,4) d1 handled(4)[unfolded sh(2) gw_merge_ops]]
    obtain ee s3 where em: "world_emitter (gw_outcome G) (FileCancellationResponse resp) s2 = (ee, s3)" by fastforce
    from emitter_obs[OF em] handled(5) sh(2) em have "w_disk w' = w_disk s2" by auto
    show ?thesis
    proof (cases he)
      case None
      with d2 \<open>w_disk w' = w_disk s2\<close> show ?thesis by (intro result[of "Cancels (sh_Name sh) (kept_id (cancel_FileID x))"]) simp_all
    next
      case (Some y)
      with d2 \<open>w_disk w' = w_disk s2\<close> show ?thesis by (intro result[of Stays]) simp_all
    qed
  qed
qed

text \<open>Whatever a message is, processing it is one step of the specification.\<close>

lemma message_step:
  assumes "gw_ok P G" and "stands_for G a (ch, w)"
    and "event_ok V G (Deliver now msg) st" and "processMessage V (gw_receiver G) now msg (ch, w) = (e, ch', w')"
  shows "\<exists>act b. \<not> cuts act \<and> spec_step act a = Some b \<and> stands_for G b (ch', w') \<and> accepted_ids ch' = accepted_ids ch @ accepts act"
proof -
  let ?fr = "gw_receiver G"
  have ack: "db_and_disk (Ack msg v) = db_and_disk v" for v using assms(3) by simp
  have acked: "stands_for G b (ack x msg (c, v)) = stands_for G b (c, v)" "fst (ack x msg (c, v)) = c" for b x c v
    using ack[of v] by (simp_all add: ack_def stands_for_def)
  obtain w0 where w0: "ack (\<not> shouldAutocommit ?fr) msg (ch, w) = (ch, w0)"
    by (cases "shouldAutocommit ?fr") (simp_all add: ack_def)
  have s0: "stands_for G a (ch, w0)" using acked(1)[of a "\<not> shouldAutocommit ?fr" ch w] w0 assms(2) by simp
  have em: "fr_eventEmitter ?fr = world_emitter (gw_outcome G)" by (simp add: gw_receiver_def)
  have emitted: "stands_for G b (c, v') = stands_for G b (c, v)" if "produceInvalidQueueFile V ?fr f x v = (p, v')" for b c f x v v' p
    using emitter_obs[OF that[unfolded produceInvalidQueueFile_def em]] by (simp add: stands_for_def)
  have finish: "\<exists>act b. \<not> cuts act \<and> spec_step act a = Some b \<and> stands_for G b (ch', w') \<and> accepted_ids ch' = accepted_ids ch @ accepts act"
    if "\<exists>act b. \<not> cuts act \<and> spec_step act a = Some b \<and> stands_for G b (c, v) \<and> accepted_ids c = accepted_ids ch @ accepts act"
      "\<And>b. stands_for G b (ch', w') = stands_for G b (c, v)" "ch' = c" for c v
    using that by simp
  have stays: "\<exists>act b. \<not> cuts act \<and> spec_step act a = Some b \<and> stands_for G b (ch, w0) \<and> accepted_ids ch = accepted_ids ch @ accepts act"
    using s0 by (intro exI[where x = Stays]) simp
  from assms(4) show ?thesis
  proof (cases rule: processMessage_cases)
    case unread
    with w0 stays show ?thesis by simp
  next
    case (cancelled x st1)
    obtain c v where st1: "st1 = (c, v)" by (cases st1)
    have x: "slash \<notin> set (cancel_FileID x)" "kept_id (cancel_FileID x) \<in> plain_ids" using assms(3) cancelled(3) by auto
    note c1 = cancel_step[OF assms(1) s0 x cancelled(1)[unfolded w0 st1]]
    show ?thesis
      by (rule finish[OF c1]) (use cancelled(2) st1 acked in \<open>auto simp: ack_def split: if_splits\<close>)
  next
    case (invalid f re pe s1)
    show ?thesis
      by (rule finish[OF stays]) (use invalid(2) w0 emitted[OF invalid(1)] in auto)
  next
    case (accepted f st1)
    obtain c v where st1: "st1 = (c, v)" by (cases st1)
    have f: "FileID f \<in> plain_ids" using assms(3) accepted(4) by auto
    show ?thesis
      by (rule finish[OF file_step[OF assms(1) s0 f accepted(1)[unfolded w0 st1]]])
         (use accepted(3) st1 acked in \<open>auto simp: ack_def split: if_splits\<close>)
  next
    case (rejected f x ch1 s1 pe s2)
    have f: "FileID f \<in> plain_ids" using assms(3) rejected(5) by auto
    show ?thesis
      by (rule finish[OF file_step[OF assms(1) s0 f rejected(1)[unfolded w0]]]) (use rejected(3) emitted[OF rejected(2)] in auto)
  qed
qed

section \<open>Cutoffs and cleanups\<close>

definition is_cutoff :: "Shard \<Rightarrow> wakeup \<Rightarrow> bool" where
  "is_cutoff sh wk = (case wk of
     Cutoff_tick day \<Rightarrow> IsBankingDay day \<or> cut_On (sh_Cutoffs sh) = ''all-days''
   | Manual_trigger \<Rightarrow> True
   | Context_done \<Rightarrow> False)"

lemma alert_obs: "works_outside P G \<Longrightarrow> db_and_disk (alertOnError (Some (gw_aggregator G sh)) e w) = db_and_disk w"
  by (cases e) (simp_all add: works_outside_def quiet_def alertOnError_def)

lemma emitFilesUploaded_obs: "db_and_disk (snd (emitFilesUploaded (gw_aggregator G sh) c merged w)) = db_and_disk w"
proof -
  have "keeps (\<lambda>v. db_and_disk v = db_and_disk w) (agg_eventEmitter (gw_aggregator G sh) ev)" for ev
    by (rule keepsI) (simp, metis emitter_obs prod.inject)
  then have "db_and_disk (snd (emit_merged (agg_eventEmitter (gw_aggregator G sh)) c 0 merged [] w)) = db_and_disk w"
    by (rule emit_keeps) simp
  then show ?thesis by (auto simp: emitFilesUploaded_def split: prod.splits)
qed

text \<open>A turn of the loop is a cutoff, as far as database and disk are concerned, or nothing.\<close>

lemma loop_turn_obs:
  assumes "gw_ok P G" and "sh \<in> set (gw_shards G)" and "agg_step P (gw_aggregator G sh) c wk (as, w) = Some (b, as', w')"
  shows "if is_cutoff sh wk
    then \<exists>r w1. WithEachMerged (gw_outside G) (gw_merging G sh) (stamp c) (runTransformers P (gw_aggregator G sh) c) as w = (Some r, as', w1) \<and>
      db_and_disk w' = db_and_disk w1
    else as' = as \<and> db_and_disk w' = db_and_disk w"
proof -
  have ext: "works_outside P G" using assms(1) by (simp add: gw_ok_def)
  let ?g = "gw_aggregator G sh"
  obtain r as1 w1 where m: "WithEachMerged (gw_outside G) (gw_merging G sh) (stamp c) (runTransformers P ?g c) as w = (r, as1, w1)"
    by (metis prod.exhaust)
  have cut: "\<exists>r w1. WithEachMerged (gw_outside G) (gw_merging G sh) (stamp c) (runTransformers P ?g c) as w = (Some r, as', w1) \<and>
      db_and_disk w' = db_and_disk w1"
    if "r \<noteq> None" "as' = as1" "db_and_disk w' = db_and_disk w1"
    using that m by (cases r) auto
  show ?thesis
  proof (cases wk)
    case (Cutoff_tick day)
    have closed: "db_and_disk v' = db_and_disk v" if "notifyAboutHoliday P ?g day v = Some v'" for v v'
      using ext that assms(2) unfolding works_outside_def by blast
    show ?thesis
    proof (cases "is_cutoff sh wk")
      case True
      have "(case withEachFile P ?g c as w of
                    (None, _) \<Rightarrow> None
                  | (Some None, created1, s1) \<Rightarrow> Some (True, created1, s1)
                  | (Some (Some e), created1, s1) \<Rightarrow>
                      Some (True, created1, alertOnError (Some ?g) (Some (errorf_v ''merging files: '' e)) s1)) = Some (b, as', w')"
        using assms(3) True Cutoff_tick by (simp add: agg_step_def is_cutoff_def)
      then have "r \<noteq> None \<and> as' = as1 \<and> db_and_disk w' = db_and_disk w1"
        using alert_obs[OF ext] emitFilesUploaded_obs
        by (auto simp: withEachFile_def filesystem_merger_def m split: option.splits prod.splits)
      with cut True show ?thesis by simp
    next
      case False
      with assms(3) Cutoff_tick closed show ?thesis by (auto simp: agg_step_def is_cutoff_def split: if_splits)
    qed
  next
    case Manual_trigger
    have "(case manualCutoff P ?g c as w of
               (None, _) \<Rightarrow> None
             | (Some _, created1, s1) \<Rightarrow> Some (True, created1, s1)) = Some (b, as', w')"
      using assms(3) Manual_trigger by (simp add: agg_step_def)
    then have "r \<noteq> None \<and> as' = as1 \<and> db_and_disk w' = db_and_disk w1"
      using emitFilesUploaded_obs by (auto simp: manualCutoff_def filesystem_merger_def m split: option.splits prod.splits)
    with cut Manual_trigger show ?thesis by (simp add: is_cutoff_def)
  next
    case Context_done
    with assms(3) ext show ?thesis
      by (auto simp: agg_step_def is_cutoff_def agg_Shutdown_def works_outside_def quiet_def)
  qed
qed


lemma upload_New_fresh:
  "upload_New D R mock cfg i created = (Inr a, created') \<Longrightarrow>
     a \<in> set created \<and> created' = created \<or> upload_New D R mock cfg i [] = (Inr a, [a]) \<and> created' = created @ [a]"
  by (auto simp: upload_New_def find_Some_iff split: option.splits sum.splits if_splits)

lemma upload_New_failed: "upload_New D R mock cfg i created = (Inl e, created') \<Longrightarrow> created' = created"
  by (auto simp: upload_New_def split: option.splits sum.splits if_splits)

lemma WithEachMerged_agents:
  "WithEachMerged X m t f as s = (r, as', s') \<Longrightarrow> as' = as \<or>
     (\<exists>x. upload_New (dialing X) (retrying X) (mock_agent X) (fm_cfg m) (sh_UploadAgent (fm_shard m)) as = (x, as'))"
  by (auto simp: WithEachMerged_def Let_def split: prod.splits sum.splits option.splits)

lemma run_quiet:
  assumes "\<And>p d. quiet obs (SaveFile (agg_auditStorage g) p d)" and "\<And>n b. quiet obs (UploadFile a n b)"
    and "\<And>n f e. quiet obs (notifyAfterUpload P g n f a e)" and "\<And>e. quiet obs (Alerters_AlertError (agg_alerters g) e)"
  shows "quiet obs (runTransformers P g c i a x)"
proof -
  have q: "obs s' = obs s" if "quiet obs f" "f s = (y, s')" for f :: "'a \<Rightarrow> 'r \<times> 'a" and s y s'
    using that unfolding quiet_def by (metis snd_conv)
  have "obs s' = obs s" if "uploadFile P g c i a res s = (r, s')" for res s r s'
  proof -
    obtain name e where "r = (name, e)" by fastforce
    with that have "uploadFile P g c i a res s = ((name, e), s')" by simp
    then show ?thesis
    proof (cases rule: uploadFile_cases)
      case (uploaded f buf s1 u s2 nErr s3)
      from q[OF assms(1) uploaded(3)] q[OF assms(2) uploaded(4)] q[OF assms(3) uploaded(5)]
      have "obs s3 = obs s" by simp
      with uploaded(6) assms(4) show ?thesis by (auto simp: alertOnError_def quiet_def split: option.splits)
    qed (auto dest: q[OF assms(1)])
  qed
  then show ?thesis unfolding quiet_def runTransformers_def
    by (auto split: prod.split option.split) (metis prod.collapse)
qed

abbreviation new_agent :: "gateway \<Rightarrow> Shard \<Rightarrow> world agent list \<Rightarrow> (err + world agent) \<times> world agent list" where
  "new_agent G sh as \<equiv> upload_New (dialing (gw_outside G)) (retrying (gw_outside G)) (mock_agent (gw_outside G)) (gw_agents G) (sh_UploadAgent sh) as"

lemma gw_agent_quiet:
  assumes "gw_ok P G" and "sh \<in> set (gw_shards G)" and "\<forall>x\<in>set as. quiet_agent x" and "new_agent G sh as = (r, as')"
  shows "(\<forall>x\<in>set as'. quiet_agent x) \<and> (\<forall>a. r = Inr a \<longrightarrow> quiet_agent a)"
proof (cases r)
  case (Inl e)
  with upload_New_failed assms(3,4) show ?thesis by blast
next
  case (Inr a)
  have new: "quiet_agent y" if "new_agent G sh [] = (Inr y, cr)" for y cr
    using assms(1,2) that unfolding gw_ok_def works_outside_def by blast
  from upload_New_fresh[OF assms(4)[unfolded Inr]] show ?thesis using assms(3) new Inr by auto
qed

lemma gw_call_quiet:
  assumes "gw_ok P G" and "sh \<in> set (gw_shards G)" and "\<forall>x\<in>set as. quiet_agent x" and "new_agent G sh as = (Inr a, as')"
  shows "quiet db_and_disk (runTransformers P (gw_aggregator G sh) c i a x)"
proof (rule run_quiet)
  show "quiet db_and_disk (UploadFile a n b)" for n b
    using gw_agent_quiet[OF assms] by (simp add: quiet_agent_def)
qed (use assms(1,2) in \<open>auto simp: gw_ok_def works_outside_def\<close>)

lemma gw_call_keeps:
  assumes "gw_ok P G" and "sh \<in> set (gw_shards G)" and "\<forall>x\<in>set as. quiet_agent x" and "new_agent G sh as = (Inr a, as')"
  shows "keeps (\<lambda>w. J (w_db w) (w_disk w)) (runTransformers P (gw_aggregator G sh) c i a x)"
  using quiet_keeps[OF gw_call_quiet[OF assms, of c i x], of "\<lambda>p. J (fst p) (snd p)"] by simp

lemma chest_db: "chest_keeps (\<lambda>w. w_db w = d) (world_chest (filesystem_chest root))"
  by (simp add: chest_keeps_def world_chest_def keeps_def on_disk_def split: prod.splits)

lemma dashed_not_mergable: "CHR ''-'' \<in> set x \<Longrightarrow> x \<noteq> ''mergable''"
  by auto

text \<open>What a cutoff needs of its shard and its agents, and what it leaves of them.\<close>

lemma gw_cutoff_calls:
  assumes "gw_ok P G" and "sh \<in> set (gw_shards G)" and "\<forall>x\<in>set as. quiet_agent x"
  shows "\<forall>b. slash \<notin> set (sha256_hex (gw_outside G) b)"
    "\<And>x cr i y. upload_New (dialing (gw_outside G)) (retrying (gw_outside G)) (mock_agent (gw_outside G)) (fm_cfg (gw_merging G sh))
      (sh_UploadAgent (fm_shard (gw_merging G sh))) as = (Inr x, cr) \<Longrightarrow>
      quiet (\<lambda>w. (fs_inv (gw_root G) (w_disk w), fs_node (gw_root G) (w_disk w))) (runTransformers P (gw_aggregator G sh) c i x y)"
    "\<And>tm r as' w w'. WithEachMerged (gw_outside G) (gw_merging G sh) tm (runTransformers P (gw_aggregator G sh) c) as w = (r, as', w') \<Longrightarrow>
      w_db w' = w_db w \<and> (\<forall>x\<in>set as'. quiet_agent x)"
proof -
  note st = gw_storage[of G sh]
  have cfg: "fm_cfg (gw_merging G sh) = gw_agents G" by (simp add: gw_merging_def)
  show "\<forall>b. slash \<notin> set (sha256_hex (gw_outside G) b)" using assms(1) by (simp add: gw_ok_def)
  show "quiet (\<lambda>w. (fs_inv (gw_root G) (w_disk w), fs_node (gw_root G) (w_disk w))) (runTransformers P (gw_aggregator G sh) c i x y)"
    if "upload_New (dialing (gw_outside G)) (retrying (gw_outside G)) (mock_agent (gw_outside G)) (fm_cfg (gw_merging G sh))
      (sh_UploadAgent (fm_shard (gw_merging G sh))) as = (Inr x, cr)" for x cr i y
    using gw_call_quiet[OF assms that[unfolded st cfg], of c i y] by (simp add: quiet_def)
  fix tm r as' w w'
  assume run: "WithEachMerged (gw_outside G) (gw_merging G sh) tm (runTransformers P (gw_aggregator G sh) c) as w = (r, as', w')"
  have "w_db w' = w_db w"
    by (rule WithEachMerged_keeps[OF _ _ refl run]) (use st(1) chest_db gw_call_keeps[OF assms, of _ _ "\<lambda>d _. d = w_db w"] cfg in \<open>auto simp: gw_storage\<close>)
  moreover have "\<forall>x\<in>set as'. quiet_agent x"
    using WithEachMerged_agents[OF run] gw_agent_quiet[OF assms] assms(3) unfolding st cfg by blast
  ultimately show "w_db w' = w_db w \<and> (\<forall>x\<in>set as'. quiet_agent x)" by blast
qed

text \<open>A cutoff of one shard takes its pending files, or cannot start and changes nothing.\<close>

lemma cutoff_step:
  assumes "gw_ok P G" and "sh \<in> set (gw_shards G)" and "stands_for G a (ch, w)" and "\<forall>x\<in>set as. quiet_agent x"
    and "slash \<notin> set (stamp c)" and "CHR ''.'' \<notin> set (stamp c)"
    and "fs_node (gw_root G) (w_disk w) [sh_Name sh @ ''-'' @ stamp c] = None"
    and "WithEachMerged (gw_outside G) (gw_merging G sh) (stamp c) (runTransformers P (gw_aggregator G sh) c) as w = (Some r, as', w')"
  shows "\<exists>act b. spec_step act a = Some b \<and> stands_for G b (ch, w') \<and> accepts act = [] \<and>
    (\<forall>x\<in>set as'. quiet_agent x) \<and> (act = Takes (sh_Name sh) (sp_pending a (sh_Name sh) - sp_cancelled a (sh_Name sh)) \<or> act = Stays \<and> snd r \<noteq> None)"
proof -
  let ?m = "gw_merging G sh" and ?n = "sh_Name sh" and ?node = "\<lambda>w. fs_node (gw_root G) (w_disk w)"
  have ok: "db_ok (w_db w)" and sp: "shards_pending G a (w_disk w)"
    using assms(3) by (simp_all add: stands_for_def)
  note g = gw_shard[OF assms(1,2) sp] and st = gw_storage[of G sh] and calls = gw_cutoff_calls[OF assms(1,2,4)]
  have reg: "\<not> is_reg (?node w (pend_dir ?m))" using pending_flat[OF g(4)] by (simp add: flat_def)
  have new: "?node w [sh_Name (fm_shard ?m) @ ''-'' @ stamp c] = None" using assms(7) st(2) by simp
  have e: "fs_inv (gw_root G) (w_disk w') \<and> (?node w' = ?node w \<and> (\<exists>x. Some r = Some ([], Some x)) \<or>
      (\<forall>q. ?node w' (pend_dir ?m @ q) = None) \<and>
      (\<forall>q. \<not> prefix [sh_Name (fm_shard ?m) @ ''-'' @ stamp c] q \<longrightarrow> \<not> prefix (pend_dir ?m) q \<longrightarrow> ?node w' q = ?node w q))"
    by (rule world_disk.cutoff_effect[OF g(1,2) st(1) assms(5) new reg calls(1) _ assms(8)]) (rule calls(2))
  have db: "w_db w' = w_db w" and agents: "\<forall>x\<in>set as'. quiet_agent x" using calls(3)[OF assms(8)] by blast+
  show ?thesis
  proof (cases "?node w' = ?node w \<and> (\<exists>x. r = ([], Some x))")
    case True
    then have "shards_pending G a (w_disk w')" using e sp by (simp add: shards_pending_def)
    with True db agents assms(3) show ?thesis by (intro exI[where x = Stays]) (auto simp: stands_for_def)
  next
    case False
    let ?b = "a\<lparr>sp_taken := sp_taken a \<union> (sp_pending a ?n - sp_cancelled a ?n), sp_pending := (sp_pending a)(?n := {}), sp_cancelled := (sp_cancelled a)(?n := {})\<rparr>"
    from False e have inv': "fs_inv (gw_root G) (w_disk w')"
      and gone: "\<And>q. ?node w' (pend_dir ?m @ q) = None"
      and rest: "\<And>q. \<not> prefix [?n @ ''-'' @ stamp c] q \<Longrightarrow> \<not> prefix (pend_dir ?m) q \<Longrightarrow> ?node w' q = ?node w q"
      unfolding st(2) by auto
    have p: "pending (?node w') (pend_dir ?m) plain_ids {} {}"
      using world_disk.pending_empty[OF inv'] gone[of "[]"] by simp
    have "shards_pending G ?b (w_disk w')"
    proof (rule shards_change[OF assms(1,2) sp inv' _ p])
      fix sh' :: Shard and q
      assume n: "?n \<noteq> sh_Name sh'"
      have "?n @ ''-'' @ stamp c \<noteq> ''mergable''" using dashed_not_mergable by simp
      then have "\<not> prefix [?n @ ''-'' @ stamp c] (pend_dir (gw_merging G sh') @ q)" "\<not> prefix (pend_dir ?m) (pend_dir (gw_merging G sh') @ q)"
        using n by (auto simp: pend_dir_def gw_storage)
      then show "?node w' (pend_dir (gw_merging G sh') @ q) = ?node w (pend_dir (gw_merging G sh') @ q)" by (rule rest)
    qed simp_all
    then have "stands_for G ?b (ch, w')" using assms(3) db by (simp add: stands_for_def)
    then show ?thesis using agents by (intro exI[where x = "Takes ?n (sp_pending a ?n - sp_cancelled a ?n)"] exI[where x = ?b]) simp
  qed
qed

text \<open>A cleanup leaves all pending directories alone.\<close>

lemma cleanup_frame:
  assumes "fs_inv (gw_root G) (w_disk w)" and "cs_storage cs = world_chest (filesystem_chest (gw_root G))"
    and "runCleanup cs now w = (r, w')"
  shows "fs_inv (gw_root G) (w_disk w') \<and> fs_node (gw_root G) (w_disk w') (''mergable'' # q) = fs_node (gw_root G) (w_disk w) (''mergable'' # q)"
proof -
  obtain x d er where r: "r = (x, d, er)" by (cases r)
  obtain D where D: "fs_inv (gw_root G) (w_disk w')"
    "D \<subseteq> Collect (expired (sh_Name (cs_shard cs)) (now - cl_RetentionDuration (cs_config cs)) (fs_node (gw_root G) (w_disk w)))"
    "\<And>q. fs_node (gw_root G) (w_disk w') q = (if \<exists>dir\<in>D. prefix [dir] q then None else fs_node (gw_root G) (w_disk w) q)"
    using world_disk.run_cleanup_effect[OF assms(1,2) assms(3)[unfolded r]] by blast
  have "\<not> directoryPattern n ''mergable''" for n
    using dashed_not_mergable by (auto simp: directoryPattern_def HasPrefix_def prefix_def)
  then have "''mergable'' \<notin> D" using D(2) by (auto simp: expired_def)
  with D(1,3) show ?thesis by auto
qed

lemma cleanup_step:
  assumes "shards_pending G a (w_disk w)" and "cs_storage cs = world_chest (filesystem_chest (gw_root G))"
    and "runCleanup cs now w = (r, w')"
  shows "shards_pending G a (w_disk w')"
proof -
  have "fs_inv (gw_root G) (w_disk w)" using assms(1) by (simp add: shards_pending_def)
  note e = cleanup_frame[OF this assms(2,3)]
  have "pending (fs_node (gw_root G) (w_disk w')) (pend_dir m) = pending (fs_node (gw_root G) (w_disk w)) (pend_dir m)" for m :: "world filesystemMerging"
    by (rule pending_cong) (use e in \<open>simp_all add: pend_dir_def\<close>)
  with assms(1) e show ?thesis by (simp add: shards_pending_def)
qed

lemma cleanup_keeps:
  assumes "chest_keeps I (cs_storage cs)" and "I w"
  shows "I (snd (runCleanup cs now w))"
proof -
  have rm: "I (snd (deleteDirectory cs p v))" if "I v" for p v
    using assms(1) that unfolding chest_keeps_def deleteDirectory_def by (metis keepsD prod.collapse)
  have "I (snd (cleanup_entries cs t es n w))" for t es n
    using assms(2)
  proof (induction es arbitrary: n w)
    case (Cons e es)
    obtain d er where n: "n = (d, er)" by (cases n)
    obtain x w1 where d: "deleteDirectory cs (fst e) w = (x, w1)" by fastforce
    with rm[OF Cons.prems, of "fst e"] have "I w1" by simp
    with Cons d n show ?case by (simp split: sum.splits bool.splits option.splits)
  qed simp
  then show ?thesis using assms(2) by (auto simp: runCleanup_def split: sum.splits prod.splits) (metis snd_conv)
qed

lemma cleanup_db: "cs_storage cs = world_chest (filesystem_chest root) \<Longrightarrow> w_db (snd (runCleanup cs now w)) = w_db w"
  using cleanup_keeps[of "\<lambda>v. w_db v = w_db w" cs w now] chest_db[of "w_db w" root] by simp

lemma shard_named_in: "shard_named G n = Some g \<Longrightarrow> \<exists>sh\<in>set (gw_shards G). sh_Name sh = n \<and> g = gw_aggregator G sh"
  by (auto simp: shard_named_def find_Some_iff)

lemma gw_cleanup: "agg_cleanup (gw_aggregator G sh) = Some cs \<Longrightarrow> cs_storage cs = world_chest (filesystem_chest (gw_root G))"
  by (auto simp: gw_aggregator_def NewCleanupService_def gw_merging_def split: option.splits if_splits)

lemma gateway_step:
  assumes "gw_ok P G" and "gw_rel G a st" and "event_ok V G ev st" and "gw_step V P G ev st = Some st'"
  shows "\<exists>act b. permits ev act \<and> spec_step act a = Some b \<and> gw_rel G b st' \<and>
    accepted_ids (gs_channels st') = accepted_ids (gs_channels st) @ accepts act"
proof -
  let ?ch = "gs_channels st" and ?w = "gs_world st"
  have s: "stands_for G a (?ch, ?w)" and q: "\<forall>x\<in>set (gs_agents st). quiet_agent x" using assms(2) by (simp_all add: gw_rel_stands)
  have stays: ?thesis if "gs_channels st' = ?ch" "stands_for G a (?ch, gs_world st')" "\<forall>x\<in>set (gs_agents st'). quiet_agent x"
    using that by (intro exI[where x = Stays]) (cases ev; simp add: gw_rel_stands)
  show ?thesis
  proof (cases ev)
    case (Deliver now msg)
    obtain e ch w where m: "processMessage V (gw_receiver G) now msg (?ch, ?w) = (e, ch, w)" by (metis prod.exhaust)
    with assms(4) Deliver have st': "st' = st\<lparr>gs_channels := ch, gs_world := w\<rparr>" by simp
    from message_step[OF assms(1) s assms(3)[unfolded Deliver] m] show ?thesis using q Deliver by (simp add: st' gw_rel_stands)
  next
    case (Loop_turn n c wk)
    show ?thesis
    proof (cases "shard_named G n")
      case None
      with assms(4) Loop_turn s q show ?thesis by (intro stays) auto
    next
      case (Some g)
      then obtain sh where sh: "sh \<in> set (gw_shards G)" "sh_Name sh = n" "g = gw_aggregator G sh" using shard_named_in by blast
      obtain b' as' w' where t: "agg_step P (gw_aggregator G sh) c wk (gs_agents st, ?w) = Some (b', as', w')"
        and st': "st' = st\<lparr>gs_agents := as', gs_world := w'\<rparr>"
        using assms(4) Loop_turn Some sh(3) by (auto split: option.splits)
      note o' = loop_turn_obs[OF assms(1) sh(1) t]
      show ?thesis
      proof (cases "is_cutoff sh wk")
        case False
        with o' s q st' show ?thesis by (intro stays) (auto simp: stands_for_def)
      next
        case True
        with o' obtain r w1 where cut: "WithEachMerged (gw_outside G) (gw_merging G sh) (stamp c) (runTransformers P (gw_aggregator G sh) c)
            (gs_agents st) ?w = (Some r, as', w1)" "db_and_disk w' = db_and_disk w1" by auto
        have e: "slash \<notin> set (stamp c)" "CHR ''.'' \<notin> set (stamp c)" "fs_node (gw_root G) (w_disk ?w) [sh_Name sh @ ''-'' @ stamp c] = None"
          using assms(3) Loop_turn sh(2) by simp_all
        from cutoff_step[OF assms(1) sh(1) s q e cut(1)] obtain act b where act: "spec_step act a = Some b" "stands_for G b (?ch, w1)"
            "accepts act = []" "\<forall>x\<in>set as'. quiet_agent x"
            "act = Takes (sh_Name sh) (sp_pending a (sh_Name sh) - sp_cancelled a (sh_Name sh)) \<or> act = Stays \<and> snd r \<noteq> None"
          by (elim exE conjE) (rule that)
        then have "permits ev act" unfolding Loop_turn permits.simps sh(2) by blast
        with act(1-4) stands_for_cong[OF cut(2) refl] st' show ?thesis by (intro exI[where x = act]) (simp add: gw_rel_stands)
      qed
    qed
  next
    case (Cleanup_tick n now)
    show ?thesis
    proof (cases "\<exists>g cs. shard_named G n = Some g \<and> agg_cleanup g = Some cs")
      case False
      with assms(4) Cleanup_tick s q show ?thesis by (intro stays) (auto split: option.splits)
    next
      case True
      then obtain g cs where g: "shard_named G n = Some g" "agg_cleanup g = Some cs" by blast
      have cs: "cs_storage cs = world_chest (filesystem_chest (gw_root G))"
        using g(2) shard_named_in[OF g(1)] gw_cleanup by blast
      have w': "st' = st\<lparr>gs_world := snd (runCleanup cs now ?w)\<rparr>" using assms(4) Cleanup_tick g by simp
      have "shards_pending G a (w_disk (snd (runCleanup cs now ?w)))"
        using s by (intro cleanup_step[OF _ cs prod.collapse[symmetric]]) (simp add: stands_for_def)
      with w' cleanup_db[OF cs] s q show ?thesis by (intro stays) (simp_all add: stands_for_def)
    qed
  next
    case Restart
    with assms(4) s show ?thesis by (intro stays) auto
  qed
qed

text \<open>
  C1. A gateway refines the machine of sets: whatever happens to it (a message, a turn of an
  aggregator's loop, a cleanup, a restart) is one step of that machine that fits it, and the
  files it answers to have accepted are those the step accepts.
\<close>

theorem gateway_refines_spec:
  assumes "gw_ok P G" and "gw_rel G a st" and "event_ok V G ev st" and "gw_step V P G ev st = Some st'"
  shows "\<exists>act b. permits ev act \<and> spec_step act a = Some b \<and> gw_rel G b st' \<and>
    accepted_ids (gs_channels st') = accepted_ids (gs_channels st) @ accepts act"
  using gateway_step[OF assms] .

section \<open>Conservation of files\<close>

fun takes :: "spec_action \<Rightarrow> string set" where
  "takes (Takes n T) = T"
| "takes _ = {}"

text \<open>How often a file left, what is pending, and where the others are.\<close>

definition conserved :: "spec_action list \<Rightarrow> spec_state \<Rightarrow> bool" where
  "conserved xs a \<longleftrightarrow>
     (\<forall>i. length (filter (\<lambda>x. i \<in> takes x) xs) = of_bool (i \<in> sp_taken a)) \<and> sp_taken a \<subseteq> sp_accepted a \<and>
     (\<forall>n. sp_pending a n \<subseteq> sp_accepted a - sp_taken a) \<and>
     (\<forall>n n'. n \<noteq> n' \<longrightarrow> sp_pending a n \<inter> sp_pending a n' = {}) \<and>
     (\<forall>n. sp_cancelled a n \<subseteq> {i. Cancels n i \<in> set xs}) \<and>
     (\<forall>i\<in>sp_accepted a - sp_taken a. \<exists>n. i \<in> sp_pending a n \<or> Cancels n i \<in> set xs)"

lemma conserved_step:
  assumes "conserved xs a" and "spec_step x a = Some b"
  shows "conserved (xs @ [x]) b"
proof -
  have count: "length (filter (\<lambda>x. i \<in> takes x) xs) = of_bool (i \<in> sp_taken a)"
    and ta: "sp_taken a \<subseteq> sp_accepted a" and pa: "sp_pending a n \<subseteq> sp_accepted a - sp_taken a"
    and apart: "n \<noteq> n' \<Longrightarrow> sp_pending a n \<inter> sp_pending a n' = {}"
    and ca: "sp_cancelled a n \<subseteq> {i. Cancels n i \<in> set xs}"
    and left: "i \<in> sp_accepted a \<Longrightarrow> i \<notin> sp_taken a \<Longrightarrow> \<exists>n. i \<in> sp_pending a n \<or> Cancels n i \<in> set xs" for i n n'
    using assms(1) unfolding conserved_def by blast+
  show ?thesis
  proof (cases x)
    case (Accepts n i)
    with assms(2) have i: "i \<notin> sp_accepted a"
      and b: "b = a\<lparr>sp_accepted := insert i (sp_accepted a), sp_pending := (sp_pending a)(n := insert i (sp_pending a n))\<rparr>"
      by (auto split: if_splits)
    have "i \<notin> sp_taken a" "i \<notin> sp_pending a m" for m using i ta pa by blast+
    with ta pa apart ca left show ?thesis
      unfolding conserved_def b Accepts by (intro conjI allI ballI impI; simp add: count; fastforce)
  next
    case (Cancels n i)
    with assms(2) have b: "b = a\<lparr>sp_cancelled := (sp_cancelled a)(n := insert i (sp_cancelled a n))\<rparr>" by simp
    from ta pa apart ca left show ?thesis
      unfolding conserved_def b Cancels by (intro conjI allI ballI impI; simp add: count; fastforce)
  next
    case (Takes n T)
    with assms(2) have T: "T = sp_pending a n - sp_cancelled a n"
      and b: "b = a\<lparr>sp_taken := sp_taken a \<union> T, sp_pending := (sp_pending a)(n := {}), sp_cancelled := (sp_cancelled a)(n := {})\<rparr>"
      by (auto split: if_splits)
    have new: "i \<notin> sp_taken a" "i \<in> sp_accepted a" "m \<noteq> n \<Longrightarrow> i \<notin> sp_pending a m" if "i \<in> T" for i m
      using that T pa[of n] apart[of m n] by blast+
    have gone: "i \<notin> T \<Longrightarrow> i \<in> sp_pending a n \<Longrightarrow> Cancels n i \<in> set xs" for i using T ca by blast
    show ?thesis
      unfolding conserved_def
    proof (intro conjI allI ballI impI, goal_cases)
      case (1 i)
      show ?case using new(1)[of i] by (simp add: count b Takes)
    next
      case 2
      show ?case using ta new(2) by (auto simp: b)
    next
      case (3 m)
      show ?case using pa[of m] new(3)[of _ m] by (auto simp: b)
    next
      case (4 m m')
      then show ?case using apart[of m m'] by (simp add: b)
    next
      case (5 m)
      show ?case using ca[of m] by (auto simp: b)
    next
      case (6 i)
      then have i: "i \<in> sp_accepted a" "i \<notin> sp_taken a" "i \<notin> T" by (simp_all add: b)
      then obtain m where "i \<in> sp_pending a m \<or> Cancels m i \<in> set xs" using left by blast
      with gone[OF i(3)] show ?case by (cases "m = n") (auto simp: b intro!: exI[of _ m])
    qed
  next
    case Stays
    with assms show ?thesis by (simp add: conserved_def)
  qed
qed

lemma conserved_run: "conserved xs a \<Longrightarrow> spec_run ys a = Some b \<Longrightarrow> conserved (xs @ ys) b"
proof (induction ys arbitrary: xs a)
  case (Cons y ys)
  then obtain a1 where "spec_step y a = Some a1" "spec_run ys a1 = Some b" by (auto split: option.splits)
  with Cons.IH[OF conserved_step[OF Cons.prems(1)]] show ?case by simp
qed simp

lemma spec_run_append: "spec_run (xs @ ys) a = (case spec_run xs a of None \<Rightarrow> None | Some b \<Rightarrow> spec_run ys b)"
  by (induction xs arbitrary: a) (auto split: option.split)

lemma spec_accepts: "spec_step x a = Some b \<Longrightarrow> distinct (accepts x) \<and> set (accepts x) \<inter> sp_accepted a = {} \<and> sp_accepted b = sp_accepted a \<union> set (accepts x)"
  by (cases x) (auto split: if_splits)

lemma spec_run_accepts:
  "spec_run xs a = Some b \<Longrightarrow> distinct (concat (map accepts xs)) \<and> set (concat (map accepts xs)) \<inter> sp_accepted a = {} \<and>
     sp_accepted b = sp_accepted a \<union> set (concat (map accepts xs))"
proof (induction xs arbitrary: a)
  case (Cons x xs)
  then obtain c where "spec_step x a = Some c" "spec_run xs c = Some b" by (auto split: option.splits)
  with Cons.IH spec_accepts show ?case by fastforce
qed simp

lemma run_refines:
  assumes "gw_ok P G"
  shows "gw_rel G a st \<Longrightarrow> run_ok V P G evs st \<Longrightarrow> gw_run V P G evs st = Some st' \<Longrightarrow>
    \<exists>acts b. length acts = length evs \<and> spec_run acts a = Some b \<and> gw_rel G b st' \<and>
      accepted_ids (gs_channels st') = accepted_ids (gs_channels st) @ concat (map accepts acts)"
proof (induction evs arbitrary: a st)
  case Nil
  then show ?case by (intro exI[of _ "[]"]) simp
next
  case (Cons ev evs)
  then obtain s1 where s1: "gw_step V P G ev st = Some s1" "gw_run V P G evs s1 = Some st'" by (auto split: option.splits)
  with Cons.prems(2) have ok: "event_ok V G ev st" "run_ok V P G evs s1" by simp_all
  obtain act c where x: "spec_step act a = Some c" "gw_rel G c s1"
      "accepted_ids (gs_channels s1) = accepted_ids (gs_channels st) @ accepts act"
    using gateway_step[OF assms Cons.prems(1) ok(1) s1(1)] by blast
  obtain acts b where "length acts = length evs \<and> spec_run acts c = Some b \<and> gw_rel G b st' \<and>
      accepted_ids (gs_channels st') = accepted_ids (gs_channels s1) @ concat (map accepts acts)"
    using Cons.IH[OF x(2) ok(2) s1(2)] by blast
  with x show ?case by (intro exI[of _ "act # acts"]) simp
qed


text \<open>
  C5. A cutoff of a shard that reports no error uploads the entries of the files that are pending
  for that shard, accepted since its last cutoff and not cancelled, each exactly once, whatever
  happened to the gateway before.
\<close>

theorem cutoff_uploads_pending:
  assumes "gw_ok P G" and "gw_rel G a st" and "sh \<in> set (gw_shards G)"
    and "event_ok V G (Loop_turn (sh_Name sh) c wk) st"
    and "WithEachMerged (gw_outside G) (gw_merging G sh) (stamp c) (runTransformers P (gw_aggregator G sh) c) (gs_agents st) (gs_world st)
      = (Some (merged, None), as', w')"
  shows "\<exists>dir w. isolateMergableDir (gw_merging G sh) (stamp c) (gs_world st) = ((dir, None), w) \<and>
    all_keys (lib (gw_outside G)) (map merged_ACHFile merged) =
      (\<Sum>i\<in>sp_pending a (sh_Name sh) - sp_cancelled a (sh_Name sh).
         mset (input_keys (lib (gw_outside G)) (gw_merging G sh) dir w (ach_name i)))"
proof -
  have sp: "shards_pending G a (w_disk (gs_world st))" using assms(2) by (simp add: gw_rel_def)
  note g = gw_shard[OF assms(1,3) sp]
  have t: "chest_tree (fm_storage (gw_merging G sh)) (\<lambda>w. fs_inv (gw_root G) (w_disk w)) (\<lambda>w. fs_node (gw_root G) (w_disk w))"
    unfolding gw_storage by (rule world_disk.chest_tree_axioms)
  have ids: "\<forall>x\<in>plain_ids. slash \<notin> set x \<and> \<not> Contains x ''.canceled'' \<and> \<not> Contains x ''.ach''" by (simp add: plain_ids_def)
  have e: "slash \<notin> set (stamp c)" "CHR ''.'' \<notin> set (sh_Name (fm_shard (gw_merging G sh)) @ stamp c)"
    "fs_node (gw_root G) (w_disk (gs_world st)) [sh_Name (fm_shard (gw_merging G sh)) @ ''-'' @ stamp c] = None"
    using assms(4) g(3) by (simp_all add: gw_storage)
  have k: "merge_keeps_entries (gw_outside G) (gw_merging G sh)" "flatten_keeps_entries (lib (gw_outside G))"
    using assms(1,3) by (simp_all add: gw_ok_def)
  from pending_entries_uploaded[OF t g(1,2) e(2,1) g(4) ids e(3) assms(5) k] show ?thesis by simp
qed

section \<open>A day of a small gateway\<close>

text \<open>Two files arrive, one is cancelled, a cutoff, a cleanup, a restart, a third file.\<close>

definition gw_sample :: gateway where
  "gw_sample = sample_gateway\<lparr>gw_agents := ts_agents\<rparr>"

definition gw_sample_lib :: "world pipeline_lib" where
  "gw_sample_lib = \<lparr>pl_outside = sample_outside, template_Render = (\<lambda>_ d. Inr (show_nat (fd_Index d))), pl_writer = (\<lambda>_. ach_Write sample_lib),
     pl_notify = sample_notify, pl_hostname = ''host''\<rparr>"

definition gw_start :: gw_state where
  "gw_start = \<lparr>gs_channels = no_channels, gs_agents = [], gs_world = sample_world\<rparr>"

definition gw_day :: "gw_event list" where
  "gw_day = [Deliver 1 (sample_message ''Qa''), Deliver 2 (sample_message ''Qb''), Deliver 3 (sample_message ''Cb''),
     Loop_turn ''prod'' ts_clock Manual_trigger, Cleanup_tick ''prod'' 5, Restart, Deliver 4 (sample_message ''Qc'')]"

lemma gw_sample_shards: "gw_shards gw_sample = [sample_shard]"
  by (simp add: gw_sample_def sample_gateway_def)

lemma gw_sample_agent: "new_agent gw_sample sample_shard [] = (Inr sample_agent, [sample_agent])"
  by (simp add: upload_New_def build_agent_def UploadAgents_Find_def gw_sample_def sample_gateway_def ts_agents_def sample_agents_def
      plain_agents_def plain_agent_cfg_def sample_outside_def sample_shard_def)

lemma gw_sample_works: "works_outside gw_sample_lib gw_sample"
  unfolding works_outside_def gw_sample_shards
proof (intro conjI ballI allI impI, goal_cases)
  case (1 sh a created')
  then have "a = sample_agent" using gw_sample_agent by simp
  then show ?case by (simp add: quiet_agent_def quiet_def sample_agent_def)
next
  case (3 sh n f a e)
  then show ?case
    by (simp add: quiet_def notifyAfterUpload_def gw_sample_lib_def sample_shard_def NewMultiSender_def multi_Critical_def
      multi_Info_def multi_retry_def Let_def split: option.split prod.split)
next
  case (6 sh day w w')
  then show ?case by (auto simp: notifyAboutHoliday_def sample_shard_def split: option.splits if_splits)
qed (simp_all add: quiet_def gw_sample_def sample_gateway_def sample_audit_def Alerters_AlertError_def split: option.split)

lemma gw_sample_ok: "gw_ok gw_sample_lib gw_sample"
proof -
  have "pl_outside gw_sample_lib = gw_outside gw_sample" 
    "gw_outside gw_sample = sample_outside"
    by (simp_all add: gw_sample_lib_def gw_sample_def sample_gateway_def)
  moreover have "shard_ok (gw_merging gw_sample sample_shard)" by code_simp
  ultimately show ?thesis
    using sample_merge_keeps sample_flatten_keeps gw_sample_works
    by (simp add: gw_ok_def gw_sample_shards sample_shard_def) (simp add: sample_outside_def)
qed

lemma gw_start_rel: "gw_rel gw_sample spec_start gw_start"
proof -
  have i: "fs_inv (gw_root gw_sample) (w_disk sample_world)" by code_simp
  have "fs_node (gw_root gw_sample) (w_disk sample_world) (pend_dir (gw_merging gw_sample sample_shard)) = None" by code_simp
  from world_disk.pending_empty[OF i this] i show ?thesis
    by (simp add: gw_rel_def gw_start_def spec_start_def shards_pending_def gw_sample_shards db_ok_def accepted_ids_def no_channels_def)
       (simp add: sample_world_def wf_db_def)
qed

abbreviation gw_sample_events :: "world receiver_lib" where
  "gw_sample_events \<equiv> sample_receiver_lib"

lemma gw_reads:
  assumes "reads gw_sample_events (gw_receiver gw_sample) (sample_message b) p"
    and "models_Read (json (rl_events gw_sample_events)) (event_ach (rl_events gw_sample_events)) b = (Some (t, Some q), e)"
  shows "p = q"
  using assms by (auto simp: reads_def sample_message_def compliance_Reveal_def gw_receiver_def gw_sample_def sample_gateway_def)

lemma gw_deliver_ok:
  assumes "b \<in> {''Qa'', ''Qb'', ''Cb'', ''Qc''}"
  shows "event_ok gw_sample_events gw_sample (Deliver now (sample_message b)) st"
proof -
  let ?R = "models_Read (json (rl_events gw_sample_events)) (event_ach (rl_events gw_sample_events))"
  have Q: "?R ''Qa'' = (Some (''QueueACHFile'', Some (QueueACHFile (sample_queue_file ''a''))), None)"
    "?R ''Qb'' = (Some (''QueueACHFile'', Some (QueueACHFile (sample_queue_file ''b''))), None)"
    "?R ''Qc'' = (Some (''QueueACHFile'', Some (QueueACHFile (sample_queue_file ''c''))), None)"
    "?R ''Cb'' = (Some (''CancelACHFile'', Some (CancelACHFile (sample_cancel ''b''))), None)"
    by ((rule prod_eqI; code_simp))+
  have ids: "x \<in> plain_ids" "slash \<notin> set x" "kept_id x \<in> plain_ids" if "x \<in> {''a'', ''b'', ''c''}" for x
    using that unfolding plain_ids_def by (auto; code_simp)+
  note r = gw_reads[OF _ Q(1)] gw_reads[OF _ Q(2)] gw_reads[OF _ Q(3)] gw_reads[OF _ Q(4)]
  show ?thesis
    unfolding event_ok.simps
  proof (intro conjI allI impI)
    fix f assume "reads gw_sample_events (gw_receiver gw_sample) (sample_message b) (QueueACHFile f)"
    with assms have "FileID f \<in> {''a'', ''b'', ''c''}" by (elim insertE emptyE) (auto dest!: r simp: sample_queue_file_def)
    then show "FileID f \<in> plain_ids" by (rule ids)
  next
    fix x assume "reads gw_sample_events (gw_receiver gw_sample) (sample_message b) (CancelACHFile x)"
    with assms have x: "cancel_FileID x \<in> {''a'', ''b'', ''c''}" by (elim insertE emptyE) (auto dest!: r simp: sample_cancel_def)
    show "slash \<notin> set (cancel_FileID x)" "kept_id (cancel_FileID x) \<in> plain_ids" using ids[OF x] by blast+
  qed (simp_all add: sample_message_def)
qed


lemma gw_day_ok: "run_ok gw_sample_events gw_sample_lib gw_sample gw_day gw_start"
proof -
  let ?step = "gw_step gw_sample_events gw_sample_lib gw_sample"
  have no: "?step (Cleanup_tick n t) st = Some st" for n t st
    by (auto simp: shard_named_def gw_aggregator_def gw_sample_def sample_gateway_def ts_agents_def sample_agents_def plain_agents_def
        split: option.splits)
  have t: "case gw_run gw_sample_events gw_sample_lib gw_sample (take 3 gw_day) gw_start of
      None \<Rightarrow> False | Some st \<Rightarrow> slash \<notin> set (stamp ts_clock) \<and> CHR ''.'' \<notin> set (stamp ts_clock) \<and>
        fs_node (gw_root gw_sample) (w_disk (gs_world st)) [''prod'' @ ''-'' @ stamp ts_clock] = None"
    by code_simp
  show ?thesis
    using t by (auto simp: gw_day_def gw_deliver_ok no split: option.splits simp del: event_ok.simps(1) gw_step.simps)
qed

lemma gw_day_runs:
  "map_option (\<lambda>st. accepted_ids (gs_channels st)) (gw_run gw_sample_events gw_sample_lib gw_sample gw_day gw_start) = Some [''a'', ''b'', ''c'']"
  by code_simp


lemma gateway_refines_spec_witness:
  "\<exists>st' act b. gw_step gw_sample_events gw_sample_lib gw_sample (Deliver 1 (sample_message ''Qa'')) gw_start = Some st' \<and>
     \<not> cuts act \<and> spec_step act spec_start = Some b \<and> gw_rel gw_sample b st'"
proof -
  have "gw_step gw_sample_events gw_sample_lib gw_sample (Deliver 1 (sample_message ''Qa'')) gw_start \<noteq> None"
    by (simp split: prod.split)
  then obtain st' where st': "gw_step gw_sample_events gw_sample_lib gw_sample (Deliver 1 (sample_message ''Qa'')) gw_start = Some st'" by blast
  have "event_ok gw_sample_events gw_sample (Deliver 1 (sample_message ''Qa'')) gw_start" by (rule gw_deliver_ok) simp
  from gateway_refines_spec[OF gw_sample_ok gw_start_rel this st'] st' show ?thesis by auto
qed

lemma cutoff_uploads_pending_witness:
  "\<exists>a st merged dir w. gw_run gw_sample_events gw_sample_lib gw_sample (take 3 gw_day) gw_start = Some st \<and> gw_rel gw_sample a st \<and>
     fst (WithEachMerged sample_outside (gw_merging gw_sample sample_shard) ''1'' (runTransformers gw_sample_lib (gw_aggregator gw_sample sample_shard) ts_clock)
       (gs_agents st) (gs_world st)) = Some (merged, None) \<and>
     all_keys sample_lib (map merged_ACHFile merged) =
       (\<Sum>i\<in>sp_pending a ''prod'' - sp_cancelled a ''prod''. mset (input_keys sample_lib (gw_merging gw_sample sample_shard) dir w (ach_name i)))"
proof -
  define r where "r = gw_run gw_sample_events gw_sample_lib gw_sample (take 3 gw_day) gw_start"
  define cut where "cut st = WithEachMerged (gw_outside gw_sample) (gw_merging gw_sample sample_shard) (stamp ts_clock)
    (runTransformers gw_sample_lib (gw_aggregator gw_sample sample_shard) ts_clock) (gs_agents st) (gs_world st)" for st :: gw_state
  have "case r of None \<Rightarrow> False | Some st \<Rightarrow> (case fst (cut st) of Some (_, None) \<Rightarrow>
      fs_node (gw_root gw_sample) (w_disk (gs_world st)) [''prod'' @ ''-'' @ stamp ts_clock] = None | _ \<Rightarrow> False)"
    unfolding r_def cut_def by code_simp
  then obtain st merged where st: "r = Some st" "fst (cut st) = Some (merged, None)"
    "fs_node (gw_root gw_sample) (w_disk (gs_world st)) [''prod'' @ ''-'' @ stamp ts_clock] = None"
    by (auto split: option.splits)
  have "run_ok gw_sample_events gw_sample_lib gw_sample (take 3 gw_day) gw_start"
    by (auto simp: gw_day_def gw_deliver_ok split: option.splits simp del: event_ok.simps(1) gw_step.simps)
  from run_refines[OF gw_sample_ok gw_start_rel this] st(1) obtain a where a: "gw_rel gw_sample a st" unfolding r_def by blast
  have e: "event_ok gw_sample_events gw_sample (Loop_turn (sh_Name sample_shard) ts_clock Manual_trigger) st"
    using st(3) by (simp add: sample_shard_def ts_clock_def)
  have c: "WithEachMerged (gw_outside gw_sample) (gw_merging gw_sample sample_shard) (stamp ts_clock)
    (runTransformers gw_sample_lib (gw_aggregator gw_sample sample_shard) ts_clock) (gs_agents st) (gs_world st) =
      (Some (merged, None), fst (snd (cut st)), snd (snd (cut st)))"
    using st(2) unfolding cut_def by (metis prod.collapse)
  have o': "gw_outside gw_sample = sample_outside" "lib sample_outside = sample_lib" "stamp ts_clock = ''1''" "sh_Name sample_shard = ''prod''"
    by (simp_all add: gw_sample_def sample_gateway_def sample_shard_def ts_clock_def) (simp add: sample_outside_def)
  from cutoff_uploads_pending[OF gw_sample_ok a _ e c] c st(1) a show ?thesis
    unfolding r_def o' by (fastforce simp: gw_sample_shards)
qed

end
