(* ===== verification/Concurrent_Cutoffs.thy ===== *)
theory Concurrent_Cutoffs
  imports Cutoff_Proofs
begin

text \<open>
  Submissions, cancellations and cutoffs of one shard as they really interleave: the receiver
  and the aggregator of a shard are goroutines without a common lock, and a submission is two
  writes (\<open>merging.go\<close>: contents, then validation options). A cutoff starts with the rename of
  the pending directory; all it does later is below the directory it renamed it to.

  A run is a step relation over the storage, the submissions between their two writes, the
  ids accepted and cancelled since the last cutoff and what each cutoff took.
\<close>

record 's shard_run =
  sr_store :: 's
  sr_writing :: "queue_file list"
  sr_accepted :: "string set"
  sr_cancelled :: "string set"
  sr_taken :: "(string \<times> string set) list"

definition shard_start :: "'s \<Rightarrow> 's shard_run" where
  "shard_start s = \<lparr>sr_store = s, sr_writing = [], sr_accepted = {}, sr_cancelled = {}, sr_taken = []\<rparr>"

text \<open>
  \<open>fresh s n\<close>: nothing is stored under the name. Cutoffs of a shard are a second apart, so that
  their directories are fresh.
\<close>

inductive shard_step :: "ach_lib \<Rightarrow> 's filesystemMerging \<Rightarrow> ('s \<Rightarrow> string \<Rightarrow> bool) \<Rightarrow> 's shard_run \<Rightarrow> 's shard_run \<Rightarrow> bool"
  for L m fresh where
  contents_written: "good_id (FileID x) \<Longrightarrow> write_contents L m x (sr_store r) = (None, s') \<Longrightarrow>
    shard_step L m fresh r (r\<lparr>sr_store := s', sr_writing := x # sr_writing r,
      sr_accepted := insert (kept_id (FileID x)) (sr_accepted r)\<rparr>)"
| contents_failed: "good_id (FileID x) \<Longrightarrow> write_contents L m x (sr_store r) = (Some e, s') \<Longrightarrow>
    shard_step L m fresh r (r\<lparr>sr_store := s'\<rparr>)"
| opts_written: "x \<in> set (sr_writing r) \<Longrightarrow>
    shard_step L m fresh r (r\<lparr>sr_store := write_opts L m x (sr_store r), sr_writing := remove1 x (sr_writing r)\<rparr>)"
| cancelled: "good_id (cancel_FileID c) \<Longrightarrow> HandleCancel m c (sr_store r) = ((resp, None), s') \<Longrightarrow>
    shard_step L m fresh r (r\<lparr>sr_store := s', sr_cancelled := insert (kept_id (cancel_FileID c)) (sr_cancelled r)\<rparr>)"
| cancel_failed: "good_id (cancel_FileID c) \<Longrightarrow> HandleCancel m c (sr_store r) = ((resp, Some e), s') \<Longrightarrow>
    shard_step L m fresh r (r\<lparr>sr_store := s'\<rparr>)"
| isolated: "slash \<notin> set stamp \<Longrightarrow> fresh (sr_store r) (sh_Name (fm_shard m) @ ''-'' @ stamp) \<Longrightarrow>
    isolateMergableDir m stamp (sr_store r) = ((dir, None), s') \<Longrightarrow>
    shard_step L m fresh r (r\<lparr>sr_store := s', sr_accepted := {}, sr_cancelled := {},
      sr_taken := sr_taken r @ [(dir, sr_accepted r - sr_cancelled r)]\<rparr>)"
| isolate_failed: "slash \<notin> set stamp \<Longrightarrow> isolateMergableDir m stamp (sr_store r) = ((dir, Some e), s') \<Longrightarrow>
    shard_step L m fresh r (r\<lparr>sr_store := s'\<rparr>)"

inductive shard_reach :: "ach_lib \<Rightarrow> 's filesystemMerging \<Rightarrow> ('s \<Rightarrow> string \<Rightarrow> bool) \<Rightarrow> 's shard_run \<Rightarrow> 's shard_run \<Rightarrow> bool"
  for L m fresh where
  here: "shard_reach L m fresh r r"
| more: "shard_reach L m fresh r r1 \<Longrightarrow> shard_step L m fresh r1 r2 \<Longrightarrow> shard_reach L m fresh r r2"

section \<open>What the directories hold\<close>

text \<open>The submissions of a directory that are not cancelled in it.\<close>

definition dir_files :: "tree \<Rightarrow> path \<Rightarrow> string set" where
  "dir_files t d = {x. present t d (ach_name x) \<and> \<not> present t d (canceled_name x)}"

lemma pending_dir_files: "pending t d I A C \<Longrightarrow> dir_files t d = A - C"
  by (auto simp: pending_def dir_files_def)

lemma dir_files_cong: "(\<And>q. t' (d @ q) = t (d @ q)) \<Longrightarrow> dir_files t' d = dir_files t d"
  by (simp add: dir_files_def present_def)

definition sr_ok :: "('s \<Rightarrow> bool) \<Rightarrow> ('s \<Rightarrow> tree) \<Rightarrow> 's filesystemMerging \<Rightarrow> 's shard_run \<Rightarrow> bool" where
  "sr_ok ok nodes m r \<longleftrightarrow> ok (sr_store r) \<and>
     pending (nodes (sr_store r)) (pend_dir m) {x. slash \<notin> set x} (sr_accepted r) (sr_cancelled r) \<and>
     (\<forall>x\<in>set (sr_writing r). slash \<notin> set (FileID x)) \<and>
     (\<forall>(dir, T)\<in>set (sr_taken r). dir \<noteq> ''mergable'' \<and> nodes (sr_store r) [dir] = Some Dir \<and> dir_files (nodes (sr_store r)) [dir] = T)"

context chest_tree
begin

text \<open>A step that works in the pending directory leaves what was taken alone.\<close>

lemma taken_kept:
  assumes "\<forall>(dir, T)\<in>set ts. dir \<noteq> ''mergable'' \<and> t [dir] = Some Dir \<and> dir_files t [dir] = T"
    and "\<And>q. outside m q \<Longrightarrow> t' q = t q"
  shows "\<forall>(dir, T)\<in>set ts. dir \<noteq> ''mergable'' \<and> t' [dir] = Some Dir \<and> dir_files t' [dir] = T"
proof -
  have "outside m (dir # q)" if "dir \<noteq> ''mergable''" for dir q
    using that by (auto simp: outside_def pend_dir_def)
  with assms(2) have same: "t' (dir # q) = t (dir # q)" if "dir \<noteq> ''mergable''" for dir q using that by simp
  then have "dir_files t' [dir] = dir_files t [dir]" if "dir \<noteq> ''mergable''" for dir
    using that by (intro dir_files_cong) simp
  with assms(1) same show ?thesis by fastforce
qed

lemma isolated_ok:
  assumes "shard_ok m" and "fm_storage m = c" and "sr_ok inv node m r"
    and "slash \<notin> set stamp" and "node (sr_store r) [sh_Name (fm_shard m) @ ''-'' @ stamp] = None"
    and "isolateMergableDir m stamp (sr_store r) = ((dir, None), s')"
  shows "sr_ok inv node m (r\<lparr>sr_store := s', sr_accepted := {}, sr_cancelled := {},
      sr_taken := sr_taken r @ [(dir, sr_accepted r - sr_cancelled r)]\<rparr>)"
proof -
  have i: "inv (sr_store r)" and p: "pending (node (sr_store r)) (pend_dir m) {x. slash \<notin> set x} (sr_accepted r) (sr_cancelled r)"
    and w: "\<forall>x\<in>set (sr_writing r). slash \<notin> set (FileID x)"
    and t: "\<forall>(dir, T)\<in>set (sr_taken r). dir \<noteq> ''mergable'' \<and> node (sr_store r) [dir] = Some Dir \<and> dir_files (node (sr_store r)) [dir] = T"
    using assms(3) by (simp_all add: sr_ok_def)
  have dir: "dir = sh_Name (fm_shard m) @ ''-'' @ stamp"
    using assms(6) isolated_name(1)[OF assms(1,4)] by (auto simp: isolateMergableDir_def Let_def split: prod.splits)
  have reg: "\<not> is_reg (node (sr_store r) (pend_dir m))" using pending_flat[OF p] by (simp add: flat_def)
  note e = isolate_effect[OF i assms(1,2,4,6) assms(5)[folded dir] reg, folded dir]
  have nd: "dir \<noteq> ''mergable''" using isolated_name(3)[OF assms(1,4)] dir by simp
  have "dir_files (node s') [dir] = dir_files (node (sr_store r)) (pend_dir m)"
    using e by (simp add: dir_files_def present_def)
  then have new: "dir_files (node s') [dir] = sr_accepted r - sr_cancelled r" by (simp add: pending_dir_files[OF p])
  have old: "node s' (d # q) = node (sr_store r) (d # q)" if "(d, T) \<in> set (sr_taken r)" for d T q
  proof -
    have "d \<noteq> ''mergable''" "d \<noteq> dir" using t that assms(5) dir by auto
    then show ?thesis using e by (simp add: pend_dir_def)
  qed
  then have "dir_files (node s') [d] = dir_files (node (sr_store r)) [d]" if "(d, T) \<in> set (sr_taken r)" for d T
    using that by (intro dir_files_cong) simp
  with old t nd new e have "\<forall>(d, T)\<in>set (sr_taken r @ [(dir, sr_accepted r - sr_cancelled r)]).
      d \<noteq> ''mergable'' \<and> node s' [d] = Some Dir \<and> dir_files (node s') [d] = T" by fastforce
  moreover have "pending (node s') (pend_dir m) {x. slash \<notin> set x} {} {}"
    by (rule pending_empty) (use e e[THEN conjunct2, THEN conjunct2, THEN conjunct2, THEN conjunct2, THEN conjunct1, THEN spec, of "[]"] in simp_all)
  ultimately show ?thesis using e w by (simp add: sr_ok_def)
qed

lemma step_ok:
  assumes "shard_step L m (\<lambda>s n. node s [n] = None) r r'" and "shard_ok m" and "fm_storage m = c" and "sr_ok inv node m r"
  shows "sr_ok inv node m r'"
proof -
  have i: "inv (sr_store r)" and p: "pending (node (sr_store r)) (pend_dir m) {x. slash \<notin> set x} (sr_accepted r) (sr_cancelled r)"
    and w: "\<forall>x\<in>set (sr_writing r). slash \<notin> set (FileID x)"
    and t: "\<forall>(dir, T)\<in>set (sr_taken r). dir \<noteq> ''mergable'' \<and> node (sr_store r) [dir] = Some Dir \<and> dir_files (node (sr_store r)) [dir] = T"
    using assms(4) by (simp_all add: sr_ok_def)
  note f = pending_flat[OF p]
  show ?thesis
    using assms(1)
  proof cases
    case (contents_written x s')
    have x: "slash \<notin> set (FileID x)" using contents_written(2) by (simp add: good_id_def)
    note e = contents_effect[OF i assms(2,3) x f contents_written(3)]
    have "pending (node s') (pend_dir m) {x. slash \<notin> set x} (insert (kept_id (FileID x)) (sr_accepted r)) (sr_cancelled r)"
      using p e kept_noslash[OF x] unfolding pending_def by auto
    with e w x taken_kept[OF t contents_frame[OF i assms(2,3) x contents_written(3), THEN conjunct2]] contents_written(1)
    show ?thesis by (simp add: sr_ok_def)
  next
    case (contents_failed x e s')
    have x: "slash \<notin> set (FileID x)" using contents_failed(2) by (simp add: good_id_def)
    note e = contents_effect[OF i assms(2,3) x f contents_failed(3)]
    have "pending (node s') (pend_dir m) {x. slash \<notin> set x} (sr_accepted r) (sr_cancelled r)"
      using p e unfolding pending_def by auto
    with e w taken_kept[OF t contents_frame[OF i assms(2,3) x contents_failed(3), THEN conjunct2]] contents_failed(1)
    show ?thesis by (simp add: sr_ok_def)
  next
    case (opts_written x)
    have x: "slash \<notin> set (FileID x)" using w opts_written(2) by blast
    note e = opts_effect[OF i assms(2,3) x f, of L]
    have ns: "slash \<notin> set (kept_id (FileID x))" by (rule kept_noslash[OF x])
    have "\<exists>y\<in>{x. slash \<notin> set x}. k \<in> {ach_name y, canceled_name y, json_name y}"
      if "present (node (write_opts L m x (sr_store r))) (pend_dir m) k" for k
      using that e p ns unfolding pending_def by (cases "k = json_name (kept_id (FileID x))") auto
    then have "pending (node (write_opts L m x (sr_store r))) (pend_dir m) {x. slash \<notin> set x} (sr_accepted r) (sr_cancelled r)"
      using p e unfolding pending_def by simp
    moreover have "\<forall>y\<in>set (remove1 x (sr_writing r)). slash \<notin> set (FileID y)" using w set_remove1_subset by fastforce
    ultimately show ?thesis using e taken_kept[OF t opts_frame[OF i assms(2,3) x, of _ L]] opts_written(1) by (simp add: sr_ok_def)
  next
    case (cancelled cx resp s')
    have x: "slash \<notin> set (cancel_FileID cx)" using cancelled(2) by (simp add: good_id_def)
    have k: "kept_id (cancel_FileID cx) \<in> {x. slash \<notin> set x}" using kept_noslash[OF x] by simp
    from pending_cancel[OF i assms(2,3) x k p cancelled(3)]
    have "inv s'" "pending (node s') (pend_dir m) {x. slash \<notin> set x} (sr_accepted r) (insert (kept_id (cancel_FileID cx)) (sr_cancelled r))"
      by simp_all
    with w taken_kept[OF t cancel_frame[OF i assms(2,3) x f cancelled(3)]] cancelled(1) show ?thesis by (simp add: sr_ok_def)
  next
    case (cancel_failed cx resp e s')
    have x: "slash \<notin> set (cancel_FileID cx)" using cancel_failed(2) by (simp add: good_id_def)
    have k: "kept_id (cancel_FileID cx) \<in> {x. slash \<notin> set x}" using kept_noslash[OF x] by simp
    from pending_cancel[OF i assms(2,3) x k p cancel_failed(3)]
    have "inv s'" "pending (node s') (pend_dir m) {x. slash \<notin> set x} (sr_accepted r) (sr_cancelled r)"
      by simp_all
    with w taken_kept[OF t cancel_frame[OF i assms(2,3) x f cancel_failed(3)]] cancel_failed(1) show ?thesis by (simp add: sr_ok_def)
  next
    case (isolated stamp dir s')
    with isolated_ok[OF assms(2-4)] show ?thesis by simp
  next
    case (isolate_failed stamp dir x s')
    have "ReplaceDir c (rel_path (pend_dir m)) (rel_path [sh_Name (fm_shard m) @ ''-'' @ stamp]) (sr_store r) = (Some x, s')"
      using isolate_failed(3) unfolding isolateMergableDir_def Let_def mergable_dir_rel[OF assms(2)] assms(3)
        isolated_name(1)[OF assms(2) isolate_failed(2)] by (auto split: prod.splits)
    from replace_dir_failed[OF i plain_pend_dir[OF assms(2)] isolated_name(2)[OF assms(2) isolate_failed(2)] this]
    show ?thesis using i p w t isolate_failed(1) by (simp add: sr_ok_def)
  qed
qed

end

text \<open>Over a whole run, from an empty pending directory.\<close>

lemma reach_ok:
  assumes "disk_chest root (fm_storage m)" and "fs_inv root s" and "shard_ok m" and "fs_node root s (pend_dir m) = None"
    and "shard_reach L m (\<lambda>s n. fs_node root s [n] = None) (shard_start s) r"
  shows "sr_ok (fs_inv root) (fs_node root) m r"
proof -
  note t = disk_chest_tree[OF assms(1)]
  have "sr_ok (fs_inv root) (fs_node root) m (shard_start s)"
    using assms(2) chest_tree.pending_empty[OF t assms(2,4)] by (simp add: sr_ok_def shard_start_def)
  with assms(5) show ?thesis
    by (induction rule: shard_reach.induct) (auto intro: chest_tree.step_ok[OF t _ assms(3) refl])
qed

lemma reach_trans: "shard_reach L m fresh r1 r2 \<Longrightarrow> shard_reach L m fresh r0 r1 \<Longrightarrow> shard_reach L m fresh r0 r2"
  by (induction rule: shard_reach.induct) (auto intro: more)


definition sample_opts_file :: "string \<Rightarrow> queue_file" where
  "sample_opts_file x = (sample_queue_file x)\<lparr>File := Some ((sample_file x)\<lparr>GetValidation := Some zero_opts\<rparr>)\<rparr>"

lemma sample_split:
  "let s1 = snd (write_contents sample_lib sample_merging (sample_opts_file ''a'') sample_disk);
       s2 = snd (isolateMergableDir sample_merging ''1'' s1)
   in fst (write_contents sample_lib sample_merging (sample_opts_file ''a'') sample_disk) = None \<and>
      fs_node ''/data'' s1 [''prod-1''] = None \<and> fst (isolateMergableDir sample_merging ''1'' s1) = (''prod-1'', None)"
  by code_simp

lemma sample_shard_facts:
  "disk_chest ''/data'' (fm_storage sample_merging)" "shard_ok sample_merging" "good_id (FileID (sample_opts_file ''a''))"
  "fs_node ''/data'' sample_disk (pend_dir sample_merging) = None" "slash \<notin> set ''1''"
  "sh_Name (fm_shard sample_merging) @ ''-'' @ ''1'' = ''prod-1''"
  by (simp add: disk_chest_def sample_merging_def) code_simp+


section \<open>What is not atomic\<close>

context chest_tree
begin

lemma split_submission:
  assumes "inv s" and "shard_ok m" and "fm_storage m = c" and "slash \<notin> set (FileID x)" and "flat (node s) (pend_dir m)"
    and "\<not> present (node s) (pend_dir m) (json_name (kept_id (FileID x)))" and "write_contents L m x s = (None, s1)"
    and "slash \<notin> set stamp" and "node s1 [dir] = None" and "isolateMergableDir m stamp s1 = ((dir, None), s2)"
  shows "present (node (write_opts L m x s2)) [dir] (ach_name (kept_id (FileID x))) \<and>
    \<not> present (node (write_opts L m x s2)) [dir] (json_name (kept_id (FileID x)))"
proof -
  note e1 = contents_effect[OF assms(1-5,7)]
  then have i1: "inv s1" and reg: "\<not> is_reg (node s1 (pend_dir m))" by (simp_all add: flat_def)
  note e2 = isolate_effect[OF i1 assms(2,3,8,10,9) reg]
  have "dir \<noteq> ''mergable''" using e2 isolated_name(3)[OF assms(2,8)] by metis
  then have "outside m ([dir] @ q)" for q by (auto simp: outside_def pend_dir_def)
  from opts_frame[OF _ assms(2-4) this] e2 have o': "node (write_opts L m x s2) ([dir] @ q) = node s2 ([dir] @ q)" for q by blast
  have "\<forall>q. node s2 (dir # q) = (if q = [] then Some Dir else node s1 (pend_dir m @ q))" using e2 by blast
  then have moved: "present (node (write_opts L m x s2)) [dir] k \<longleftrightarrow> present (node s1) (pend_dir m) k" for k
    unfolding present_def o' by simp
  have "json_name (kept_id (FileID x)) \<noteq> ach_name (kept_id (FileID x))" by simp
  with e1 assms(6) show ?thesis unfolding moved by simp
qed

end



end
