(* ===== verification/Fleet.thy ===== *)
theory Fleet
  imports Intake Gateway Concurrent_Cutoffs
begin

text \<open>
  A fleet: any number of gateways that share the database of accepted files, each with a disk and
  shards of its own. The steps are the single calls between which their goroutines, and the
  machines, can be interleaved: a submission is recorded, its contents are written, then its
  validation options, then it is answered, or its record is cleaned up when the contents could not
  be written; meanwhile files are cancelled, shards are cut off, cutoffs and the cleanup service
  work elsewhere on a disk, and a receiver may stop between any two of its calls.
\<close>

section \<open>The members and their steps\<close>

record member =
  mb_hostname :: string
  mb_chest :: "os chest"
  mb_root :: string
  mb_agents :: UploadAgents
  mb_shards :: "Shard list"

definition member_merging :: "member \<Rightarrow> Shard \<Rightarrow> os filesystemMerging" where
  "member_merging b sh = \<lparr>fm_cfg = mb_agents b, fm_storage = mb_chest b, fm_shard = sh\<rparr>"

abbreviation member_node :: "member \<Rightarrow> os \<Rightarrow> tree" where
  "member_node b \<equiv> fs_node (mb_root b)"

definition member_ok :: "member \<Rightarrow> bool" where
  "member_ok b \<longleftrightarrow> disk_chest (mb_root b) (mb_chest b) \<and> distinct (map sh_Name (mb_shards b)) \<and>
     (\<forall>sh\<in>set (mb_shards b). shard_ok (member_merging b sh))"

text \<open>What the receiver of a member is doing.\<close>

datatype work =
    Free
  | Claimed accepted_file queue_file Shard  \<comment> \<open>recorded, nothing stored\<close>
  | Stored accepted_file queue_file Shard   \<comment> \<open>contents written\<close>
  | Complete accepted_file                  \<comment> \<open>options written too, not answered yet\<close>
  | Failed accepted_file                    \<comment> \<open>contents not written, to be cleaned up\<close>

record cutoff_log =
  cut_by :: nat
  cut_dir :: string
  cut_ids :: "string set"

text \<open>
  The shared database and what each member does and has on its disk; beside them the history:
  what was answered, what each shard accepted and cancelled since its last cutoff, which ids were
  ever cancelled, and what each cutoff found in the directory that it had isolated.
\<close>

record fleet =
  fl_db :: db
  fl_work :: "nat \<Rightarrow> work"
  fl_disk :: "nat \<Rightarrow> os"
  fl_answered :: "string list"
  fl_in :: "nat \<times> string \<Rightarrow> string set"
  fl_out :: "nat \<times> string \<Rightarrow> string set"
  fl_cancelled :: "string set"
  fl_cuts :: "cutoff_log list"

definition fleet_start :: "db \<Rightarrow> (nat \<Rightarrow> os) \<Rightarrow> fleet" where
  "fleet_start d disks = \<lparr>fl_db = d, fl_work = (\<lambda>_. Free), fl_disk = disks, fl_answered = [], fl_in = (\<lambda>_. {}),
     fl_out = (\<lambda>_. {}), fl_cancelled = {}, fl_cuts = []\<rparr>"

inductive fleet_step :: "ach_lib \<Rightarrow> db files_repository \<Rightarrow> (nat \<Rightarrow> member) \<Rightarrow> fleet \<Rightarrow> fleet \<Rightarrow> bool" for L r F where
  claimed: "fl_work st i = Free \<Longrightarrow> FileID x \<in> plain_ids \<Longrightarrow> sh \<in> set (mb_shards (F i)) \<Longrightarrow>
    a = \<lparr>af_FileID = FileID x, af_ShardKey = FileShardKey x, af_Hostname = mb_hostname (F i), af_AcceptedAt = now\<rparr> \<Longrightarrow>
    Record r a (fl_db st) = (None, d) \<Longrightarrow>
    fleet_step L r F st (st\<lparr>fl_work := (fl_work st)(i := Claimed a x sh), fl_db := d\<rparr>)"
| skipped: "fl_work st i = Free \<Longrightarrow> Record r a (fl_db st) = (Some e, d) \<Longrightarrow> fleet_step L r F st (st\<lparr>fl_db := d\<rparr>)"
| stored: "fl_work st i = Claimed a x sh \<Longrightarrow> write_contents L (member_merging (F i) sh) x (fl_disk st i) = (None, s) \<Longrightarrow>
    fleet_step L r F st (st\<lparr>fl_work := (fl_work st)(i := Stored a x sh), fl_disk := (fl_disk st)(i := s),
      fl_in := (fl_in st)((i, sh_Name sh) := insert (FileID x) (fl_in st (i, sh_Name sh)))\<rparr>)"
| not_stored: "fl_work st i = Claimed a x sh \<Longrightarrow> write_contents L (member_merging (F i) sh) x (fl_disk st i) = (Some e, s) \<Longrightarrow>
    fleet_step L r F st (st\<lparr>fl_work := (fl_work st)(i := Failed a), fl_disk := (fl_disk st)(i := s)\<rparr>)"
| completed: "fl_work st i = Stored a x sh \<Longrightarrow>
    fleet_step L r F st (st\<lparr>fl_work := (fl_work st)(i := Complete a),
      fl_disk := (fl_disk st)(i := write_opts L (member_merging (F i) sh) x (fl_disk st i))\<rparr>)"
| answered: "fl_work st i = Complete a \<Longrightarrow>
    fleet_step L r F st (st\<lparr>fl_work := (fl_work st)(i := Free), fl_answered := fl_answered st @ [af_FileID a]\<rparr>)"
| cleaned: "fl_work st i = Failed a \<Longrightarrow> repo_Cleanup r a (fl_db st) = (e, d) \<Longrightarrow>
    fleet_step L r F st (st\<lparr>fl_work := (fl_work st)(i := Free), fl_db := d\<rparr>)"
| cancel_recorded: "Cancel r f (fl_db st) = (e, d) \<Longrightarrow> fleet_step L r F st (st\<lparr>fl_db := d\<rparr>)"
| cancel_stored: "sh \<in> set (mb_shards (F i)) \<Longrightarrow> good_id (cancel_FileID c) \<Longrightarrow>
    HandleCancel (member_merging (F i) sh) c (fl_disk st i) = ((resp, None), s) \<Longrightarrow>
    fleet_step L r F st (st\<lparr>fl_disk := (fl_disk st)(i := s), fl_cancelled := insert (kept_id (cancel_FileID c)) (fl_cancelled st),
      fl_out := (fl_out st)((i, sh_Name sh) := insert (kept_id (cancel_FileID c)) (fl_out st (i, sh_Name sh)))\<rparr>)"
| cancel_failed: "sh \<in> set (mb_shards (F i)) \<Longrightarrow> good_id (cancel_FileID c) \<Longrightarrow>
    HandleCancel (member_merging (F i) sh) c (fl_disk st i) = ((resp, Some e), s) \<Longrightarrow>
    fleet_step L r F st (st\<lparr>fl_disk := (fl_disk st)(i := s)\<rparr>)"
| cut: "sh \<in> set (mb_shards (F i)) \<Longrightarrow> slash \<notin> set tm \<Longrightarrow>
    member_node (F i) (fl_disk st i) [sh_Name sh @ ''-'' @ tm] = None \<Longrightarrow>
    isolateMergableDir (member_merging (F i) sh) tm (fl_disk st i) = ((dir, None), s) \<Longrightarrow>
    fleet_step L r F st (st\<lparr>fl_disk := (fl_disk st)(i := s), fl_in := (fl_in st)((i, sh_Name sh) := {}),
      fl_out := (fl_out st)((i, sh_Name sh) := {}),
      fl_cuts := fl_cuts st @ [\<lparr>cut_by = i, cut_dir = dir, cut_ids = dir_files (member_node (F i) s) [dir]\<rparr>]\<rparr>)"
| cut_failed: "sh \<in> set (mb_shards (F i)) \<Longrightarrow> slash \<notin> set tm \<Longrightarrow>
    isolateMergableDir (member_merging (F i) sh) tm (fl_disk st i) = ((dir, Some e), s) \<Longrightarrow>
    fleet_step L r F st (st\<lparr>fl_disk := (fl_disk st)(i := s)\<rparr>)"
| elsewhere: "fs_inv (mb_root (F i)) s \<Longrightarrow>
    (\<And>q. member_node (F i) s (''mergable'' # q) = member_node (F i) (fl_disk st i) (''mergable'' # q)) \<Longrightarrow>
    fleet_step L r F st (st\<lparr>fl_disk := (fl_disk st)(i := s)\<rparr>)"
| crashed: "fleet_step L r F st (st\<lparr>fl_work := (fl_work st)(i := Free)\<rparr>)"

inductive fleet_reach :: "ach_lib \<Rightarrow> db files_repository \<Rightarrow> (nat \<Rightarrow> member) \<Rightarrow> fleet \<Rightarrow> fleet \<Rightarrow> bool" for L r F where
  at_start: "fleet_reach L r F st st"
| onward: "fleet_reach L r F st st1 \<Longrightarrow> fleet_step L r F st1 st2 \<Longrightarrow> fleet_reach L r F st st2"

lemma fleet_reach_trans: "fleet_reach L r F b c \<Longrightarrow> fleet_reach L r F a b \<Longrightarrow> fleet_reach L r F a c"
  by (induction rule: fleet_reach.induct) (auto intro: onward)

section \<open>Seen at the database\<close>

text \<open>At the database a fleet takes the steps of its intake, or none.\<close>

fun work_phase :: "work \<Rightarrow> phase" where
  "work_phase Free = Idle"
| "work_phase (Claimed a x sh) = Recorded a"
| "work_phase (Stored a x sh) = Recorded a"
| "work_phase (Complete a) = Recorded a"
| "work_phase (Failed a) = Refused a"

definition intake_of :: "fleet \<Rightarrow> db intake_state" where
  "intake_of st = \<lparr>phases = (\<lambda>i. work_phase (fl_work st i)), shared = fl_db st, accepted = fl_answered st\<rparr>"

lemma work_phase_upd: "(\<lambda>j. work_phase ((w(i := v)) j)) = (\<lambda>j. work_phase (w j))(i := work_phase v)"
  by auto

lemma fleet_step_intake: "fleet_step L r F st st' \<Longrightarrow> intake_of st' = intake_of st \<or> intake_step r (intake_of st) (intake_of st')"
proof (induction rule: fleet_step.induct)
  case (claimed st i x sh a now d)
  with intake_step.claim[of "intake_of st" i r a d] show ?case by (simp add: intake_of_def work_phase_upd del: fun_upd_apply)
next
  case (skipped st i a e d)
  with intake_step.skip[of "intake_of st" i r a e d] show ?case by (simp add: intake_of_def)
next
  case (stored st i a x sh s)
  then have "(\<lambda>j. work_phase (fl_work st j))(i := Recorded a) = (\<lambda>j. work_phase (fl_work st j))" by (simp add: fun_eq_iff)
  then show ?case by (simp add: intake_of_def work_phase_upd del: fun_upd_apply)
next
  case (not_stored st i a x sh e s)
  with intake_step.refuse[of "intake_of st" i a r] show ?case by (simp add: intake_of_def work_phase_upd del: fun_upd_apply)
next
  case (completed st i a x sh)
  then have "(\<lambda>j. work_phase (fl_work st j))(i := Recorded a) = (\<lambda>j. work_phase (fl_work st j))" by (simp add: fun_eq_iff)
  then show ?case by (simp add: intake_of_def work_phase_upd del: fun_upd_apply)
next
  case (answered st i a)
  with intake_step.accept[of "intake_of st" i a r] show ?case by (simp add: intake_of_def work_phase_upd del: fun_upd_apply)
next
  case (cleaned st i a e d)
  with intake_step.cleanup[of "intake_of st" i a r e d] show ?case by (simp add: intake_of_def work_phase_upd del: fun_upd_apply)
next
  case (cancel_recorded f st e d)
  with intake_step.cancel[of r f "intake_of st" e d] show ?case by (simp add: intake_of_def)
next
  case (crashed st i)
  with intake_step.crash[of r "intake_of st" i] show ?case by (simp add: intake_of_def work_phase_upd del: fun_upd_apply)
qed (simp_all add: intake_of_def)

lemma fleet_reach_intake: "fleet_reach L r F (fleet_start d0 disks) st \<Longrightarrow> intake_reach r d0 (intake_of st)"
proof (induction "fleet_start d0 disks" st rule: fleet_reach.induct)
  case at_start
  with intake_reach.start[of r d0] show ?case by (simp add: intake_of_def fleet_start_def)
next
  case (onward st1 st2)
  with fleet_step_intake intake_reach.step show ?case by metis
qed

section \<open>Seen at a disk\<close>

text \<open>The pending directories of a member stand for what its shards accepted and cancelled.\<close>

definition member_disk :: "member \<Rightarrow> os \<Rightarrow> (string \<Rightarrow> string set) \<Rightarrow> (string \<Rightarrow> string set) \<Rightarrow> bool" where
  "member_disk b d A C \<longleftrightarrow> fs_inv (mb_root b) d \<and> (\<forall>n. n \<notin> sh_Name ` set (mb_shards b) \<longrightarrow> A n = {}) \<and>
     (\<forall>sh\<in>set (mb_shards b). pending (member_node b d) (pend_dir (member_merging b sh)) {x. slash \<notin> set x} (A (sh_Name sh)) (C (sh_Name sh)))"

lemma member_simps [simp]: "fm_storage (member_merging b sh) = mb_chest b" "fm_shard (member_merging b sh) = sh"
  by (simp_all add: member_merging_def)

text \<open>What a step of one shard leaves alone.\<close>

context chest_tree
begin

lemma step_frame:
  assumes "shard_step L m (\<lambda>s n. node s [n] = None) r r'" and "shard_ok m" and "fm_storage m = c" and "sr_ok inv node m r"
    and "outside m q" and "hd q = ''mergable''" and "q \<noteq> []"
  shows "node (sr_store r') q = node (sr_store r) q"
proof -
  have i: "inv (sr_store r)" and f: "flat (node (sr_store r)) (pend_dir m)"
    and w: "\<forall>x\<in>set (sr_writing r). slash \<notin> set (FileID x)"
    using assms(4) pending_flat by (auto simp: sr_ok_def)
  show ?thesis
    using assms(1)
  proof cases
    case (contents_written x s')
    then show ?thesis using contents_frame[OF i assms(2,3) _ contents_written(3) assms(5)] by (simp add: good_id_def)
  next
    case (contents_failed x e s')
    then show ?thesis using contents_frame[OF i assms(2,3) _ contents_failed(3) assms(5)] by (simp add: good_id_def)
  next
    case (opts_written x)
    then show ?thesis using opts_frame[OF i assms(2,3) _ assms(5), of x L] w by simp
  next
    case (cancelled cx resp s')
    then show ?thesis using cancel_frame[OF i assms(2,3) _ f cancelled(3) assms(5)] by (simp add: good_id_def)
  next
    case (cancel_failed cx resp e s')
    then show ?thesis using cancel_frame[OF i assms(2,3) _ f cancel_failed(3) assms(5)] by (simp add: good_id_def)
  next
    case (isolated stamp dir s')
    have dir: "dir = sh_Name (fm_shard m) @ ''-'' @ stamp"
      using isolated(4) isolated_name(1)[OF assms(2) isolated(2)] by (auto simp: isolateMergableDir_def Let_def split: prod.splits)
    have reg: "\<not> is_reg (node (sr_store r) (pend_dir m))" using f by (simp add: flat_def)
    note e = isolate_effect[OF i assms(2,3) isolated(2,4) isolated(3)[folded dir] reg, folded dir]
    have "\<not> prefix [dir] q" using isolated_name(3)[OF assms(2) isolated(2)] dir assms(6,7) by (cases q) auto
    moreover have "\<not> prefix (pend_dir m) q" using assms(5,7) by (simp add: outside_def)
    ultimately show ?thesis using e isolated(1) by simp
  next
    case (isolate_failed stamp dir x s')
    have "ReplaceDir c (rel_path (pend_dir m)) (rel_path [sh_Name (fm_shard m) @ ''-'' @ stamp]) (sr_store r) = (Some x, s')"
      using isolate_failed(3) unfolding isolateMergableDir_def Let_def mergable_dir_rel[OF assms(2)] assms(3)
        isolated_name(1)[OF assms(2) isolate_failed(2)] by (auto split: prod.splits)
    from replace_dir_failed[OF i plain_pend_dir[OF assms(2)] isolated_name(2)[OF assms(2) isolate_failed(2)] this]
    show ?thesis using isolate_failed(1) by simp
  qed
qed

end

lemma member_step:
  assumes "member_ok b" and "sh \<in> set (mb_shards b)" and "member_disk b d A C" and "\<forall>x\<in>set ws. slash \<notin> set (FileID x)"
    and "shard_step L (member_merging b sh) (\<lambda>s n. member_node b s [n] = None)
      \<lparr>sr_store = d, sr_writing = ws, sr_accepted = A (sh_Name sh), sr_cancelled = C (sh_Name sh), sr_taken = []\<rparr> r'"
  shows "member_disk b (sr_store r') (A(sh_Name sh := sr_accepted r')) (C(sh_Name sh := sr_cancelled r')) \<and>
    sr_ok (fs_inv (mb_root b)) (member_node b) (member_merging b sh) r'"
proof -
  let ?m = "member_merging b sh"
  have t: "chest_tree (mb_chest b) (fs_inv (mb_root b)) (member_node b)" and m: "shard_ok ?m"
    using assms(1,2) disk_chest_tree by (simp_all add: member_ok_def)
  have r: "sr_ok (fs_inv (mb_root b)) (member_node b) ?m
      \<lparr>sr_store = d, sr_writing = ws, sr_accepted = A (sh_Name sh), sr_cancelled = C (sh_Name sh), sr_taken = []\<rparr>"
    using assms(2-4) by (simp add: sr_ok_def member_disk_def)
  have r': "sr_ok (fs_inv (mb_root b)) (member_node b) ?m r'"
    using chest_tree.step_ok[OF t assms(5) m _ r] by simp
  have "pending (member_node b (sr_store r')) (pend_dir (member_merging b sh')) {x. slash \<notin> set x}
      ((A(sh_Name sh := sr_accepted r')) (sh_Name sh')) ((C(sh_Name sh := sr_cancelled r')) (sh_Name sh'))"
    if sh': "sh' \<in> set (mb_shards b)" for sh'
  proof (cases "sh_Name sh = sh_Name sh'")
    case True
    with distinct_shards[OF _ assms(2) sh'] assms(1) have "sh' = sh" by (simp add: member_ok_def)
    with r' show ?thesis by (simp add: sr_ok_def)
  next
    case False
    have "outside ?m (pend_dir (member_merging b sh') @ q)" for q using False by (auto simp: outside_def pend_dir_def prefix_def)
    then have "member_node b (sr_store r') (pend_dir (member_merging b sh') @ q) = member_node b d (pend_dir (member_merging b sh') @ q)" for q
      using chest_tree.step_frame[OF t assms(5) m _ r, of "pend_dir (member_merging b sh') @ q"] by (simp add: pend_dir_def)
    note same = this this[of "[]"]
    have "pending (member_node b (sr_store r')) (pend_dir (member_merging b sh')) = pending (member_node b d) (pend_dir (member_merging b sh'))"
      by (rule pending_cong) (use same in simp_all)
    with False assms(3) sh' show ?thesis by (simp add: member_disk_def)
  qed
  moreover have "\<forall>n. n \<notin> sh_Name ` set (mb_shards b) \<longrightarrow> (A(sh_Name sh := sr_accepted r')) n = {}"
    using assms(2,3) by (simp add: member_disk_def)
  ultimately show ?thesis using r' unfolding member_disk_def sr_ok_def by blast
qed

section \<open>The books\<close>

text \<open>
  Sets that are open for additions, and sets that were taken from them: an element is added once,
  to one of them, and what is taken leaves with the set it is taken from.
\<close>

definition books_ok :: "('k \<Rightarrow> 'a set) \<Rightarrow> 'a set list \<Rightarrow> bool" where
  "books_ok P T \<longleftrightarrow> (\<forall>k l. k \<noteq> l \<longrightarrow> disjnt (P k) (P l)) \<and> (\<forall>k. \<forall>t\<in>set T. disjnt (P k) t) \<and> sorted_wrt disjnt T"

definition booked :: "('k \<Rightarrow> 'a set) \<Rightarrow> 'a set list \<Rightarrow> 'a set" where
  "booked P T = \<Union>(range P) \<union> \<Union>(set T)"

lemma books_add: "books_ok P T \<Longrightarrow> x \<notin> booked P T \<Longrightarrow> books_ok (P(k := insert x (P k))) T"
  by (auto simp: books_ok_def booked_def disjnt_def)

lemma books_take: "books_ok P T \<Longrightarrow> S \<subseteq> P k \<Longrightarrow> books_ok (P(k := {})) (T @ [S])"
  by (auto simp: books_ok_def disjnt_def sorted_wrt_append) blast+

lemma booked_add: "booked (P(k := insert x (P k))) T = insert x (booked P T)"
  by (auto simp: booked_def)

lemma booked_take: "S \<subseteq> P k \<Longrightarrow> booked (P(k := {})) (T @ [S]) \<subseteq> booked P T \<and> booked P T \<subseteq> booked (P(k := {})) (T @ [S]) \<union> (P k - S)"
  by (auto simp: booked_def split: if_splits)

section \<open>The invariant\<close>

abbreviation cut_sets :: "fleet \<Rightarrow> string set list" where
  "cut_sets st \<equiv> map cut_ids (fl_cuts st)"

abbreviation fleet_booked :: "fleet \<Rightarrow> string set" where
  "fleet_booked st \<equiv> booked (fl_in st) (cut_sets st)"

text \<open>
  Files whose contents are not stored are in no book; those that are, and those answered, are in
  one unless they were cancelled.
\<close>

fun work_ok :: "member \<Rightarrow> string set \<Rightarrow> string set \<Rightarrow> work \<Rightarrow> bool" where
  "work_ok b K B Free \<longleftrightarrow> True"
| "work_ok b K B (Claimed a x sh) \<longleftrightarrow> af_FileID a = FileID x \<and> FileID x \<in> plain_ids \<and> sh \<in> set (mb_shards b) \<and> FileID x \<notin> B"
| "work_ok b K B (Stored a x sh) \<longleftrightarrow> FileID x \<in> plain_ids \<and> sh \<in> set (mb_shards b) \<and> af_FileID a \<in> K \<union> B"
| "work_ok b K B (Complete a) \<longleftrightarrow> af_FileID a \<in> K \<union> B"
| "work_ok b K B (Failed a) \<longleftrightarrow> af_FileID a \<notin> B"

definition fleet_inv :: "(nat \<Rightarrow> member) \<Rightarrow> db \<Rightarrow> fleet \<Rightarrow> bool" where
  "fleet_inv F d0 st \<longleftrightarrow>
     (\<forall>i. member_disk (F i) (fl_disk st i) (\<lambda>n. fl_in st (i, n)) (\<lambda>n. fl_out st (i, n))) \<and>
     (\<forall>k. fl_out st k \<subseteq> fl_cancelled st) \<and>
     books_ok (fl_in st) (cut_sets st) \<and>
     (\<forall>x\<in>fleet_booked st. db_files (fl_db st) x \<noteq> None \<and> db_files d0 x = None) \<and>
     (\<forall>i. work_ok (F i) (fl_cancelled st) (fleet_booked st) (fl_work st i)) \<and>
     set (fl_answered st) \<subseteq> fl_cancelled st \<union> fleet_booked st"

lemma fleet_inv_db:
  "fleet_inv F d0 st \<Longrightarrow> (\<And>x. x \<in> fleet_booked st \<Longrightarrow> db_files (fl_db st) x \<noteq> None \<Longrightarrow> db_files d x \<noteq> None) \<Longrightarrow> fleet_inv F d0 (st\<lparr>fl_db := d\<rparr>)"
  by (simp add: fleet_inv_def)

lemma fleet_inv_work:
  "fleet_inv F d0 st \<Longrightarrow> work_ok (F i) (fl_cancelled st) (fleet_booked st) v \<Longrightarrow> fleet_inv F d0 (st\<lparr>fl_work := (fl_work st)(i := v)\<rparr>)"
  by (simp add: fleet_inv_def)

lemma fleet_inv_disk:
  "fleet_inv F d0 st \<Longrightarrow> member_disk (F i) s (\<lambda>n. fl_in st (i, n)) (\<lambda>n. fl_out st (i, n)) \<Longrightarrow> fleet_inv F d0 (st\<lparr>fl_disk := (fl_disk st)(i := s)\<rparr>)"
  by (simp add: fleet_inv_def)

lemma work_ok_mono: "work_ok b K B w \<Longrightarrow> B' \<subseteq> B \<Longrightarrow> K \<union> B \<subseteq> K' \<union> B' \<Longrightarrow> work_ok b K' B' w"
  by (cases w) auto

lemma member_disk_cong:
  assumes "member_disk b d A C" and "fs_inv (mb_root b) s" and "\<And>q. member_node b s (''mergable'' # q) = member_node b d (''mergable'' # q)"
  shows "member_disk b s A C"
proof -
  have "pending (member_node b s) (pend_dir (member_merging b sh)) = pending (member_node b d) (pend_dir (member_merging b sh))" for sh
    by (rule pending_cong) (simp_all add: pend_dir_def assms(3))
  with assms(1,2) show ?thesis by (simp add: member_disk_def)
qed

lemma plain_good: "x \<in> plain_ids \<Longrightarrow> good_id x"
  using kept_plain[of x] by (simp add: good_id_def plain_ids_def)

lemma upd_pair: "(\<lambda>n. (f((i, k) := v)) (j, n)) = (if j = i then (\<lambda>n. f (i, n))(k := v) else (\<lambda>n. f (j, n)))"
  by (auto simp: fun_eq_iff)

lemma upd_pair_same: "(\<lambda>n. f (i, n))(k := f (i, k)) = (\<lambda>n. f (i, n))"
  by auto

text \<open>What the invariant of the intake says of the record that a member holds.\<close>

lemma held_record:
  assumes "intake_inv ok db_files d0 (intake_of st)" and "pending_file (work_phase (fl_work st i)) = Some a"
  shows "db_files (fl_db st) (af_FileID a) = Some (af_ShardKey a)" "db_files d0 (af_FileID a) = None" "ok (fl_db st)"
    "\<And>j a'. pending_file (work_phase (fl_work st j)) = Some a' \<Longrightarrow> af_FileID a' = af_FileID a \<Longrightarrow> j = i"
proof -
  have p: "pending_file (phases (intake_of st) j) = pending_file (work_phase (fl_work st j))" for j by (simp add: intake_of_def)
  from assms show "db_files (fl_db st) (af_FileID a) = Some (af_ShardKey a)" "db_files d0 (af_FileID a) = None" "ok (fl_db st)"
    unfolding intake_inv_def p by (auto simp: intake_of_def)
  fix j a'
  assume "pending_file (work_phase (fl_work st j)) = Some a'" "af_FileID a' = af_FileID a"
  with assms show "j = i" unfolding intake_inv_def pending_id_file p by (metis option.simps(9))
qed

lemma stored_inv:
  assumes "\<forall>i. member_ok (F i)" and "intake_inv ok db_files d0 (intake_of st)" and "fleet_inv F d0 st"
    and "fl_work st i = Claimed a x sh" and "write_contents L (member_merging (F i) sh) x (fl_disk st i) = (None, s)"
  shows "fleet_inv F d0 (st\<lparr>fl_work := (fl_work st)(i := Stored a x sh), fl_disk := (fl_disk st)(i := s),
      fl_in := (fl_in st)((i, sh_Name sh) := insert (FileID x) (fl_in st (i, sh_Name sh)))\<rparr>)"
proof -
  have w: "af_FileID a = FileID x" "FileID x \<in> plain_ids" "sh \<in> set (mb_shards (F i))" "FileID x \<notin> fleet_booked st"
    and d: "member_disk (F i) (fl_disk st i) (\<lambda>n. fl_in st (i, n)) (\<lambda>n. fl_out st (i, n))"
    using assms(3)[unfolded fleet_inv_def, THEN conjunct2, THEN conjunct2, THEN conjunct2, THEN conjunct2, THEN conjunct1, THEN spec, of i]
      assms(3) assms(4) by (simp_all add: fleet_inv_def)
  have held: "pending_file (work_phase (fl_work st i)) = Some a" using assms(4) by simp
  note k = held_record[OF assms(2) held]
  note id = plain_good[OF w(2)] kept_plain[OF w(2)]
  have "\<forall>y\<in>set []. slash \<notin> set (FileID y)" by simp
  from member_step[OF assms(1)[THEN spec] w(3) d this shard_step.contents_written[OF id(1), of L _ _ s]] assms(5) id(2)
  have d': "member_disk (F i) s ((\<lambda>n. fl_in st (i, n))(sh_Name sh := insert (FileID x) (fl_in st (i, sh_Name sh)))) (\<lambda>n. fl_out st (i, n))"
    by (simp add: upd_pair_same)
  have others: "work_ok (F j) (fl_cancelled st) (insert (FileID x) (fleet_booked st)) (fl_work st j)" if "j \<noteq> i" for j
  proof -
    have "work_ok (F j) (fl_cancelled st) (fleet_booked st) (fl_work st j)" using assms(3) by (simp add: fleet_inv_def)
    moreover have "af_FileID a' \<noteq> FileID x" if "pending_file (work_phase (fl_work st j)) = Some a'" for a'
      using k(4)[OF that] w(1) \<open>j \<noteq> i\<close> by metis
    ultimately show ?thesis by (cases "fl_work st j") auto
  qed
  show ?thesis
    using assms(3) d' others w k books_add[OF _ w(4)] unfolding fleet_inv_def
    by (simp add: booked_add upd_pair fun_upd_def[of "fl_work st"] fun_upd_def[of "fl_disk st"] del: fun_upd_apply) blast
qed

lemma cut_inv:
  assumes "\<forall>i. member_ok (F i)" and "fleet_inv F d0 st"
    and "sh \<in> set (mb_shards (F i))" and "slash \<notin> set tm" and "member_node (F i) (fl_disk st i) [sh_Name sh @ ''-'' @ tm] = None"
    and "isolateMergableDir (member_merging (F i) sh) tm (fl_disk st i) = ((dir, None), s)"
  shows "fleet_inv F d0 (st\<lparr>fl_disk := (fl_disk st)(i := s), fl_in := (fl_in st)((i, sh_Name sh) := {}),
      fl_out := (fl_out st)((i, sh_Name sh) := {}),
      fl_cuts := fl_cuts st @ [\<lparr>cut_by = i, cut_dir = dir, cut_ids = dir_files (member_node (F i) s) [dir]\<rparr>]\<rparr>)"
proof -
  let ?k = "(i, sh_Name sh)"
  have d: "member_disk (F i) (fl_disk st i) (\<lambda>n. fl_in st (i, n)) (\<lambda>n. fl_out st (i, n))"
    and books: "books_ok (fl_in st) (cut_sets st)" and out: "fl_out st ?k \<subseteq> fl_cancelled st"
    using assms(2) unfolding fleet_inv_def by blast+
  let ?r = "\<lparr>sr_store = fl_disk st i, sr_writing = [], sr_accepted = fl_in st ?k, sr_cancelled = fl_out st ?k, sr_taken = []\<rparr>"
  have "\<forall>y\<in>set []. slash \<notin> set (FileID y)" by simp
  from member_step[OF assms(1)[THEN spec] assms(3) d this shard_step.isolated[OF assms(4), where r = ?r and dir = dir and s' = s, simplified]] assms(5,6)
  have d': "member_disk (F i) s ((\<lambda>n. fl_in st (i, n))(sh_Name sh := {})) ((\<lambda>n. fl_out st (i, n))(sh_Name sh := {}))"
    and T: "dir_files (member_node (F i) s) [dir] = fl_in st ?k - fl_out st ?k"
    by (simp_all add: sr_ok_def)
  have sub: "fl_in st ?k - fl_out st ?k \<subseteq> fl_in st ?k" by blast
  note b = booked_take[where P = "fl_in st" and k = ?k, OF sub, of "cut_sets st"]
  have all: "fl_cancelled st \<union> fleet_booked st \<subseteq> fl_cancelled st \<union> booked ((fl_in st)(?k := {})) (cut_sets st @ [fl_in st ?k - fl_out st ?k])"
    using b out by blast
  have "work_ok (F j) (fl_cancelled st) (booked ((fl_in st)(?k := {})) (cut_sets st @ [fl_in st ?k - fl_out st ?k])) (fl_work st j)" for j
    by (rule work_ok_mono[OF _ b[THEN conjunct1] all]) (use assms(2) in \<open>simp add: fleet_inv_def\<close>)
  moreover have "((fl_out st)(?k := {})) l \<subseteq> fl_cancelled st" for l
    using assms(2) unfolding fleet_inv_def fun_upd_apply by (metis empty_subsetI)
  moreover have "\<forall>x\<in>booked ((fl_in st)(?k := {})) (cut_sets st @ [fl_in st ?k - fl_out st ?k]). db_files (fl_db st) x \<noteq> None \<and> db_files d0 x = None"
    "set (fl_answered st) \<subseteq> fl_cancelled st \<union> booked ((fl_in st)(?k := {})) (cut_sets st @ [fl_in st ?k - fl_out st ?k])"
    using assms(2) b all unfolding fleet_inv_def by blast+
  ultimately show ?thesis using assms(2) d' books_take[where k = ?k, OF books sub] unfolding fleet_inv_def
    by (simp add: T upd_pair fun_upd_def[of "fl_disk st"] del: fun_upd_apply)
qed

lemma cancel_inv:
  assumes "\<forall>i. member_ok (F i)" and "fleet_inv F d0 st"
    and "sh \<in> set (mb_shards (F i))" and "good_id (cancel_FileID c)"
    and "HandleCancel (member_merging (F i) sh) c (fl_disk st i) = ((resp, None), s)"
  shows "fleet_inv F d0 (st\<lparr>fl_disk := (fl_disk st)(i := s), fl_cancelled := insert (kept_id (cancel_FileID c)) (fl_cancelled st),
      fl_out := (fl_out st)((i, sh_Name sh) := insert (kept_id (cancel_FileID c)) (fl_out st (i, sh_Name sh)))\<rparr>)"
proof -
  let ?x = "kept_id (cancel_FileID c)" and ?k = "(i, sh_Name sh)"
  have disk: "member_disk (F i) (fl_disk st i) (\<lambda>n. fl_in st (i, n)) (\<lambda>n. fl_out st (i, n))"
    and work: "work_ok (F j) (fl_cancelled st) (fleet_booked st) (fl_work st j)" and outs: "fl_out st l \<subseteq> fl_cancelled st" for j l
    using assms(2) by (cases l; simp add: fleet_inv_def)+
  have "\<forall>y\<in>set []. slash \<notin> set (FileID y)" by simp
  from member_step[OF assms(1)[THEN spec] assms(3) disk this shard_step.cancelled[OF assms(4), of _ _ resp s]] assms(5)
  have d': "member_disk (F i) s (\<lambda>n. fl_in st (i, n)) ((\<lambda>n. fl_out st (i, n))(sh_Name sh := insert ?x (fl_out st ?k)))"
    by (simp add: upd_pair_same)
  have "work_ok (F j) (insert ?x (fl_cancelled st)) (fleet_booked st) (fl_work st j)" for j
    by (rule work_ok_mono[OF work]) blast+
  moreover have "((fl_out st)(?k := insert ?x (fl_out st ?k))) l \<subseteq> insert ?x (fl_cancelled st)" for l
    using outs[of l] outs[of ?k] by (auto simp: fun_upd_apply split: if_splits)
  moreover have "set (fl_answered st) \<subseteq> insert ?x (fl_cancelled st \<union> fleet_booked st)"
    using assms(2) unfolding fleet_inv_def by blast
  ultimately show ?thesis using assms(2) d' unfolding fleet_inv_def
    by (simp add: upd_pair fun_upd_def[of "fl_disk st"] del: fun_upd_apply)
qed

text \<open>The record that is cleaned up is of a file that nobody took.\<close>

lemma cleaned_inv:
  assumes "files_repo r ok db_files" and "intake_inv ok db_files d0 (intake_of st)" and "fleet_inv F d0 st"
    and "fl_work st i = Failed a" and "repo_Cleanup r a (fl_db st) = (e, d)"
  shows "fleet_inv F d0 (st\<lparr>fl_work := (fl_work st)(i := Free), fl_db := d\<rparr>)"
proof -
  have up: "ok (fl_db st)" using assms(2) by (simp add: intake_inv_def intake_of_def)
  have work: "work_ok (F i) (fl_cancelled st) (fleet_booked st) (fl_work st i)" using assms(3) by (simp add: fleet_inv_def)
  have held: "pending_file (work_phase (fl_work st i)) = Some a" using assms(4) by simp
  note k = held_record[OF assms(2) held]
  have "db_files d x \<noteq> None" if "x \<in> fleet_booked st" "db_files (fl_db st) x \<noteq> None" for x
    using that work assms(4,5) files_repo.cleanup_done[OF assms(1) up _ k(1)] files_repo.cleanup_failed[OF assms(1) up]
    by (cases e) auto
  with fleet_inv_db[OF fleet_inv_work[OF assms(3), of i Free], of d] show ?thesis by simp
qed

lemma fleet_step_inv:
  assumes "fleet_step L r F st st'" and "files_repo r ok db_files" and "\<forall>i. member_ok (F i)"
    and "intake_inv ok db_files d0 (intake_of st)" and "fleet_inv F d0 st"
  shows "fleet_inv F d0 st'"
proof -
  note member = assms(3)[THEN spec]
  have up: "ok (fl_db st)" using assms(4) by (simp add: intake_inv_def intake_of_def)
  have disk: "member_disk (F i) (fl_disk st i) (\<lambda>n. fl_in st (i, n)) (\<lambda>n. fl_out st (i, n))"
    and work: "work_ok (F i) (fl_cancelled st) (fleet_booked st) (fl_work st i)" and outs: "fl_out st l \<subseteq> fl_cancelled st" for i l
    using assms(5) by (cases l; simp add: fleet_inv_def)+
  have none: "\<forall>y\<in>set []. slash \<notin> set (FileID y)" by simp
  show ?thesis
    using assms(1)
  proof cases
    case (claimed i x sh a now d)
    note new = files_repo.record_new[OF assms(2) up claimed(6)]
    with assms(5) have "af_FileID a \<notin> fleet_booked st" unfolding fleet_inv_def by blast
    with claimed(3-5) have "work_ok (F i) (fl_cancelled st) (fleet_booked st) (Claimed a x sh)" by simp
    from fleet_inv_db[OF fleet_inv_work[OF assms(5), of i, OF this], of d] new show ?thesis unfolding claimed(1) by simp
  next
    case (skipped i a e d)
    with fleet_inv_db[OF assms(5), of d] files_repo.record_failed[OF assms(2) up skipped(3)] show ?thesis by simp
  next
    case (stored i a x sh s)
    with stored_inv[OF assms(3-5)] show ?thesis by simp
  next
    case (not_stored i a x sh e s)
    have w: "FileID x \<in> plain_ids" "sh \<in> set (mb_shards (F i))" "af_FileID a \<notin> fleet_booked st"
      using work[of i] not_stored(2) by simp_all
    have "good_id (FileID x)" by (rule plain_good[OF w(1)])
    from member_step[OF member w(2) disk none shard_step.contents_failed[OF this, of L _ _ e s]] not_stored(3)
    have "member_disk (F i) s (\<lambda>n. fl_in st (i, n)) (\<lambda>n. fl_out st (i, n))" by (simp add: upd_pair_same)
    with fleet_inv_disk[OF fleet_inv_work[OF assms(5), of i "Failed a"], of i s] w(3) show ?thesis unfolding not_stored(1) by simp
  next
    case (completed i a x sh)
    have w: "FileID x \<in> plain_ids" "sh \<in> set (mb_shards (F i))" "af_FileID a \<in> fl_cancelled st \<union> fleet_booked st"
      using work[of i] completed(2) by simp_all
    then have "\<forall>y\<in>set [x]. slash \<notin> set (FileID y)" by (simp add: plain_ids_def)
    from member_step[OF member w(2) disk this shard_step.opts_written[of x _ L]]
    have "member_disk (F i) (write_opts L (member_merging (F i) sh) x (fl_disk st i)) (\<lambda>n. fl_in st (i, n)) (\<lambda>n. fl_out st (i, n))"
      by (simp add: upd_pair_same)
    with fleet_inv_disk[OF fleet_inv_work[OF assms(5), of i "Complete a"], of i] w(3) show ?thesis unfolding completed(1) by simp
  next
    case (answered i a)
    with fleet_inv_work[OF assms(5), of i Free] work[of i] show ?thesis unfolding answered(1) by (simp add: fleet_inv_def)
  next
    case (cleaned i a e d)
    with cleaned_inv[OF assms(2,4,5)] show ?thesis by simp
  next
    case (cancel_recorded f e d)
    with fleet_inv_db[OF assms(5), of d] files_repo.cancel_keeps[OF assms(2) up cancel_recorded(2)] show ?thesis by simp
  next
    case (cancel_stored sh i c resp s)
    with cancel_inv[OF assms(3,5)] show ?thesis by simp
  next
    case (cancel_failed sh i c resp e s)
    from member_step[OF member cancel_failed(2) disk none shard_step.cancel_failed[OF cancel_failed(3), of _ _ resp e s]] cancel_failed(4)
    have "member_disk (F i) s (\<lambda>n. fl_in st (i, n)) (\<lambda>n. fl_out st (i, n))" by (simp add: upd_pair_same)
    with fleet_inv_disk[OF assms(5), of i s] cancel_failed(1) show ?thesis by simp
  next
    case (cut sh i tm dir s)
    with cut_inv[OF assms(3,5)] show ?thesis by simp
  next
    case (cut_failed sh i tm dir e s)
    from member_step[OF member cut_failed(2) disk none shard_step.isolate_failed[OF cut_failed(3), of _ _ dir e s]] cut_failed(4)
    have "member_disk (F i) s (\<lambda>n. fl_in st (i, n)) (\<lambda>n. fl_out st (i, n))" by (simp add: upd_pair_same)
    with fleet_inv_disk[OF assms(5), of i s] cut_failed(1) show ?thesis by simp
  next
    case (elsewhere i s)
    with fleet_inv_disk[OF assms(5), of i s] member_disk_cong[OF disk elsewhere(2)] show ?thesis by simp
  next
    case (crashed i)
    with fleet_inv_work[OF assms(5), of i Free] show ?thesis by simp
  qed
qed

text \<open>Over a whole run, from empty pending directories.\<close>

definition fleet_ready :: "(nat \<Rightarrow> member) \<Rightarrow> db \<Rightarrow> (nat \<Rightarrow> os) \<Rightarrow> bool" where
  "fleet_ready F d0 disks \<longleftrightarrow> db_ok d0 \<and> (\<forall>i. member_ok (F i) \<and> fs_inv (mb_root (F i)) (disks i) \<and>
     (\<forall>sh\<in>set (mb_shards (F i)). member_node (F i) (disks i) (pend_dir (member_merging (F i) sh)) = None))"

lemma fleet_start_inv:
  assumes "fleet_ready F d0 disks"
  shows "fleet_inv F d0 (fleet_start d0 disks)"
proof -
  have "pending (member_node (F i) (disks i)) (pend_dir (member_merging (F i) sh)) {x. slash \<notin> set x} {} {}"
    if "sh \<in> set (mb_shards (F i))" for i sh
    using assms that chest_tree.pending_empty[OF disk_chest_tree[of "mb_root (F i)" "mb_chest (F i)"], of "disks i" "member_merging (F i) sh"]
    by (simp add: fleet_ready_def member_ok_def)
  with assms show ?thesis
    by (simp add: fleet_inv_def fleet_start_def fleet_ready_def member_disk_def books_ok_def booked_def)
qed

lemma fleet_reach_inv:
  assumes "files_repo r (\<lambda>d. wf_db d \<and> (\<forall>e. db_err d = Some e \<longrightarrow> \<not> errors_Is e UniqueViolation)) db_files"
    and "fleet_ready F d0 disks" and "fleet_reach L r F (fleet_start d0 disks) st"
  shows "fleet_inv F d0 st \<and> distinct (fl_answered st)"
proof -
  let ?ok = "\<lambda>d. wf_db d \<and> (\<forall>e. db_err d = Some e \<longrightarrow> \<not> errors_Is e UniqueViolation)"
  have d: "?ok d0" and m: "\<forall>i. member_ok (F i)" using assms(2) by (simp_all add: fleet_ready_def db_ok_def)
  have intake: "intake_inv ?ok db_files d0 (intake_of st')" if "fleet_reach L r F (fleet_start d0 disks) st'" for st'
    using files_repo.intake_reach_inv[OF assms(1) fleet_reach_intake[OF that]] d by blast
  from assms(3) have "fleet_inv F d0 st"
  proof (induction "fleet_start d0 disks" st rule: fleet_reach.induct)
    case at_start
    show ?case by (rule fleet_start_inv[OF assms(2)])
  next
    case (onward st1 st2)
    with fleet_step_inv[OF onward.hyps(3) assms(1) m intake] show ?case by blast
  qed
  moreover have "distinct (fl_answered st)" using intake[OF assms(3)] by (simp add: intake_inv_def intake_of_def)
  ultimately show ?thesis by blast
qed

text \<open>
  C2. Of all gateways that share one database (MySQL or Spanner), however their submissions,
  cancellations and cutoffs interleave, call by call, and wherever their receivers stop: no file is
  answered twice; no two directories isolated by cutoffs, of whichever shards and gateways, held a file
  of the same id, and each such id had been recorded since the start; and every file that was answered
  was cancelled, or was in one of those directories, or is in the pending directory of a shard.
\<close>

theorem fleet_takes_once:
  assumes "r = sqlRepository t \<or> r = spannerRepository t" and "fleet_ready F d0 disks" and "fleet_reach L r F (fleet_start d0 disks) st"
  shows "distinct (fl_answered st) \<and> sorted_wrt disjnt (map cut_ids (fl_cuts st)) \<and>
    (\<forall>c\<in>set (fl_cuts st). \<forall>x\<in>cut_ids c. db_files (fl_db st) x \<noteq> None \<and> db_files d0 x = None) \<and>
    (\<forall>x\<in>set (fl_answered st). x \<in> fl_cancelled st \<or> (\<exists>c\<in>set (fl_cuts st). x \<in> cut_ids c) \<or>
       (\<exists>i sh. sh \<in> set (mb_shards (F i)) \<and> x \<in> dir_files (fs_node (mb_root (F i)) (fl_disk st i)) (pend_dir (member_merging (F i) sh))))"
proof -
  from assms(1) have "files_repo r (\<lambda>d. wf_db d \<and> (\<forall>e. db_err d = Some e \<longrightarrow> \<not> errors_Is e UniqueViolation)) db_files"
    using sql_files.files_repo_axioms spanner_files.files_repo_axioms by blast
  from fleet_reach_inv[OF this assms(2,3)] have i: "fleet_inv F d0 st" and a: "distinct (fl_answered st)" by blast+
  have here: "x \<in> fl_cancelled st \<or> (\<exists>i sh. sh \<in> set (mb_shards (F i)) \<and>
      x \<in> dir_files (member_node (F i) (fl_disk st i)) (pend_dir (member_merging (F i) sh)))"
    if x: "x \<in> fl_in st (i, n)" for x i n
  proof -
    have d: "member_disk (F i) (fl_disk st i) (\<lambda>n. fl_in st (i, n)) (\<lambda>n. fl_out st (i, n))" and out: "fl_out st (i, n) \<subseteq> fl_cancelled st"
      using i unfolding fleet_inv_def by blast+
    from d x obtain sh where sh: "sh \<in> set (mb_shards (F i))" "n = sh_Name sh" unfolding member_disk_def by blast
    with d have "pending (member_node (F i) (fl_disk st i)) (pend_dir (member_merging (F i) sh)) {x. slash \<notin> set x} (fl_in st (i, n)) (fl_out st (i, n))"
      by (simp add: member_disk_def)
    from pending_dir_files[OF this] x out sh(1) show ?thesis by blast
  qed
  have "x \<in> fl_cancelled st \<or> (\<exists>c\<in>set (fl_cuts st). x \<in> cut_ids c) \<or> (\<exists>i n. x \<in> fl_in st (i, n))" if "x \<in> set (fl_answered st)" for x
  proof -
    from i that have "x \<in> fl_cancelled st \<union> fleet_booked st" unfolding fleet_inv_def by blast
    then show ?thesis by (auto simp: booked_def)
  qed
  moreover have "\<forall>c\<in>set (fl_cuts st). \<forall>x\<in>cut_ids c. db_files (fl_db st) x \<noteq> None \<and> db_files d0 x = None"
    using i unfolding fleet_inv_def booked_def by auto
  moreover have "sorted_wrt disjnt (map cut_ids (fl_cuts st))" using i by (simp only: fleet_inv_def books_ok_def)
  ultimately show ?thesis using a here by blast
qed

text \<open>
  Two gateways get the same file; the one that recorded it is cut off between the two writes of the
  submission, and answers after that.
\<close>

definition sample_member :: member where
  "sample_member = \<lparr>mb_hostname = ''host'', mb_chest = filesystem_chest ''/data'', mb_root = ''/data'', mb_agents = sample_agents,
     mb_shards = [sample_shard]\<rparr>"

lemma sample_member_merging: "member_merging sample_member sample_shard = sample_merging"
  by (simp add: member_merging_def sample_member_def sample_merging_def)

lemma sample_member_parts: "mb_root sample_member = ''/data''" "mb_shards sample_member = [sample_shard]"
  "mb_chest sample_member = fm_storage sample_merging" "mb_hostname sample_member = ''host''"
  by (simp_all add: sample_member_def sample_merging_def)

lemma sample_fleet_ready: "fleet_ready (\<lambda>_. sample_member) no_rows_db (\<lambda>_. sample_disk)"
  using sample_shard_facts(1,2,4) sample_disk_inv
  by (simp add: fleet_ready_def member_ok_def sample_member_merging sample_member_parts db_ok_def no_rows_db_def wf_db_def)

definition sample_acceptance :: accepted_file where
  "sample_acceptance = \<lparr>af_FileID = ''a'', af_ShardKey = ''prod'', af_Hostname = ''host'', af_AcceptedAt = 0\<rparr>"

lemma sample_records:
  "let d = snd (Record (sqlRepository 0) sample_acceptance no_rows_db)
   in fst (Record (sqlRepository 0) sample_acceptance no_rows_db) = None \<and>
      (case Record (sqlRepository 0) sample_acceptance d of (e, d') \<Rightarrow> e \<noteq> None \<and> d' = d)"
  by code_simp

lemma sample_not_pending:
  "let s1 = snd (write_contents sample_lib sample_merging (sample_opts_file ''a'') sample_disk);
       s2 = snd (isolateMergableDir sample_merging ''1'' s1)
   in \<not> present (fs_node ''/data'' (write_opts sample_lib sample_merging (sample_opts_file ''a'') s2)) (pend_dir sample_merging) (ach_name ''a'') \<and>
      \<not> present (fs_node ''/data'' sample_disk) (pend_dir sample_merging) (ach_name ''a'')"
  by code_simp

text \<open>States of the run: the first gateway at some point of its work, the others idle.\<close>

definition sample_fleet :: "db \<Rightarrow> work \<Rightarrow> os \<Rightarrow> string list \<Rightarrow> string set \<Rightarrow> cutoff_log list \<Rightarrow> fleet" where
  "sample_fleet d k s ans A cs = \<lparr>fl_db = d, fl_work = (\<lambda>_. Free)(0 := k), fl_disk = (\<lambda>_. sample_disk)(0 := s), fl_answered = ans,
     fl_in = (\<lambda>_. {})((0, ''prod'') := A), fl_out = (\<lambda>_. {}), fl_cancelled = {}, fl_cuts = cs\<rparr>"

lemma sample_fleet_parts:
  "fleet_start no_rows_db (\<lambda>_. sample_disk) = sample_fleet no_rows_db Free sample_disk [] {} []"
  "sh_Name sample_shard = ''prod''" "FileID (sample_opts_file ''a'') = ''a''" "FileShardKey (sample_opts_file ''a'') = ''prod''"
  "''a'' \<in> plain_ids"
  by (simp_all add: sample_fleet_def fleet_start_def sample_shard_def sample_opts_file_def sample_queue_file_def plain_ids_def
      fun_upd_idem) code_simp

lemma sample_run:
  obtains d cut s3 where "fleet_reach sample_lib (sqlRepository 0) (\<lambda>_. sample_member) (fleet_start no_rows_db (\<lambda>_. sample_disk))
      (sample_fleet d Free s3 [''a''] {} [cut])"
    "\<not> present (fs_node ''/data'' s3) (pend_dir sample_merging) (ach_name ''a'')"
proof -
  let ?x = "sample_opts_file ''a''" and ?a = sample_acceptance and ?r = "sqlRepository 0"
  let ?step = "fleet_step sample_lib ?r (\<lambda>_. sample_member)"
  define d where "d = snd (Record ?r ?a no_rows_db)"
  define s1 where "s1 = snd (write_contents sample_lib sample_merging ?x sample_disk)"
  define s2 where "s2 = snd (isolateMergableDir sample_merging ''1'' s1)"
  define s3 where "s3 = write_opts sample_lib sample_merging ?x s2"
  define cut where "cut = \<lparr>cut_by = 0, cut_dir = ''prod-1'', cut_ids = dir_files (member_node sample_member s2) [''prod-1'']\<rparr>"
  obtain e where rec: "Record ?r ?a no_rows_db = (None, d)" "Record ?r ?a d = (Some e, d)"
    using sample_records unfolding d_def Let_def by (auto simp: prod_eq_iff split: prod.splits)
  have w: "write_contents sample_lib sample_merging ?x sample_disk = (None, s1)" and fr: "fs_node ''/data'' s1 [''prod-1''] = None"
    and i: "isolateMergableDir sample_merging ''1'' s1 = ((''prod-1'', None), s2)"
    using sample_split by (simp_all add: s1_def s2_def Let_def prod_eq_iff)
  note parts = sample_fleet_parts(2-5) sample_member_parts sample_member_merging sample_shard_facts(5)
  have a: "?a = \<lparr>af_FileID = FileID ?x, af_ShardKey = FileShardKey ?x, af_Hostname = mb_hostname sample_member, af_AcceptedAt = 0\<rparr>"
    by (simp add: sample_acceptance_def parts)
  let ?f = sample_fleet
  have "?step (?f no_rows_db Free sample_disk [] {} []) (?f d (Claimed ?a ?x sample_shard) sample_disk [] {} [])"
    using fleet_step.claimed[of "?f no_rows_db Free sample_disk [] {} []" 0 ?x sample_shard "\<lambda>_. sample_member" ?a 0 ?r d sample_lib] a rec(1)
    by (simp add: sample_fleet_def parts)
  note r1 = fleet_reach.onward[OF fleet_reach.at_start this]
  have "?step (?f d (Claimed ?a ?x sample_shard) sample_disk [] {} []) (?f d (Claimed ?a ?x sample_shard) sample_disk [] {} [])"
    using fleet_step.skipped[of "?f d (Claimed ?a ?x sample_shard) sample_disk [] {} []" 1 ?r ?a e d] rec(2) by (simp add: sample_fleet_def)
  note r2 = fleet_reach.onward[OF r1 this]
  have "?step (?f d (Claimed ?a ?x sample_shard) sample_disk [] {} []) (?f d (Stored ?a ?x sample_shard) s1 [] {''a''} [])"
    using fleet_step.stored[of "?f d (Claimed ?a ?x sample_shard) sample_disk [] {} []" 0 ?a ?x sample_shard sample_lib "\<lambda>_. sample_member" s1 ?r] w
    by (simp add: sample_fleet_def parts)
  note r3 = fleet_reach.onward[OF r2 this]
  have "?step (?f d (Stored ?a ?x sample_shard) s1 [] {''a''} []) (?f d (Stored ?a ?x sample_shard) s2 [] {} [cut])"
    using fleet_step.cut[of sample_shard "\<lambda>_. sample_member" 0 "''1''" "?f d (Stored ?a ?x sample_shard) s1 [] {''a''} []" "''prod-1''" s2 sample_lib ?r]
      i fr by (simp add: sample_fleet_def parts cut_def fun_upd_idem)
  note r4 = fleet_reach.onward[OF r3 this]
  have "?step (?f d (Stored ?a ?x sample_shard) s2 [] {} [cut]) (?f d (Complete ?a) s3 [] {} [cut])"
    using fleet_step.completed[of "?f d (Stored ?a ?x sample_shard) s2 [] {} [cut]" 0 ?a ?x sample_shard sample_lib ?r "\<lambda>_. sample_member"]
    by (simp add: sample_fleet_def parts s3_def)
  note r5 = fleet_reach.onward[OF r4 this]
  have "?step (?f d (Complete ?a) s3 [] {} [cut]) (?f d Free s3 [''a''] {} [cut])"
    using fleet_step.answered[of "?f d (Complete ?a) s3 [] {} [cut]" 0 ?a sample_lib ?r "\<lambda>_. sample_member"]
    by (simp add: sample_fleet_def sample_acceptance_def)
  note r6 = fleet_reach.onward[OF r5 this]
  have "\<not> present (fs_node ''/data'' s3) (pend_dir sample_merging) (ach_name ''a'')"
    using sample_not_pending by (simp add: s1_def s2_def s3_def Let_def)
  with r6 show thesis by (intro that) (simp only: sample_fleet_parts(1))
qed

lemma fleet_takes_once_witness:
  "\<exists>st T. fleet_reach sample_lib (sqlRepository 0) (\<lambda>_. sample_member) (fleet_start no_rows_db (\<lambda>_. sample_disk)) st \<and>
     fl_answered st = [''a''] \<and> map cut_ids (fl_cuts st) = [T] \<and> ''a'' \<in> T \<and> db_files (fl_db st) ''a'' \<noteq> None"
proof -
  obtain d cut s3 where r: "fleet_reach sample_lib (sqlRepository 0) (\<lambda>_. sample_member) (fleet_start no_rows_db (\<lambda>_. sample_disk))
      (sample_fleet d Free s3 [''a''] {} [cut])" (is "fleet_reach _ _ _ _ ?st")
    and gone: "\<not> present (fs_node ''/data'' s3) (pend_dir sample_merging) (ach_name ''a'')" by (rule sample_run)
  have st: "fl_answered ?st = [''a'']" "fl_cancelled ?st = {}" "fl_cuts ?st = [cut]" "fl_disk ?st = (\<lambda>_. sample_disk)(0 := s3)"
    by (simp_all add: sample_fleet_def)
  have out: "''a'' \<notin> dir_files (fs_node ''/data'' (fl_disk ?st j)) (pend_dir sample_merging)" for j
    using gone sample_not_pending by (simp add: dir_files_def st(4) Let_def)
  note t = fleet_takes_once[OF disjI1[OF refl] sample_fleet_ready r, THEN conjunct2, THEN conjunct2]
  have "''a'' \<in> cut_ids cut"
    using t[THEN conjunct2] out by (simp add: st(1-3) sample_member_parts sample_member_merging)
  with t[THEN conjunct1] r st show ?thesis by (intro exI[where x = ?st] exI[where x = "cut_ids cut"]) simp
qed

end
