(* ===== verification/Fleet_Gateways.thy ===== *)
theory Fleet_Gateways
  imports Fleet
begin

text \<open>
  The gateways of the model as members of a fleet: whatever a gateway does, a message, a turn of
  an aggregator's loop, a cleanup or a restart, is a sequence of the steps of the fleet.
\<close>

definition member_of :: "world receiver_lib \<Rightarrow> gateway \<Rightarrow> member" where
  "member_of V G = \<lparr>mb_hostname = rl_hostname V, mb_chest = filesystem_chest (gw_root G), mb_root = gw_root G,
     mb_agents = gw_agents G, mb_shards = gw_shards G\<rparr>"

section \<open>The calls on the state of a gateway\<close>

lemma world_path [simp]: "mergable_path (gw_merging G sh) n = mergable_path (member_merging b sh) n"
  by (simp add: mergable_path_def gw_merging_def)

lemma world_contents:
  "write_contents L (gw_merging G sh) x w = on_disk (write_contents L (member_merging (member_of V G) sh) x) w"
  by (auto simp: write_contents_def gw_merging_def member_merging_def member_of_def mergable_path_def world_chest_def on_disk_def
      split: option.splits sum.splits prod.splits)

lemma world_opts:
  "write_opts L (gw_merging G sh) x w = w\<lparr>w_disk := write_opts L (member_merging (member_of V G) sh) x (w_disk w)\<rparr>"
  by (auto simp: write_opts_def gw_merging_def member_merging_def member_of_def mergable_path_def world_chest_def on_disk_def Let_def
      split: option.splits prod.splits)

lemma world_cancel:
  "HandleCancel (gw_merging G sh) c w = on_disk (HandleCancel (member_merging (member_of V G) sh) c) w"
  by (auto simp: HandleCancel_def gw_merging_def member_merging_def member_of_def mergable_path_def world_chest_def on_disk_def Let_def
      split: prod.splits)

lemma world_isolate:
  "isolateMergableDir (gw_merging G sh) tm w = on_disk (isolateMergableDir (member_merging (member_of V G) sh) tm) w"
  by (auto simp: isolateMergableDir_def isolated_dir_def gw_merging_def member_merging_def member_of_def world_chest_def on_disk_def Let_def
      split: prod.splits)

section \<open>Submissions and cancellations\<close>

definition seen_at :: "nat \<Rightarrow> world \<Rightarrow> fleet \<Rightarrow> bool" where
  "seen_at i w st \<longleftrightarrow> fl_db st = w_db w \<and> fl_disk st i = w_disk w \<and> fl_work st i = Free"

text \<open>
  From \<open>st\<close> the fleet can do what makes \<open>w\<close> of the state of gateway \<open>i\<close>, answering \<open>new\<close>, while no
  other gateway moves.
\<close>

definition moves :: "ach_lib \<Rightarrow> db files_repository \<Rightarrow> (nat \<Rightarrow> member) \<Rightarrow> nat \<Rightarrow> fleet \<Rightarrow> string list \<Rightarrow> world \<Rightarrow> bool" where
  "moves L r F i st new w \<longleftrightarrow> (\<exists>st'. fleet_reach L r F st st' \<and> seen_at i w st' \<and> fl_answered st' = fl_answered st @ new \<and>
     (\<forall>j. j \<noteq> i \<longrightarrow> fl_disk st' j = fl_disk st j \<and> fl_work st' j = fl_work st j))"

lemma moves_stay: "seen_at i w st \<Longrightarrow> moves L r F i st [] w"
  unfolding moves_def by (intro exI[where x = st]) (simp add: fleet_reach.at_start)

lemma moves_cong: "db_and_disk w' = db_and_disk w \<Longrightarrow> moves L r F i st new w' = moves L r F i st new w"
  by (simp add: moves_def seen_at_def)

lemma moves_after:
  assumes "fleet_step L r F st st1" and "moves L r F i st1 new w" and "fl_answered st1 = fl_answered st"
    and "\<And>j. j \<noteq> i \<Longrightarrow> fl_disk st1 j = fl_disk st j \<and> fl_work st1 j = fl_work st j"
  shows "moves L r F i st new w"
proof -
  obtain st2 where st2: "fleet_reach L r F st1 st2" "seen_at i w st2" "fl_answered st2 = fl_answered st1 @ new"
    "\<And>j. j \<noteq> i \<Longrightarrow> fl_disk st2 j = fl_disk st1 j \<and> fl_work st2 j = fl_work st1 j"
    using assms(2) unfolding moves_def by blast
  from fleet_reach_trans[OF st2(1) fleet_reach.onward[OF fleet_reach.at_start assms(1)]] st2(2-4) assms(3,4)
  show ?thesis unfolding moves_def by (intro exI[where x = st2]) simp
qed

lemmas two_steps = fleet_reach.onward[OF fleet_reach.onward[OF fleet_reach.at_start]]

lemma file_moves:
  assumes "F i = member_of V G" and "seen_at i w st" and "FileID f \<in> plain_ids"
    and "processACHFile V (gw_receiver G) now f (ch, w) = (e, ch', w')"
  shows "\<exists>new. moves (lib (gw_outside G)) (sqlRepository (gw_now G)) F i st new w' \<and> accepted_ids ch' = accepted_ids ch @ new"
proof -
  let ?r = "sqlRepository (gw_now G)" and ?L = "lib (gw_outside G)" and ?a = "acceptance V now f"
  have repo: "fr_fileRepository (gw_receiver G) = world_files ?r" by (simp add: gw_receiver_def)
  have at: "fl_db st = w_db w" "fl_disk st i = w_disk w" "fl_work st i = Free" using assms(2) by (simp_all add: seen_at_def)
  have claim: "fleet_step ?L ?r F st (st\<lparr>fl_work := (fl_work st)(i := Claimed ?a f sh), fl_db := w_db s1\<rparr>) \<and> w_disk s1 = w_disk w"
    if "Record (fr_fileRepository (gw_receiver G)) ?a w = (None, s1)" "sh \<in> set (gw_shards G)" for sh s1
    using fleet_step.claimed[OF at(3) assms(3), of sh F ?a now ?r "w_db s1" ?L] world_sql_db(1)[OF that(1)[unfolded repo]]
      gw_repo_disk(1)[OF that(1)] that(2) at(1) assms(1)
    by (simp add: acceptance_def member_of_def)
  from assms(4) show ?thesis
  proof (cases rule: processACHFile_cases)
    case skipped
    with moves_stay[OF assms(2)] show ?thesis by (intro exI[where x = "[]"]) simp
  next
    case (unrecorded x)
    note rd = world_sql_db(1)[OF unrecorded(1)[unfolded repo]]
    from fleet_reach.onward[OF fleet_reach.at_start fleet_step.skipped[OF at(3) rd[folded at(1)]]] gw_repo_disk(1)[OF unrecorded(1)] at unrecorded(2)
    show ?thesis unfolding moves_def by (intro exI[where x = "[]"] conjI exI[where x = "st\<lparr>fl_db := w_db w'\<rparr>"]) (simp_all add: seen_at_def)
  next
    case (accepted g n s1 resp)
    from gw_aggregators[OF accepted(2)] obtain sh where sh: "sh \<in> set (gw_shards G)" "g = gw_aggregator G sh" by blast
    note c = claim[OF accepted(3) sh(1)]
    from accepted(4)[unfolded sh(2) gw_merge_ops] obtain s2 where
      s2: "write_contents ?L (gw_merging G sh) f s1 = (None, s2)" "w' = write_opts ?L (gw_merging G sh) f s2"
      by (cases rule: world_disk.HandleXfer_cases) auto
    let ?m = "member_merging (F i) sh"
    have d: "write_contents ?L ?m f (w_disk w) = (None, w_disk s2)" "w_disk w' = write_opts ?L ?m f (w_disk s2)" "w_db w' = w_db s1"
      using s2 c unfolding world_contents[where V = V, folded assms(1)] world_opts[where V = V, folded assms(1)] by (auto simp: on_disk_eq assms(1))
    let ?st1 = "st\<lparr>fl_work := (fl_work st)(i := Claimed ?a f sh), fl_db := w_db s1\<rparr>"
    let ?st2 = "?st1\<lparr>fl_work := (fl_work ?st1)(i := Stored ?a f sh), fl_disk := (fl_disk ?st1)(i := w_disk s2),
      fl_in := (fl_in ?st1)((i, sh_Name sh) := insert (FileID f) (fl_in ?st1 (i, sh_Name sh)))\<rparr>"
    let ?st3 = "?st2\<lparr>fl_work := (fl_work ?st2)(i := Complete ?a), fl_disk := (fl_disk ?st2)(i := write_opts ?L ?m f (fl_disk ?st2 i))\<rparr>"
    let ?st4 = "?st3\<lparr>fl_work := (fl_work ?st3)(i := Free), fl_answered := fl_answered ?st3 @ [af_FileID ?a]\<rparr>"
    have "fleet_step ?L ?r F ?st1 ?st2" by (rule fleet_step.stored) (use d(1) at in simp_all)
    note r2 = two_steps[OF conjunct1[OF c] this]
    have "fleet_step ?L ?r F ?st2 ?st3" by (rule fleet_step.completed) simp
    note r3 = fleet_reach.onward[OF r2 this]
    have "fleet_step ?L ?r F ?st3 ?st4" by (rule fleet_step.answered) simp
    from fleet_reach.onward[OF r3 this] have "fleet_reach ?L ?r F st ?st4" .
    then have "moves ?L ?r F i st [FileID f] w'"
      unfolding moves_def by (intro exI[where x = ?st4] conjI) (simp_all add: seen_at_def d acceptance_def)
    with accepted(6,7) show ?thesis by (intro exI[where x = "[FileID f]"]) (simp add: accepted_ids_def)
  next
    case (failed g n s1 x s2 ce)
    from gw_aggregators[OF failed(2)] obtain sh where sh: "sh \<in> set (gw_shards G)" "g = gw_aggregator G sh" by blast
    note c = claim[OF failed(3) sh(1)]
    from failed(4)[unfolded sh(2) gw_merge_ops] obtain y where s2: "write_contents ?L (gw_merging G sh) f s1 = (Some y, s2)"
      by (cases rule: world_disk.HandleXfer_cases) auto
    let ?m = "member_merging (F i) sh"
    have d: "write_contents ?L ?m f (w_disk w) = (Some y, w_disk s2)" "w_db s2 = w_db s1"
      using s2 c unfolding world_contents[where V = V, folded assms(1)] by (auto simp: on_disk_eq assms(1))
    let ?st1 = "st\<lparr>fl_work := (fl_work st)(i := Claimed ?a f sh), fl_db := w_db s1\<rparr>"
    let ?st2 = "?st1\<lparr>fl_work := (fl_work ?st1)(i := Failed ?a), fl_disk := (fl_disk ?st1)(i := w_disk s2)\<rparr>"
    let ?st3 = "?st2\<lparr>fl_work := (fl_work ?st2)(i := Free), fl_db := w_db w'\<rparr>"
    have "fleet_step ?L ?r F ?st1 ?st2" by (rule fleet_step.not_stored[where a = ?a and x = f and sh = sh and e = y]) (use d(1) at in simp_all)
    from two_steps[OF conjunct1[OF c] this] have "fleet_reach ?L ?r F st ?st2" .
    moreover have "fleet_step ?L ?r F ?st2 ?st3"
      by (rule fleet_step.cleaned[where a = ?a and e = ce]) (use world_sql_db(2)[OF failed(5)[unfolded repo]] d(2) in simp_all)
    ultimately have "fleet_reach ?L ?r F st ?st3" by (rule fleet_reach.onward)
    then have "moves ?L ?r F i st [] w'" using gw_repo_disk(2)[OF failed(5)]
      unfolding moves_def by (intro exI[where x = ?st3] conjI) (simp_all add: seen_at_def)
    with failed(6) show ?thesis by (intro exI[where x = "[]"]) simp
  qed
qed

lemma cancel_moves:
  assumes "F i = member_of V G" and "seen_at i w st" and "slash \<notin> set (cancel_FileID x)" and "kept_id (cancel_FileID x) \<in> plain_ids"
    and "cancelACHFile (gw_receiver G) (Some x) (ch, w) = (e, ch', w')"
  shows "\<exists>new. moves L (sqlRepository (gw_now G)) F i st new w' \<and> accepted_ids ch' = accepted_ids ch @ new"
proof -
  let ?r = "sqlRepository (gw_now G)"
  have repo: "fr_fileRepository (gw_receiver G) = world_files ?r" by (simp add: gw_receiver_def)
  have at: "fl_db st = w_db w" "fl_disk st i = w_disk w" "fl_work st i = Free" using assms(2) by (simp_all add: seen_at_def)
  have id: "good_id (cancel_FileID x)" using assms(3,4) by (simp add: good_id_def plain_ids_def)
  have db: "fleet_step L ?r F st (st\<lparr>fl_db := w_db s1\<rparr>) \<and> w_disk s1 = w_disk w"
    if "Cancel (fr_fileRepository (gw_receiver G)) (cancel_FileID x) w = (y, s1)" for y s1
    using fleet_step.cancel_recorded[of ?r "cancel_FileID x" st y "w_db s1" L F] that at(1) gw_repo_disk(3)[OF that]
    by (simp add: repo world_files_def on_db_eq) auto
  from assms(5) show ?thesis
  proof (cases rule: cancelACHFile_cases)
    case skipped
    with moves_stay[OF assms(2)] show ?thesis by (intro exI[where x = "[]"]) simp
  next
    case (unrecorded y)
    from fleet_reach.onward[OF fleet_reach.at_start conjunct1[OF db[OF unrecorded(1)]]] db[OF unrecorded(1)] at unrecorded(2)
    show ?thesis unfolding moves_def by (intro exI[where x = "[]"] conjI exI[where x = "st\<lparr>fl_db := w_db w'\<rparr>"]) (simp_all add: seen_at_def)
  next
    case (handled g n s1 resp he s2)
    from gw_aggregators[OF handled(2)] obtain sh where sh: "sh \<in> set (gw_shards G)" "g = gw_aggregator G sh" by blast
    note c = db[OF handled(3)]
    let ?m = "member_merging (F i) sh"
    have d: "HandleCancel ?m x (w_disk w) = ((resp, he), w_disk s2)" "w_db s2 = w_db s1"
      using handled(4)[unfolded sh(2) gw_merge_ops world_cancel[where V = V, folded assms(1)]] c by (auto simp: on_disk_eq assms(1))
    obtain ee s3 where em: "world_emitter (gw_outcome G) (FileCancellationResponse resp) s2 = (ee, s3)" by fastforce
    from emitter_obs[OF em] handled(5) sh(2) em have w': "db_and_disk w' = db_and_disk s2" by auto
    have shF: "sh \<in> set (mb_shards (F i))" using sh(1) assms(1) by (simp add: member_of_def)
    let ?st1 = "st\<lparr>fl_db := w_db s1\<rparr>"
    let ?k = "kept_id (cancel_FileID x)"
    have "\<exists>st2. fleet_step L ?r F ?st1 st2 \<and> seen_at i s2 st2 \<and> fl_answered st2 = fl_answered st \<and>
        (\<forall>j. j \<noteq> i \<longrightarrow> fl_disk st2 j = fl_disk st j \<and> fl_work st2 j = fl_work st j)"
    proof (cases he)
      case None
      with fleet_step.cancel_stored[where F = F and i = i, OF shF id, of ?st1 resp "w_disk s2" L ?r] d at show ?thesis
        by (intro exI[where x = "?st1\<lparr>fl_disk := (fl_disk ?st1)(i := w_disk s2), fl_cancelled := insert ?k (fl_cancelled ?st1),
          fl_out := (fl_out ?st1)((i, sh_Name sh) := insert ?k (fl_out ?st1 (i, sh_Name sh)))\<rparr>"]) (simp add: seen_at_def)
    next
      case (Some y)
      with fleet_step.cancel_failed[where F = F and i = i, OF shF id, of ?st1 resp y "w_disk s2" L ?r] d at show ?thesis
        by (intro exI[where x = "?st1\<lparr>fl_disk := (fl_disk ?st1)(i := w_disk s2)\<rparr>"]) (simp add: seen_at_def)
    qed
    with two_steps[OF conjunct1[OF c]] have "moves L ?r F i st [] s2" unfolding moves_def by fastforce
    with handled(6) show ?thesis unfolding moves_cong[OF w'] by (intro exI[where x = "[]"]) (simp add: accepted_ids_def)
  qed
qed

lemma message_moves:
  assumes "F i = member_of V G" and "seen_at i w st"
    and "event_ok V G (Deliver now msg) gst" and "processMessage V (gw_receiver G) now msg (ch, w) = (e, ch', w')"
  shows "\<exists>new. moves (lib (gw_outside G)) (sqlRepository (gw_now G)) F i st new w' \<and> accepted_ids ch' = accepted_ids ch @ new"
proof -
  let ?fr = "gw_receiver G"
  have ack: "db_and_disk (Ack msg v) = db_and_disk v" for v using assms(3) by simp
  have acked: "db_and_disk (snd (ack x msg (c, v))) = db_and_disk v" "fst (ack x msg (c, v)) = c" for x c v
    using ack[of v] by (simp_all add: ack_def)
  obtain w0 where w0: "ack (\<not> shouldAutocommit ?fr) msg (ch, w) = (ch, w0)"
    by (cases "shouldAutocommit ?fr") (simp_all add: ack_def)
  have s0: "seen_at i w0 st" using acked(1)[of "\<not> shouldAutocommit ?fr" ch w] w0 assms(2) by (simp add: seen_at_def)
  have em: "fr_eventEmitter ?fr = world_emitter (gw_outcome G)" by (simp add: gw_receiver_def)
  have emitted: "db_and_disk v' = db_and_disk v" if "produceInvalidQueueFile V ?fr f x v = (p, v')" for f x v v' p
    using emitter_obs[OF that[unfolded produceInvalidQueueFile_def em]] .
  have finish: ?thesis
    if "\<exists>new. moves (lib (gw_outside G)) (sqlRepository (gw_now G)) F i st new v \<and> accepted_ids c = accepted_ids ch @ new"
      "db_and_disk w' = db_and_disk v" "ch' = c" for c v
    using that moves_cong[OF that(2)] by simp
  have stays: "\<exists>new. moves (lib (gw_outside G)) (sqlRepository (gw_now G)) F i st new w0 \<and> accepted_ids ch = accepted_ids ch @ new"
    using moves_stay[OF s0] by (intro exI[where x = "[]"]) simp
  from assms(4) show ?thesis
  proof (cases rule: processMessage_cases)
    case unread
    with w0 show ?thesis by (intro finish[OF stays]) simp_all
  next
    case (cancelled x st1)
    obtain c v where st1: "st1 = (c, v)" by (cases st1)
    have x: "slash \<notin> set (cancel_FileID x)" "kept_id (cancel_FileID x) \<in> plain_ids" using assms(3) cancelled(3) by auto
    show ?thesis
      by (rule finish[OF cancel_moves[where F = F and i = i and st = st, OF assms(1) s0 x cancelled(1)[unfolded w0 st1]]])
         (use cancelled(2) st1 ack in \<open>auto simp: ack_def split: if_splits\<close>)
  next
    case (invalid f re pe s1)
    show ?thesis by (rule finish[OF stays]) (use invalid(2) w0 emitted[OF invalid(1)] in auto)
  next
    case (accepted f st1)
    obtain c v where st1: "st1 = (c, v)" by (cases st1)
    have f: "FileID f \<in> plain_ids" using assms(3) accepted(4) by auto
    show ?thesis
      by (rule finish[OF file_moves[where F = F and i = i and st = st, OF assms(1) s0 f accepted(1)[unfolded w0 st1]]])
         (use accepted(3) st1 ack in \<open>auto simp: ack_def split: if_splits\<close>)
  next
    case (rejected f x ch1 s1 pe s2)
    have f: "FileID f \<in> plain_ids" using assms(3) rejected(5) by auto
    show ?thesis
      by (rule finish[OF file_moves[where F = F and i = i and st = st, OF assms(1) s0 f rejected(1)[unfolded w0]]]) (use rejected(3) emitted[OF rejected(2)] in auto)
  qed
qed

section \<open>Cutoffs and cleanups\<close>

lemma elsewhere_moves:
  assumes "F i = member_of V G" and "seen_at i w st" and "w_db w' = w_db w" and "fs_inv (gw_root G) (w_disk w')"
    and "\<And>q. fs_node (gw_root G) (w_disk w') (''mergable'' # q) = fs_node (gw_root G) (w_disk w) (''mergable'' # q)"
  shows "moves L r F i st [] w'"
proof -
  have "fleet_step L r F st (st\<lparr>fl_disk := (fl_disk st)(i := w_disk w')\<rparr>)"
    by (rule fleet_step.elsewhere) (use assms in \<open>simp_all add: member_of_def seen_at_def\<close>)
  from fleet_reach.onward[OF fleet_reach.at_start this] assms(2,3) show ?thesis
    unfolding moves_def by (intro exI[where x = "st\<lparr>fl_disk := (fl_disk st)(i := w_disk w')\<rparr>"]) (simp add: seen_at_def)
qed

lemma cutoff_moves:
  assumes "F i = member_of V G" and "seen_at i w st" and "gw_ok P G" and "sh \<in> set (gw_shards G)"
    and "member_disk (F i) (fl_disk st i) A C" and "\<forall>x\<in>set as. quiet_agent x"
    and "slash \<notin> set (stamp c)" and "fs_node (gw_root G) (w_disk w) [sh_Name sh @ ''-'' @ stamp c] = None"
    and "WithEachMerged (gw_outside G) (gw_merging G sh) (stamp c) (runTransformers P (gw_aggregator G sh) c) as w = (r, as', w')"
  shows "moves L (sqlRepository (gw_now G)) F i st [] w' \<and> (\<forall>x\<in>set as'. quiet_agent x)"
proof -
  let ?m = "gw_merging G sh" and ?r = "sqlRepository (gw_now G)" and ?node = "\<lambda>w. fs_node (gw_root G) (w_disk w)"
  let ?dir = "sh_Name sh @ ''-'' @ stamp c"
  note st = gw_storage[of G sh] and calls = gw_cutoff_calls[OF assms(3,4,6)]
  have at: "fl_db st = w_db w" "fl_disk st i = w_disk w" "fl_work st i = Free" using assms(2) by (simp_all add: seen_at_def)
  have F: "mb_root (F i) = gw_root G" "mb_shards (F i) = gw_shards G" using assms(1) by (simp_all add: member_of_def)
  have m: "shard_ok ?m" using assms(3,4) by (simp add: gw_ok_def)
  have pd: "pend_dir (member_merging b sh) = pend_dir ?m" for b by (simp add: pend_dir_def member_merging_def gw_merging_def)
  have i: "fs_inv (gw_root G) (w_disk w)" and p: "pending (?node w) (pend_dir ?m) {x. slash \<notin> set x} (A (sh_Name sh)) (C (sh_Name sh))"
    using assms(4,5) unfolding member_disk_def F at(2) by (blast, metis pd)
  have reg: "\<not> is_reg (?node w (pend_dir ?m))" using pending_flat[OF p] by (simp add: flat_def)
  have new: "?node w [sh_Name (fm_shard ?m) @ ''-'' @ stamp c] = None" using assms(8) st(2) by simp
  have call: "\<forall>a cr j x. upload_New (dialing (gw_outside G)) (retrying (gw_outside G)) (mock_agent (gw_outside G)) (fm_cfg ?m)
      (sh_UploadAgent (fm_shard ?m)) as = (Inr a, cr) \<longrightarrow>
      quiet (\<lambda>w. (fs_inv (gw_root G) (w_disk w), ?node w)) (runTransformers P (gw_aggregator G sh) c j a x)"
    using calls(2) by blast
  have db: "w_db w' = w_db w" and agents: "\<forall>x\<in>set as'. quiet_agent x" using calls(3)[OF assms(9)] by blast+
  have iso: "isolateMergableDir (member_merging (F i) sh) (stamp c) (w_disk w) = (x, w_disk w1) \<and> w_db w1 = w_db w"
    if "isolateMergableDir ?m (stamp c) w = (x, w1)" for x w1
    using that unfolding world_isolate[where V = V, folded assms(1)] by (auto simp: on_disk_eq assms(1))
  have shF: "sh \<in> set (mb_shards (F i))" using assms(4) F by simp
  from i m st(1) assms(7) new reg calls(1) call assms(9) have "moves L ?r F i st [] w'"
  proof (cases rule: world_disk.cutoff_isolates)
    case (failed dir x y)
    let ?st' = "st\<lparr>fl_disk := (fl_disk st)(i := w_disk w')\<rparr>"
    have "fleet_step L ?r F st ?st'"
      by (rule fleet_step.cut_failed[where F = F and i = i, OF shF assms(7), where dir = dir and e = x]) (use iso[OF failed(1)] at in simp)
    from fleet_reach.onward[OF fleet_reach.at_start this] db at show ?thesis
      unfolding moves_def by (intro exI[where x = ?st']) (simp add: seen_at_def)
  next
    case (isolated w1)
    note here = isolated[unfolded st(2)]
    let ?d = "w_disk w1"
    let ?st1 = "st\<lparr>fl_disk := (fl_disk st)(i := ?d), fl_in := (fl_in st)((i, sh_Name sh) := {}), fl_out := (fl_out st)((i, sh_Name sh) := {}),
      fl_cuts := fl_cuts st @ [\<lparr>cut_by = i, cut_dir = ?dir, cut_ids = dir_files (member_node (F i) ?d) [?dir]\<rparr>]\<rparr>"
    have "fleet_step L ?r F st ?st1"
      by (rule fleet_step.cut[where F = F and i = i, OF shF assms(7)]) (use iso[OF here(1)] at assms(8) F in simp_all)
    note step = this
    have "\<not> prefix [?dir] (''mergable'' # q)" for q using dashed_not_mergable by simp
    then have same: "?node w' (''mergable'' # q) = ?node w1 (''mergable'' # q)" for q by (rule here(3))
    have "seen_at i w1 ?st1" using at iso[OF here(1)] by (simp add: seen_at_def)
    from elsewhere_moves[where F = F and i = i, OF assms(1) this _ here(2) same, of L ?r] iso[OF here(1)] db
    have "moves L ?r F i ?st1 [] w'" by simp
    from moves_after[OF step this] show ?thesis by simp
  qed
  with agents show ?thesis by blast
qed

section \<open>Whole gateways\<close>

text \<open>
  C3. The fleet does what gateways do: when a message reaches a member of a fleet, or a turn of an
  aggregator's loop, a cleanup or a restart happens to it, the fleet can take a sequence of its steps
  that leaves the member's disk and the database as the gateway leaves them and answers what the
  gateway answers, while the other members stand still. So what holds of every run of the fleet holds
  of any number of gateways, with their calls interleaved.
\<close>

theorem fleet_runs_gateways:
  assumes "F i = member_of V G" and "seen_at i (gs_world gst) st" and "gw_ok P G"
    and "fleet_ready F d0 disks" and "fleet_reach (lib (gw_outside G)) (sqlRepository (gw_now G)) F (fleet_start d0 disks) st"
    and "\<forall>x\<in>set (gs_agents gst). quiet_agent x" and "event_ok V G ev gst" and "gw_step V P G ev gst = Some gst'"
  shows "\<exists>st' new. fleet_reach (lib (gw_outside G)) (sqlRepository (gw_now G)) F st st' \<and> seen_at i (gs_world gst') st' \<and>
    fl_answered st' = fl_answered st @ new \<and> accepted_ids (gs_channels gst') = accepted_ids (gs_channels gst) @ new \<and>
    (\<forall>j. j \<noteq> i \<longrightarrow> fl_disk st' j = fl_disk st j \<and> fl_work st' j = fl_work st j) \<and> (\<forall>x\<in>set (gs_agents gst'). quiet_agent x)"
proof -
  let ?L = "lib (gw_outside G)" and ?r = "sqlRepository (gw_now G)" and ?w = "gs_world gst"
  have "member_disk (F i) (fl_disk st i) (\<lambda>n. fl_in st (i, n)) (\<lambda>n. fl_out st (i, n))"
    using fleet_reach_inv[OF sql_files.files_repo_axioms assms(4,5)] by (simp add: fleet_inv_def)
  note disk = this
  have F: "mb_root (F i) = gw_root G" using assms(1) by (simp add: member_of_def)
  have inv: "fs_inv (gw_root G) (w_disk ?w)" using disk assms(2) unfolding member_disk_def F seen_at_def by simp
  have result: ?thesis if "moves ?L ?r F i st new (gs_world gst')" "accepted_ids (gs_channels gst') = accepted_ids (gs_channels gst) @ new"
    "\<forall>x\<in>set (gs_agents gst'). quiet_agent x" for new
    using that unfolding moves_def by blast
  have still: ?thesis if "moves ?L ?r F i st [] (gs_world gst')" "gs_channels gst' = gs_channels gst" "\<forall>x\<in>set (gs_agents gst'). quiet_agent x"
    by (rule result[OF that(1)]) (simp_all add: that)
  show ?thesis
  proof (cases ev)
    case (Deliver now msg)
    obtain e ch w where m: "processMessage V (gw_receiver G) now msg (gs_channels gst, ?w) = (e, ch, w)" by (metis prod.exhaust)
    from message_moves[where F = F and i = i, OF assms(1,2) assms(7)[unfolded Deliver] m] obtain new where
      new: "moves ?L ?r F i st new w" "accepted_ids ch = accepted_ids (gs_channels gst) @ new" by blast
    have "gst' = gst\<lparr>gs_channels := ch, gs_world := w\<rparr>" using assms(8) Deliver m by simp
    with new assms(6) show ?thesis by (intro result[of new]) simp_all
  next
    case (Loop_turn n c wk)
    show ?thesis
    proof (cases "shard_named G n")
      case None
      with assms(6,8) Loop_turn moves_stay[OF assms(2)] show ?thesis by (intro still) auto
    next
      case (Some g)
      then obtain sh where sh: "sh \<in> set (gw_shards G)" "sh_Name sh = n" "g = gw_aggregator G sh" using shard_named_in by blast
      obtain b as' w' where t: "agg_step P (gw_aggregator G sh) c wk (gs_agents gst, ?w) = Some (b, as', w')"
        and gst': "gst' = gst\<lparr>gs_agents := as', gs_world := w'\<rparr>"
        using assms(8) Loop_turn Some sh(3) by (auto split: option.splits)
      note o' = loop_turn_obs[OF assms(3) sh(1) t]
      have e: "slash \<notin> set (stamp c)" "fs_node (gw_root G) (w_disk ?w) [sh_Name sh @ ''-'' @ stamp c] = None"
        using assms(7) Loop_turn sh(2) by simp_all
      show ?thesis
      proof (cases "is_cutoff sh wk")
        case False
        with o' assms(6) moves_stay[OF assms(2)] moves_cong[of w' ?w] gst' show ?thesis by (intro still) auto
      next
        case True
        with o' obtain r w1 where cut: "WithEachMerged (gw_outside G) (gw_merging G sh) (stamp c) (runTransformers P (gw_aggregator G sh) c)
            (gs_agents gst) ?w = (Some r, as', w1)" "db_and_disk w' = db_and_disk w1" by auto
        from cutoff_moves[where F = F and i = i, OF assms(1-3) sh(1) disk assms(6) e cut(1), of ?L] moves_cong[OF cut(2)] gst'
        show ?thesis by (intro still) simp_all
      qed
    qed
  next
    case (Cleanup_tick n now)
    show ?thesis
    proof (cases "\<exists>g cs. shard_named G n = Some g \<and> agg_cleanup g = Some cs")
      case False
      with assms(6,8) Cleanup_tick moves_stay[OF assms(2)] show ?thesis by (intro still) (auto split: option.splits)
    next
      case True
      then obtain g cs where g: "shard_named G n = Some g" "agg_cleanup g = Some cs" by blast
      have cs: "cs_storage cs = world_chest (filesystem_chest (gw_root G))"
        using g(2) shard_named_in[OF g(1)] gw_cleanup by blast
      have gst': "gst' = gst\<lparr>gs_world := snd (runCleanup cs now ?w)\<rparr>" using assms(8) Cleanup_tick g by simp
      note e = cleanup_frame[OF inv cs prod.collapse[symmetric], of now]
      have "moves ?L ?r F i st [] (gs_world gst')"
        by (rule elsewhere_moves[where F = F and i = i, OF assms(1,2)]) (use e cleanup_db[OF cs] gst' in simp_all)
      with assms(6) gst' show ?thesis by (intro still) simp_all
    qed
  next
    case Restart
    with assms(6,8) moves_stay[OF assms(2)] show ?thesis by (intro still) auto
  qed
qed

lemma gw_sample_ready: "fleet_ready (\<lambda>_. member_of gw_sample_events gw_sample) (w_db sample_world) (\<lambda>_. sample_disk)"
proof -
  have "shard_ok (member_merging (member_of gw_sample_events gw_sample) sample_shard)" "gw_root gw_sample = ''/data''"
    "fs_node ''/data'' sample_disk (pend_dir (member_merging (member_of gw_sample_events gw_sample) sample_shard)) = None"
    by code_simp+
  then show ?thesis using sample_disk_inv
    by (simp add: fleet_ready_def member_ok_def member_of_def gw_sample_shards disk_chest_def db_ok_def sample_world_def wf_db_def)
qed

lemma fleet_runs_gateways_witness:
  "\<exists>st gst'. gw_step gw_sample_events gw_sample_lib gw_sample (Deliver 1 (sample_message ''Qa'')) gw_start = Some gst' \<and>
     fleet_reach sample_lib (sqlRepository 7) (\<lambda>_. member_of gw_sample_events gw_sample)
       (fleet_start (w_db sample_world) (\<lambda>_. sample_disk)) st \<and> seen_at 3 (gs_world gst') st \<and> fl_answered st = [''a'']"
proof -
  let ?ev = "Deliver 1 (sample_message ''Qa'')" and ?step = "gw_step gw_sample_events gw_sample_lib gw_sample"
  have "map_option (\<lambda>st. accepted_ids (gs_channels st)) (?step ?ev gw_start) = Some [''a'']" by code_simp
  then obtain gst' where g: "?step ?ev gw_start = Some gst'" "accepted_ids (gs_channels gst') = [''a'']" by blast
  have e: "event_ok gw_sample_events gw_sample ?ev gw_start" by (rule gw_deliver_ok) simp
  have o': "lib (gw_outside gw_sample) = sample_lib" "gw_now gw_sample = 7"
    by (simp_all add: gw_sample_def sample_gateway_def sample_outside_def)
  have at: "seen_at 3 (gs_world gw_start) (fleet_start (w_db sample_world) (\<lambda>_. sample_disk))"
    by (simp add: seen_at_def gw_start_def fleet_start_def sample_world_def)
  have q: "\<forall>x\<in>set (gs_agents gw_start). quiet_agent x" "accepted_ids (gs_channels gw_start) = []"
    by (simp_all add: gw_start_def no_channels_def accepted_ids_def)
  from fleet_runs_gateways[where F = "\<lambda>_. member_of gw_sample_events gw_sample", OF refl at gw_sample_ok gw_sample_ready fleet_reach.at_start q(1) e g(1)] g
  show ?thesis unfolding o' q(2) by (fastforce simp: fleet_start_def)
qed

end
