(* ===== verification/Spanner_Gateway.thy ===== *)
theory Spanner_Gateway
  imports Fleet_Gateways
begin

text \<open>
  A gateway on Spanner beside one on MySQL (\<open>internal/files\<close>, \<open>internal/shards\<close>): where
  the two databases answer alike, and where not.
\<close>

definition on_spanner :: "int \<Rightarrow> world FileReceiver \<Rightarrow> world FileReceiver" where
  "on_spanner now fr = fr\<lparr>fr_fileRepository := world_files (spannerRepository now), fr_shardRepository := world_shards spanner_shards\<rparr>"

lemma on_spanner_parts [simp]:
  "fr_fileRepository (on_spanner now fr) = world_files (spannerRepository now)"
  "fr_shardRepository (on_spanner now fr) = world_shards spanner_shards" "shardAggregators (on_spanner now fr) = shardAggregators fr"
  "defaultShardName (on_spanner now fr) = defaultShardName fr" "fr_eventEmitter (on_spanner now fr) = fr_eventEmitter fr"
  "fr_transformConfig (on_spanner now fr) = fr_transformConfig fr" "fr_Kafka (on_spanner now fr) = fr_Kafka fr"
  by (simp_all add: on_spanner_def)

section \<open>Rows up to the time of their cancellation\<close>

definition forget :: "file_row \<Rightarrow> file_row" where
  "forget r = r\<lparr>row_canceled_at := None\<rparr>"

definition same_rows :: "db \<Rightarrow> db \<Rightarrow> bool" where
  "same_rows d d' \<longleftrightarrow> db_err d = db_err d' \<and> mappings_tbl d = mappings_tbl d' \<and> map forget (files_tbl d) = map forget (files_tbl d')"

definition agree :: "world \<Rightarrow> world \<Rightarrow> bool" where
  "agree w w' \<longleftrightarrow> same_rows (w_db w) (w_db w') \<and> w_disk w = w_disk w' \<and> w_sent w = w_sent w'"

lemma forget_keys [simp]: "row_file_id (forget r) = row_file_id r" "row_shard_key (forget r) = row_shard_key r"
  "row_canceled_at (forget r) = None" "forget (r\<lparr>row_canceled_at := c\<rparr>) = forget r"
  by (simp_all add: forget_def)

lemma same_rows_ids: "same_rows d d' \<Longrightarrow> map row_file_id (files_tbl d) = map row_file_id (files_tbl d')"
proof -
  assume "same_rows d d'"
  then have "map row_file_id (map forget (files_tbl d)) = map row_file_id (map forget (files_tbl d'))" by (simp only: same_rows_def)
  then show ?thesis by (simp add: o_def)
qed

lemma same_rows_wf: "same_rows d d' \<Longrightarrow> wf_db d = wf_db d'"
  using same_rows_ids[of d d'] by (simp add: wf_db_def same_rows_def)

lemma forget_filter: "(\<And>r. P (forget r) = P r) \<Longrightarrow> map forget (filter P rs) = filter P (map forget rs)"
  by (induction rs) auto

lemma same_rows_filter:
  assumes "same_rows d d'" and "\<And>r. P (forget r) = P r"
  shows "same_rows (d\<lparr>files_tbl := filter P (files_tbl d)\<rparr>) (d'\<lparr>files_tbl := filter P (files_tbl d')\<rparr>)"
  using assms forget_filter[of P] by (simp add: same_rows_def)

section \<open>The calls of the repository\<close>

lemma record_agrees:
  assumes "same_rows d d'" and "Record (sqlRepository t) a d = (e, d1)" and "Record (spannerRepository t') a d' = (e', d1')"
  shows "e' = e \<and> same_rows d1 d1'"
proof -
  have "row_file_id ` set (files_tbl d) = row_file_id ` set (files_tbl d')"
    using same_rows_ids[OF assms(1)] by (metis list.set_map)
  with assms show ?thesis
    by (auto simp: sqlRepository_def spannerRepository_def sql_Record_def spanner_Record_def insert_file_def row_of_def wrap_err_def same_rows_def
        split: option.splits if_splits)
qed

lemma cleanup_agrees:
  assumes "same_rows d d'" and "wf_db d" and "db_files d (af_FileID a) = Some (af_ShardKey a)"
    and "repo_Cleanup (sqlRepository t) a d = (e, d1)" and "repo_Cleanup (spannerRepository t') a d' = (e', d1')"
  shows "same_rows d1 d1'"
proof (cases "db_err d")
  case None
  let ?P = "\<lambda>r. row_file_id r \<noteq> af_FileID a"
  have "row_shard_key r = af_ShardKey a" if "r \<in> set (files_tbl d)" "row_file_id r = af_FileID a" for r
    using db_files_row[OF assms(2) that(1)] that(2) assms(3) by simp
  then have "filter (\<lambda>r. \<not> (row_file_id r = af_FileID a \<and> row_shard_key r = af_ShardKey a)) (files_tbl d) = filter ?P (files_tbl d)"
    by (intro filter_cong) auto
  with None assms(1,4,5) have "d1 = d\<lparr>files_tbl := filter ?P (files_tbl d)\<rparr>" "d1' = d'\<lparr>files_tbl := filter ?P (files_tbl d')\<rparr>"
    by (auto simp: sqlRepository_def spannerRepository_def sql_Cleanup_def spanner_Cleanup_def delete_files_def wrap_err_def same_rows_def)
  with same_rows_filter[OF assms(1), of ?P] show ?thesis by simp
next
  case (Some y)
  then have "db_err d' = Some y" using assms(1) by (simp add: same_rows_def)
  with Some assms(1,4,5) show ?thesis
    by (auto simp: sqlRepository_def spannerRepository_def sql_Cleanup_def spanner_Cleanup_def delete_files_def wrap_err_def same_rows_def)
qed

lemma forget_map: "map forget (map (\<lambda>r. if P r then r\<lparr>row_canceled_at := c\<rparr> else r) rs) = map forget rs"
  by (induction rs) auto

lemma cancel_agrees:
  assumes "same_rows d d'" and "db_files d i \<noteq> None"
    and "Cancel (sqlRepository t) i d = (e, d1)" and "Cancel (spannerRepository t') i d' = (e', d1')"
  shows "e' = e \<and> same_rows d1 d1'"
proof -
  have "i \<in> row_file_id ` set (files_tbl d')"
    using assms(2) same_rows_ids[OF assms(1)] unfolding db_files_None not_not by (metis list.set_map)
  with assms forget_map show ?thesis
    by (auto simp: sqlRepository_def spannerRepository_def sql_Cancel_def spanner_Cancel_def update_files_def wrap_err_def same_rows_def
        split: option.splits simp del: map_map)
qed

section \<open>The calls of the receiver\<close>

definition mapped :: "string \<Rightarrow> world \<Rightarrow> bool" where
  "mapped key w \<longleftrightarrow> key \<in> ShardKey ` set (mappings_tbl (w_db w))"

lemma aggregator_agrees:
  assumes "agree w w'" and "mapped key w"
  shows "getAggregator (on_spanner t (gw_receiver G)) key w' = getAggregator (gw_receiver G) key w"
proof -
  have "find (\<lambda>m. ShardKey m = key) (mappings_tbl (w_db w)) \<noteq> None"
    using assms(2) by (auto simp: mapped_def find_None_iff)
  with assms(1) have "Lookup (world_shards spanner_shards) key w' = Lookup (world_shards sql_shards) key w"
    by (auto simp: world_shards_def sql_shards_def spanner_shards_def sql_Lookup_def spanner_Lookup_def agree_def same_rows_def split: option.splits)
  moreover have "fr_shardRepository (gw_receiver G) = world_shards sql_shards" by (simp add: gw_receiver_def)
  ultimately show ?thesis unfolding getAggregator_def on_spanner_parts by simp
qed

lemma on_disk_agrees: "agree w w' \<Longrightarrow> on_disk f w = (r, v) \<Longrightarrow> \<exists>v'. on_disk f w' = (r, v') \<and> agree v v'"
  by (auto simp: on_disk_eq agree_def)

lemma world_xfer:
  "HandleXfer L (gw_merging G sh) x w = on_disk (HandleXfer L (member_merging (member_of V G) sh) x) w"
  unfolding HandleXfer_def writeACHFile_def world_contents[where V = V] world_opts[where V = V]
  by (auto simp: on_disk_def split: prod.splits option.splits)

lemma on_db_agrees:
  assumes "agree w w'" and "on_db f w = (e, v)" and "on_db f' w' = (e', v')"
    and "\<And>d d1 d1'. f (w_db w) = (e, d1) \<Longrightarrow> f' (w_db w') = (e', d1') \<Longrightarrow> same_rows d1 d1' \<and> (Q \<longrightarrow> e' = e)"
  shows "agree v v' \<and> (Q \<longrightarrow> e' = e)"
  using assms by (auto simp: on_db_eq agree_def)

lemma file_agrees:
  assumes "agree w w'" and "db_ok (w_db w)" and "mapped (FileShardKey f) w"
    and "processACHFile V (gw_receiver G) now f (ch, w) = (e, ch1, w1)"
    and "processACHFile V (on_spanner t (gw_receiver G)) now f (ch, w') = (e', ch1', w1')"
  shows "e' = e \<and> ch1' = ch1 \<and> agree w1 w1'"
proof (cases "FileID f = [] \<or> FileShardKey f = [] \<or> ACHFile_Validate f \<noteq> None \<or> getAggregator (gw_receiver G) (FileShardKey f) w = None")
  case True
  with assms(1,4,5) aggregator_agrees[OF assms(1,3), of t G] show ?thesis by (auto simp: processACHFile_def split: if_splits)
next
  case False
  then obtain g n where g: "getAggregator (gw_receiver G) (FileShardKey f) w = Some g"
    "(n, Some g) \<in> set (shardAggregators (gw_receiver G))"
    using getAggregator_in[of "gw_receiver G" "FileShardKey f" w] by auto
  from gw_aggregators[OF g(2)] obtain sh where sh: "g = gw_aggregator G sh" by blast
  let ?a = "acceptance V now f"
  obtain re v where re: "Record (sqlRepository (gw_now G)) ?a (w_db w) = (re, v)" by fastforce
  obtain re' v' where re': "Record (spannerRepository t) ?a (w_db w') = (re', v')" by fastforce
  have rows: "same_rows (w_db w) (w_db w')" using assms(1) by (simp add: agree_def)
  note rec = record_agrees[OF rows re re']
  let ?v = "w\<lparr>w_db := v\<rparr>" and ?v' = "w'\<lparr>w_db := v'\<rparr>"
  have av: "agree ?v ?v'" using rec assms(1) by (simp add: agree_def)
  obtain xe u where x: "HandleXfer (lib (gw_outside G)) (gw_merging G sh) f ?v = (xe, u)" by fastforce
  obtain u' where x': "HandleXfer (lib (gw_outside G)) (gw_merging G sh) f ?v' = (xe, u')" "agree u u'"
    using on_disk_agrees[OF av x[unfolded world_xfer[where V = V]]] unfolding world_xfer[where V = V] by blast
  have db: "w_db u = v" using HandleXfer_world[OF x] by simp
  obtain ce z where c: "repo_Cleanup (sqlRepository (gw_now G)) ?a (w_db u) = (ce, z)" by fastforce
  obtain ce' z' where c': "repo_Cleanup (spannerRepository t) ?a (w_db u') = (ce', z')" by fastforce
  have clean: "agree (u\<lparr>w_db := z\<rparr>) (u'\<lparr>w_db := z'\<rparr>)" if "re = None"
  proof -
    note n = sql_files.record_new[OF assms(2)[unfolded db_ok_def] re[unfolded that]]
    then have "wf_db (w_db u)" "db_files (w_db u) (af_FileID ?a) = Some (af_ShardKey ?a)" using db by simp_all
    with cleanup_agrees[OF _ _ _ c c'] x'(2) show ?thesis by (simp add: agree_def)
  qed
  have repo: "fr_fileRepository (gw_receiver G) = world_files (sqlRepository (gw_now G))" by (simp add: gw_receiver_def)
  have calls: "Record (world_files (sqlRepository (gw_now G))) ?a w = (re, ?v)" "Record (world_files (spannerRepository t)) ?a w' = (re, ?v')"
    "repo_Cleanup (world_files (sqlRepository (gw_now G))) ?a u = (ce, u\<lparr>w_db := z\<rparr>)"
    "repo_Cleanup (world_files (spannerRepository t)) ?a u' = (ce', u'\<lparr>w_db := z'\<rparr>)"
    using re re' c c' rec by (simp_all add: world_files_def on_db_def)
  show ?thesis
  proof (cases re)
    case (Some y)
    with assms(4,5) False calls av show ?thesis
      by (auto simp: processACHFile_def aggregator_agrees[OF assms(1,3)] g repo split: if_splits)
  next
    case None
    with assms(4,5) False calls x x' clean show ?thesis
      by (cases xe) (auto simp: processACHFile_def aggregator_agrees[OF assms(1,3)] g repo acceptFile_def sh filesystem_merger_def)
  qed
qed

lemma emitter_agrees:
  "agree w w' \<Longrightarrow> world_emitter oc p w = (e, v) \<Longrightarrow> world_emitter oc p w' = (e', v') \<Longrightarrow> e' = e \<and> agree v v'"
  by (auto simp: world_emitter_def agree_def split: option.splits)

lemma cancellation_agrees:
  assumes "agree w w'" and "mapped (cancel_ShardKey x) w" and "db_files (w_db w) (cancel_FileID x) \<noteq> None"
    and "cancelACHFile (gw_receiver G) (Some x) (ch, w) = (e, ch1, w1)"
    and "cancelACHFile (on_spanner t (gw_receiver G)) (Some x) (ch, w') = (e', ch1', w1')"
  shows "e' = e \<and> ch1' = ch1 \<and> agree w1 w1'"
proof (cases "cancel_FileID x = [] \<or> cancel_ShardKey x = [] \<or> getAggregator (gw_receiver G) (cancel_ShardKey x) w = None")
  case True
  with assms(1,4,5) aggregator_agrees[OF assms(1,2), of t G] show ?thesis by (auto simp: cancelACHFile_def split: if_splits)
next
  case False
  then obtain g n where g: "getAggregator (gw_receiver G) (cancel_ShardKey x) w = Some g"
    "(n, Some g) \<in> set (shardAggregators (gw_receiver G))"
    using getAggregator_in[of "gw_receiver G" "cancel_ShardKey x" w] by auto
  from gw_aggregators[OF g(2)] obtain sh where sh: "g = gw_aggregator G sh" by blast
  obtain ce v where c: "Cancel (sqlRepository (gw_now G)) (cancel_FileID x) (w_db w) = (ce, v)" by fastforce
  obtain ce' v' where c': "Cancel (spannerRepository t) (cancel_FileID x) (w_db w') = (ce', v')" by fastforce
  have rows: "same_rows (w_db w) (w_db w')" using assms(1) by (simp add: agree_def)
  note can = cancel_agrees[OF rows assms(3) c c']
  let ?v = "w\<lparr>w_db := v\<rparr>" and ?v' = "w'\<lparr>w_db := v'\<rparr>"
  have av: "agree ?v ?v'" using can assms(1) by (simp add: agree_def)
  obtain resp he u where h: "HandleCancel (gw_merging G sh) x ?v = ((resp, he), u)" by (metis prod.exhaust)
  obtain u' where h': "HandleCancel (gw_merging G sh) x ?v' = ((resp, he), u')" "agree u u'"
    using on_disk_agrees[OF av h[unfolded world_cancel[where V = undefined]]] unfolding world_cancel[where V = undefined] by blast
  obtain ee z where em: "world_emitter (gw_outcome G) (FileCancellationResponse resp) u = (ee, z)" by fastforce
  obtain ee' z' where em': "world_emitter (gw_outcome G) (FileCancellationResponse resp) u' = (ee', z')" by fastforce
  note es = emitter_agrees[OF h'(2) em em']
  have repo: "fr_fileRepository (gw_receiver G) = world_files (sqlRepository (gw_now G))" by (simp add: gw_receiver_def)
  have calls: "Cancel (world_files (sqlRepository (gw_now G))) (cancel_FileID x) w = (ce, ?v)"
    "Cancel (world_files (spannerRepository t)) (cancel_FileID x) w' = (ce, ?v')"
    using c c' can by (simp_all add: world_files_def on_db_def)
  show ?thesis
  proof (cases ce)
    case (Some y)
    with assms(4,5) False calls av show ?thesis
      by (auto simp: cancelACHFile_def aggregator_agrees[OF assms(1,2)] g repo)
  next
    case None
    with assms(4,5) False calls h h' em em' es show ?thesis
      by (cases he; cases ee) (auto simp: cancelACHFile_def aggregator_agrees[OF assms(1,2)] g repo cancelFile_def sh filesystem_merger_def)
  qed
qed

section \<open>Messages\<close>

text \<open>
  Acknowledging a message touches nothing of the gateway; the keys of what it carries are mapped to
  shards, and a file it cancels has been recorded.
\<close>

definition message_ok :: "world receiver_lib \<Rightarrow> gateway \<Rightarrow> world pub_message \<Rightarrow> world \<Rightarrow> bool" where
  "message_ok V G msg w \<longleftrightarrow> (\<forall>v. Ack msg v = v) \<and>
     (\<forall>f. reads V (gw_receiver G) msg (QueueACHFile f) \<longrightarrow> mapped (FileShardKey f) w) \<and>
     (\<forall>x. reads V (gw_receiver G) msg (CancelACHFile x) \<longrightarrow> mapped (cancel_ShardKey x) w \<and> db_files (w_db w) (cancel_FileID x) \<noteq> None)"

fun messages_ok :: "world receiver_lib \<Rightarrow> gateway \<Rightarrow> (int \<times> world pub_message) list \<Rightarrow> channels \<times> world \<Rightarrow> bool" where
  "messages_ok V G [] st \<longleftrightarrow> True"
| "messages_ok V G (m # ms) st \<longleftrightarrow> message_ok V G (snd m) (snd st) \<and>
     messages_ok V G ms (snd (processMessage V (gw_receiver G) (fst m) (snd m) st))"

lemma message_agrees:
  assumes "agree w w'" and "db_ok (w_db w)" and "message_ok V G msg w"
    and "processMessage V (gw_receiver G) now msg (ch, w) = (e, ch1, w1)"
    and "processMessage V (on_spanner t (gw_receiver G)) now msg (ch, w') = (e', ch1', w1')"
  shows "e' = e \<and> ch1' = ch1 \<and> agree w1 w1'"
proof -
  let ?fr = "gw_receiver G" and ?E = "rl_events V"
  have ack: "ack c msg st = st" for c st using assms(3) by (cases st) (simp add: ack_def message_ok_def)
  have em: "fr_eventEmitter ?fr = world_emitter (gw_outcome G)" by (simp add: gw_receiver_def)
  note m = assms(4,5)[unfolded processMessage_def Let_def ack on_spanner_parts shouldAutocommit_def]
  show ?thesis
  proof (cases "compliance_Reveal (crypto ?E) (fr_transformConfig ?fr) (msg_Body msg)")
    case (Inl x)
    with m assms(1) show ?thesis by auto
  next
    case (Inr data)
    obtain evt re where r: "models_Read (json ?E) (event_ach ?E) data = (evt, re)" by fastforce
    have reads: "reads V ?fr msg p" if "evt = Some (t', Some p)" for t' p
      using Inr r that by (auto simp: reads_def)
    consider "evt = None \<or> (\<exists>t. evt = Some (t, None))" | t' f where "evt = Some (t', Some (QueueACHFile f))"
      | t' x where "evt = Some (t', Some (CancelACHFile x))"
      | t' p where "evt = Some (t', Some p)" "\<And>f. p \<noteq> QueueACHFile f" "\<And>x. p \<noteq> CancelACHFile x" by (metis not_Some_eq surj_pair)
    then show ?thesis
    proof cases
      case 1
      with m assms(1) show ?thesis by (auto simp: Inr r)
    next
      case (4 t' p)
      with m assms(1) show ?thesis by (cases p) (auto simp: Inr r)
    next
      case (2 t' f)
      obtain pe c v where p: "processACHFile V ?fr now f (ch, w) = (pe, c, v)" by (metis prod.exhaust)
      obtain pe' c' v' where p': "processACHFile V (on_spanner t ?fr) now f (ch, w') = (pe', c', v')" by (metis prod.exhaust)
      have key: "mapped (FileShardKey f) w" using assms(3) reads[OF 2] by (simp add: message_ok_def)
      note fa = file_agrees[OF assms(1,2) key p p']
      have inv: "y' = y \<and> agree z z'"
        if "agree u u'" "produceInvalidQueueFile V ?fr f x u = (y, z)" "produceInvalidQueueFile V (on_spanner t ?fr) f x u' = (y', z')" for u u' x y y' z z'
        using emitter_agrees[OF that(1) that(2)[unfolded produceInvalidQueueFile_def em] that(3)[unfolded produceInvalidQueueFile_def on_spanner_parts em]] .
      show ?thesis
      proof (cases re)
        case None
        obtain y z where i: "produceInvalidQueueFile V ?fr f (the pe) v = (y, z)" by fastforce
        obtain y' z' where i': "produceInvalidQueueFile V (on_spanner t ?fr) f (the pe) v' = (y', z')" by fastforce
        have n: "y' = y \<and> agree z z'" using inv[OF _ i i'] fa by blast
        show ?thesis
        proof (cases pe)
          case None
          with m fa \<open>re = None\<close> show ?thesis by (auto simp: Inr r 2 p p')
        next
          case (Some x)
          with m fa i i' n \<open>re = None\<close> show ?thesis by (cases y) (auto simp: Inr r 2 p p')
        qed
      next
        case (Some x)
        obtain y z where i: "produceInvalidQueueFile V ?fr f x w = (y, z)" by fastforce
        obtain y' z' where i': "produceInvalidQueueFile V (on_spanner t ?fr) f x w' = (y', z')" by fastforce
        from m inv[OF assms(1) i i'] i i' Some show ?thesis by (cases y) (auto simp: Inr r 2)
      qed
    next
      case (3 t' x)
      obtain ce c v where c: "cancelACHFile ?fr (Some x) (ch, w) = (ce, c, v)" by (metis prod.exhaust)
      obtain ce' c' v' where c': "cancelACHFile (on_spanner t ?fr) (Some x) (ch, w') = (ce', c', v')" by (metis prod.exhaust)
      have key: "mapped (cancel_ShardKey x) w" "db_files (w_db w) (cancel_FileID x) \<noteq> None"
        using assms(3) reads[OF 3] by (simp_all add: message_ok_def)
      from m cancellation_agrees[OF assms(1) key c c'] show ?thesis by (cases ce) (auto simp: Inr r 3 c c')
    qed
  qed
qed


definition mapped_world :: world where
  "mapped_world = sample_world\<lparr>w_db := \<lparr>files_tbl = [], mappings_tbl = [\<lparr>ShardKey = ''prod'', ShardName = ''prod''\<rparr>], db_err = None\<rparr>\<rparr>"

lemma agree_refl: "agree w w"
  by (simp add: agree_def same_rows_def)

lemma mapped_day_ok: "messages_ok gw_sample_events gw_sample [(1, sample_message ''Qa''), (2, sample_message ''Ca'')] (no_channels, mapped_world)"
proof -
  let ?R = "models_Read (json (rl_events gw_sample_events)) (event_ach (rl_events gw_sample_events))"
  have Q: "?R ''Qa'' = (Some (''QueueACHFile'', Some (QueueACHFile (sample_queue_file ''a''))), None)"
    "?R ''Ca'' = (Some (''CancelACHFile'', Some (CancelACHFile (sample_cancel ''a''))), None)"
    by ((rule prod_eqI; code_simp))+
  define st where "st = snd (processMessage gw_sample_events (gw_receiver gw_sample) 1 (sample_message ''Qa'') (no_channels, mapped_world))"
  have "mapped ''prod'' (snd st) \<and> db_files (w_db (snd st)) ''a'' \<noteq> None" unfolding st_def by code_simp
  moreover have "mapped ''prod'' mapped_world" by code_simp
  ultimately show ?thesis
    by (auto simp: message_ok_def sample_queue_file_def sample_cancel_def st_def[symmetric] dest!: gw_reads[OF _ Q(1)] gw_reads[OF _ Q(2)])
       (simp_all add: sample_message_def)
qed


section \<open>Keys that are not mapped\<close>

text \<open>
  C33. On Spanner a file whose shard key is not mapped is refused, although on MySQL the key is then
  taken for the name of a shard: a missing row is a status of Spanner, not the error that the receiver
  tests for.
\<close>

theorem spanner_needs_mappings:
  assumes "db_err (w_db w) = None" and "\<not> mapped (FileShardKey f) w" and "ACHFile_Validate f = None"
  shows "processACHFile V (on_spanner t (gw_receiver G)) now f (ch, w) =
      (Some (errors_New (''no aggregator for shard key '' @ FileShardKey f @ '' found'')), ch, w) \<and>
    (\<forall>sh\<in>set (gw_shards G). sh_Name sh = FileShardKey f \<longrightarrow> getAggregator (gw_receiver G) (FileShardKey f) w \<noteq> None)"
proof -
  have none: "find (\<lambda>m. ShardKey m = FileShardKey f) (mappings_tbl (w_db w)) = None"
    using assms(2) by (auto simp: mapped_def find_None_iff image_iff)
  have ids: "FileID f \<noteq> []" "FileShardKey f \<noteq> []" using assms(3) by (auto simp: ACHFile_Validate_def split: if_splits)
  have "getAggregator (on_spanner t (gw_receiver G)) (FileShardKey f) w = None"
    using assms(1) none unfolding getAggregator_def on_spanner_parts
    by (simp add: world_shards_def spanner_shards_def spanner_Lookup_def SpannerNotFound_def errors_Is_def)
  moreover have "getAggregator (gw_receiver G) (FileShardKey f) w \<noteq> None"
    if "sh \<in> set (gw_shards G)" "sh_Name sh = FileShardKey f" for sh
  proof -
    have "FileShardKey f \<in> fst ` set (shardAggregators (gw_receiver G))"
      unfolding that(2)[symmetric] using that(1) by (auto simp: gw_receiver_def image_image)
    then have "map_of (shardAggregators (gw_receiver G)) (FileShardKey f) \<noteq> None"
      using map_of_eq_None_iff[of "shardAggregators (gw_receiver G)" "FileShardKey f"] by blast
    then obtain x where x: "map_of (shardAggregators (gw_receiver G)) (FileShardKey f) = Some x" by blast
    then obtain g where "x = Some g" using map_of_SomeD[OF x] by (auto simp: gw_receiver_def)
    moreover have "Lookup (fr_shardRepository (gw_receiver G)) (FileShardKey f) w = ([], None)"
      using assms(1) none by (simp add: gw_receiver_def world_shards_def sql_shards_def sql_Lookup_def)
    ultimately show ?thesis using x unfolding getAggregator_def by simp
  qed
  ultimately show ?thesis using assms(3) ids by (simp add: processACHFile_def)
qed

lemma spanner_needs_mappings_witness:
  "processACHFile gw_sample_events (on_spanner 9 (gw_receiver gw_sample)) 1 (sample_queue_file ''a'') (no_channels, sample_world) =
     (Some (errors_New ''no aggregator for shard key prod found''), no_channels, sample_world) \<and>
   getAggregator (gw_receiver gw_sample) ''prod'' sample_world \<noteq> None"
proof -
  have "db_err (w_db sample_world) = None" "\<not> mapped (FileShardKey (sample_queue_file ''a'')) sample_world"
    "ACHFile_Validate (sample_queue_file ''a'') = None" by code_simp+
  from spanner_needs_mappings[OF this, of gw_sample_events 9 gw_sample 1 no_channels] show ?thesis
    by (simp add: gw_sample_shards sample_queue_file_def) (simp add: sample_shard_def)
qed

end
