(* ===== verification/Cancellations.thy ===== *)
theory Cancellations
  imports Concurrent_Cutoffs
begin

text \<open>
  What the answer to a cancellation promises (\<open>HandleCancel\<close> of \<open>pipeline/merging.go\<close>), over the runs
  of a shard: one that is answered as successful keeps the file out of the next cutoff; one that
  came before the file lasts until the next cutoff only.
\<close>

section \<open>A successful answer\<close>

text \<open>What runs keep: what was taken stays, and what is cancelled is left out of the next cutoff.\<close>

lemma next_cutoff_leaves_out:
  assumes "shard_reach L m fresh r r'" and "i \<in> sr_cancelled r"
  shows "sr_taken r' = sr_taken r \<and> i \<in> sr_cancelled r' \<or>
    (\<exists>dir T later. sr_taken r' = sr_taken r @ (dir, T) # later \<and> i \<notin> T)"
  using assms
proof (induction rule: shard_reach.induct)
  case (more r r1 r2)
  from more.IH[OF more.prems] more.hyps(2) show ?case
    by (elim disjE exE conjE) (erule shard_step.cases; force)+
qed simp

lemma cancel_answer:
  assumes "chest_tree c ok node" and "ok s" and "shard_ok m" and "fm_storage m = c" and "slash \<notin> set (cancel_FileID cx)"
    and "pending (node s) (pend_dir m) I A C" and "HandleCancel m cx s = ((resp, e), s')" and "Successful resp"
  shows "kept_id (cancel_FileID cx) \<in> A \<union> C \<and> e = None"
proof -
  let ?i = "kept_id (cancel_FileID cx)"
  have ns: "slash \<notin> set ?i" by (rule kept_noslash[OF assms(5)])
  note names = plain_file_names[OF ns]
  have there: "present (node s) (pend_dir m) n" if "Open c (rel_path (pend_dir m @ [n])) s = Inr f" "plain_name n" for n f
    using chest_tree.open_node[OF assms(1,2) plain_pend[OF assms(3) that(2)] that(1)] by (simp add: present_def)
  have "\<not> isl (Open c (rel_path (pend_dir m @ [ach_name ?i])) s) \<or> \<not> isl (Open c (rel_path (pend_dir m @ [canceled_name ?i])) s)"
    "e = None"
    using assms(7,8) unfolding HandleCancel_def Let_def kept_id_def[symmetric] assms(4) mergable_path_rel[OF assms(3) names(1)]
      rel_path_suffix[OF assms(3)] by (auto split: prod.splits)
  moreover have "\<exists>f. Open c p s = Inr f" if "\<not> isl (Open c p s)" for p using that by (cases "Open c p s") auto
  ultimately have "present (node s) (pend_dir m) (ach_name ?i) \<or> present (node s) (pend_dir m) (canceled_name ?i)"
    using there names by blast
  with assms(6) \<open>e = None\<close> show ?thesis unfolding pending_def by auto
qed

text \<open>
  C7. A cancellation that is answered as successful was about a file that was pending, or already
  cancelled, and the directory that the next cutoff isolates holds no contents of it to merge,
  whatever is submitted and cancelled until then, also the same file again.
\<close>

theorem successful_cancellation_holds:
  assumes "disk_chest root (fm_storage m)" and "fs_inv root s" and "shard_ok m" and "fs_node root s (pend_dir m) = None"
    and "shard_reach L m (\<lambda>s n. fs_node root s [n] = None) (shard_start s) r"
    and "good_id (cancel_FileID cx)" and "HandleCancel m cx (sr_store r) = ((resp, e), s')" and "Successful resp"
    and "shard_reach L m (\<lambda>s n. fs_node root s [n] = None)
           (r\<lparr>sr_store := s', sr_cancelled := insert (kept_id (cancel_FileID cx)) (sr_cancelled r)\<rparr>) r'"
    and "sr_taken r' = sr_taken r @ (dir, T) # later"
  shows "kept_id (cancel_FileID cx) \<in> sr_accepted r \<union> sr_cancelled r \<and>
    kept_id (cancel_FileID cx) \<notin> dir_files (fs_node root (sr_store r')) [dir]"
proof -
  let ?i = "kept_id (cancel_FileID cx)"
  note t = disk_chest_tree[OF assms(1)]
  note ok = reach_ok[OF assms(1-5)]
  have ns: "slash \<notin> set (cancel_FileID cx)" using assms(6) by (simp add: good_id_def)
  have a: "?i \<in> sr_accepted r \<union> sr_cancelled r \<and> e = None"
    using cancel_answer[OF t _ assms(3) refl ns _ assms(7,8)] ok unfolding sr_ok_def by blast
  then have "shard_step L m (\<lambda>s n. fs_node root s [n] = None) r (r\<lparr>sr_store := s', sr_cancelled := insert ?i (sr_cancelled r)\<rparr>)"
    using shard_step.cancelled[OF assms(6), of m r resp s' L] assms(7) by simp
  with assms(5,9) have "shard_reach L m (\<lambda>s n. fs_node root s [n] = None) (shard_start s) r'"
    by (blast intro: reach_trans shard_reach.more)
  from reach_ok[OF assms(1-4) this] assms(10) have "dir_files (fs_node root (sr_store r')) [dir] = T" by (auto simp: sr_ok_def)
  moreover have "?i \<notin> T" using next_cutoff_leaves_out[OF assms(9), of ?i] assms(10) by auto
  ultimately show ?thesis using a by blast
qed

lemma sample_cancelled:
  "let s1 = snd (write_contents sample_lib sample_merging (sample_opts_file ''a'') sample_disk);
       s2 = snd (HandleCancel sample_merging (sample_cancel ''a'') s1)
   in fst (write_contents sample_lib sample_merging (sample_opts_file ''a'') sample_disk) = None \<and>
      fst (HandleCancel sample_merging (sample_cancel ''a'') s1) = (\<lparr>resp_FileID = ''a'', resp_ShardKey = ''prod'', Successful = True\<rparr>, None) \<and>
      fs_node ''/data'' s2 [''prod-1''] = None \<and> fst (isolateMergableDir sample_merging ''1'' s2) = (''prod-1'', None)"
  by code_simp

lemma sample_cancel_id: "good_id (cancel_FileID (sample_cancel ''a''))" "kept_id (cancel_FileID (sample_cancel ''a'')) = ''a''"
  by code_simp+

lemma successful_cancellation_holds_witness:
  "\<exists>s1 s2 s3. write_contents sample_lib sample_merging (sample_opts_file ''a'') sample_disk = (None, s1) \<and>
     HandleCancel sample_merging (sample_cancel ''a'') s1 = ((\<lparr>resp_FileID = ''a'', resp_ShardKey = ''prod'', Successful = True\<rparr>, None), s2) \<and>
     isolateMergableDir sample_merging ''1'' s2 = ((''prod-1'', None), s3) \<and> ''a'' \<notin> dir_files (fs_node ''/data'' s3) [''prod-1'']"
proof -
  let ?x = "sample_opts_file ''a''" and ?cx = "sample_cancel ''a''" and ?fresh = "\<lambda>s n. fs_node ''/data'' s [n] = None"
  let ?step = "shard_step sample_lib sample_merging ?fresh"
  define s1 where "s1 = snd (write_contents sample_lib sample_merging ?x sample_disk)"
  define s2 where "s2 = snd (HandleCancel sample_merging ?cx s1)"
  define s3 where "s3 = snd (isolateMergableDir sample_merging ''1'' s2)"
  have w: "write_contents sample_lib sample_merging ?x sample_disk = (None, s1)"
    and c: "HandleCancel sample_merging ?cx s1 = ((\<lparr>resp_FileID = ''a'', resp_ShardKey = ''prod'', Successful = True\<rparr>, None), s2)"
    and fr: "fs_node ''/data'' s2 [''prod-1''] = None" and i: "isolateMergableDir sample_merging ''1'' s2 = ((''prod-1'', None), s3)"
    using sample_cancelled by (simp_all add: s1_def s2_def s3_def Let_def prod_eq_iff)
  have kept: "kept_id (FileID ?x) = ''a''" by code_simp
  define a1 where "a1 = (shard_start sample_disk)\<lparr>sr_store := s1, sr_writing := [?x], sr_accepted := {''a''}\<rparr>"
  define a2 where "a2 = a1\<lparr>sr_store := s2, sr_cancelled := insert (kept_id (cancel_FileID ?cx)) (sr_cancelled a1)\<rparr>"
  define a3 where "a3 = a2\<lparr>sr_store := s3, sr_accepted := {}, sr_cancelled := {}, sr_taken := [(''prod-1'', {})]\<rparr>"
  have "?step (shard_start sample_disk) a1"
    using contents_written[OF sample_shard_facts(3), of sample_lib sample_merging "shard_start sample_disk" s1 ?fresh] w
    by (simp add: a1_def kept shard_start_def)
  then have r: "shard_reach sample_lib sample_merging ?fresh (shard_start sample_disk) a1" by (meson here more)
  have "?step a2 a3"
    using isolated[of "''1''" ?fresh a2 sample_merging "''prod-1''" s3 sample_lib] sample_shard_facts(5,6) fr i
    by (simp add: a1_def a2_def a3_def shard_start_def sample_cancel_id)
  then have r': "shard_reach sample_lib sample_merging ?fresh a2 a3" by (meson here more)
  have c1: "HandleCancel sample_merging ?cx (sr_store a1) = ((\<lparr>resp_FileID = ''a'', resp_ShardKey = ''prod'', Successful = True\<rparr>, None), s2)"
    using c by (simp add: a1_def)
  have t: "sr_taken a3 = sr_taken a1 @ (''prod-1'', {}) # []" by (simp add: a1_def a3_def shard_start_def)
  from successful_cancellation_holds[OF sample_shard_facts(1) sample_disk_inv sample_shard_facts(2,4) r sample_cancel_id(1) c1 _
      r'[unfolded a2_def] t]
  have "''a'' \<notin> dir_files (fs_node ''/data'' s3) [''prod-1'']" by (simp add: sample_cancel_id a3_def)
  with w c i show ?thesis by blast
qed

section \<open>A cancellation before its file\<close>

text \<open>
  C8. A cancellation that comes before its file is forgotten at the next cutoff: when the file comes
  after that, the cutoff after it takes the file.
\<close>

theorem early_cancellation_forgotten:
  assumes "disk_chest root (fm_storage m)" and "fs_inv root s" and "shard_ok m" and "fs_node root s (pend_dir m) = None"
    and "shard_reach L m (\<lambda>s n. fs_node root s [n] = None) (shard_start s) r"
    and "HandleCancel m cx (sr_store r) = ((resp, None), s1)" and "good_id (cancel_FileID cx)"
    and "isolateMergableDir m stamp s1 = ((dir, None), s2)" and "slash \<notin> set stamp"
    and "fs_node root s1 [sh_Name (fm_shard m) @ ''-'' @ stamp] = None"
    and "HandleXfer L m x s2 = (None, s3)" and "good_id (FileID x)" and "kept_id (FileID x) = kept_id (cancel_FileID cx)"
    and "isolateMergableDir m stamp' s3 = ((dir', None), s4)" and "slash \<notin> set stamp'"
    and "fs_node root s3 [sh_Name (fm_shard m) @ ''-'' @ stamp'] = None"
  shows "kept_id (cancel_FileID cx) \<in> dir_files (fs_node root s4) [dir']"
proof -
  let ?F = "\<lambda>s n. fs_node root s [n] = None" and ?i = "kept_id (FileID x)"
  have c: "shard_reach L m ?F (shard_start s) (r\<lparr>sr_store := s1, sr_cancelled := insert ?i (sr_cancelled r)\<rparr>)" (is "shard_reach L m ?F _ ?r1")
    using shard_reach.more[OF assms(5) shard_step.cancelled[OF assms(7,6)]] assms(13) by simp
  have i: "shard_reach L m ?F (shard_start s) (?r1\<lparr>sr_store := s2, sr_accepted := {}, sr_cancelled := {},
      sr_taken := sr_taken r @ [(dir, sr_accepted r - insert ?i (sr_cancelled r))]\<rparr>)" (is "shard_reach L m ?F _ ?r2")
    using shard_reach.more[OF c shard_step.isolated[where r = ?r1 and m = m and stamp = stamp and s' = s2 and dir = dir]]
      assms(8-10) by simp
  obtain s2' where w: "write_contents L m x s2 = (None, s2')" "s3 = write_opts L m x s2'"
    using assms(11) by (auto simp: HandleXfer_def writeACHFile_steps split: prod.splits option.splits)
  have x: "shard_reach L m ?F (shard_start s) (?r2\<lparr>sr_store := s2', sr_writing := x # sr_writing r, sr_accepted := {?i}\<rparr>)"
    (is "shard_reach L m ?F _ ?r3")
    using shard_reach.more[OF i shard_step.contents_written[OF assms(12), where r = ?r2 and s' = s2']] w(1) by simp
  have o: "shard_reach L m ?F (shard_start s) (?r3\<lparr>sr_store := s3, sr_writing := sr_writing r\<rparr>)" (is "shard_reach L m ?F _ ?r4")
    using shard_reach.more[OF x shard_step.opts_written[where r = ?r3 and x = x]] w(2) by simp
  have "shard_reach L m ?F (shard_start s) (?r4\<lparr>sr_store := s4, sr_accepted := {}, sr_cancelled := {},
      sr_taken := sr_taken ?r4 @ [(dir', {?i})]\<rparr>)"
    using shard_reach.more[OF o shard_step.isolated[where r = ?r4 and m = m and stamp = stamp' and s' = s4 and dir = dir']]
      assms(14-16) by simp
  from reach_ok[OF assms(1-4) this] have "dir_files (fs_node root s4) [dir'] = {?i}" by (simp add: sr_ok_def)
  with assms(13) show ?thesis by simp
qed

lemma sample_early:
  "let s1 = snd (HandleCancel sample_merging (sample_cancel ''a'') sample_disk);
       s2 = snd (isolateMergableDir sample_merging ''1'' s1);
       s3 = snd (HandleXfer sample_lib sample_merging (sample_opts_file ''a'') s2)
   in fst (HandleCancel sample_merging (sample_cancel ''a'') sample_disk) = (\<lparr>resp_FileID = ''a'', resp_ShardKey = ''prod'', Successful = False\<rparr>, None) \<and>
      fs_node ''/data'' s1 [''prod-1''] = None \<and> fst (isolateMergableDir sample_merging ''1'' s1) = (''prod-1'', None) \<and>
      fst (HandleXfer sample_lib sample_merging (sample_opts_file ''a'') s2) = None \<and>
      fs_node ''/data'' s3 [''prod-2''] = None \<and> fst (isolateMergableDir sample_merging ''2'' s3) = (''prod-2'', None)"
  by code_simp

lemma early_cancellation_forgotten_witness:
  "\<exists>s1 s2 s3 s4. HandleCancel sample_merging (sample_cancel ''a'') sample_disk =
       ((\<lparr>resp_FileID = ''a'', resp_ShardKey = ''prod'', Successful = False\<rparr>, None), s1) \<and>
     isolateMergableDir sample_merging ''1'' s1 = ((''prod-1'', None), s2) \<and>
     HandleXfer sample_lib sample_merging (sample_opts_file ''a'') s2 = (None, s3) \<and>
     isolateMergableDir sample_merging ''2'' s3 = ((''prod-2'', None), s4) \<and> ''a'' \<in> dir_files (fs_node ''/data'' s4) [''prod-2'']"
proof -
  define s1 where "s1 = snd (HandleCancel sample_merging (sample_cancel ''a'') sample_disk)"
  define s2 where "s2 = snd (isolateMergableDir sample_merging ''1'' s1)"
  define s3 where "s3 = snd (HandleXfer sample_lib sample_merging (sample_opts_file ''a'') s2)"
  define s4 where "s4 = snd (isolateMergableDir sample_merging ''2'' s3)"
  have c: "HandleCancel sample_merging (sample_cancel ''a'') sample_disk =
       ((\<lparr>resp_FileID = ''a'', resp_ShardKey = ''prod'', Successful = False\<rparr>, None), s1)"
    and f1: "fs_node ''/data'' s1 [''prod-1''] = None" and i1: "isolateMergableDir sample_merging ''1'' s1 = ((''prod-1'', None), s2)"
    and x: "HandleXfer sample_lib sample_merging (sample_opts_file ''a'') s2 = (None, s3)"
    and f2: "fs_node ''/data'' s3 [''prod-2''] = None" and i2: "isolateMergableDir sample_merging ''2'' s3 = ((''prod-2'', None), s4)"
    using sample_early by (simp_all add: s1_def s2_def s3_def s4_def Let_def prod_eq_iff)
  have st: "sr_store (shard_start sample_disk) = sample_disk" by (simp add: shard_start_def)
  have k: "kept_id (FileID (sample_opts_file ''a'')) = kept_id (cancel_FileID (sample_cancel ''a''))" by code_simp
  have n: "slash \<notin> set ''2''" "sh_Name (fm_shard sample_merging) @ ''-'' @ ''2'' = ''prod-2''" by code_simp+
  from early_cancellation_forgotten[OF sample_shard_facts(1) sample_disk_inv sample_shard_facts(2,4) here, unfolded st,
      OF c sample_cancel_id(1) i1 sample_shard_facts(5) f1[folded sample_shard_facts(6)] x sample_shard_facts(3) k i2 n(1) f2[folded n(2)]]
  have "''a'' \<in> dir_files (fs_node ''/data'' s4) [''prod-2'']" by (simp add: sample_cancel_id)
  with c i1 x i2 show ?thesis by blast
qed

end
