(* ===== verification/Storage_History.thy ===== *)
theory Storage_History
  imports Sample_World
begin

text \<open>
  What is kept in a chest over a history of operations: the bytes of a file stay until an
  operation on the file itself, on a directory above it or with one as its target. Proved of every
  chest with the laws of \<open>chest_content\<close>, then for the file system chest and the encrypted one.
\<close>

section \<open>Histories\<close>

datatype chest_op =
    Op_write path bytes
  | Op_mkdir path
  | Op_rmdir path
  | Op_replace_file path path
  | Op_replace_dir path path

fun chest_step :: "'s chest \<Rightarrow> chest_op \<Rightarrow> 's \<Rightarrow> err option \<times> 's" where
  "chest_step c (Op_write q d) s = WriteFile c (rel_path q) d s"
| "chest_step c (Op_mkdir q) s = MkdirAll c (rel_path q) s"
| "chest_step c (Op_rmdir q) s = RmdirAll c (rel_path q) s"
| "chest_step c (Op_replace_file old new) s = ReplaceFile c (rel_path old) (rel_path new) s"
| "chest_step c (Op_replace_dir old new) s = ReplaceDir c (rel_path old) (rel_path new) s"

text \<open>The operations may fail: their errors are dropped, as a caller may do.\<close>

fun chest_history :: "'s chest \<Rightarrow> chest_op list \<Rightarrow> 's \<Rightarrow> 's" where
  "chest_history c [] s = s"
| "chest_history c (x # xs) s = chest_history c xs (snd (chest_step c x s))"

definition apart :: "path \<Rightarrow> path \<Rightarrow> bool" where
  "apart p q \<longleftrightarrow> plain_path q \<and> \<not> prefix p q \<and> \<not> prefix q p"

text \<open>An operation that leaves the file at a path alone; \<open>ReplaceFile\<close> is for files only.\<close>

fun leaves_alone :: "path \<Rightarrow> tree \<Rightarrow> chest_op \<Rightarrow> bool" where
  "leaves_alone p t (Op_write q d) \<longleftrightarrow> apart p q"
| "leaves_alone p t (Op_mkdir q) \<longleftrightarrow> plain_path q \<and> \<not> prefix p q"
| "leaves_alone p t (Op_rmdir q) \<longleftrightarrow> apart p q"
| "leaves_alone p t (Op_replace_file old new) \<longleftrightarrow> apart p old \<and> apart p new \<and> old \<noteq> new \<and> t old \<noteq> Some Dir"
| "leaves_alone p t (Op_replace_dir old new) \<longleftrightarrow> apart p old \<and> apart p new \<and> old \<noteq> new"

fun history_leaves_alone :: "'s chest \<Rightarrow> ('s \<Rightarrow> tree) \<Rightarrow> path \<Rightarrow> chest_op list \<Rightarrow> 's \<Rightarrow> bool" where
  "history_leaves_alone c node p [] s \<longleftrightarrow> True"
| "history_leaves_alone c node p (x # xs) s \<longleftrightarrow>
     leaves_alone p (node s) x \<and> history_leaves_alone c node p xs (snd (chest_step c x s))"

section \<open>A file stays\<close>

lemma butlast_apart: "\<not> prefix p q \<Longrightarrow> \<not> prefix p (butlast q)"
  by (metis append_butlast_last_id butlast.simps(1) prefix_append)

lemma t_write_apart: "apart p q \<Longrightarrow> t_write q b t p = t p"
  by (auto simp: t_write_def t_mkdir_def apart_def butlast_apart)

lemma t_move_apart: "apart p old \<Longrightarrow> apart p new \<Longrightarrow> t_move old new t p = t p"
  by (auto simp: t_move_def apart_def)

lemma t_replace_file_apart: "apart p old \<Longrightarrow> apart p new \<Longrightarrow> t_replace_file old new b t p = t p"
  by (simp add: t_replace_file_def t_write_apart t_move_apart) (simp add: t_mkdir_def apart_def butlast_apart)

lemma t_replace_dir_apart: "apart p old \<Longrightarrow> apart p new \<Longrightarrow> t_replace_dir old new t p = t p"
  by (simp add: t_replace_dir_def t_move_apart) (simp add: t_mkdir_def apart_def)

context chest_content
begin

lemma step_keeps:
  assumes i: "inv s" and alone: "leaves_alone p (node s) x"
  shows "inv (snd (chest_step c x s)) \<and> (node s p = Some (Reg b) \<longrightarrow> node (snd (chest_step c x s)) p = Some (Reg b))"
proof -
  have tr: "apart p q \<Longrightarrow> plain_path q" "apart p q \<Longrightarrow> \<not> prefix q p" for q by (simp_all add: apart_def)
  show ?thesis
  proof (cases x)
    case (Op_write q d)
    obtain r s' where r: "WriteFile c (rel_path q) d s = (r, s')" by (metis surj_pair)
    have "inv s' \<and> (node s p = Some (Reg b) \<longrightarrow> node s' p = Some (Reg b))"
      using i alone tr r Op_write write_done[of s q d s'] write_failed[of s q d _ s']
      by (cases r) (auto simp: t_write_apart)
    with r Op_write show ?thesis by simp
  next
    case (Op_mkdir q)
    obtain r s' where r: "MkdirAll c (rel_path q) s = (r, s')" by (metis surj_pair)
    have "inv s' \<and> (node s p = Some (Reg b) \<longrightarrow> node s' p = Some (Reg b))"
      using i alone r Op_mkdir mkdir_done[of s q s'] mkdir_failed[of s q _ s']
      by (cases r) (auto simp: t_mkdir_def)
    with r Op_mkdir show ?thesis by simp
  next
    case (Op_rmdir q)
    obtain r s' where r: "RmdirAll c (rel_path q) s = (r, s')" by (metis surj_pair)
    have "inv s' \<and> (node s p = Some (Reg b) \<longrightarrow> node s' p = Some (Reg b))"
      using i alone tr r Op_rmdir rmdir_done[of s q s'] rmdir_failed[of s q _ s']
      by (cases r) (auto simp: t_remove_def)
    with r Op_rmdir show ?thesis by simp
  next
    case (Op_replace_file old new)
    obtain r s' where r: "ReplaceFile c (rel_path old) (rel_path new) s = (r, s')" by (metis surj_pair)
    have "\<not> prefix p (butlast new)" using Op_replace_file alone by (simp add: apart_def butlast_apart)
    then have "inv s' \<and> (node s p = Some (Reg b) \<longrightarrow> node s' p = Some (Reg b))"
      using i alone tr r Op_replace_file replace_file_done[of s old new s'] replace_file_failed[of s old new _ s']
      by (cases r) (auto simp: t_replace_file_apart t_mkdir_def)
    with r Op_replace_file show ?thesis by simp
  next
    case (Op_replace_dir old new)
    obtain r s' where r: "ReplaceDir c (rel_path old) (rel_path new) s = (r, s')" by (metis surj_pair)
    have "inv s' \<and> (node s p = Some (Reg b) \<longrightarrow> node s' p = Some (Reg b))"
      using i alone tr r Op_replace_dir replace_dir_done[of s old new s'] replace_dir_failed[of s old new _ s']
      by (cases r) (auto simp: t_replace_dir_apart)
    with r Op_replace_dir show ?thesis by simp
  qed
qed

lemma history_keeps:
  "inv s \<Longrightarrow> history_leaves_alone c node p xs s \<Longrightarrow>
     inv (chest_history c xs s) \<and> (node s p = Some (Reg b) \<longrightarrow> node (chest_history c xs s) p = Some (Reg b))"
proof (induction xs arbitrary: s)
  case (Cons x xs)
  with step_keeps[of s p x b] show ?case by auto
qed simp

lemma written_survives:
  assumes "inv s" and "plain_path p" and "\<not> Contains (rel_path p) ''..''"
    and "WriteFile c (rel_path p) d s = (None, s')" and "history_leaves_alone c node p xs s'"
  shows "\<exists>f. Open c (rel_path p) (chest_history c xs s') = Inr f \<and> file_name f = last p \<and> file_read f = Inr d"
proof -
  obtain b where b: "stored d b" "node s' = t_write p b (node s)" using write_stored assms by blast
  then have "node s' p = Some (Reg b)" by (simp add: t_write_def)
  with history_keeps[of s' p xs b] write_inv[OF assms(1,2,4)] assms(5)
  have "inv (chest_history c xs s')" "node (chest_history c xs s') p = Some (Reg b)" by blast+
  with b assms show ?thesis using open_stored by blast
qed

end

text \<open>
  C28. A file that was written to a chest without an error is read back with the same bytes,
  encrypted or not, whatever is written, made, removed or moved apart from it in the meantime and
  whether that fails or not.
\<close>

theorem written_file_survives:
  assumes "c = filesystem_chest root \<or> c = NewEncrypted (filesystem_chest root) cr" and "crypt_ok cr"
    and "fs_inv root s" and "plain_path p" and "\<not> Contains (rel_path p) ''..''"
    and "WriteFile c (rel_path p) d s = (None, s')" and "history_leaves_alone c (fs_node root) p xs s'"
  shows "\<exists>f. Open c (rel_path p) (chest_history c xs s') = Inr f \<and> file_name f = last p \<and> file_read f = Inr d"
  using assms fs.written_survives[of root s p d s' xs]
    chest_content.written_survives[OF encrypted_content[OF assms(2), of root], of s p d s' xs] by blast

text \<open>A cryptor that marks what it encrypted, and a directory isolated beside the file.\<close>

definition marking_cryptor :: cryptfs where
  "marking_cryptor = \<lparr>Disfigure = (\<lambda>b. Inr (CHR ''!'' # b)),
     Reveal = (\<lambda>b. case b of [] \<Rightarrow> Inl (errors_New ''not encrypted'') | _ # b' \<Rightarrow> Inr b')\<rparr>"

lemma marking_cryptor_ok: "crypt_ok (Some marking_cryptor)"
  by (simp add: crypt_ok_def marking_cryptor_def)

definition sample_history :: "chest_op list" where
  "sample_history = [Op_write [''mergable'', ''prod'', ''b.ach''] ''two'',
     Op_replace_file [''mergable'', ''prod'', ''b.ach''] [''mergable'', ''prod'', ''b.ach.canceled''],
     Op_replace_dir [''mergable'', ''beta''] [''beta-2024''], Op_rmdir [''beta-2024'']]"

lemma written_file_survives_witness:
  "\<exists>f. Open (NewEncrypted (filesystem_chest ''/data'') (Some marking_cryptor)) ''mergable/prod/a.ach''
      (chest_history (NewEncrypted (filesystem_chest ''/data'') (Some marking_cryptor)) sample_history
         (snd (WriteFile (NewEncrypted (filesystem_chest ''/data'') (Some marking_cryptor)) ''mergable/prod/a.ach'' ''one'' sample_disk))) = Inr f \<and>
     file_name f = ''a.ach'' \<and> file_read f = Inr ''one''"
proof -
  let ?c = "NewEncrypted (filesystem_chest ''/data'') (Some marking_cryptor)"
  let ?p = "[''mergable'', ''prod'', ''a.ach'']"
  obtain s' where s': "WriteFile ?c ''mergable/prod/a.ach'' ''one'' sample_disk = (None, s')"
    "s' = snd (WriteFile ?c ''mergable/prod/a.ach'' ''one'' sample_disk)"
  proof -
    have "fst (WriteFile ?c ''mergable/prod/a.ach'' ''one'' sample_disk) = None" by code_simp
    then show thesis using that by (metis prod.collapse)
  qed
  have p: "rel_path ?p = ''mergable/prod/a.ach''" by code_simp
  have "history_leaves_alone ?c (fs_node ''/data'') ?p sample_history s'" unfolding s'(2) by code_simp
  moreover have "plain_path ?p" "\<not> Contains ''mergable/prod/a.ach'' ''..''" by code_simp+
  ultimately have "\<exists>f. Open ?c (rel_path ?p) (chest_history ?c sample_history s') = Inr f \<and> file_name f = last ?p \<and> file_read f = Inr ''one''"
    using s'(1) p by (intro written_file_survives[OF disjI2[OF refl] marking_cryptor_ok sample_disk_inv]) simp_all
  then show ?thesis unfolding p s'(2) by simp
qed

end
