(* ===== verification/Odfi.thy ===== *)
theory Odfi
  imports Aggregator
begin

text \<open>
  Files from the ODFI (\<open>internal/incoming/odfi\<close>): downloading them from the upload agent into a
  fresh local directory, parsing each, keeping it in the audit trail, handing it to the
  processors that turn it into events, and deleting files afterwards.

  The local disk is a part of the state \<open>'s\<close>, reached through \<open>local_disk\<close>; paths are taken
  from the working directory. ACH parsing, SHA-1, and the random part of a temporary name
  are parameters. \<open>Sync\<close> and \<open>Close\<close> of a local file do not fail here. Counters and logs are
  left out. A panic is the error \<open>nil_dereference\<close>.
\<close>

record 's local_disk =
  disk_of :: "'s \<Rightarrow> os"
  put_disk :: "os \<Rightarrow> 's \<Rightarrow> 's"
  Getwd :: string

definition on_local :: "'s local_disk \<Rightarrow> (os \<Rightarrow> err + os) \<Rightarrow> (err \<Rightarrow> err) \<Rightarrow> 's \<Rightarrow> err option \<times> 's" where
  "on_local D f wrap s = (case f (disk_of D s) of Inl e \<Rightarrow> (Some (wrap e), s) | Inr d \<Rightarrow> (None, put_disk D d s))"

definition local_path :: "'s local_disk \<Rightarrow> string \<Rightarrow> path" where
  "local_path D p = clean_comps (filepath_Abs (Getwd D) p)"

definition local_MkdirAll :: "'s local_disk \<Rightarrow> string \<Rightarrow> 's \<Rightarrow> err option \<times> 's" where
  "local_MkdirAll D p = on_local D (\<lambda>d. os_MkdirAll d (local_path D p)) (PathError ''mkdir'' p)"

definition local_RemoveAll :: "'s local_disk \<Rightarrow> string \<Rightarrow> 's \<Rightarrow> err option \<times> 's" where
  "local_RemoveAll D p = on_local D (\<lambda>d. os_RemoveAll d (local_path D p)) (PathError ''unlinkat'' p)"

definition local_Write :: "'s local_disk \<Rightarrow> string \<Rightarrow> bytes \<Rightarrow> 's \<Rightarrow> err option \<times> 's" where
  "local_Write D p b = on_local D (\<lambda>d. os_Write d (local_path D p) b) (PathError ''open'' p)"

definition local_ReadDir :: "'s local_disk \<Rightarrow> string \<Rightarrow> 's \<Rightarrow> err + (string \<times> bool) list" where
  "local_ReadDir D p s =
     (case os_ReadDir (disk_of D s) (local_path D p) of Inl e \<Rightarrow> Inl (PathError ''open'' p e) | Inr es \<Rightarrow> Inr es)"

definition local_ReadFile :: "'s local_disk \<Rightarrow> string \<Rightarrow> 's \<Rightarrow> err + bytes" where
  "local_ReadFile D p s =
     (case os_stat (disk_of D s) (local_path D p) of
        Inl e \<Rightarrow> Inl (PathError ''open'' p e)
      | Inr Dir \<Rightarrow> Inl (PathError ''read'' p EISDIR)
      | Inr (Reg b) \<Rightarrow> Inr b)"

section \<open>Downloading\<close>

text \<open>A downloaded file set is its directory. \<open>random\<close> is the name \<open>MkdirTemp\<close> picks.\<close>

definition NewDownloader :: "'s local_disk \<Rightarrow> ODFIStorage \<Rightarrow> 's \<Rightarrow> (err + string) \<times> 's" where
  "NewDownloader D cfg s =
     (let baseDir = strx_Or [st_Directory cfg, ''storage''] in
      case local_MkdirAll D baseDir s of
        (Some e, s1) \<Rightarrow> (Inl (errorf_v (''problem creating '' @ baseDir @ '': '') e), s1)
      | (None, s1) \<Rightarrow> (Inr baseDir, s1))"

definition MkdirTemp :: "'s local_disk \<Rightarrow> string \<Rightarrow> string \<Rightarrow> 's \<Rightarrow> (err + string) \<times> 's" where
  "MkdirTemp D base name s =
     (let p = filepath_Join [base, name] in
      case os_stat (disk_of D s) (local_path D base) of
        Inl e \<Rightarrow> (Inl (PathError ''mkdir'' p e), s)
      | Inr (Reg _) \<Rightarrow> (Inl (PathError ''mkdir'' p ENOTDIR), s)
      | Inr Dir \<Rightarrow>
          if os_node (disk_of D s) (local_path D p) \<noteq> None then (Inl (PathError ''mkdir'' p EEXIST), s)
          else (Inr p, put_disk D (disk_of D s @ [(local_path D p, Dir)]) s))"

fun mkdir_each :: "'s local_disk \<Rightarrow> string list \<Rightarrow> 's \<Rightarrow> err option \<times> 's" where
  "mkdir_each D [] s = (None, s)"
| "mkdir_each D (p # ps) s =
     (case local_MkdirAll D p s of
        (Some e, s1) \<Rightarrow> (Some (errorf_v (''problem creating '' @ p @ '': '') e), s1)
      | (None, s1) \<Rightarrow> mkdir_each D ps s1)"

definition dl_setup :: "'s local_disk \<Rightarrow> string \<Rightarrow> string \<Rightarrow> 's agent \<Rightarrow> 's \<Rightarrow> (err + string) \<times> 's" where
  "dl_setup D baseDir random agent s =
     (case MkdirTemp D baseDir (''download'' @ random) s of
        (Inl e, s1) \<Rightarrow> (Inl e, s1)
      | (Inr dir, s1) \<Rightarrow>
          (case mkdir_each D [filepath_Join [dir, InboundPath agent], filepath_Join [dir, ReconciliationPath agent],
                              filepath_Join [dir, ReturnPath agent]] s1 of
             (Some e, s2) \<Rightarrow> (Inl e, s2)
           | (None, s2) \<Rightarrow> (Inr dir, s2)))"

text \<open>
  The loop of \<open>saveFilepaths\<close>: the first error and the names that failed. A file is created
  before its remote original is read, and stays behind empty when that fails.
\<close>

fun save_each ::
  "'s local_disk \<Rightarrow> 's agent \<Rightarrow> string \<Rightarrow> string list \<Rightarrow> err option \<times> string list \<Rightarrow> 's \<Rightarrow> (err option \<times> string list) \<times> 's" where
  "save_each D agent dir [] errs s = (errs, s)"
| "save_each D agent dir (p # ps) (firstErr, failed) s =
     (let outPath = filepath_Join [dir, filepath_Base p];
          fail = (\<lambda>e. ((case firstErr of None \<Rightarrow> e | Some f \<Rightarrow> Some f), failed @ [p])) in
      case local_Write D outPath [] s of
        (Some e, s1) \<Rightarrow> save_each D agent dir ps (fail (Some (errorf_w (''os.create on '' @ outPath @ '' failed: '') e))) s1
      | (None, s1) \<Rightarrow>
          (case ReadFile agent p s1 of
             ((_, Some e), s2) \<Rightarrow> save_each D agent dir ps (fail (Some (errorf_w (''reading '' @ p @ '' failed: '') e))) s2
           | ((None, None), s2) \<Rightarrow> save_each D agent dir ps (fail None) s2
           | ((Some (name, contents), None), s2) \<Rightarrow>
               (case local_Write D outPath contents s2 of
                  (Some e, s3) \<Rightarrow> save_each D agent dir ps (fail (Some (errorf_w (''copying '' @ name @ '' failed: '') e))) s3
                | (None, s3) \<Rightarrow> save_each D agent dir ps (firstErr, failed) s3)))"

definition saveFilepaths :: "'s local_disk \<Rightarrow> 's agent \<Rightarrow> string list \<Rightarrow> string \<Rightarrow> 's \<Rightarrow> err option \<times> 's" where
  "saveFilepaths D agent filepaths dir s =
     (case local_MkdirAll D dir s of
        (Some e, s1) \<Rightarrow> (Some (errorf_w (''mkdir '' @ dir @ '' failed: '') e), s1)
      | (None, s1) \<Rightarrow>
          (case save_each D agent dir filepaths (None, []) s1 of
             ((firstErr, failed), s2) \<Rightarrow>
               (if failed = [] then None
                else Some (errors_New (''saveFilepaths problem on: '' @ JoinSep '', '' failed @ '': '' @
                       (case firstErr of None \<Rightarrow> ''<nil>'' | Some e \<Rightarrow> err_text e))), s2)))"

definition copy_kind ::
  "'s local_disk \<Rightarrow> 's agent \<Rightarrow> string \<Rightarrow> ('s \<Rightarrow> (string list \<times> err option) \<times> 's) \<Rightarrow> string \<Rightarrow> string \<Rightarrow> 's \<Rightarrow> err option \<times> 's" where
  "copy_kind D agent kind get dir sub s =
     (case get s of
        ((_, Some e), s1) \<Rightarrow> (Some (errorf_v (''problem downloading '' @ kind @ '' files: '') e), s1)
      | ((filepaths, None), s1) \<Rightarrow>
          (case saveFilepaths D agent filepaths (filepath_Join [dir, sub]) s1 of
             (Some e, s2) \<Rightarrow> (Some (errorf_v (''problem saving '' @ kind @ '' files: '') e), s2)
           | (None, s2) \<Rightarrow> (None, s2)))"

definition CopyFilesFromRemote ::
  "'s local_disk \<Rightarrow> string \<Rightarrow> string \<Rightarrow> 's agent \<Rightarrow> 's \<Rightarrow> (err + string) \<times> 's" where
  "CopyFilesFromRemote D baseDir random agent s =
     (case dl_setup D baseDir random agent s of
        (Inl e, s1) \<Rightarrow> (Inl e, s1)
      | (Inr dir, s1) \<Rightarrow>
     (case copy_kind D agent ''inbound'' (GetInboundFiles agent) dir (InboundPath agent) s1 of
        (Some e, s2) \<Rightarrow> (Inl e, s2)
      | (None, s2) \<Rightarrow>
     (case copy_kind D agent ''reconciliation'' (GetReconciliationFiles agent) dir (ReconciliationPath agent) s2 of
        (Some e, s3) \<Rightarrow> (Inl e, s3)
      | (None, s3) \<Rightarrow>
     (case copy_kind D agent ''return'' (GetReturnFiles agent) dir (ReturnPath agent) s3 of
        (Some e, s4) \<Rightarrow> (Inl e, s4)
      | (None, s4) \<Rightarrow> (Inr dir, s4)))))"

definition deleteFiles :: "'s local_disk \<Rightarrow> string \<Rightarrow> 's \<Rightarrow> err option \<times> 's" where
  "deleteFiles D dir s = local_RemoveAll D dir s"

fun remove_empty :: "'s local_disk \<Rightarrow> string \<Rightarrow> (string \<times> string) list \<Rightarrow> 's \<Rightarrow> err option \<times> 's" where
  "remove_empty D dir [] s = (None, s)"
| "remove_empty D dir ((kind, sub) # ks) s =
     (if local_ReadDir D (filepath_Join [dir, sub]) s \<noteq> Inr [] then remove_empty D dir ks s
      else (case local_RemoveAll D (filepath_Join [dir, sub]) s of
              (Some e, s1) \<Rightarrow> (Some (errorf_v (''delete '' @ kind @ '': '') e), s1)
            | (None, s1) \<Rightarrow> remove_empty D dir ks s1))"

definition deleteEmptyDirs :: "'s local_disk \<Rightarrow> string \<Rightarrow> 's agent \<Rightarrow> 's \<Rightarrow> err option \<times> 's" where
  "deleteEmptyDirs D dir agent s =
     remove_empty D dir [(''inbound'', InboundPath agent), (''reconciliation'', ReconciliationPath agent),
       (''return'', ReturnPath agent)] s"

section \<open>Cleaning up\<close>

fun delete_remote :: "'s agent \<Rightarrow> string \<Rightarrow> string list \<Rightarrow> error_list \<Rightarrow> 's \<Rightarrow> error_list \<times> 's" where
  "delete_remote agent suf [] el s = (el, s)"
| "delete_remote agent suf (n # ns) el s =
     (case Delete agent (filepath_Join [suf, filepath_Base n]) s of
        (Some e, s1) \<Rightarrow> delete_remote agent suf ns (if errors_Is e NotExist then el else el @ [e]) s1
      | (None, s1) \<Rightarrow> delete_remote agent suf ns el s1)"

definition deleteFilesOnRemote :: "'s local_disk \<Rightarrow> 's agent \<Rightarrow> string \<Rightarrow> string \<Rightarrow> 's \<Rightarrow> err option \<times> 's" where
  "deleteFilesOnRemote D agent localDir suf s =
     (let baseDir = filepath_Join [localDir, suf] in
      case local_ReadDir D baseDir s of
        Inl e \<Rightarrow> (Some (errorf_v (''reading '' @ baseDir @ '': '') e), s)
      | Inr infos \<Rightarrow> (case delete_remote agent suf (map fst infos) [] s of (el, s1) \<Rightarrow> (ErrorList_Err el, s1)))"

fun each_path :: "(string \<Rightarrow> 's \<Rightarrow> err option \<times> 's) \<Rightarrow> string list \<Rightarrow> error_list \<Rightarrow> 's \<Rightarrow> error_list \<times> 's" where
  "each_path f [] el s = (el, s)"
| "each_path f (p # ps) el s = (case f p s of (e, s1) \<Rightarrow> each_path f ps (add_err e el) s1)"

definition agent_paths :: "'s agent \<Rightarrow> string list" where
  "agent_paths agent = [InboundPath agent, ReconciliationPath agent, ReturnPath agent]"

definition odfi_Cleanup :: "'s local_disk \<Rightarrow> 's agent \<Rightarrow> string \<Rightarrow> 's \<Rightarrow> err option \<times> 's" where
  "odfi_Cleanup D agent dir s =
     (case each_path (deleteFilesOnRemote D agent dir) (agent_paths agent) [] s of (el, s1) \<Rightarrow> (ErrorList_Err el, s1))"

text \<open>
  The local file is removed by its bare name, which is looked up in the working directory.
\<close>

definition os_Remove :: "os \<Rightarrow> path \<Rightarrow> os" where
  "os_Remove d p = (if is_reg (os_node d p) \<and> \<not> blocked d p \<or> os_node d p = Some Dir \<and> children d p = []
     then filter (\<lambda>kv. fst kv \<noteq> p) d else d)"

fun delete_empty :: "'s local_disk \<Rightarrow> 's agent \<Rightarrow> string \<Rightarrow> string \<Rightarrow> string list \<Rightarrow> error_list \<Rightarrow> 's \<Rightarrow> error_list \<times> 's" where
  "delete_empty D agent baseDir suf [] el s = (el, s)"
| "delete_empty D agent baseDir suf (n # ns) el s =
     (case os_stat (disk_of D s) (local_path D (filepath_Join [baseDir, n])) of
        Inr (Reg []) \<Rightarrow>
          (case Delete agent (filepath_Join [suf, filepath_Base n])
                  (put_disk D (os_Remove (disk_of D s) (local_path D n)) s) of
             (e, s1) \<Rightarrow> delete_empty D agent baseDir suf ns (add_err e el) s1)
      | _ \<Rightarrow> delete_empty D agent baseDir suf ns el s)"

definition deleteEmptyFiles :: "'s local_disk \<Rightarrow> 's agent \<Rightarrow> string \<Rightarrow> string \<Rightarrow> 's \<Rightarrow> err option \<times> 's" where
  "deleteEmptyFiles D agent localDir suf s =
     (let baseDir = filepath_Join [localDir, suf] in
      case local_ReadDir D baseDir s of
        Inl e \<Rightarrow> (Some (errorf_v (''reading '' @ baseDir @ '': '') e), s)
      | Inr entries \<Rightarrow> (case delete_empty D agent baseDir suf (map fst entries) [] s of (el, s1) \<Rightarrow> (ErrorList_Err el, s1)))"

definition CleanupEmptyFiles :: "'s local_disk \<Rightarrow> 's agent \<Rightarrow> string \<Rightarrow> 's \<Rightarrow> err option \<times> 's" where
  "CleanupEmptyFiles D agent dir s =
     (case each_path (\<lambda>p s. if isl (os_stat (disk_of D s) (local_path D (filepath_Join [dir, p]))) then (None, s)
                            else deleteEmptyFiles D agent dir p s) (agent_paths agent) [] s of
        (el, s1) \<Rightarrow> (ErrorList_Err el, s1))"

end
