(* ===== verification/Odfi_Processing.thy ===== *)
theory Odfi_Processing
  imports Odfi
begin

text \<open>
  What happens to a file from the ODFI (\<open>processor.go\<close>, \<open>corrections.go\<close>, \<open>returns.go\<close>,
  \<open>prenotes.go\<close>, \<open>reconciliation.go\<close>, \<open>incoming.go\<close>, \<open>audit.go\<close> of \<open>internal/incoming/odfi\<close>).
\<close>

section \<open>Processors\<close>

record odfi_file =
  Filepath :: string
  odfi_ACHFile :: "ach_file option"

record 's file_processor =
  proc_Type :: string
  Handle :: "odfi_file \<Rightarrow> 's \<Rightarrow> err option \<times> 's"

definition SetupProcessors :: "'s file_processor option list \<Rightarrow> 's file_processor list" where
  "SetupProcessors pcs = concat (map (\<lambda>p. case p of None \<Rightarrow> [] | Some x \<Rightarrow> [x]) pcs)"

fun handle_each :: "'s file_processor list \<Rightarrow> odfi_file \<Rightarrow> error_list \<Rightarrow> 's \<Rightarrow> error_list \<times> 's" where
  "handle_each [] file el s = (el, s)"
| "handle_each (p # ps) file el s =
     (case Handle p file s of
        (None, s1) \<Rightarrow> handle_each ps file el s1
      | (Some e, s1) \<Rightarrow> handle_each ps file (el @ [errorf_v (proc_Type p @ '': '') e]) s1)"

definition HandleAll :: "'s file_processor list \<Rightarrow> odfi_file \<Rightarrow> 's \<Rightarrow> err option \<times> 's" where
  "HandleAll pcs file s = (case handle_each pcs file [] s of (el, s1) \<Rightarrow> (ErrorList_Err el, s1))"

text \<open>Without an emitter nothing is sent.\<close>

definition odfi_send :: "'s emitter option \<Rightarrow> string \<Rightarrow> payload \<Rightarrow> 's \<Rightarrow> err option \<times> 's" where
  "odfi_send svc what evt s =
     (case svc of
        None \<Rightarrow> (None, s)
      | Some send \<Rightarrow>
          (case send evt s of (Some e, s1) \<Rightarrow> (Some (errorf_w what e), s1) | (None, s1) \<Rightarrow> (None, s1)))"

text \<open>The \<open>sendEvent\<close> of each processor.\<close>

definition correction_sendEvent :: "'s emitter option \<Rightarrow> payload \<Rightarrow> 's \<Rightarrow> err option \<times> 's" where [simp]:
  "correction_sendEvent svc = odfi_send svc ''sending correction event: ''"

definition return_sendEvent :: "'s emitter option \<Rightarrow> payload \<Rightarrow> 's \<Rightarrow> err option \<times> 's" where [simp]:
  "return_sendEvent svc = odfi_send svc ''sending return event: ''"

definition prenote_sendEvent :: "'s emitter option \<Rightarrow> payload \<Rightarrow> 's \<Rightarrow> err option \<times> 's" where [simp]:
  "prenote_sendEvent svc = odfi_send svc ''sending pre-note event: ''"

definition reconciliation_sendEvent :: "'s emitter option \<Rightarrow> payload \<Rightarrow> 's \<Rightarrow> err option \<times> 's" where [simp]:
  "reconciliation_sendEvent svc = odfi_send svc ''sending reconciliations event: ''"

definition incoming_sendEvent :: "'s emitter option \<Rightarrow> payload \<Rightarrow> 's \<Rightarrow> err option \<times> 's" where [simp]:
  "incoming_sendEvent svc = odfi_send svc ''sending incoming file event: ''"

definition path_skipped :: "string \<Rightarrow> odfi_file \<Rightarrow> bool" where
  "path_skipped matcher file \<longleftrightarrow> matcher \<noteq> [] \<and> \<not> Contains (ToLower (Filepath file)) matcher"

text \<open>The tests compare a length with \<open>>= 0\<close>, which every file passes; a nil file panics.\<close>

definition isCorrectionFile :: "ach_file \<Rightarrow> bool" where
  "isCorrectionFile f \<longleftrightarrow> length (NotificationOfChange f) \<ge> 0"

definition isReturnFile :: "ach_file \<Rightarrow> bool" where
  "isReturnFile f \<longleftrightarrow> length (ReturnEntries f) \<ge> 0"

definition batch_models :: "ach_batch list \<Rightarrow> model_batch list" where
  "batch_models bs = map (\<lambda>b. \<lparr>mb_Header = GetHeader b, mb_Entries = GetEntries b\<rparr>) bs"

definition correction_Handle :: "ODFICorrections \<Rightarrow> 's emitter option \<Rightarrow> odfi_file \<Rightarrow> 's \<Rightarrow> err option \<times> 's" where
  "correction_Handle cfg svc file s =
     (case odfi_ACHFile file of
        None \<Rightarrow> (Some nil_dereference, s)
      | Some f \<Rightarrow>
          if \<not> isCorrectionFile f then (None, s)
          else if path_skipped (cor_PathMatcher cfg) file then (None, s)
          else correction_sendEvent svc
                 (CorrectionFile \<lparr>co_Filename = filepath_Base (Filepath file), co_File = Some f,
                    co_Corrections = batch_models (NotificationOfChange f)\<rparr>) s)"

definition return_Handle :: "ODFIReturns \<Rightarrow> 's emitter option \<Rightarrow> odfi_file \<Rightarrow> 's \<Rightarrow> err option \<times> 's" where
  "return_Handle cfg svc file s =
     (case odfi_ACHFile file of
        None \<Rightarrow> (Some nil_dereference, s)
      | Some f \<Rightarrow>
          if \<not> isReturnFile f then (None, s)
          else if path_skipped (ret_PathMatcher cfg) file then (None, s)
          else return_sendEvent svc
                 (ReturnFile \<lparr>rt_Filename = filepath_Base (Filepath file), rt_File = Some f,
                    rt_Returns = batch_models (ReturnEntries f)\<rparr>) s)"

text \<open>
  \<open>codes\<close> are the library's transaction codes of prenotes (checking, savings, general ledger,
  loan). An entry with such a code counts as one whatever its amount: the error is dropped.
\<close>

definition isPrenoteEntry :: "int list \<Rightarrow> ach_entry \<Rightarrow> bool \<times> err option" where
  "isPrenoteEntry codes e =
     (if TransactionCode e \<in> set codes
      then (if Amount e = 0 then (True, None)
            else (True, Some (errors_New (''non-zero prenotification amount='' @ show_int (Amount e)))))
      else (False, None))"

definition isPrenoteFile :: "int list \<Rightarrow> ach_file \<Rightarrow> bool" where
  "isPrenoteFile codes f = list_ex (\<lambda>b. list_ex (\<lambda>e. fst (isPrenoteEntry codes e)) (GetEntries b)) (Batches f)"

text \<open>
  The batches of prenotes are built one by one but none is added to the list that is sent:
  \<open>batches\<close> after the loop is what it was before.
\<close>

fun prenote_batches :: "int list \<Rightarrow> ach_batch list \<Rightarrow> model_batch list \<Rightarrow> model_batch list" where
  "prenote_batches codes [] batches = batches"
| "prenote_batches codes (b # bs) batches =
     (let batch = \<lparr>mb_Header = GetHeader b, mb_Entries = filter (\<lambda>e. fst (isPrenoteEntry codes e)) (GetEntries b)\<rparr>
      in prenote_batches codes bs batches)"

definition prenote_Handle :: "int list \<Rightarrow> ODFIPrenotes \<Rightarrow> 's emitter option \<Rightarrow> odfi_file \<Rightarrow> 's \<Rightarrow> err option \<times> 's" where
  "prenote_Handle codes cfg svc file s =
     (if path_skipped (pre_PathMatcher cfg) file then (None, s)
      else (case odfi_ACHFile file of
              None \<Rightarrow> (Some nil_dereference, s)
            | Some f \<Rightarrow>
                (case prenote_batches codes (Batches f) [] of
                   [] \<Rightarrow> (None, s)
                 | batches \<Rightarrow>
                     prenote_sendEvent svc
                       (PrenoteFile \<lparr>pn_Filename = filepath_Base (Filepath file), pn_File = Some f, pn_Batches = batches\<rparr>) s)))"

section \<open>Reconciliation\<close>

definition isReconciliationFile :: "ODFIReconciliation \<Rightarrow> odfi_file \<Rightarrow> bool" where
  "isReconciliationFile cfg file \<longleftrightarrow>
     rec_Enabled cfg \<and> rec_PathMatcher cfg \<noteq> [] \<and> Contains (ToLower (Filepath file)) (rec_PathMatcher cfg)"

definition produceFileEvent :: "'s emitter option \<Rightarrow> odfi_file \<Rightarrow> ach_file \<Rightarrow> 's \<Rightarrow> err option \<times> 's" where
  "produceFileEvent svc file f s =
     (let recons = filter (\<lambda>b. length (mb_Entries b) > 0) (batch_models (Batches f)) in
      if length recons > 0
      then reconciliation_sendEvent svc
             (ReconciliationFile \<lparr>rf_Filename = filepath_Base (Filepath file), rf_File = Some f, rf_Reconciliations = recons\<rparr>) s
      else (None, s))"

text \<open>
  One goroutine for each batch and in it one for each entry: the events are sent in some order
  (\<open>sends\<close>, a permutation of the entries with the number of their batch) and the batches
  finish in some order (\<open>ends\<close>, a permutation of their numbers). A failing event does not
  stop the others; the error is the first one of the first batch to finish with one.
\<close>

record schedule =
  sends :: "(nat \<times> batch_header \<times> ach_entry) list \<Rightarrow> (nat \<times> batch_header \<times> ach_entry) list"
  ends :: "nat list \<Rightarrow> nat list"

definition schedule_ok :: "schedule \<Rightarrow> bool" where
  "schedule_ok c \<longleftrightarrow> (\<forall>xs. mset (sends c xs) = mset xs) \<and> (\<forall>ns. mset (ends c ns) = mset ns)"

definition file_entries :: "ach_file \<Rightarrow> (nat \<times> batch_header \<times> ach_entry) list" where
  "file_entries f = concat (map (\<lambda>(i, b). map (\<lambda>e. (i, GetHeader b, e)) (GetEntries b)) (enumerate 0 (Batches f)))"

definition entry_event :: "odfi_file \<Rightarrow> batch_header \<Rightarrow> ach_entry \<Rightarrow> payload" where
  "entry_event file bh e =
     ReconciliationEntry \<lparr>re_Filename = filepath_Base (Filepath file), re_Header = Some bh, re_Entry = Some e\<rparr>"

fun send_entries ::
  "'s emitter option \<Rightarrow> odfi_file \<Rightarrow> (nat \<times> batch_header \<times> ach_entry) list \<Rightarrow> 's \<Rightarrow> (nat \<times> err) list \<times> 's" where
  "send_entries svc file [] s = ([], s)"
| "send_entries svc file ((i, bh, e) # es) s =
     (case reconciliation_sendEvent svc (entry_event file bh e) s of
        (x, s1) \<Rightarrow> (case send_entries svc file es s1 of
          (xs, s2) \<Rightarrow> ((case x of None \<Rightarrow> xs | Some y \<Rightarrow> (i, y) # xs), s2)))"

fun first_error :: "nat list \<Rightarrow> (nat \<times> err) list \<Rightarrow> err option" where
  "first_error [] errs = None"
| "first_error (n # ns) errs = (case map_of errs n of Some e \<Rightarrow> Some e | None \<Rightarrow> first_error ns errs)"

definition produceEntryEvents :: "schedule \<Rightarrow> 's emitter option \<Rightarrow> odfi_file \<Rightarrow> ach_file \<Rightarrow> 's \<Rightarrow> err option \<times> 's" where
  "produceEntryEvents c svc file f s =
     (case send_entries svc file (sends c (file_entries f)) s of
        (errs, s1) \<Rightarrow> (first_error (ends c [0..<length (Batches f)]) errs, s1))"

definition reconciliation_Handle ::
  "schedule \<Rightarrow> ODFIReconciliation \<Rightarrow> 's emitter option \<Rightarrow> odfi_file \<Rightarrow> 's \<Rightarrow> err option \<times> 's" where
  "reconciliation_Handle c cfg svc file s =
     (case odfi_ACHFile file of
        None \<Rightarrow> (Some (errors_New ''nil ach.File''), s)
      | Some f \<Rightarrow>
          if \<not> isReconciliationFile cfg file then (None, s)
          else (case (if ProduceFileEvents cfg then produceFileEvent svc file f s else (None, s)) of
                  (Some e, s1) \<Rightarrow> (Some (errorf_w ''producing file event: '' e), s1)
                | (None, s1) \<Rightarrow>
                    (case (if ProduceEntryEvents cfg then produceEntryEvents c svc file f s1 else (None, s1)) of
                       (Some e, s2) \<Rightarrow> (Some (errorf_w ''producing entry event: '' e), s2)
                     | (None, s2) \<Rightarrow> (None, s2))))"

section \<open>Incoming files\<close>

definition incoming_Handle ::
  "int list \<Rightarrow> ODFIIncoming \<Rightarrow> ODFIReconciliation \<Rightarrow> 's emitter option \<Rightarrow> odfi_file \<Rightarrow> 's \<Rightarrow> err option \<times> 's" where
  "incoming_Handle codes cfg recon svc file s =
     (if path_skipped (inc_PathMatcher cfg) file then (None, s)
      else (case odfi_ACHFile file of
              None \<Rightarrow>
                if ExcludeCorrections cfg \<or> ExcludePrenotes cfg \<or> ExcludeReturns cfg
                then (Some nil_dereference, s) else (None, s)
            | Some f \<Rightarrow>
                if ExcludeCorrections cfg \<and> isCorrectionFile f then (None, s)
                else if ExcludePrenotes cfg \<and> isPrenoteFile codes f then (None, s)
                else if ExcludeReturns cfg \<and> isReturnFile f then (None, s)
                else if ExcludeReconciliations cfg \<and> isReconciliationFile recon file then (None, s)
                else incoming_sendEvent svc
                       (IncomingFile \<lparr>ic_Filename = filepath_Base (Filepath file), ic_File = Some f\<rparr>) s))"

definition CorrectionEmitter :: "ODFICorrections \<Rightarrow> 's emitter option \<Rightarrow> 's file_processor option" where
  "CorrectionEmitter cfg svc =
     (if \<not> cor_Enabled cfg then None else Some \<lparr>proc_Type = ''correction'', Handle = correction_Handle cfg svc\<rparr>)"

definition PrenoteEmitter :: "int list \<Rightarrow> ODFIPrenotes \<Rightarrow> 's emitter option \<Rightarrow> 's file_processor option" where
  "PrenoteEmitter codes cfg svc =
     (if \<not> pre_Enabled cfg then None else Some \<lparr>proc_Type = ''prenote'', Handle = prenote_Handle codes cfg svc\<rparr>)"

definition CreditReconciliationEmitter ::
  "schedule \<Rightarrow> ODFIReconciliation \<Rightarrow> 's emitter option \<Rightarrow> 's file_processor option" where
  "CreditReconciliationEmitter c cfg svc =
     (if \<not> rec_Enabled cfg then None
      else Some \<lparr>proc_Type = ''CreditReconciliation'', Handle = reconciliation_Handle c cfg svc\<rparr>)"

definition ReturnEmitter :: "ODFIReturns \<Rightarrow> 's emitter option \<Rightarrow> 's file_processor option" where
  "ReturnEmitter cfg svc =
     (if \<not> ret_Enabled cfg then None else Some \<lparr>proc_Type = ''return'', Handle = return_Handle cfg svc\<rparr>)"

definition IncomingEmitter :: "int list \<Rightarrow> ODFIIncoming \<Rightarrow> ODFIReconciliation \<Rightarrow> 's emitter option \<Rightarrow> 's file_processor option" where
  "IncomingEmitter codes cfg recon svc =
     (if \<not> inc_Enabled cfg then None else Some \<lparr>proc_Type = ''incoming'', Handle = incoming_Handle codes cfg recon svc\<rparr>)"

text \<open>The mock keeps the last file it was given and fails as told; here over its own state.\<close>

definition MockProcessor :: "err option \<Rightarrow> odfi_file option file_processor" where
  "MockProcessor e = \<lparr>proc_Type = ''mock'', Handle = (\<lambda>file _. (e, Some file))\<rparr>"

section \<open>Processing a downloaded file\<close>

record 's AuditSaver =
  as_storage :: "'s audit_storage"
  as_basePath :: string
  as_hostname :: string

definition newAuditSaver ::
  "(string \<Rightarrow> err + 's bucket) \<Rightarrow> gpg_lib \<Rightarrow> 's audit_storage \<Rightarrow> string \<Rightarrow> AuditTrail option \<Rightarrow> err + 's AuditSaver option" where
  "newAuditSaver open_bucket G mock hostname cfg =
     (case cfg of
        None \<Rightarrow> Inr None
      | Some a \<Rightarrow>
          (case audit_NewStorage open_bucket G mock (Some a) of
             Inl e \<Rightarrow> Inl (errorf_v ''odfi: audit: '' e)
           | Inr st \<Rightarrow> Inr (Some \<lparr>as_storage = st, as_basePath = strx_Or [au_BasePath a, ''odfi''], as_hostname = hostname\<rparr>)))"

definition AuditSaver_save :: "'s AuditSaver option \<Rightarrow> string \<Rightarrow> bytes \<Rightarrow> 's \<Rightarrow> err option \<times> 's" where
  "AuditSaver_save sv filepath data s =
     (case sv of
        None \<Rightarrow> (None, s)
      | Some x \<Rightarrow> if length data = 0 then (None, s) else SaveFile (as_storage x) filepath data s)"

text \<open>
  \<open>sha1_hex\<close> is \<open>hash\<close>. The library lists returns and corrections a second time by pointer, so a
  batch of the file that is also among them changes there too.
\<close>

definition hash_batch :: "ach_lib \<Rightarrow> (bytes \<Rightarrow> string) \<Rightarrow> ach_batch \<Rightarrow> ach_batch" where
  "hash_batch L sha1_hex b = b\<lparr>GetEntries := map (\<lambda>e. e\<lparr>entry_ID := sha1_hex (Entry_String L e)\<rparr>) (GetEntries b)\<rparr>"

definition populateHashes :: "ach_lib \<Rightarrow> (bytes \<Rightarrow> string) \<Rightarrow> ach_file \<Rightarrow> ach_file" where
  "populateHashes L sha1_hex f =
     (let again = map (\<lambda>b. if b \<in> set (Batches f) then hash_batch L sha1_hex b else b) in
      f\<lparr>Batches := map (hash_batch L sha1_hex) (Batches f),
        NotificationOfChange := again (NotificationOfChange f), ReturnEntries := again (ReturnEntries f),
        IATBatches := map (map (\<lambda>e. e\<lparr>iat_ID := sha1_hex (IATEntry_String L e)\<rparr>)) (IATBatches f)\<rparr>)"

record 's odfi_lib =
  ol_ach :: ach_lib
  ol_sha1 :: "bytes \<Rightarrow> string"
  ol_alerters :: "'s alerters"
  ol_disk :: "'s local_disk"

definition odfi_processFile ::
  "'s odfi_lib \<Rightarrow> string \<Rightarrow> string \<Rightarrow> 's AuditSaver option \<Rightarrow> validate_opts \<Rightarrow> 's file_processor list \<Rightarrow> 's \<Rightarrow> err option \<times> 's" where
  "odfi_processFile Q day path auditSaver validation pcs s =
     (case local_ReadFile (ol_disk Q) path s of
        Inl e \<Rightarrow> (Some (errorf_v (''problem opening '' @ path @ '': '') e), s)
      | Inr raw \<Rightarrow>
     (let bs = TrimSpace raw;
          opts = validation\<lparr>AllowMissingFileControl := True, AllowMissingFileHeader := True,
                            AllowUnorderedBatchNumbers := True\<rparr>
      in (case ach_Read (ol_ach Q) (Some opts) bs of
            (parsed, readErr) \<Rightarrow>
              if (case readErr of None \<Rightarrow> False | Some e \<Rightarrow> \<not> errors_Is e FileHeaderMissing)
              then (Some (errorf_v (''problem parsing '' @ path @ '': '') (the readErr)), s)
              else
                let file = populateHashes (ol_ach Q) (ol_sha1 Q) (parsed\<lparr>file_ID := ol_sha1 Q bs\<rparr>);
                    (dir, filename) = filepath_Split path;
                    saved = (case auditSaver of
                               None \<Rightarrow> (None, s)
                             | Some sv \<Rightarrow>
                                 let p = ''odfi/'' @ as_hostname sv @ ''/'' @ filepath_Base dir @ ''/'' @ day @ ''/'' @ filename
                                 in (case AuditSaver_save auditSaver p bs s of
                                       (Some e, s1) \<Rightarrow> (Some (errorf_v (''audittrail '' @ p @ '' error: '') e), s1)
                                     | (None, s1) \<Rightarrow> (None, s1)))
                in (case saved of
                      (Some e, s1) \<Rightarrow> (Some e, s1)
                    | (None, s1) \<Rightarrow>
                        (case HandleAll pcs \<lparr>Filepath = path, odfi_ACHFile = Some file\<rparr> s1 of
                           (None, s2) \<Rightarrow> (None, s2)
                         | (Some e, s2) \<Rightarrow>
                             (case Alerters_AlertError (ol_alerters Q) (Some e) s2 of
                                (Some a, s3) \<Rightarrow> (Some (errorf_w ''problem alerting on error: '' a), s3)
                              | (None, s3) \<Rightarrow> (Some (errorf_v (''processing '' @ path @ '' error: '') e), s3)))))))"

definition processDir ::
  "'s odfi_lib \<Rightarrow> string \<Rightarrow> string \<Rightarrow> 's AuditSaver option \<Rightarrow> validate_opts \<Rightarrow> 's file_processor list \<Rightarrow> 's \<Rightarrow> err option \<times> 's" where
  "processDir Q day dir auditSaver validation pcs s =
     (case local_ReadDir (ol_disk Q) dir s of
        Inl e \<Rightarrow> (Some (errorf_v (''reading '' @ dir @ '': '') e), s)
      | Inr infos \<Rightarrow>
          (case each_path (\<lambda>n. odfi_processFile Q day (filepath_Join [dir, n]) auditSaver validation pcs) (map fst infos) [] s of
             (el, s1) \<Rightarrow> (ErrorList_Err el, s1)))"

definition ProcessFiles ::
  "'s odfi_lib \<Rightarrow> string \<Rightarrow> string \<Rightarrow> 's AuditSaver option \<Rightarrow> validate_opts \<Rightarrow> 's file_processor list \<Rightarrow> 's agent \<Rightarrow> 's
     \<Rightarrow> err option \<times> 's" where
  "ProcessFiles Q day dldir auditSaver validation pcs agent s =
     (case each_path (\<lambda>p s. let dir = filepath_Join [dldir, p] in
                            case processDir Q day dir auditSaver validation pcs s of
                              (Some e, s1) \<Rightarrow> (Some (errorf_v (''processDir '' @ dir @ '': '') e), s1)
                            | (None, s1) \<Rightarrow> (None, s1)) (agent_paths agent) [] s of
        (el, s1) \<Rightarrow> (ErrorList_Err el, s1))"

end
