(* ===== verification/Odfi_Scheduler.thy ===== *)
theory Odfi_Scheduler
  imports Odfi_Processing
begin

text \<open>
  The periodic scheduler (\<open>internal/incoming/odfi/scheduler.go\<close>, \<open>admin.go\<close>, \<open>mock_scheduler.go\<close>):
  for each configured shard it downloads the files of its agent, processes them and cleans up.
\<close>

record 's PeriodicScheduler =
  ps_odfi :: ODFIFiles
  ps_sharding :: Sharding
  ps_uploadAgents :: UploadAgents
  ps_baseDir :: string
  ps_processors :: "'s file_processor list"
  ps_alerters :: "'s alerters"

text \<open>
  What a tick uses from outside: agents are made as for uploads, and the audit trail as for
  aggregators. \<open>sc_day\<close> and \<open>sc_random\<close> are the day and the temporary name of the \<open>k\<close>-th shard's turn.
\<close>

record 's scheduler_lib =
  sc_outside :: "'s outside"
  sc_sha1 :: "bytes \<Rightarrow> string"
  sc_disk :: "'s local_disk"
  sc_bucket :: "string \<Rightarrow> err + 's bucket"
  sc_gpg :: gpg_lib
  sc_mock_audit :: "'s audit_storage"
  sc_day :: "nat \<Rightarrow> string"
  sc_random :: "nat \<Rightarrow> string"

text \<open>A ticker of no positive interval panics; it is the last error here.\<close>

definition NewPeriodicScheduler ::
  "'s local_disk \<Rightarrow> 's alert_lib \<Rightarrow> Config \<Rightarrow> 's file_processor list \<Rightarrow> 's \<Rightarrow> (err + 's PeriodicScheduler) \<times> 's" where
  "NewPeriodicScheduler D A cfg pcs s =
     (case in_ODFI (cf_Inbound cfg) of
        None \<Rightarrow> (Inl (errors_New ''missing Inbound ODFI config''), s)
      | Some odfi \<Rightarrow>
     (case NewDownloader D (od_Storage odfi) s of
        (Inl e, s1) \<Rightarrow> (Inl e, s1)
      | (Inr base, s1) \<Rightarrow>
     (case NewAlerters A (cf_Errors cfg) of
        Inl e \<Rightarrow> (Inl (errorf_v ''ERROR creating alerters: '' e), s1)
      | Inr alerters \<Rightarrow>
          if od_Interval odfi \<le> 0 then (Inl (errors_New ''non-positive interval for NewTicker''), s1)
          else (Inr \<lparr>ps_odfi = odfi, ps_sharding = cf_Sharding cfg, ps_uploadAgents = cf_Upload cfg, ps_baseDir = base,
                     ps_processors = pcs, ps_alerters = alerters\<rparr>, s1))))"

definition odfi_alertOnError :: "'s PeriodicScheduler \<Rightarrow> err option \<Rightarrow> 's \<Rightarrow> 's" where
  "odfi_alertOnError p e s = (case e of None \<Rightarrow> s | Some x \<Rightarrow> snd (Alerters_AlertError (ps_alerters p) (Some x) s))"

definition after_processing :: "'s local_disk \<Rightarrow> ODFIStorage \<Rightarrow> 's agent \<Rightarrow> string \<Rightarrow> 's \<Rightarrow> err option \<times> 's" where
  "after_processing D st agent dl s =
     (case (if \<not> KeepRemoteFiles st then odfi_Cleanup D agent dl s else (None, s)) of
        (Some e, s1) \<Rightarrow> (Some (errorf_v ''ERROR: deleting remote files: '' e), s1)
      | (None, s1) \<Rightarrow>
     (case (if RemoveZeroByteFiles st then CleanupEmptyFiles D agent dl s1 else (None, s1)) of
        (Some e, s2) \<Rightarrow> (Some (errorf_v ''ERROR: deleting zero byte files: '' e), s2)
      | (None, s2) \<Rightarrow>
          if CleanupLocalDirectory st then deleteFiles D dl s2 else deleteEmptyDirs D dl agent s2))"

definition odfi_tick ::
  "'s scheduler_lib \<Rightarrow> 's PeriodicScheduler \<Rightarrow> nat \<Rightarrow> Shard \<Rightarrow> 's agent list \<times> 's \<Rightarrow> err option \<times> 's agent list \<times> 's" where
  "odfi_tick Q p k shard cs =
     (case cs of (created, s) \<Rightarrow>
       let X = sc_outside Q; D = sc_disk Q in
       (case upload_New (dialing X) (retrying X) (mock_agent X) (ps_uploadAgents p) (sh_UploadAgent shard) created of
          (Inl e, created1) \<Rightarrow> (Some (errorf_v ''agent: '' e), created1, s)
        | (Inr agent, created1) \<Rightarrow>
       (case CopyFilesFromRemote D (ps_baseDir p) (sc_random Q k) agent s of
          (Inl e, s1) \<Rightarrow> (Some (errorf_v ''ERROR: problem copying files: '' e), created1, s1)
        | (Inr dl, s1) \<Rightarrow>
       (case newAuditSaver (sc_bucket Q) (sc_gpg Q) (sc_mock_audit Q) (Hostname agent) (od_Audit (ps_odfi p)) of
          Inl e \<Rightarrow> (Some (errorf_v ''ERROR: '' e), created1, s1)
        | Inr auditSaver \<Rightarrow>
       (case ProcessFiles \<lparr>ol_ach = lib X, ol_sha1 = sc_sha1 Q, ol_alerters = ps_alerters p, ol_disk = D\<rparr> (sc_day Q k)
               dl auditSaver (Validation (od_Processors (ps_odfi p))) (ps_processors p) agent s1 of
          (Some e, s2) \<Rightarrow> (Some (errorf_v ''ERROR: processing files: '' e), created1, s2)
        | (None, s2) \<Rightarrow>
            (case after_processing D (od_Storage (ps_odfi p)) agent dl s2 of (e, s3) \<Rightarrow> (e, created1, s3)))))))"

fun tick_each ::
  "'s scheduler_lib \<Rightarrow> 's PeriodicScheduler \<Rightarrow> nat \<Rightarrow> string list \<Rightarrow> 's agent list \<times> 's \<Rightarrow> 's agent list \<times> 's" where
  "tick_each Q p k [] cs = cs"
| "tick_each Q p k (shardName # names) cs =
     (case Sharding_Find (ps_sharding p) shardName of
        None \<Rightarrow> tick_each Q p (Suc k) names cs
      | Some shard \<Rightarrow>
          (case odfi_tick Q p k shard cs of
             (None, cs1) \<Rightarrow> tick_each Q p (Suc k) names cs1
           | (Some e, created1, s1) \<Rightarrow>
               tick_each Q p (Suc k) names
                 (created1, odfi_alertOnError p (Some (errors_New (shardName @ '' '' @ err_text e))) s1)))"

text \<open>It never reports an error.\<close>

definition tickAll :: "'s scheduler_lib \<Rightarrow> 's PeriodicScheduler \<Rightarrow> 's agent list \<times> 's \<Rightarrow> err option \<times> 's agent list \<times> 's" where
  "tickAll Q p cs = (None, tick_each Q p 0 (od_ShardNames (ps_odfi p)) cs)"

datatype inbound_reply = Reply_status nat | Reply_problem err

definition triggerInboundProcessing ::
  "'s scheduler_lib \<Rightarrow> 's PeriodicScheduler \<Rightarrow> string \<Rightarrow> 's agent list \<times> 's \<Rightarrow> inbound_reply \<times> 's agent list \<times> 's" where
  "triggerInboundProcessing Q p meth cs =
     (if meth \<noteq> ''PUT'' then (Reply_status 400, cs)
      else (case tickAll Q p cs of
              (Some e, cs1) \<Rightarrow> (Reply_problem e, cs1)
            | (None, cs1) \<Rightarrow> (Reply_status 200, cs1)))"

text \<open>The loop over what wakes it; each turn has its own days and names. It ends without an error.\<close>

datatype scheduler_event = Tick_due | Inbound_trigger | Scheduler_shutdown

fun odfi_Start ::
  "'s PeriodicScheduler \<Rightarrow> ('s scheduler_lib \<times> scheduler_event) list \<Rightarrow> 's agent list \<times> 's \<Rightarrow> 's agent list \<times> 's" where
  "odfi_Start p [] cs = cs"
| "odfi_Start p ((Q, ev) # evs) cs =
     (case ev of
        Scheduler_shutdown \<Rightarrow> cs
      | Tick_due \<Rightarrow> odfi_Start p evs (snd (tickAll Q p cs))
      | Inbound_trigger \<Rightarrow> odfi_Start p evs (snd (tickAll Q p cs)))"

definition MockScheduler_Start :: "err option \<Rightarrow> err option" where
  "MockScheduler_Start e = e"

end
