(* ===== verification/Odfi_Proofs.thy ===== *)
theory Odfi_Proofs
  imports Odfi_Scheduler Sample_Gateway
begin

text \<open>
  Files from the ODFI: reconciliation events do not depend on how the goroutines interleave;
  remote files are deleted only after everything downloaded with them was processed.
\<close>

section \<open>Reconciliation entries\<close>

lemma send_entries_sent:
  "send_entries (Some (world_emitter outcome)) file xs w =
     (concat (map (\<lambda>(i, bh, e). case outcome (entry_event file bh e) of None \<Rightarrow> []
                   | Some x \<Rightarrow> [(i, errorf_w ''sending reconciliations event: '' x)]) xs),
      w\<lparr>w_sent := w_sent w @ filter (\<lambda>e. outcome e = None) (map (\<lambda>(i, bh, e). entry_event file bh e) xs)\<rparr>)"
  by (induction xs arbitrary: w) (auto simp: odfi_send_def world_emitter_def split: option.split prod.splits)

lemma first_error_None: "first_error ns errs = None \<longleftrightarrow> (\<forall>n\<in>set ns. map_of errs n = None)"
  by (induction ns) (auto split: option.splits)

lemma file_entries_batch: "x \<in> set (file_entries f) \<Longrightarrow> fst x < length (Batches f)"
  by (auto simp: file_entries_def in_set_enumerate_eq)

text \<open>
  C19. However the goroutines of a reconciliation file are scheduled, one \<open>ReconciliationEntry\<close>
  event is sent for each entry of each batch whose sending succeeds, and an error is reported
  exactly when one could not be sent.
\<close>

theorem reconciliation_entries_sent:
  assumes "schedule_ok c" and "produceEntryEvents c (Some (world_emitter outcome)) file f w = (e, w')"
  shows "\<exists>es. w_sent w' = w_sent w @ es \<and>
      mset es = mset (filter (\<lambda>e. outcome e = None) (map (\<lambda>(_, bh, e). entry_event file bh e) (file_entries f))) \<and>
      (e = None \<longleftrightarrow> (\<forall>(_, bh, x)\<in>set (file_entries f). outcome (entry_event file bh x) = None))"
proof -
  let ?ev = "\<lambda>(i :: nat, bh, e). entry_event file bh e" and ?xs = "sends c (file_entries f)" and ?ns = "ends c [0..<length (Batches f)]"
  let ?errs = "concat (map (\<lambda>(i, bh, e). case outcome (entry_event file bh e) of None \<Rightarrow> []
                   | Some x \<Rightarrow> [(i, errorf_w ''sending reconciliations event: '' x)]) ?xs)"
  have ms: "mset ?xs = mset (file_entries f)" "mset ?ns = mset [0..<length (Batches f)]"
    using assms(1) unfolding schedule_ok_def by blast+
  have sets: "set ?xs = set (file_entries f)" "set ?ns = {0..<length (Batches f)}"
    using ms(1,2)[THEN mset_eq_setD] by simp_all
  have w': "w_sent w' = w_sent w @ filter (\<lambda>e. outcome e = None) (map ?ev ?xs)" and e: "e = first_error ?ns ?errs"
    using assms(2) by (auto simp: produceEntryEvents_def send_entries_sent)
  have "mset (filter (\<lambda>e. outcome e = None) (map ?ev ?xs)) = mset (filter (\<lambda>e. outcome e = None) (map ?ev (file_entries f)))"
    using ms(1) by (simp add: mset_filter)
  moreover have "e = None \<longleftrightarrow> (\<forall>(_, bh, x)\<in>set (file_entries f). outcome (entry_event file bh x) = None)"
  proof -
    have "map_of ?errs n = None \<longleftrightarrow> (\<forall>(i, bh, x)\<in>set (file_entries f). i = n \<longrightarrow> outcome (entry_event file bh x) = None)" for n
      unfolding map_of_eq_None_iff by (force simp: sets(1) split: option.splits)
    then show ?thesis unfolding e first_error_None sets(2) using file_entries_batch[of _ f] by fastforce
  qed
  ultimately show ?thesis using w' by blast
qed

definition backwards :: schedule where
  "backwards = \<lparr>sends = rev, ends = (\<lambda>ns. ns)\<rparr>"

definition recon_file :: odfi_file where
  "recon_file = \<lparr>Filepath = ''d/recon.ach'', odfi_ACHFile = Some (sample_file ''a'')\<rparr>"

lemma reconciliation_entries_sent_witness:
  "\<exists>es. mset es = mset (map (\<lambda>(_, bh, e). entry_event recon_file bh e) (file_entries (sample_file ''a''))) \<and> length es = 1"
proof -
  let ?r = "produceEntryEvents backwards (Some (world_emitter (\<lambda>_. None))) recon_file (sample_file ''a'') sample_world"
  have ok: "schedule_ok backwards" by (simp add: schedule_ok_def backwards_def)
  have r: "?r = (fst ?r, snd ?r)" by simp
  have n: "length (file_entries (sample_file ''a'')) = 1" by code_simp
  from reconciliation_entries_sent[OF ok r] obtain es where
    "mset es = mset (map (\<lambda>(_, bh, e). entry_event recon_file bh e) (file_entries (sample_file ''a'')))" by auto
  moreover from this have "length es = 1" using n mset_eq_length by (metis length_map)
  ultimately show ?thesis by blast
qed

text \<open>
  Two settings of the configuration silence events they should only select: the prenote
  processor never sends anything, and an incoming processor told to exclude corrections or
  returns excludes every file.
\<close>

theorem odfi_events_suppressed:
  assumes "odfi_ACHFile file = Some f"
  shows "prenote_Handle codes pre svc file s = (None, s) \<and>
    (ExcludeCorrections inc \<or> ExcludeReturns inc \<longrightarrow> incoming_Handle codes inc recon svc file s = (None, s))"
proof -
  have "prenote_batches codes bs [] = []" for bs by (induction bs) (simp_all add: Let_def)
  with assms show ?thesis by (simp add: prenote_Handle_def incoming_Handle_def isCorrectionFile_def isReturnFile_def)
qed

definition without_returns :: ODFIIncoming where
  "without_returns = \<lparr>inc_Enabled = True, inc_PathMatcher = [], ExcludeCorrections = False, ExcludePrenotes = False,
     ExcludeReturns = True, ExcludeReconciliations = False\<rparr>"

definition no_recon :: ODFIReconciliation where
  "no_recon = \<lparr>rec_Enabled = False, rec_PathMatcher = [], ProduceFileEvents = False, ProduceEntryEvents = False\<rparr>"

lemma odfi_events_suppressed_witness:
  "incoming_Handle [] without_returns no_recon (Some (world_emitter (\<lambda>_. None))) recon_file sample_world = (None, sample_world)"
proof -
  have "odfi_ACHFile recon_file = Some (sample_file ''a'')" by (simp add: recon_file_def)
  from odfi_events_suppressed[OF this, where inc = without_returns and s = sample_world and codes = "[]" and
      svc = "Some (world_emitter (\<lambda>_. None))" and recon = no_recon]
  show ?thesis by (simp add: without_returns_def)
qed

section \<open>Nothing is deleted before it was processed\<close>

text \<open>
  What the parts promise about the remote files deleted so far (\<open>deleted\<close>): only \<open>Delete\<close> adds to
  them, and it leaves the local disk alone.
\<close>

definition disk_ok :: "('s \<Rightarrow> string set) \<Rightarrow> 's local_disk \<Rightarrow> bool" where
  "disk_ok deleted D \<longleftrightarrow> (\<forall>d s. disk_of D (put_disk D d s) = d \<and> deleted (put_disk D d s) = deleted s)"

definition server_ok :: "('s \<Rightarrow> string set) \<Rightarrow> 's local_disk \<Rightarrow> 's agent \<Rightarrow> bool" where
  "server_ok deleted D agent \<longleftrightarrow>
     (\<forall>x. keeps (\<lambda>s. deleted s = x) (GetInboundFiles agent) \<and> keeps (\<lambda>s. deleted s = x) (GetReconciliationFiles agent) \<and>
          keeps (\<lambda>s. deleted s = x) (GetReturnFiles agent) \<and> (\<forall>p. keeps (\<lambda>s. deleted s = x) (ReadFile agent p))) \<and>
     (\<forall>p s e s'. Delete agent p s = (e, s') \<longrightarrow> deleted s' \<subseteq> insert p (deleted s) \<and> disk_of D s' = disk_of D s)"

definition handlers_ok :: "('s \<Rightarrow> string set) \<Rightarrow> 's file_processor list \<Rightarrow> 's AuditSaver option \<Rightarrow> 's alerters \<Rightarrow> bool" where
  "handlers_ok deleted pcs saver al \<longleftrightarrow>
     (\<forall>x. (\<forall>pc\<in>set pcs. \<forall>file. keeps (\<lambda>s. deleted s = x) (Handle pc file)) \<and>
          (\<forall>sv. saver = Some sv \<longrightarrow> (\<forall>p d. keeps (\<lambda>s. deleted s = x) (SaveFile (as_storage sv) p d))) \<and>
          (\<forall>e. keeps (\<lambda>s. deleted s = x) (Alerters_AlertError al e)))"

subsection \<open>Downloading and processing delete nothing\<close>

lemma on_local_keeps: "disk_ok deleted D \<Longrightarrow> keeps (\<lambda>s. deleted s = x) (on_local D f wrap)"
  by (auto simp: keeps_def on_local_def disk_ok_def split: sum.split)

lemma local_keeps:
  assumes "disk_ok deleted D"
  shows "local_MkdirAll D p s = (e, s') \<Longrightarrow> deleted s' = deleted s" "local_Write D p b s = (e, s') \<Longrightarrow> deleted s' = deleted s"
  using keepsD[OF on_local_keeps[OF assms]] unfolding local_MkdirAll_def local_Write_def by blast+

lemma mkdir_each_keeps: "disk_ok deleted D \<Longrightarrow> mkdir_each D ps s = (e, s') \<Longrightarrow> deleted s' = deleted s"
  by (induction D ps s rule: mkdir_each.induct) (auto dest: local_keeps(1) split: prod.splits option.splits)

lemma dl_setup_keeps:
  assumes "disk_ok deleted D" and "dl_setup D base random agent s = (r, s')"
  shows "deleted s' = deleted s"
proof -
  obtain t s1 where t: "MkdirTemp D base (''download'' @ random) s = (t, s1)" by fastforce
  then have "deleted s1 = deleted s"
    using assms(1) by (auto simp: MkdirTemp_def disk_ok_def Let_def split: sum.splits node.splits if_splits)
  show ?thesis
  proof (cases t)
    case (Inr dir)
    obtain e s2 where m: "mkdir_each D [filepath_Join [dir, InboundPath agent], filepath_Join [dir, ReconciliationPath agent],
        filepath_Join [dir, ReturnPath agent]] s1 = (e, s2)" by (metis prod.exhaust)
    then have "s' = s2" using assms(2) t Inr unfolding dl_setup_def by (simp only: prod.case sum.case) (simp split: option.splits)
    with mkdir_each_keeps[OF assms(1) m] \<open>deleted s1 = deleted s\<close> show ?thesis by simp
  qed (use assms(2) t \<open>deleted s1 = deleted s\<close> in \<open>simp add: dl_setup_def\<close>)
qed

lemma server_reads:
  assumes "server_ok deleted D agent"
  shows "GetInboundFiles agent s = (r, s') \<Longrightarrow> deleted s' = deleted s" "GetReconciliationFiles agent s = (r, s') \<Longrightarrow> deleted s' = deleted s"
    "GetReturnFiles agent s = (r, s') \<Longrightarrow> deleted s' = deleted s" "ReadFile agent p s = (r2, s') \<Longrightarrow> deleted s' = deleted s"
  using assms unfolding server_ok_def keeps_def by (metis snd_conv)+

lemma save_each_keeps:
  assumes "disk_ok deleted D" and "server_ok deleted D agent"
  shows "save_each D agent dir ps errs s = (r, s') \<Longrightarrow> deleted s' = deleted s"
proof (induction ps arbitrary: errs s)
  case (Cons p ps)
  obtain e1 s1 where w: "local_Write D (filepath_Join [dir, filepath_Base p]) [] s = (e1, s1)" by fastforce
  obtain c e2 s2 where rd: "ReadFile agent p s1 = ((c, e2), s2)" by (metis prod.exhaust)
  have d: "deleted s1 = deleted s" "deleted s2 = deleted s" using local_keeps(2)[OF assms(1) w] server_reads(4)[OF assms(2) rd] by simp_all
  obtain fe fl where errs: "errs = (fe, fl)" by fastforce
  show ?case
  proof (cases "e1 = None \<and> e2 = None \<and> c \<noteq> None")
    case True
    then obtain name b where c: "c = Some (name, b)" by auto
    obtain e3 s3 where w3: "local_Write D (filepath_Join [dir, filepath_Base p]) b s2 = (e3, s3)" by fastforce
    have "deleted s3 = deleted s" using local_keeps(2)[OF assms(1) w3] d by simp
    with Cons w rd w3 True c errs show ?thesis by (cases e3) (simp_all add: Let_def)
  next
    case False
    with Cons w rd d errs show ?thesis
      by (cases e1; cases e2; cases c) (simp_all add: Let_def)
  qed
qed simp

lemma saveFilepaths_keeps:
  assumes "disk_ok deleted D" and "server_ok deleted D agent" and "saveFilepaths D agent ps dir s = (r, s')"
  shows "deleted s' = deleted s"
  using assms(3) by (auto simp: saveFilepaths_def split: prod.splits option.splits dest: local_keeps(1)[OF assms(1)] save_each_keeps[OF assms(1,2)])

lemma copy_kind_keeps:
  assumes "disk_ok deleted D" and "server_ok deleted D agent" and "copy_kind D agent kind get dir sub s = (r, s')"
    and "\<And>s r s'. get s = (r, s') \<Longrightarrow> deleted s' = deleted s"
  shows "deleted s' = deleted s"
  using assms(3) by (auto simp: copy_kind_def split: prod.splits option.splits dest: assms(4) saveFilepaths_keeps[OF assms(1,2)])

lemma CopyFilesFromRemote_keeps:
  assumes "disk_ok deleted D" and "server_ok deleted D agent" and "CopyFilesFromRemote D base random agent s = (r, s')"
  shows "deleted s' = deleted s"
proof -
  note k = copy_kind_keeps[OF assms(1,2)]
  obtain t s1 where t: "dl_setup D base random agent s = (t, s1)" by fastforce
  note d1 = dl_setup_keeps[OF assms(1) t]
  show ?thesis
  proof (cases t)
    case (Inl e)
    with assms(3) t d1 show ?thesis by (simp add: CopyFilesFromRemote_def)
  next
    case (Inr dir)
    obtain e2 s2 where c2: "copy_kind D agent ''inbound'' (GetInboundFiles agent) dir (InboundPath agent) s1 = (e2, s2)" by fastforce
    obtain e3 s3 where c3: "copy_kind D agent ''reconciliation'' (GetReconciliationFiles agent) dir (ReconciliationPath agent) s2 = (e3, s3)" by fastforce
    obtain e4 s4 where c4: "copy_kind D agent ''return'' (GetReturnFiles agent) dir (ReturnPath agent) s3 = (e4, s4)" by fastforce
    have "deleted s2 = deleted s" "deleted s3 = deleted s" "deleted s4 = deleted s"
      using k[OF c2 server_reads(1)[OF assms(2)]] k[OF c3 server_reads(2)[OF assms(2)]] k[OF c4 server_reads(3)[OF assms(2)]] d1 by simp_all
    with assms(3) t Inr c2 c3 c4 show ?thesis by (auto simp: CopyFilesFromRemote_def split: option.splits)
  qed
qed

lemma handlers_quiet:
  assumes "handlers_ok deleted pcs saver al"
  shows "pc \<in> set pcs \<Longrightarrow> Handle pc file s = (r, s') \<Longrightarrow> deleted s' = deleted s"
    "saver = Some sv \<Longrightarrow> SaveFile (as_storage sv) p d s = (r, s') \<Longrightarrow> deleted s' = deleted s"
    "Alerters_AlertError al e s = (r, s') \<Longrightarrow> deleted s' = deleted s"
proof -
  let ?I = "\<lambda>s'. deleted s' = deleted s"
  have k: "pc \<in> set pcs \<Longrightarrow> keeps ?I (Handle pc file)" "saver = Some sv \<Longrightarrow> keeps ?I (SaveFile (as_storage sv) p d)"
    "keeps ?I (Alerters_AlertError al e)"
    using assms unfolding handlers_ok_def by blast+
  show "pc \<in> set pcs \<Longrightarrow> Handle pc file s = (r, s') \<Longrightarrow> deleted s' = deleted s" using keepsD[OF k(1) refl] .
  show "saver = Some sv \<Longrightarrow> SaveFile (as_storage sv) p d s = (r, s') \<Longrightarrow> deleted s' = deleted s" using keepsD[OF k(2) refl] .
  show "Alerters_AlertError al e s = (r, s') \<Longrightarrow> deleted s' = deleted s" using keepsD[OF k(3) refl] .
qed

lemma handle_each_keeps:
  assumes "handlers_ok deleted pcs saver al"
  shows "set ps \<subseteq> set pcs \<Longrightarrow> handle_each ps file el s = (r, s') \<Longrightarrow> deleted s' = deleted s"
proof (induction ps arbitrary: el s)
  case (Cons q ps)
  obtain e1 s1 where h: "Handle q file s = (e1, s1)" by fastforce
  have "deleted s1 = deleted s" using handlers_quiet(1)[OF assms _ h] Cons.prems(1) by simp
  with Cons h show ?case by (auto split: option.splits)
qed simp

lemma odfi_processFile_keeps:
  assumes "handlers_ok deleted pcs saver (ol_alerters Q)" and "odfi_processFile Q day path saver v pcs s = (r, s')"
  shows "deleted s' = deleted s"
proof -
  have save: "deleted s1 = deleted s" if "AuditSaver_save saver p d s = (e, s1)" for p d e s s1
    using that handlers_quiet(2)[OF assms(1)] unfolding AuditSaver_save_def
    by (simp split: option.splits if_splits)
  have handle: "deleted s1 = deleted s" if "HandleAll pcs f s = (e, s1)" for f e s s1
    using that handle_each_keeps[OF assms(1) order_refl] by (auto simp: HandleAll_def split: prod.splits)
  have alert: "deleted s1 = deleted s" if "Alerters_AlertError (ol_alerters Q) x s = (e, s1)" for x e s s1
    using handlers_quiet(3)[OF assms(1) that] .
  show ?thesis
  proof (cases "local_ReadFile (ol_disk Q) path s")
    case (Inl e)
    with assms(2) show ?thesis by (simp add: odfi_processFile_def)
  next
    case (Inr raw)
    obtain f re where rd: "ach_Read (ol_ach Q) (Some (v\<lparr>AllowMissingFileControl := True, AllowMissingFileHeader := True,
        AllowUnorderedBatchNumbers := True\<rparr>)) (TrimSpace raw) = (f, re)" by fastforce
    obtain dir name where sp: "filepath_Split path = (dir, name)" by fastforce
    let ?g = "populateHashes (ol_ach Q) (ol_sha1 Q) (f\<lparr>file_ID := ol_sha1 Q (TrimSpace raw)\<rparr>)"
    let ?p = "\<lambda>sv. ''odfi/'' @ as_hostname sv @ ''/'' @ filepath_Base dir @ ''/'' @ day @ ''/'' @ name"
    obtain e1 s1 where a: "(case saver of None \<Rightarrow> (None, s) | Some sv \<Rightarrow>
        (case AuditSaver_save saver (?p sv) (TrimSpace raw) s of
           (Some e, s1) \<Rightarrow> (Some (errorf_v (''audittrail '' @ ?p sv @ '' error: '') e), s1) | (None, s1) \<Rightarrow> (None, s1))) = (e1, s1)"
      by fastforce
    have d1: "deleted s1 = deleted s" using a save by (auto split: option.splits prod.splits)
    obtain e2 s2 where h: "HandleAll pcs \<lparr>Filepath = path, odfi_ACHFile = Some ?g\<rparr> s1 = (e2, s2)" by fastforce
    note d2 = handle[OF h]
    note run = assms(2)[unfolded odfi_processFile_def Inr Let_def sum.case rd prod.case sp a h]
    show ?thesis
    proof (cases "re = None \<or> errors_Is (the re) FileHeaderMissing")
      case False
      with run show ?thesis by auto
    next
      case True
      then have "\<not> (case re of None \<Rightarrow> False | Some e \<Rightarrow> \<not> errors_Is e FileHeaderMissing)" by (auto split: option.splits)
      with run d1 d2 show ?thesis
        by (cases e1; cases e2) (auto split: prod.splits option.splits dest: alert)
    qed
  qed
qed

lemma each_path_keeps:
  assumes "\<And>p s r s'. f p s = (r, s') \<Longrightarrow> deleted s' = deleted s"
  shows "each_path f ps el s = (r, s') \<Longrightarrow> deleted s' = deleted s"
  by (induction ps arbitrary: el s) (auto split: prod.splits dest: assms)

lemma ProcessFiles_keeps:
  assumes "handlers_ok deleted pcs saver (ol_alerters Q)" and "ProcessFiles Q day dl saver v pcs agent s = (r, s')"
  shows "deleted s' = deleted s"
proof -
  have "deleted s' = deleted s" if "processDir Q day dir saver v pcs s = (r, s')" for dir s r s'
    using that each_path_keeps[where deleted = deleted, OF odfi_processFile_keeps[OF assms(1)]]
    by (auto simp: processDir_def split: sum.splits prod.splits)
  then show ?thesis
    using assms(2) by (auto simp: ProcessFiles_def Let_def split: prod.splits option.splits elim!: each_path_keeps[rotated])
qed

subsection \<open>What cleaning up deletes\<close>

text \<open>
  The invariant of cleaning up: nothing appears on the local disk, and what is deleted beyond
  \<open>old\<close> carries the name of a file that was in a download directory.
\<close>

definition download_name :: "'s local_disk \<Rightarrow> 's agent \<Rightarrow> string \<Rightarrow> path set \<Rightarrow> string \<Rightarrow> bool" where
  "download_name D agent dl files x \<longleftrightarrow>
     (\<exists>sub\<in>set (agent_paths agent). \<exists>n. x = filepath_Join [sub, filepath_Base n] \<and> local_path D (filepath_Join [dl, sub]) @ [n] \<in> files)"

definition cleaning ::
  "('s \<Rightarrow> string set) \<Rightarrow> 's local_disk \<Rightarrow> 's agent \<Rightarrow> string \<Rightarrow> string set \<Rightarrow> path set \<Rightarrow> 's \<Rightarrow> bool" where
  "cleaning deleted D agent dl old files s \<longleftrightarrow>
     fst ` set (disk_of D s) \<subseteq> files \<and> (\<forall>x\<in>deleted s. x \<in> old \<or> download_name D agent dl files x)"

lemma listed_on_disk:
  assumes "local_ReadDir D p s = Inr es" and "n \<in> set (map fst es)"
  shows "local_path D p @ [n] \<in> fst ` set (disk_of D s)"
proof -
  have "es = sort_key fst (children (disk_of D s) (local_path D p))"
    using assms(1) by (auto simp: local_ReadDir_def os_ReadDir_def split: sum.splits node.splits)
  with assms(2) obtain k m where km: "(k, m) \<in> set (disk_of D s)" "k \<noteq> []" "butlast k = local_path D p" "last k = n"
    by (auto simp: children_def)
  then have "k = local_path D p @ [n]" by (metis append_butlast_last_id)
  with km(1) show ?thesis by force
qed

lemma cleaning_delete:
  assumes "server_ok deleted D agent" and "cleaning deleted D agent dl old files s" and "sub \<in> set (agent_paths agent)"
    and "local_path D (filepath_Join [dl, sub]) @ [n] \<in> files"
    and "Delete agent (filepath_Join [sub, filepath_Base n]) s = (e, s')"
  shows "cleaning deleted D agent dl old files s'"
proof -
  have "deleted s' \<subseteq> insert (filepath_Join [sub, filepath_Base n]) (deleted s)" "disk_of D s' = disk_of D s"
    using assms(1,5) unfolding server_ok_def by blast+
  moreover have "download_name D agent dl files (filepath_Join [sub, filepath_Base n])"
    using assms(3,4) unfolding download_name_def by blast
  ultimately show ?thesis using assms(2) unfolding cleaning_def by (metis insert_iff subset_iff)
qed

lemma cleaning_put:
  "disk_ok deleted D \<Longrightarrow> cleaning deleted D agent dl old files s \<Longrightarrow> set d \<subseteq> set (disk_of D s) \<Longrightarrow>
     cleaning deleted D agent dl old files (put_disk D d s)"
  unfolding cleaning_def disk_ok_def by (auto 0 3)

lemma delete_remote_cleaning:
  assumes "server_ok deleted D agent" and "sub \<in> set (agent_paths agent)"
  shows "\<forall>n\<in>set ns. local_path D (filepath_Join [dl, sub]) @ [n] \<in> files \<Longrightarrow> cleaning deleted D agent dl old files s \<Longrightarrow>
    delete_remote agent sub ns el s = (r, s') \<Longrightarrow> cleaning deleted D agent dl old files s'"
proof (induction ns arbitrary: el s)
  case (Cons n ns)
  obtain e s1 where d: "Delete agent (filepath_Join [sub, filepath_Base n]) s = (e, s1)" by fastforce
  have "cleaning deleted D agent dl old files s1" by (rule cleaning_delete[OF assms(1) Cons.prems(2) assms(2) _ d]) (use Cons.prems(1) in simp)
  with Cons d show ?case by (auto split: option.splits)
qed simp

lemma deleteFilesOnRemote_cleaning:
  assumes "server_ok deleted D agent" and "sub \<in> set (agent_paths agent)" and "cleaning deleted D agent dl old files s"
    and "deleteFilesOnRemote D agent dl sub s = (r, s')"
  shows "cleaning deleted D agent dl old files s'"
proof (cases "local_ReadDir D (filepath_Join [dl, sub]) s")
  case (Inl e)
  with assms(3,4) show ?thesis by (simp add: deleteFilesOnRemote_def)
next
  case (Inr es)
  have n: "\<forall>n\<in>set (map fst es). local_path D (filepath_Join [dl, sub]) @ [n] \<in> files"
    using listed_on_disk[OF Inr] assms(3) unfolding cleaning_def by blast
  obtain el s1 where d: "delete_remote agent sub (map fst es) [] s = (el, s1)" by fastforce
  have "s' = s1" using assms(4) Inr d by (simp add: deleteFilesOnRemote_def Let_def)
  with delete_remote_cleaning[OF assms(1,2) n assms(3) d] show ?thesis by simp
qed

lemma delete_empty_cleaning:
  assumes "disk_ok deleted D" and "server_ok deleted D agent" and "sub \<in> set (agent_paths agent)"
  shows "\<forall>n\<in>set ns. local_path D (filepath_Join [dl, sub]) @ [n] \<in> files \<Longrightarrow> cleaning deleted D agent dl old files s \<Longrightarrow>
    delete_empty D agent base sub ns el s = (r, s') \<Longrightarrow> cleaning deleted D agent dl old files s'"
proof (induction ns arbitrary: el s)
  case (Cons n ns)
  let ?s = "put_disk D (os_Remove (disk_of D s) (local_path D n)) s"
  obtain e s1 where d: "Delete agent (filepath_Join [sub, filepath_Base n]) ?s = (e, s1)" by fastforce
  have "cleaning deleted D agent dl old files ?s"
    by (rule cleaning_put[OF assms(1) Cons.prems(2)]) (auto simp: os_Remove_def)
  then have "cleaning deleted D agent dl old files s1"
    by (rule cleaning_delete[OF assms(2) _ assms(3) _ d]) (use Cons.prems(1) in simp)
  with Cons d show ?case by (auto split: sum.splits node.splits list.splits)
qed simp

lemma deleteEmptyFiles_cleaning:
  assumes "disk_ok deleted D" and "server_ok deleted D agent" and "sub \<in> set (agent_paths agent)"
    and "cleaning deleted D agent dl old files s" and "deleteEmptyFiles D agent dl sub s = (r, s')"
  shows "cleaning deleted D agent dl old files s'"
proof (cases "local_ReadDir D (filepath_Join [dl, sub]) s")
  case (Inl e)
  with assms(4,5) show ?thesis by (simp add: deleteEmptyFiles_def)
next
  case (Inr es)
  have n: "\<forall>n\<in>set (map fst es). local_path D (filepath_Join [dl, sub]) @ [n] \<in> files"
    using listed_on_disk[OF Inr] assms(4) unfolding cleaning_def by blast
  obtain el s1 where d: "delete_empty D agent (filepath_Join [dl, sub]) sub (map fst es) [] s = (el, s1)" by fastforce
  have "s' = s1" using assms(5) Inr d by (simp add: deleteEmptyFiles_def Let_def)
  with delete_empty_cleaning[OF assms(1-3) n assms(4) d] show ?thesis by simp
qed

lemma each_path_inv:
  assumes "\<And>p s r s'. p \<in> P \<Longrightarrow> I s \<Longrightarrow> f p s = (r, s') \<Longrightarrow> I s'"
  shows "set ps \<subseteq> P \<Longrightarrow> I s \<Longrightarrow> each_path f ps el s = (r, s') \<Longrightarrow> I s'"
  by (induction ps arbitrary: el s) (auto split: prod.splits dest: assms)

lemma RemoveAll_cleaning:
  assumes "disk_ok deleted D" and "cleaning deleted D agent dl old files s" and "local_RemoveAll D p s = (r, s')"
  shows "cleaning deleted D agent dl old files s'"
proof (cases "blocked (disk_of D s) (local_path D p)")
  case True
  with assms(2,3) show ?thesis by (simp add: local_RemoveAll_def on_local_def os_RemoveAll_def)
next
  case False
  with assms(3) have "s' = put_disk D (filter (\<lambda>kv. \<not> prefix (local_path D p) (fst kv)) (disk_of D s)) s"
    by (simp add: local_RemoveAll_def on_local_def os_RemoveAll_def)
  then show ?thesis using cleaning_put[OF assms(1,2)] by auto
qed

lemma remove_empty_cleaning:
  assumes "disk_ok deleted D"
  shows "cleaning deleted D agent dl old files s \<Longrightarrow> remove_empty D dl ks s = (r, s') \<Longrightarrow> cleaning deleted D agent dl old files s'"
proof (induction ks arbitrary: s)
  case (Cons k ks)
  obtain kind sub where k: "k = (kind, sub)" by fastforce
  obtain e s1 where rm: "local_RemoveAll D (filepath_Join [dl, sub]) s = (e, s1)" by fastforce
  note c = RemoveAll_cleaning[OF assms Cons.prems(1) rm]
  show ?case
  proof (cases "local_ReadDir D (filepath_Join [dl, sub]) s = Inr []")
    case True
    with Cons.prems(2) Cons.IH[OF c] rm k c show ?thesis by (cases e) simp_all
  next
    case False
    with Cons.prems(2) Cons.IH[OF Cons.prems(1)] k show ?thesis by simp
  qed
qed simp

lemma after_processing_cleaning:
  assumes "disk_ok deleted D" and "server_ok deleted D agent" and "cleaning deleted D agent dl old files s"
    and "after_processing D st agent dl s = (r, s')"
  shows "cleaning deleted D agent dl old files s'"
proof -
  let ?I = "cleaning deleted D agent dl old files"
  have c1: "?I s1" if "?I s" "odfi_Cleanup D agent dl s = (e, s1)" for s e s1
  proof -
    obtain el s2 where e: "each_path (deleteFilesOnRemote D agent dl) (agent_paths agent) [] s = (el, s2)" by fastforce
    have f: "?I v'" if "q \<in> set (agent_paths agent)" "?I v" "deleteFilesOnRemote D agent dl q v = (r, v')" for q v r v'
      by (rule deleteFilesOnRemote_cleaning[OF assms(2) that])
    have "?I s2" by (rule each_path_inv[where I = ?I, OF f order_refl that(1) e])
    with that(2) e show ?thesis by (simp add: odfi_Cleanup_def)
  qed
  have c2: "?I s1" if "?I s" "CleanupEmptyFiles D agent dl s = (e, s1)" for s e s1
  proof -
    let ?f = "\<lambda>p s. if isl (os_stat (disk_of D s) (local_path D (filepath_Join [dl, p]))) then (None, s) else deleteEmptyFiles D agent dl p s"
    obtain el s2 where e: "each_path ?f (agent_paths agent) [] s = (el, s2)" by fastforce
    have f: "?I v'" if "q \<in> set (agent_paths agent)" "?I v" "?f q v = (r, v')" for q v r v'
      using that deleteEmptyFiles_cleaning[OF assms(1,2) that(1,2)] by (simp split: if_splits)
    have "?I s2" by (rule each_path_inv[where I = ?I, OF f order_refl that(1) e])
    with that(2) e show ?thesis by (simp add: CleanupEmptyFiles_def)
  qed
  obtain e1 s1 where x1: "(if \<not> KeepRemoteFiles st then odfi_Cleanup D agent dl s else (None, s)) = (e1, s1)" by fastforce
  have s1: "?I s1" using x1 c1[OF assms(3)] assms(3) by (cases "KeepRemoteFiles st") simp_all
  obtain e2 s2 where x2: "(if RemoveZeroByteFiles st then CleanupEmptyFiles D agent dl s1 else (None, s1)) = (e2, s2)" by fastforce
  have s2: "?I s2" using x2 c2[OF s1] s1 by (cases "RemoveZeroByteFiles st") simp_all
  have last: "?I s'" if "(if CleanupLocalDirectory st then deleteFiles D dl s2 else deleteEmptyDirs D dl agent s2) = (r, s')"
    using that RemoveAll_cleaning[OF assms(1) s2] remove_empty_cleaning[OF assms(1) s2]
    by (cases "CleanupLocalDirectory st") (simp_all add: deleteFiles_def deleteEmptyDirs_def del: remove_empty.simps)
  show ?thesis
  proof (cases e1)
    case (Some y)
    with assms(4) s1 show ?thesis by (simp add: after_processing_def x1)
  next
    case None
    with assms(4) s2 last show ?thesis by (cases e2) (simp_all only: after_processing_def x1 x2 prod.case option.case prod.inject)
  qed
qed

text \<open>
  C18. A tick deletes a file on the ODFI's server only if everything it downloaded was processed
  without an error, and only files whose names were in the download directory then.
\<close>

theorem remote_files_deleted_after_processing:
  assumes "disk_ok deleted (sc_disk Q)"
    and "\<forall>agent c1. upload_New (dialing (sc_outside Q)) (retrying (sc_outside Q)) (mock_agent (sc_outside Q)) (ps_uploadAgents p)
        (sh_UploadAgent shard) created = (Inr agent, c1) \<longrightarrow> server_ok deleted (sc_disk Q) agent"
    and "\<forall>host saver. newAuditSaver (sc_bucket Q) (sc_gpg Q) (sc_mock_audit Q) host (od_Audit (ps_odfi p)) = Inr saver \<longrightarrow>
        handlers_ok deleted (ps_processors p) saver (ps_alerters p)"
    and "odfi_tick Q p k shard (created, s) = (e, created', s')" and "x \<in> deleted s'" and "x \<notin> deleted s"
  shows "\<exists>agent dl saver s1 s2. CopyFilesFromRemote (sc_disk Q) (ps_baseDir p) (sc_random Q k) agent s = (Inr dl, s1) \<and>
    ProcessFiles \<lparr>ol_ach = lib (sc_outside Q), ol_sha1 = sc_sha1 Q, ol_alerters = ps_alerters p, ol_disk = sc_disk Q\<rparr> (sc_day Q k)
      dl saver (Validation (od_Processors (ps_odfi p))) (ps_processors p) agent s1 = (None, s2) \<and>
    download_name (sc_disk Q) agent dl (fst ` set (disk_of (sc_disk Q) s2)) x"
proof -
  let ?X = "sc_outside Q" and ?D = "sc_disk Q"
  let ?Q = "\<lparr>ol_ach = lib ?X, ol_sha1 = sc_sha1 Q, ol_alerters = ps_alerters p, ol_disk = ?D\<rparr>"
  obtain a c1 where a: "upload_New (dialing ?X) (retrying ?X) (mock_agent ?X) (ps_uploadAgents p) (sh_UploadAgent shard) created = (a, c1)" by fastforce
  show ?thesis
  proof (cases a)
    case (Inl y)
    with a assms(4-6) show ?thesis by (simp add: odfi_tick_def Let_def)
  next
    case (Inr agent)
    note srv = assms(2)[rule_format, OF a[unfolded Inr]]
    obtain c s1 where c: "CopyFilesFromRemote ?D (ps_baseDir p) (sc_random Q k) agent s = (c, s1)" by fastforce
    have s1: "deleted s1 = deleted s" by (rule CopyFilesFromRemote_keeps[OF assms(1) srv c])
    note run = assms(4)[unfolded odfi_tick_def Let_def prod.case a Inr sum.case c]
    show ?thesis
    proof (cases "isl c \<or> isl (newAuditSaver (sc_bucket Q) (sc_gpg Q) (sc_mock_audit Q) (Hostname agent) (od_Audit (ps_odfi p)))")
      case True
      with run s1 assms(5,6) show ?thesis by (auto simp: isl_def split: sum.splits)
    next
      case False
      then obtain dl saver where dl: "c = Inr dl" and saver: "newAuditSaver (sc_bucket Q) (sc_gpg Q) (sc_mock_audit Q) (Hostname agent)
          (od_Audit (ps_odfi p)) = Inr saver" by (auto simp: isl_def) (metis sum.exhaust)
      obtain e2 s2 where pf: "ProcessFiles ?Q (sc_day Q k) dl saver (Validation (od_Processors (ps_odfi p))) (ps_processors p) agent s1 = (e2, s2)"
        by fastforce
      have s2: "deleted s2 = deleted s"
      proof -
        have "handlers_ok deleted (ps_processors p) saver (ol_alerters ?Q)" using assms(3)[rule_format, OF saver] by simp
        from ProcessFiles_keeps[OF this pf] s1 show ?thesis by simp
      qed
      show ?thesis
      proof (cases e2)
        case (Some y)
        with run dl saver pf s2 assms(5,6) show ?thesis by simp
      next
        case None
        then have after: "after_processing ?D (od_Storage (ps_odfi p)) agent dl s2 = (e, s')"
          using run dl saver pf by (auto split: prod.splits)
        have "cleaning deleted ?D agent dl (deleted s) (fst ` set (disk_of ?D s2)) s2"
          by (simp add: cleaning_def s2)
        from after_processing_cleaning[OF assms(1) srv this after]
        have "cleaning deleted ?D agent dl (deleted s) (fst ` set (disk_of ?D s2)) s'" .
        with assms(5,6) have "download_name ?D agent dl (fst ` set (disk_of ?D s2)) x" unfolding cleaning_def by blast
        with c dl pf None show ?thesis by blast
      qed
    qed
  qed
qed

text \<open>A server with one inbound file.\<close>

record odfi_state =
  od_disk :: os
  od_deleted :: "string list"

definition od_server :: "odfi_state agent" where
  "od_server = sample_agent\<lparr>GetInboundFiles := (\<lambda>s. (([''in/a.txt''], None), s)), InboundPath := ''in'', ReconciliationPath := ''rec'',
     ReturnPath := ''ret'', ReadFile := (\<lambda>p s. ((Some (p, ''x''), None), s)),
     Delete := (\<lambda>p s. (None, s\<lparr>od_deleted := p # od_deleted s\<rparr>))\<rparr>"

definition od_local :: "odfi_state local_disk" where
  "od_local = \<lparr>disk_of = od_disk, put_disk = (\<lambda>d s. s\<lparr>od_disk := d\<rparr>), Getwd = ''/w''\<rparr>"

definition od_scheduler_lib :: "odfi_state scheduler_lib" where
  "od_scheduler_lib = \<lparr>sc_outside = sample_outside\<lparr>mock_agent := od_server\<rparr>, sc_sha1 = (\<lambda>b. b), sc_disk = od_local,
     sc_bucket = (\<lambda>_. Inl ENOENT), sc_gpg = plain_gpg, sc_mock_audit = sample_audit, sc_day = (\<lambda>_. ''2025-01-02''), sc_random = (\<lambda>_. ''7'')\<rparr>"

definition od_scheduler :: "odfi_state PeriodicScheduler" where
  "od_scheduler = \<lparr>ps_odfi = \<lparr>od_Processors = \<lparr>Corrections = \<lparr>cor_Enabled = False, cor_PathMatcher = []\<rparr>,
         Incoming = \<lparr>inc_Enabled = False, inc_PathMatcher = [], ExcludeCorrections = False, ExcludePrenotes = False,
           ExcludeReturns = False, ExcludeReconciliations = False\<rparr>,
         Recon = \<lparr>rec_Enabled = False, rec_PathMatcher = [], ProduceFileEvents = False, ProduceEntryEvents = False\<rparr>,
         Prenotes = \<lparr>pre_Enabled = False, pre_PathMatcher = []\<rparr>, Returns = \<lparr>ret_Enabled = False, ret_PathMatcher = []\<rparr>,
         Validation = zero_opts\<rparr>,
       od_Interval = 1, od_ShardNames = [''prod''],
       od_Storage = \<lparr>st_Directory = ''storage'', CleanupLocalDirectory = True, KeepRemoteFiles = False, RemoveZeroByteFiles = False\<rparr>,
       od_Audit = None\<rparr>,
     ps_sharding = \<lparr>Shards = [sample_shard], Mappings = [], Default = ''prod''\<rparr>, ps_uploadAgents = sample_agents\<lparr>ua_Retry := None\<rparr>,
     ps_baseDir = ''storage'', ps_processors = [], ps_alerters = []\<rparr>"

definition od_start :: odfi_state where
  "od_start = \<lparr>od_disk = [([''w''], Dir), ([''w'', ''storage''], Dir)], od_deleted = []\<rparr>"

lemma one_deleted: "od_deleted (snd (snd (odfi_tick od_scheduler_lib od_scheduler 0 sample_shard ([], od_start)))) = [''in/a.txt'']"
  by code_simp

lemma od_server_made:
  "upload_New (dialing (sc_outside od_scheduler_lib)) (retrying (sc_outside od_scheduler_lib)) (mock_agent (sc_outside od_scheduler_lib))
     (ps_uploadAgents od_scheduler) (sh_UploadAgent sample_shard) [] = (Inr od_server, [od_server])"
  by (simp add: upload_New_def build_agent_def UploadAgents_Find_def od_scheduler_lib_def od_scheduler_def sample_agents_def plain_agents_def
      plain_agent_cfg_def sample_outside_def sample_shard_def)

lemma remote_files_deleted_after_processing_witness:
  "\<exists>agent dl s1 s2. CopyFilesFromRemote od_local ''storage'' ''7'' agent od_start = (Inr dl, s1) \<and>
    download_name od_local agent dl (fst ` set (od_disk (s2 :: odfi_state))) ''in/a.txt''"
proof -
  let ?r = "odfi_tick od_scheduler_lib od_scheduler 0 sample_shard ([], od_start)" and ?del = "\<lambda>s. set (od_deleted s)"
  have r: "?r = (fst ?r, fst (snd ?r), snd (snd ?r))" by simp
  have d: "disk_ok ?del (sc_disk od_scheduler_lib)" by (simp add: disk_ok_def od_scheduler_lib_def od_local_def)
  have srv: "server_ok ?del (sc_disk od_scheduler_lib) od_server"
    by (auto simp: server_ok_def keeps_def od_server_def sample_agent_def od_scheduler_lib_def od_local_def)
  have h: "\<forall>host saver. newAuditSaver (sc_bucket od_scheduler_lib) (sc_gpg od_scheduler_lib) (sc_mock_audit od_scheduler_lib) host
      (od_Audit (ps_odfi od_scheduler)) = Inr saver \<longrightarrow> handlers_ok ?del (ps_processors od_scheduler) saver (ps_alerters od_scheduler)"
    by (auto simp: handlers_ok_def keeps_def newAuditSaver_def od_scheduler_def Alerters_AlertError_def split: option.split)
  have x: "''in/a.txt'' \<in> ?del (snd (snd ?r))" "''in/a.txt'' \<notin> ?del od_start" using one_deleted by (simp_all add: od_start_def)
  have srv_made: "\<forall>agent c1. upload_New (dialing (sc_outside od_scheduler_lib)) (retrying (sc_outside od_scheduler_lib))
      (mock_agent (sc_outside od_scheduler_lib)) (ps_uploadAgents od_scheduler) (sh_UploadAgent sample_shard) [] = (Inr agent, c1) \<longrightarrow>
      server_ok ?del (sc_disk od_scheduler_lib) agent"
    using srv unfolding od_server_made by simp
  obtain agent dl s1 s2 where
    "CopyFilesFromRemote (sc_disk od_scheduler_lib) (ps_baseDir od_scheduler) (sc_random od_scheduler_lib 0) agent od_start = (Inr dl, s1)"
    "download_name (sc_disk od_scheduler_lib) agent dl (fst ` set (disk_of (sc_disk od_scheduler_lib) s2)) ''in/a.txt''"
    using remote_files_deleted_after_processing[OF d srv_made h r x] by blast
  moreover have "sc_disk od_scheduler_lib = od_local" "ps_baseDir od_scheduler = ''storage''" "sc_random od_scheduler_lib 0 = ''7''"
    "disk_of od_local = od_disk" by (simp_all add: od_scheduler_lib_def od_scheduler_def od_local_def)
  ultimately show ?thesis by (intro exI[where x = agent] exI[where x = dl] exI[where x = s1] exI[where x = s2]) simp
qed

end
