(* ===== verification/Web.thy ===== *)
theory Web
  imports Receiver
begin

text \<open>
  The HTTP API for files (\<open>internal/incoming/web/api_files.go\<close>): a request publishes an event,
  registers a channel under its file id and waits on it; two listeners pass the responses of
  the file receiver on to the channels.

  Channels are numbered in the order they are made; each holds at most one response, and
  sending to a full one blocks (the outcome \<open>None\<close>, with the lock held). A request is cut in
  two at its \<open>select\<close>: what happens before it waits, and what it answers.
\<close>

section \<open>Waiting\<close>

record 'r waiting =
  active :: "string \<rightharpoonup> nat"
  chan_of :: "nat \<Rightarrow> 'r list"
  made :: nat

definition no_waiting :: "'r waiting" where
  "no_waiting = \<lparr>active = Map.empty, chan_of = (\<lambda>_. []), made = 0\<rparr>"

definition register :: "string \<Rightarrow> 'r waiting \<Rightarrow> 'r waiting" where
  "register fileID c = c\<lparr>active := (active c)(fileID \<mapsto> made c), made := Suc (made c)\<rparr>"

text \<open>One round of a listener, for the response \<open>resp\<close> about the file \<open>respID\<close>.\<close>

definition deliver :: "string \<Rightarrow> 'r \<Rightarrow> 'r waiting \<Rightarrow> 'r waiting option" where
  "deliver respID resp c =
     (let fileID = TrimSuffix respID ''.ach'' in
      case active c fileID of
        None \<Rightarrow> Some c
      | Some out \<Rightarrow>
          if chan_of c out \<noteq> [] then None
          else Some (c\<lparr>chan_of := (chan_of c)(out := [resp]), active := (active c)(fileID := None)\<rparr>))"

text \<open>What the request waiting on a channel goes on with: the response, or after ten seconds a made-up one.\<close>

definition take_or_timeout :: "nat \<Rightarrow> 'r \<Rightarrow> 'r waiting \<Rightarrow> 'r \<times> 'r waiting" where
  "take_or_timeout ch timeout c =
     (case chan_of c ch of
        [] \<Rightarrow> (timeout, c)
      | r # rs \<Rightarrow> (r, c\<lparr>chan_of := (chan_of c)(ch := rs)\<rparr>))"

record 's FilesController =
  fc_http :: HTTPConfig
  fc_publisher :: "'s publisher"

record controller_state =
  queueFiles :: "queue_response waiting"
  cancellations :: "cancel_response waiting"

definition listenForQueueACHFileResponses :: "queue_response \<Rightarrow> controller_state \<Rightarrow> controller_state option" where
  "listenForQueueACHFileResponses resp c =
     map_option (\<lambda>q. c\<lparr>queueFiles := q\<rparr>) (deliver (qr_FileID resp) resp (queueFiles c))"

definition listenForCancellations :: "cancel_response \<Rightarrow> controller_state \<Rightarrow> controller_state option" where
  "listenForCancellations cancel c =
     map_option (\<lambda>q. c\<lparr>cancellations := q\<rparr>) (deliver (resp_FileID cancel) cancel (cancellations c))"

section \<open>Queueing a file\<close>

text \<open>The body may fail while it is read. A body over the limit is cut off.\<close>

definition readBody :: "event_lib \<Rightarrow> HTTPConfig \<Rightarrow> bytes \<times> err option \<Rightarrow> err + bytes" where
  "readBody E cfg body =
     (let n = nat (http_MaxBodyBytes cfg);
          read = (if http_MaxBodyBytes cfg > 0 \<and> n \<le> length (fst body) then (take n (fst body), None) else body)
      in (case snd read of
            Some e \<Rightarrow> Inl e
          | None \<Rightarrow> compliance_Reveal (crypto E) (http_Transform cfg) (fst read)))"

text \<open>The event's type is \<open>incoming.ACHFile\<close>, whose name is written into the JSON.\<close>

definition publishFile ::
  "event_lib \<Rightarrow> 's FilesController \<Rightarrow> string \<Rightarrow> string \<Rightarrow> ach_file \<Rightarrow> controller_state \<times> 's \<Rightarrow> err option \<times> controller_state \<times> 's" where
  "publishFile E fc shardKey fileID f st =
     (let c1 = (fst st)\<lparr>queueFiles := register fileID (queueFiles (fst st))\<rparr>;
          J = (json E)\<lparr>json_event := (\<lambda>p _. json_event (json E) p ''ACHFile'')\<rparr>
      in (case Protect J (crypto E) (event_nonce E) (http_Transform (fc_http fc))
                 (QueueACHFile \<lparr>FileID = fileID, FileShardKey = shardKey, File = Some f\<rparr>) of
            Inl e \<Rightarrow> (Some (errorf_v ''unable to protect incoming file event: '' e), c1, snd st)
          | Inr bs \<Rightarrow> (case pub_Send (fc_publisher fc) bs (snd st) of (e, s1) \<Rightarrow> (e, c1, s1))))"

text \<open>What a request does before it waits: a status, or the channel to wait on.\<close>

definition CreateFileHandler ::
  "event_lib \<Rightarrow> 's FilesController \<Rightarrow> string \<Rightarrow> string \<Rightarrow> bytes \<times> err option \<Rightarrow> controller_state \<times> 's
     \<Rightarrow> (nat + nat) \<times> controller_state \<times> 's" where
  "CreateFileHandler E fc shardKey fileID body st =
     (if shardKey = [] \<or> fileID = [] then (Inl 400, st)
      else (case readBody E (fc_http fc) body of
              Inl _ \<Rightarrow> (Inl 400, st)
            | Inr bs \<Rightarrow>
                (case (case ach_Read (event_ach E) None bs of
                         (f, None) \<Rightarrow> Some f
                       | (_, Some _) \<Rightarrow> (case FileFromJSON (event_ach E) bs of Inr (Some f) \<Rightarrow> Some f | _ \<Rightarrow> None)) of
                   None \<Rightarrow> (Inl 400, st)
                 | Some f \<Rightarrow>
                     (case publishFile E fc shardKey fileID f st of
                        (Some _, st1) \<Rightarrow> (Inl 500, st1)
                      | (None, st1) \<Rightarrow> (Inr (made (queueFiles (fst st))), st1)))))"

definition create_answer :: "string \<Rightarrow> string \<Rightarrow> nat \<Rightarrow> controller_state \<Rightarrow> queue_response \<times> controller_state" where
  "create_answer shardKey fileID ch c =
     (case take_or_timeout ch \<lparr>qr_FileID = fileID, qr_ShardKey = shardKey, qr_Error = ''timeout exceeded''\<rparr> (queueFiles c) of
        (r, q) \<Rightarrow> (r, c\<lparr>queueFiles := q\<rparr>))"

section \<open>Cancelling a file\<close>

definition web_cancelFile ::
  "event_lib \<Rightarrow> 's FilesController \<Rightarrow> string \<Rightarrow> string \<Rightarrow> controller_state \<times> 's \<Rightarrow> err option \<times> controller_state \<times> 's" where
  "web_cancelFile E fc shardKey fileID st =
     (let c1 = (fst st)\<lparr>cancellations := register fileID (cancellations (fst st))\<rparr>
      in (case Protect (json E) (crypto E) (event_nonce E) (http_Transform (fc_http fc))
                 (CancelACHFile \<lparr>cancel_FileID = fileID, cancel_ShardKey = shardKey\<rparr>) of
            Inl e \<Rightarrow> (Some (errorf_v ''unable to protect cancel file event: '' e), c1, snd st)
          | Inr bs \<Rightarrow> (case pub_Send (fc_publisher fc) bs (snd st) of (e, s1) \<Rightarrow> (e, c1, s1))))"

definition CancelFileHandler ::
  "event_lib \<Rightarrow> 's FilesController \<Rightarrow> string \<Rightarrow> string \<Rightarrow> controller_state \<times> 's \<Rightarrow> (nat + nat) \<times> controller_state \<times> 's" where
  "CancelFileHandler E fc shardKey fileID st =
     (if shardKey = [] \<or> fileID = [] then (Inl 400, st)
      else (case web_cancelFile E fc shardKey (TrimSuffix fileID ''.ach'') st of
              (Some _, st1) \<Rightarrow> (Inl 500, st1)
            | (None, st1) \<Rightarrow> (Inr (made (cancellations (fst st))), st1)))"

definition cancel_answer :: "string \<Rightarrow> string \<Rightarrow> nat \<Rightarrow> controller_state \<Rightarrow> cancel_response \<times> controller_state" where
  "cancel_answer shardKey fileID ch c =
     (case take_or_timeout ch \<lparr>resp_FileID = TrimSuffix fileID ''.ach'', resp_ShardKey = shardKey, Successful = False\<rparr>
             (cancellations c) of
        (r, q) \<Rightarrow> (r, c\<lparr>cancellations := q\<rparr>))"

section \<open>Who gets which response\<close>

text \<open>
  Requests, responses and answers in any order, for one of the two kinds. The second
  component tells for each channel the file id its request was about.
\<close>

inductive waiting_reach :: "('r \<Rightarrow> string) \<Rightarrow> 'r waiting \<Rightarrow> (nat \<Rightarrow> string) \<Rightarrow> bool" for idf where
  none: "waiting_reach idf no_waiting ids"
| request: "waiting_reach idf c ids \<Longrightarrow> waiting_reach idf (register fileID c) (ids(made c := fileID))"
| response: "waiting_reach idf c ids \<Longrightarrow> deliver (idf r) r c = Some c' \<Longrightarrow> waiting_reach idf c' ids"
| answer: "waiting_reach idf c ids \<Longrightarrow> take_or_timeout ch t c = (r, c') \<Longrightarrow> waiting_reach idf c' ids"

definition waiting_inv :: "('r \<Rightarrow> string) \<Rightarrow> 'r waiting \<Rightarrow> (nat \<Rightarrow> string) \<Rightarrow> bool" where
  "waiting_inv idf c ids \<longleftrightarrow>
     (\<forall>f n. active c f = Some n \<longrightarrow> n < made c \<and> ids n = f \<and> chan_of c n = []) \<and>
     (\<forall>n. made c \<le> n \<longrightarrow> chan_of c n = []) \<and>
     (\<forall>n. chan_of c n = [] \<or> (\<exists>r. chan_of c n = [r] \<and> TrimSuffix (idf r) ''.ach'' = ids n))"

lemma register_inv: "waiting_inv idf c ids \<Longrightarrow> waiting_inv idf (register f c) (ids(made c := f))"
proof -
  assume i: "waiting_inv idf c ids"
  then have "chan_of c (made c) = []" and "\<And>g n. active c g = Some n \<Longrightarrow> n \<noteq> made c"
    unfolding waiting_inv_def by (blast, fastforce)
  with i show ?thesis unfolding waiting_inv_def register_def by (auto simp: less_Suc_eq)
qed

lemma deliver_cases:
  assumes "deliver i r c = Some c'"
  obtains "active c (TrimSuffix i ''.ach'') = None" "c' = c"
  | n where "active c (TrimSuffix i ''.ach'') = Some n" "chan_of c n = []"
      "c' = c\<lparr>chan_of := (chan_of c)(n := [r]), active := (active c)(TrimSuffix i ''.ach'' := None)\<rparr>"
  using assms by (auto simp: deliver_def Let_def split: option.splits if_splits)

lemma deliver_inv:
  assumes "waiting_inv idf c ids" and "deliver (idf r) r c = Some c'"
  shows "waiting_inv idf c' ids"
  using assms(2)
proof (cases rule: deliver_cases)
  case 1
  with assms(1) show ?thesis by simp
next
  case (2 n)
  have n: "n < made c" "ids n = TrimSuffix (idf r) ''.ach''" using assms(1) 2(1) unfolding waiting_inv_def by blast+
  have other: "m \<noteq> n" if "active c f = Some m" "f \<noteq> TrimSuffix (idf r) ''.ach''" for f m
    using assms(1) that n(2) unfolding waiting_inv_def by metis
  show ?thesis using assms(1) n other unfolding 2(3) waiting_inv_def by auto
qed

lemma take_inv:
  assumes "waiting_inv idf c ids" and "take_or_timeout ch t c = (r, c')"
  shows "waiting_inv idf c' ids"
proof (cases "chan_of c ch")
  case Nil
  with assms show ?thesis by (simp add: take_or_timeout_def)
next
  case (Cons x rs)
  then have "rs = []" using assms(1) unfolding waiting_inv_def by (metis list.inject list.distinct(1))
  then have c': "c' = c\<lparr>chan_of := (chan_of c)(ch := [])\<rparr>" using assms(2) Cons by (simp add: take_or_timeout_def)
  from assms(1) show ?thesis unfolding c' waiting_inv_def by simp
qed

lemma waiting_reach_inv: "waiting_reach idf c ids \<Longrightarrow> waiting_inv idf c ids"
proof (induction rule: waiting_reach.induct)
  case (none ids)
  then show ?case by (simp add: waiting_inv_def no_waiting_def)
qed (blast intro: register_inv deliver_inv take_inv)+

lemma one_request: "waiting_reach idf (register f no_waiting) ((\<lambda>_. [])(0 := f))"
  using waiting_reach.request[OF waiting_reach.none[of idf "\<lambda>_. []"], of f] by (simp add: no_waiting_def)

text \<open>
  C25. The listener never blocks on a full channel while it holds the lock, whatever requests,
  responses and timeouts came before.
\<close>

theorem listener_never_blocks:
  assumes "waiting_reach qr_FileID (queueFiles c) ids"
  shows "listenForQueueACHFileResponses resp c \<noteq> None"
proof -
  have "chan_of (queueFiles c) n = []" if "active (queueFiles c) f = Some n" for f n
    using waiting_reach_inv[OF assms] that unfolding waiting_inv_def by blast
  then show ?thesis by (auto simp: listenForQueueACHFileResponses_def deliver_def Let_def split: option.splits)
qed

lemma listener_never_blocks_witness:
  "listenForQueueACHFileResponses \<lparr>qr_FileID = ''a.ach'', qr_ShardKey = ''k'', qr_Error = []\<rparr>
     \<lparr>queueFiles = register ''a'' no_waiting, cancellations = no_waiting\<rparr> \<noteq> None"
  by (rule listener_never_blocks[where ids = "(\<lambda>_. [])(0 := ''a'')"]) (simp add: one_request)

text \<open>
  A request is answered with a response about its own file, up to the suffix \<open>.ach\<close> of the
  response's id, or with the timeout.
\<close>

theorem answered_about_own_file:
  assumes "waiting_reach qr_FileID (queueFiles c) ids" and "ids ch = fileID"
    and "create_answer shardKey fileID ch c = (resp, c')"
  shows "TrimSuffix (qr_FileID resp) ''.ach'' = fileID \<or> qr_Error resp = ''timeout exceeded''"
proof -
  have "chan_of (queueFiles c) ch = [] \<or> (\<exists>r. chan_of (queueFiles c) ch = [r] \<and> TrimSuffix (qr_FileID r) ''.ach'' = fileID)"
    using waiting_reach_inv[OF assms(1)] assms(2) unfolding waiting_inv_def by blast
  with assms(3) show ?thesis by (auto simp: create_answer_def take_or_timeout_def)
qed

lemma created_waits:
  assumes "CreateFileHandler E fc shardKey fileID body (c, s) = (Inr ch, c1, s1)"
  shows "queueFiles c1 = register fileID (queueFiles c) \<and> ch = made (queueFiles c)"
  using assms by (auto simp: CreateFileHandler_def publishFile_def Let_def split: if_splits sum.splits option.splits prod.splits)

text \<open>
  A request that reached its wait is answered with the response to its file, when that
  comes before the timeout and the file's id does not end in \<open>.ach\<close>.
\<close>

lemma create_gets_response:
  assumes "waiting_reach qr_FileID (queueFiles c) ids"
    and "CreateFileHandler E fc shardKey fileID body (c, s) = (Inr ch, c1, s1)"
    and "qr_FileID resp = fileID" and "\<not> HasSuffix fileID ''.ach''"
  shows "\<exists>c2. listenForQueueACHFileResponses resp c1 = Some c2 \<and> fst (create_answer shardKey fileID ch c2) = resp"
proof -
  have "chan_of (queueFiles c) (made (queueFiles c)) = []"
    using waiting_reach_inv[OF assms(1)] unfolding waiting_inv_def by blast
  moreover have "TrimSuffix fileID ''.ach'' = fileID" using assms(4) by (rule TrimSuffix_not)
  ultimately show ?thesis
    using created_waits[OF assms(2)] assms(3)
    by (auto simp: listenForQueueACHFileResponses_def deliver_def register_def create_answer_def take_or_timeout_def)
qed

lemma answered_about_own_file_witness:
  "TrimSuffix ''a'' ''.ach'' = ''a'' \<or> [] = ''timeout exceeded''"
proof -
  let ?c = "register ''a'' no_waiting :: queue_response waiting" and ?r = "\<lparr>qr_FileID = ''a'', qr_ShardKey = ''k'', qr_Error = []\<rparr>"
  have t: "TrimSuffix ''a'' ''.ach'' = ''a''" by code_simp
  obtain c' where c': "deliver (qr_FileID ?r) ?r ?c = Some c'" "chan_of c' 0 = [?r]"
    using t by (simp add: deliver_def register_def no_waiting_def)
  from waiting_reach.response[OF one_request[of qr_FileID "''a''"] c'(1)]
  have "waiting_reach qr_FileID (queueFiles \<lparr>queueFiles = c', cancellations = no_waiting\<rparr>) ((\<lambda>_. [])(0 := ''a''))"
    by simp
  from answered_about_own_file[OF this, of 0 "''a''" "''k''" ?r] c'(2)
  show ?thesis by (simp add: create_answer_def take_or_timeout_def no_waiting_def)
qed

text \<open>
  A file whose id ends in \<open>.ach\<close> is not answered by its response: the listener looks for
  the id without the suffix, the request waits under the id with it, until it times out.
\<close>

theorem suffixed_id_times_out:
  assumes "waiting_reach qr_FileID (queueFiles c) ids"
    and "CreateFileHandler E fc shardKey fileID body (c, s) = (Inr ch, c1, s1)"
    and "qr_FileID resp = fileID" and "HasSuffix fileID ''.ach''"
    and "listenForQueueACHFileResponses resp c1 = Some c2"
  shows "qr_Error (fst (create_answer shardKey fileID ch c2)) = ''timeout exceeded''"
proof -
  note inv = waiting_reach_inv[OF assms(1)]
  have fresh: "chan_of (queueFiles c) ch = []" "active (queueFiles c) f \<noteq> Some ch" for f
    using inv created_waits[OF assms(2)] unfolding waiting_inv_def by (blast, fastforce)
  have ne: "TrimSuffix fileID ''.ach'' \<noteq> fileID" using assms(4) 
    by (auto simp: TrimSuffix_def HasSuffix_def suffix_def)
  have q: "deliver fileID resp (register fileID (queueFiles c)) = Some (queueFiles c2)"
    using assms(5,3) created_waits[OF assms(2)] by (auto simp: listenForQueueACHFileResponses_def)
  have "chan_of (queueFiles c2) ch = []"
    using q
  proof (cases rule: deliver_cases)
    case 1
    with fresh(1) show ?thesis by (simp add: register_def)
  next
    case (2 n)
    then have "n \<noteq> ch" using fresh(2) ne created_waits[OF assms(2)] by (auto simp: register_def)
    with 2 fresh(1) show ?thesis by (simp add: register_def)
  qed
  then show ?thesis by (simp add: create_answer_def take_or_timeout_def)
qed

definition web_controller :: "bytes list FilesController" where
  "web_controller = \<lparr>fc_http = \<lparr>http_BindAddress = [], http_CertFile = [], http_KeyFile = [], http_Transform = None, http_MaxBodyBytes = 0\<rparr>,
     fc_publisher = list_publisher\<rparr>"

definition idle_controller :: controller_state where
  "idle_controller = \<lparr>queueFiles = no_waiting, cancellations = no_waiting\<rparr>"

lemma created:
  "f \<noteq> [] \<Longrightarrow> CreateFileHandler (sample_events sample_lib) web_controller ''k'' f (''x'', None) (idle_controller, []) =
     (Inr 0, \<lparr>queueFiles = register f no_waiting, cancellations = no_waiting\<rparr>, [''ACHFile''])"
  by (simp add: CreateFileHandler_def readBody_def publishFile_def web_controller_def idle_controller_def sample_events_def
      sample_lib_def compliance_Reveal_def Protect_def Event_MarshalJSON_def plain_json_def list_publisher_def no_waiting_def)

lemma idle_reach: "waiting_reach qr_FileID (queueFiles idle_controller) ids"
  by (simp add: idle_controller_def waiting_reach.none)

lemma suffixed_id_times_out_witness:
  "qr_Error (fst (create_answer ''k'' ''a.ach'' 0 \<lparr>queueFiles = register ''a.ach'' no_waiting, cancellations = no_waiting\<rparr>)) =
     ''timeout exceeded''"
proof (rule suffixed_id_times_out[OF idle_reach created])
  show "HasSuffix ''a.ach'' ''.ach''" by code_simp
  show "listenForQueueACHFileResponses \<lparr>qr_FileID = ''a.ach'', qr_ShardKey = ''k'', qr_Error = []\<rparr>
      \<lparr>queueFiles = register ''a.ach'' no_waiting, cancellations = no_waiting\<rparr> =
    Some \<lparr>queueFiles = register ''a.ach'' no_waiting, cancellations = no_waiting\<rparr>"
    by (simp add: listenForQueueACHFileResponses_def deliver_def register_def no_waiting_def TrimSuffix_def suffix_def)
qed simp_all

end
