(* ===== verification/Http_Flow.thy ===== *)
theory Http_Flow
  imports Receiver_Proofs Web
begin

text \<open>
  A file from its HTTP request to the answer: the controller publishes it to the in-memory topic
  and waits (\<open>incoming/web/api_files.go\<close>), the receiver reads the message and accepts it
  (\<open>pipeline/file_receiver.go\<close>), the listener hands the response to the waiting request. The topic is a
  list: what is sent is received as it was sent.
\<close>

section \<open>What is written is read\<close>

text \<open>
  \<open>encoding/json\<close> on a submission: what is written under the type name \<open>ACHFile\<close> is read back with
  its ids, and with a file unless reading it fails.
\<close>

definition submission_json_ok :: "json_lib \<Rightarrow> bool" where
  "submission_json_ok J \<longleftrightarrow>
     (\<forall>q bs. File q \<noteq> None \<longrightarrow> json_event J (QueueACHFile q) ''ACHFile'' = Inr bs \<longrightarrow>
        (\<exists>raw. json_envelope J bs = Inr (''ACHFile'', raw) \<and>
           (\<forall>shell. \<exists>q' e. json_into J raw (QueueACHFile shell) = (QueueACHFile q', e) \<and>
              FileID q' = FileID q \<and> FileShardKey q' = FileShardKey q \<and> (e = None \<longrightarrow> File q' \<noteq> None))))"

lemma submission_published:
  assumes "CreateFileHandler E fc shardKey fileID body (c, s) = (Inr ch, c1, s1)"
  shows "\<exists>f bs data. pub_Send (fc_publisher fc) bs s = (None, s1) \<and> shardKey \<noteq> [] \<and> fileID \<noteq> [] \<and>
    json_event (json E) (QueueACHFile \<lparr>FileID = fileID, FileShardKey = shardKey, File = Some f\<rparr>) ''ACHFile'' = Inr data \<and>
    (crypto_ok (crypto E) (event_nonce E) \<longrightarrow> compliance_Reveal (crypto E) (http_Transform (fc_http fc)) bs = Inr data)"
proof -
  define J where "J = (json E)\<lparr>json_event := (\<lambda>p _. json_event (json E) p ''ACHFile'')\<rparr>"
  from assms obtain f where ids: "shardKey \<noteq> []" "fileID \<noteq> []" and pub: "publishFile E fc shardKey fileID f (c, s) = (None, c1, s1)"
    by (auto simp: CreateFileHandler_def split: if_splits sum.splits option.splits prod.splits)
  let ?evt = "QueueACHFile \<lparr>FileID = fileID, FileShardKey = shardKey, File = Some f\<rparr>"
  from pub obtain bs where bs: "Protect J (crypto E) (event_nonce E) (http_Transform (fc_http fc)) ?evt = Inr bs"
    "pub_Send (fc_publisher fc) bs s = (None, s1)"
    by (auto simp: publishFile_def Let_def J_def split: sum.splits prod.splits)
  then obtain data where data: "Event_MarshalJSON J ?evt = Inr data" by (auto simp: Protect_def split: sum.splits)
  with Protect_Reveal[of "crypto E" "event_nonce E" J, OF _ bs(1)]
  have "crypto_ok (crypto E) (event_nonce E) \<longrightarrow> compliance_Reveal (crypto E) (http_Transform (fc_http fc)) bs = Inr data" by auto
  with ids bs(2) data show ?thesis by (auto simp: Event_MarshalJSON_def J_def)
qed

lemma submission_read:
  assumes "submission_json_ok J" and "File q \<noteq> None" and "json_event J (QueueACHFile q) ''ACHFile'' = Inr data"
  shows "\<exists>q' e. models_Read J L data = (Some (''ACHFile'', Some (QueueACHFile q')), e) \<and>
    FileID q' = FileID q \<and> FileShardKey q' = FileShardKey q \<and> (e = None \<longrightarrow> File q' \<noteq> None)"
proof -
  obtain raw where raw: "json_envelope J data = Inr (''ACHFile'', raw)" and
    into: "\<forall>shell. \<exists>q' e. json_into J raw (QueueACHFile shell) = (QueueACHFile q', e) \<and>
      FileID q' = FileID q \<and> FileShardKey q' = FileShardKey q \<and> (e = None \<longrightarrow> File q' \<noteq> None)"
    using assms unfolding submission_json_ok_def by blast
  obtain shell where "event_shell L (Some zero_opts) ''ACHFile'' = Some (QueueACHFile shell)" by (simp add: event_shell_def)
  moreover obtain q' e where "json_into J raw (QueueACHFile shell) = (QueueACHFile q', e)"
    "FileID q' = FileID q" "FileShardKey q' = FileShardKey q" "e = None \<longrightarrow> File q' \<noteq> None" using into by blast
  ultimately show ?thesis using raw by (cases e) (auto simp: models_Read_def ReadWithOpts_def)
qed

section \<open>Request to answer\<close>

text \<open>A new file that is processed without an error is answered without one.\<close>

lemma processed_new_file:
  assumes "processACHFile V fr now q (ch, s) = (None, ch', s')"
    and "FileID q \<noteq> []" "FileShardKey q \<noteq> []" "File q \<noteq> None"
    and "\<And>e s1. Record (fr_fileRepository fr) (acceptance V now q) s = (Some e, s1) \<Longrightarrow> \<not> errors_Is e UniqueViolation"
  shows "ch' = ch\<lparr>QueueFileResponses := QueueFileResponses ch @
      [\<lparr>qr_FileID = FileID q, qr_ShardKey = FileShardKey q, qr_Error = []\<rparr>]\<rparr>"
  using assms by (auto simp: processACHFile_def ACHFile_Validate_def acceptFile_def Let_def
      split: option.splits prod.splits if_splits)


text \<open>
  Submissions written as their ids, each character after a mark; whatever else was written
  does not read.
\<close>

definition pack :: "string \<Rightarrow> string \<Rightarrow> bytes" where
  "pack i k = CHR ''Q'' # concat (map (\<lambda>c. [CHR ''i'', c]) i) @ concat (map (\<lambda>c. [CHR ''k'', c]) k)"

fun unpack :: "bytes \<Rightarrow> string \<times> string" where
  "unpack (t # c # r) = (case unpack r of (i, k) \<Rightarrow> if t = CHR ''i'' then (c # i, k) else (i, c # k))"
| "unpack _ = ([], [])"

lemma unpack_pack: "unpack (tl (pack i k)) = (i, k)"
proof -
  have "unpack (concat (map (\<lambda>c. [CHR ''k'', c]) k)) = ([], k)" by (induction k) simp_all
  then show ?thesis unfolding pack_def by (induction i) simp_all
qed

definition flow_envelope :: "bytes \<Rightarrow> err + string \<times> bytes" where
  "flow_envelope b =
     (if b \<noteq> [] \<and> hd b = CHR ''Q'' then Inr (''ACHFile'', tl b) else Inl (errors_New ''invalid character''))"

definition flow_into :: "bytes \<Rightarrow> payload \<Rightarrow> payload \<times> err option" where
  "flow_into raw p =
     (case p of
        QueueACHFile _ \<Rightarrow>
          (case unpack raw of (i, k) \<Rightarrow> (QueueACHFile \<lparr>FileID = i, FileShardKey = k, File = Some (sample_file ''1'')\<rparr>, None))
      | _ \<Rightarrow> (p, None))"

definition flow_events :: event_lib where
  "flow_events = \<lparr>json = \<lparr>json_envelope = flow_envelope, json_into = flow_into, json_nil_error = errors_New ''nil'',
       json_event = (\<lambda>p t. case p of QueueACHFile q \<Rightarrow> Inr (pack (FileID q) (FileShardKey q)) | _ \<Rightarrow> Inr t)\<rparr>,
     crypto = plain_crypto, event_nonce = Inr ''no'', event_ach = sample_lib\<rparr>"

definition flow_lib :: "'s receiver_lib" where
  "flow_lib = \<lparr>rl_events = flow_events, rl_pubsub = sample_pubsub, rl_hostname = ''host''\<rparr>"

lemma flow_json_ok: "submission_json_ok (json flow_events)"
  using unpack_pack
  by (auto simp: submission_json_ok_def flow_events_def flow_envelope_def flow_into_def pack_def split: prod.split)

definition posted :: "TransformConfig option \<Rightarrow> bytes list FilesController" where
  "posted t = web_controller\<lparr>fc_http := (fc_http web_controller)\<lparr>http_Transform := t\<rparr>\<rparr>"

lemma posted_sent:
  "CreateFileHandler flow_events (posted None) ''prod'' ''a'' (''x'', None) (idle_controller, []) =
     (Inr 0, \<lparr>queueFiles = register ''a'' no_waiting, cancellations = no_waiting\<rparr>, [] @ [pack ''a'' ''prod''])"
  by (simp add: CreateFileHandler_def readBody_def publishFile_def posted_def web_controller_def idle_controller_def flow_events_def
      sample_lib_def compliance_Reveal_def Protect_def Event_MarshalJSON_def list_publisher_def no_waiting_def)


section \<open>Two transforms\<close>

text \<open>Without Kafka the receiver has no transform configuration.\<close>

lemma reconnect_keeps_transform: "reconnect V fr s = ((e, fr'), s') \<Longrightarrow> fr_transformConfig fr' = fr_transformConfig fr"
  by (auto simp: reconnect_def Let_def split: sum.splits prod.splits option.splits if_splits)

lemma no_kafka_no_transform:
  "pipeline_Start P U V H mock cfg shards repo http s = (Inr fr, s') \<Longrightarrow> in_Kafka (cf_Inbound cfg) = None \<Longrightarrow>
     fr_transformConfig fr = None"
  by (auto simp: pipeline_Start_def newFileReceiver_def dest!: reconnect_keeps_transform split: sum.splits prod.splits option.splits)

text \<open>
  C24. The receiver undoes the transform of the Kafka configuration, whatever a message came with.
  Without one, a file that the HTTP server has protected with its own is lost: its message does not
  read, nothing is stored, sent or reported, and the request times out.
\<close>

theorem http_transform_loses_file:
  assumes "waiting_reach qr_FileID (queueFiles c) ids" and "fc_publisher fc = list_publisher"
    and "CreateFileHandler (rl_events V) fc shardKey fileID body (c, sent) = (Inr n, c1, sent @ [bs])"
    and "fr_transformConfig fr = None" and "json_envelope (json (rl_events V)) bs = Inl e" and "msg_Body msg = bs"
  shows "processMessage V fr now msg (ch, s) = (None, ack (\<not> shouldAutocommit fr) msg (ch, s)) \<and>
    qr_Error (fst (create_answer shardKey fileID n c1)) = ''timeout exceeded''"
proof -
  have "chan_of (queueFiles c) (made (queueFiles c)) = []"
    using waiting_reach_inv[OF assms(1)] unfolding waiting_inv_def by blast
  with created_waits[OF assms(3)] have "qr_Error (fst (create_answer shardKey fileID n c1)) = ''timeout exceeded''"
    by (simp add: create_answer_def take_or_timeout_def register_def)
  with assms(4-6) show ?thesis
    by (simp add: processMessage_def compliance_Reveal_def models_Read_def ReadWithOpts_def Let_def)
qed

definition base64_transform :: TransformConfig where
  "base64_transform = \<lparr>Encoding = Some \<lparr>enc_Base64 = True, enc_Compress = False\<rparr>, Encryption = None\<rparr>"

lemma first_sextet: "hd (b64_encode_raw (CHR ''Q'' # CHR ''i'' # CHR ''a'' # r)) = b64_char 20"
  by simp

lemma flow_unread: "hd b \<noteq> CHR ''Q'' \<Longrightarrow> json_envelope (json (rl_events flow_lib)) b = Inl (errors_New ''invalid character'')"
  by (simp add: flow_lib_def flow_events_def flow_envelope_def)

lemma ack_sample: "ack b (sample_message x) st = st"
  by (simp add: ack_def sample_message_def)

lemma http_transform_loses_file_witness:
  "processMessage flow_lib (gw_receiver sample_gateway) 1 (sample_message (b64_encode_raw (pack ''a'' ''prod''))) (no_channels, sample_world) =
     (None, no_channels, sample_world)"
proof -
  let ?m = "sample_message (b64_encode_raw (pack ''a'' ''prod''))"
  define enc where "enc = b64_encode_raw ''x''"
  have f: "CreateFileHandler (rl_events flow_lib) (posted (Some base64_transform)) ''prod'' ''a''
      (enc, None) (idle_controller, []) =
     (Inr 0, \<lparr>queueFiles = register ''a'' no_waiting, cancellations = no_waiting\<rparr>, [] @ [b64_encode_raw (pack ''a'' ''prod'')])"
  proof -
    have read: "readBody flow_events (fc_http (posted (Some base64_transform))) (enc, None) = Inr ''x''"
      unfolding enc_def by code_simp
    show ?thesis
      by (simp add: CreateFileHandler_def read flow_lib_def)
         (simp add: publishFile_def posted_def web_controller_def idle_controller_def flow_events_def base64_transform_def
           sample_lib_def Protect_def Event_MarshalJSON_def list_publisher_def no_waiting_def newCoder_def newCryptor_def
           mockCryptor_def base64Coder_def)
  qed
  have j: "json_envelope (json (rl_events flow_lib)) (b64_encode_raw (pack ''a'' ''prod'')) = Inl (errors_New ''invalid character'')"
  proof (rule flow_unread)
    have "pack ''a'' ''prod'' = CHR ''Q'' # CHR ''i'' # CHR ''a'' # tl (tl (tl (pack ''a'' ''prod'')))" by (simp add: pack_def)
    then have "hd (b64_encode_raw (pack ''a'' ''prod'')) = b64_char 20"
      using first_sextet by metis
    moreover have "b64_char 20 \<noteq> CHR ''Q''" by code_simp
    ultimately show "hd (b64_encode_raw (pack ''a'' ''prod'')) \<noteq> CHR ''Q''" by metis
  qed
  have t: "fc_publisher (posted (Some base64_transform)) = list_publisher" "fr_transformConfig (gw_receiver sample_gateway) = None"
    by (simp_all add: posted_def web_controller_def sample_gateway_def gw_receiver_def)
  have m: "msg_Body ?m = b64_encode_raw (pack ''a'' ''prod'')" by (simp only: sample_message_def pub_message.select_convs)
  from http_transform_loses_file[OF idle_reach t(1) f t(2) j m, of 1 no_channels sample_world, THEN conjunct1]
  show ?thesis unfolding ack_sample .
qed

end
