(* ===== verification/Environment.thy ===== *)
theory Environment
  imports Web Odfi_Scheduler World
begin

text \<open>
  Putting the service together (\<open>internal/environment.go\<close>): connecting to a database, choosing
  the repositories, opening the in-memory topic that carries HTTP files to the receiver,
  starting the pipeline, the routes and the ODFI scheduler.

  Database handles are flags; the tables are those of the world. The chain of \<open>Shutdown\<close>
  functions is the list of what it does in order. The time service, which nothing reads, is left out.
\<close>

record ClientConfig =
  cc_Timeout :: duration
  MaxIdleConns :: int
  MaxIdleConnsPerHost :: int
  MaxConnsPerHost :: int

record env_config =
  ec_config :: Config
  ec_Clients :: "ClientConfig option"
  ec_MySQL :: bool
  ec_Spanner :: bool

text \<open>An HTTP client with its transport.\<close>

record http_client =
  hc_Timeout :: duration
  ForceAttemptHTTP2 :: bool
  hc_MaxIdleConns :: int
  hc_MaxIdleConnsPerHost :: int
  hc_MaxConnsPerHost :: int

definition NewInternalClient :: "ClientConfig option \<Rightarrow> http_client" where
  "NewInternalClient config =
     (let c = (case config of None \<Rightarrow> \<lparr>cc_Timeout = 60 * second, MaxIdleConns = 20, MaxIdleConnsPerHost = 20, MaxConnsPerHost = 20\<rparr>
                            | Some c \<Rightarrow> c)
      in \<lparr>hc_Timeout = cc_Timeout c, ForceAttemptHTTP2 = True, hc_MaxIdleConns = MaxIdleConns c,
          hc_MaxIdleConnsPerHost = MaxIdleConnsPerHost c, hc_MaxConnsPerHost = MaxConnsPerHost c\<rparr>)"

datatype shutdown_action = Shut_telemetry | Cancel_context | Close_DB | Close_Spanner | Shut_ODFI

text \<open>What the caller may supply, and what comes out. \<open>env_routes\<close> are the handlers added to the router.\<close>

record Environment =
  env_Config :: "env_config option"
  env_DB :: bool
  env_SpannerClient :: bool
  env_InternalClient :: "http_client option"
  env_Events :: "world emitter option"
  env_PublicRouter :: bool
  env_routes :: "(world FilesController \<times> world shard_repository) option"
  env_ODFIFiles :: "world PeriodicScheduler option"
  env_FileReceiver :: "world FileReceiver option"
  env_Shutdown :: "shutdown_action list"

text \<open>
  \<open>database_New k\<close> is the outcome of the \<open>k\<close>-th attempt to connect. \<open>LoadFromFS\<close> reads the
  configuration files, \<open>el_now\<close> is the time stamped on cancellations.
\<close>

record env_lib =
  LoadFromFS :: "err + env_config"
  SetupTelemetry :: "err option"
  database_New :: "nat \<Rightarrow> err option"
  RunMigrations :: "world \<Rightarrow> err option \<times> world"
  spanner_NewClient :: "err option"
  el_pipeline :: "world pipeline_lib"
  el_setup :: "world setup_lib"
  el_receiver :: "world receiver_lib"
  el_webhook :: "world webhook_lib"
  el_mock_emitter :: "world emitter"
  el_alert :: "world alert_lib"
  el_disk :: "world local_disk"
  el_schedule :: schedule
  el_prenotes :: "int list"
  el_now :: int

section \<open>Databases\<close>

text \<open>The loop with the attempts left.\<close>

fun connect_again :: "(nat \<Rightarrow> err option) \<Rightarrow> nat \<Rightarrow> nat \<Rightarrow> err option" where
  "connect_again new k 0 = new k"
| "connect_again new k (Suc left) = (case new k of None \<Rightarrow> None | Some _ \<Rightarrow> connect_again new (Suc k) left)"

definition initializeDatabase :: "env_lib \<Rightarrow> world \<Rightarrow> err option \<times> world" where
  "initializeDatabase L w =
     (case connect_again (database_New L) 0 22 of
        Some e \<Rightarrow> (Some (errorf_w ''Error creating database: '' e), w)
      | None \<Rightarrow>
          (case RunMigrations L w of
             (Some e, w1) \<Rightarrow> (Some (errorf_w ''Error running migrations: '' e), w1)
           | (None, w1) \<Rightarrow> (None, w1)))"

definition initializeSpannerDatabase :: "env_lib \<Rightarrow> world \<Rightarrow> err option \<times> world" where
  "initializeSpannerDatabase L w =
     (case spanner_NewClient L of
        Some e \<Rightarrow> (Some (errorf_w ''Error creating spanner client: '' e), w)
      | None \<Rightarrow>
          (case RunMigrations L w of
             (Some e, w1) \<Rightarrow> (Some (errorf_w ''Error running migrations: '' e), w1)
           | (None, w1) \<Rightarrow> (None, w1)))"

definition setup_databases :: "env_lib \<Rightarrow> env_config \<Rightarrow> Environment \<Rightarrow> world \<Rightarrow> (err option \<times> Environment) \<times> world" where
  "setup_databases L cfg env w =
     (case (if \<not> env_DB env \<and> ec_MySQL cfg
            then (case initializeDatabase L w of
                    (Some e, w1) \<Rightarrow> ((Some (errorf_w ''setting up database failed: '' e), env), w1)
                  | (None, w1) \<Rightarrow> ((None, env\<lparr>env_DB := True, env_Shutdown := env_Shutdown env @ [Cancel_context, Close_DB]\<rparr>), w1))
            else ((None, env), w)) of
        ((Some e, env1), w1) \<Rightarrow> ((Some e, env1), w1)
      | ((None, env1), w1) \<Rightarrow>
          if \<not> env_DB env1 \<and> \<not> env_SpannerClient env1 \<and> ec_Spanner cfg
          then (case initializeSpannerDatabase L w1 of
                  (Some e, w2) \<Rightarrow> ((Some (errorf_w ''setting up spanner database failed: '' e), env1), w2)
                | (None, w2) \<Rightarrow> ((None, env1\<lparr>env_SpannerClient := True, env_Shutdown := env_Shutdown env1 @ [Cancel_context, Close_Spanner]\<rparr>), w2))
          else ((None, env1), w1))"

text \<open>
  A Spanner client given beside a MySQL handle wins. Without either, files go to the mock and
  mappings to an in-memory repository made without any.
\<close>

definition choose_files :: "env_lib \<Rightarrow> Environment \<Rightarrow> world files_repository" where
  "choose_files L env =
     (if env_SpannerClient env then world_files (files_NewSpannerRepository True (el_now L))
      else if env_DB env then world_files (files_NewRepository True (el_now L))
      else MockRepository None)"

definition choose_shards :: "Environment \<Rightarrow> world shard_repository" where
  "choose_shards env =
     (if env_SpannerClient env then world_shards (shards_NewSpannerRepository True)
      else if env_DB env then world_shards (shards_NewRepository True)
      else world_shards inmem_shards)"

text \<open>What an empty in-memory repository starts with.\<close>

definition fresh_mappings :: "Environment \<Rightarrow> world \<Rightarrow> world" where
  "fresh_mappings env w =
     (if env_SpannerClient env \<or> env_DB env then w else w\<lparr>w_db := (w_db w)\<lparr>mappings_tbl := []\<rparr>\<rparr>)"

section \<open>Everything\<close>

definition inmem_stream :: InMemory where
  "inmem_stream = \<lparr>im_URL = ''mem://achgateway''\<rparr>"

definition odfi_processors :: "env_lib \<Rightarrow> ODFIFiles \<Rightarrow> world emitter option \<Rightarrow> world file_processor list" where
  "odfi_processors L cfg events =
     (let p = od_Processors cfg in
      SetupProcessors
        [CorrectionEmitter (Corrections p) events, PrenoteEmitter (el_prenotes L) (Prenotes p) events,
         CreditReconciliationEmitter (el_schedule L) (Recon p) events, ReturnEmitter (Returns p) events,
         IncomingEmitter (el_prenotes L) (Incoming p) (Recon p) events])"

definition setup_odfi :: "env_lib \<Rightarrow> Config \<Rightarrow> Environment \<Rightarrow> world \<Rightarrow> (err option \<times> Environment) \<times> world" where
  "setup_odfi L cfg env w =
     (case (env_ODFIFiles env, in_ODFI (cf_Inbound cfg)) of
        (None, Some odfi) \<Rightarrow>
          (case NewPeriodicScheduler (el_disk L) (el_alert L) cfg (odfi_processors L odfi (env_Events env)) w of
             (Inl e, w1) \<Rightarrow> ((Some (errorf_v ''problem creating odfi periodic scheduler: '' e), env), w1)
           | (Inr s, w1) \<Rightarrow> ((None, env\<lparr>env_ODFIFiles := Some s, env_Shutdown := env_Shutdown env @ [Shut_ODFI]\<rparr>), w1))
      | _ \<Rightarrow> ((None, env), w))"

definition setup_routes :: "Config \<Rightarrow> world publisher option \<Rightarrow> Environment \<Rightarrow> Environment" where
  "setup_routes cfg topic env =
     (if env_PublicRouter env then env
      else (case topic of
              None \<Rightarrow> env\<lparr>env_PublicRouter := True\<rparr>
            | Some pub \<Rightarrow>
                env\<lparr>env_PublicRouter := True,
                    env_routes := Some (\<lparr>fc_http = in_HTTP (cf_Inbound cfg), fc_publisher = pub\<rparr>, choose_shards env)\<rparr>))"

definition setup_client :: "env_config \<Rightarrow> Environment \<Rightarrow> Environment" where
  "setup_client ec env =
     (if env_InternalClient env = None then env\<lparr>env_InternalClient := Some (NewInternalClient (ec_Clients ec))\<rparr> else env)"

definition setup_events :: "env_lib \<Rightarrow> Config \<Rightarrow> Environment \<Rightarrow> err option \<times> Environment" where
  "setup_events L cfg env =
     (if env_Events env = None \<and> cf_Events cfg \<noteq> None
      then (case NewEmitter (rl_events (el_receiver L)) (rl_pubsub (el_receiver L)) (el_webhook L) (el_mock_emitter L) (cf_Events cfg) of
              Inl e \<Rightarrow> (Some e, env)
            | Inr em \<Rightarrow> (None, env\<lparr>env_Events := Some em\<rparr>))
      else (None, env))"

definition setup_pipeline :: "env_lib \<Rightarrow> Config \<Rightarrow> Environment \<Rightarrow> world \<Rightarrow> (err option \<times> Environment) \<times> world" where
  "setup_pipeline L cfg env w =
     (case stream_OpenSubscription (rl_pubsub (el_receiver L)) (Some inmem_stream) None of
        Inl e \<Rightarrow> ((Some (errorf_v ''unable to create http files subscription: '' e), env), w)
      | Inr httpSub \<Rightarrow>
          (case pipeline_Start (el_pipeline L) (el_setup L) (el_receiver L) (el_webhook L) (el_mock_emitter L) cfg
                  (choose_shards env) (choose_files L env) httpSub (fresh_mappings env w) of
             (Inl e, w1) \<Rightarrow> ((Some (errorf_v ''unable to create file pipeline: '' e), env), w1)
           | (Inr fr, w1) \<Rightarrow> ((None, env\<lparr>env_FileReceiver := Some fr\<rparr>), w1)))"

text \<open>The configuration service of moov-io/base fills the zero value from the embedded files.\<close>

definition LoadConfig :: "env_lib \<Rightarrow> err + env_config" where [simp]:
  "LoadConfig L = LoadFromFS L"

text \<open>One step after the other; the first error ends the start.\<close>

definition NewEnvironment :: "env_lib \<Rightarrow> Environment \<Rightarrow> world \<Rightarrow> (err option \<times> Environment) \<times> world" where
  "NewEnvironment L env0 w =
     (case (case env_Config env0 of Some c \<Rightarrow> Inr c | None \<Rightarrow> LoadConfig L) of
        Inl e \<Rightarrow> ((Some e, env0\<lparr>env_Shutdown := []\<rparr>), w)
      | Inr ec \<Rightarrow>
     (case SetupTelemetry L of
        Some e \<Rightarrow> ((Some (errorf_w ''setting up telemetry failed: '' e), env0\<lparr>env_Config := Some ec, env_Shutdown := []\<rparr>), w)
      | None \<Rightarrow>
     (case setup_databases L ec (env0\<lparr>env_Shutdown := [Shut_telemetry], env_Config := Some ec\<rparr>) w of
        ((Some e, env1), w1) \<Rightarrow> ((Some e, env1), w1)
      | ((None, env1), w1) \<Rightarrow>
     (case stream_Topic (rl_pubsub (el_receiver L)) (Some inmem_stream) None of
        Inl e \<Rightarrow> ((Some (errorf_v ''unable to create http files: '' e), setup_client ec env1), w1)
      | Inr topic \<Rightarrow>
     (case setup_events L (ec_config ec) (setup_client ec env1) of
        (Some e, env2) \<Rightarrow> ((Some e, env2), w1)
      | (None, env2) \<Rightarrow>
     (case setup_pipeline L (ec_config ec) env2 w1 of
        ((Some e, env3), w2) \<Rightarrow> ((Some e, env3), w2)
      | ((None, env3), w2) \<Rightarrow>
          setup_odfi L (ec_config ec) (setup_routes (ec_config ec) topic env3) w2))))))"

section \<open>Startup\<close>

lemma connect_again_tries: "connect_again new k n = None \<longleftrightarrow> (\<exists>i\<le>n. new (k + i) = None)"
proof (induction n arbitrary: k)
  case (Suc n)
  have "(\<exists>i\<le>Suc n. new (k + i) = None) \<longleftrightarrow> new k = None \<or> (\<exists>i\<le>n. new (Suc k + i) = None)"
    by (metis Suc_le_mono add_Suc_right add_Suc_shift le0 not0_implies_Suc add_0_right)
  with Suc show ?case by (auto split: option.split)
qed simp

text \<open>
  C37. The service stops trying to reach its database after 23 attempts and not before: it goes on
  to the migrations exactly when one of them succeeds, and reports an error otherwise.
\<close>

theorem database_attempts_bounded:
  "if \<exists>i\<le>22. database_New L i = None
   then initializeDatabase L w = (map_option (errorf_w ''Error running migrations: '') (fst (RunMigrations L w)), snd (RunMigrations L w))
   else \<exists>e. initializeDatabase L w = (Some (errorf_w ''Error creating database: '' e), w)"
  using connect_again_tries[of "database_New L" 0 22]
  by (cases "connect_again (database_New L) 0 22") (auto simp: initializeDatabase_def split: prod.split option.split)

text \<open>What each part adds to the shutdown.\<close>

lemma setup_databases_shutdown:
  "setup_databases L ec env w = ((None, env1), w1) \<Longrightarrow>
     env_Shutdown env1 = env_Shutdown env @
       (if \<not> env_DB env \<and> ec_MySQL ec then [Cancel_context, Close_DB]
        else if \<not> env_DB env \<and> \<not> env_SpannerClient env \<and> ec_Spanner ec then [Cancel_context, Close_Spanner] else []) \<and>
     env_ODFIFiles env1 = env_ODFIFiles env \<and> env_Config env1 = env_Config env"
  by (auto simp: setup_databases_def split: if_splits prod.splits option.splits)

lemma setup_keeps_shutdown:
  "setup_events L cfg env = (e, env1) \<Longrightarrow>
     env_Shutdown env1 = env_Shutdown env \<and> env_ODFIFiles env1 = env_ODFIFiles env \<and> env_Config env1 = env_Config env"
  "setup_pipeline L cfg env w = ((e, env1), w1) \<Longrightarrow>
     env_Shutdown env1 = env_Shutdown env \<and> env_ODFIFiles env1 = env_ODFIFiles env \<and> env_Config env1 = env_Config env"
  "env_Shutdown (setup_routes cfg t env) = env_Shutdown env" "env_ODFIFiles (setup_routes cfg t env) = env_ODFIFiles env"
  "env_Config (setup_routes cfg t env) = env_Config env"
  "env_Shutdown (setup_client ec env) = env_Shutdown env" "env_ODFIFiles (setup_client ec env) = env_ODFIFiles env"
  "env_Config (setup_client ec env) = env_Config env"
  by (auto simp: setup_client_def setup_events_def setup_pipeline_def setup_routes_def split: if_splits sum.splits prod.splits option.splits)

lemma setup_odfi_shutdown:
  "setup_odfi L cfg env w = ((None, env1), w1) \<Longrightarrow>
     env_Shutdown env1 = env_Shutdown env @ (if env_ODFIFiles env = None \<and> in_ODFI (cf_Inbound cfg) \<noteq> None then [Shut_ODFI] else []) \<and>
     env_Config env1 = env_Config env"
  by (auto simp: setup_odfi_def split: if_splits sum.splits prod.splits option.splits)

lemma started_environment:
  assumes "NewEnvironment L env w = ((None, env'), w')"
  shows "\<exists>ec. env_Config env' = Some ec \<and> env_Shutdown env' =
    [Shut_telemetry] @
    (if \<not> env_DB env \<and> ec_MySQL ec then [Cancel_context, Close_DB]
     else if \<not> env_DB env \<and> \<not> env_SpannerClient env \<and> ec_Spanner ec then [Cancel_context, Close_Spanner] else []) @
    (if env_ODFIFiles env = None \<and> in_ODFI (cf_Inbound (ec_config ec)) \<noteq> None then [Shut_ODFI] else [])"
proof -
  obtain ec where ec: "(case env_Config env of Some c \<Rightarrow> Inr c | None \<Rightarrow> LoadConfig L) = Inr ec"
    using assms by (auto simp: NewEnvironment_def split: sum.splits)
  have tel: "SetupTelemetry L = None" using assms ec by (simp add: NewEnvironment_def split: option.splits)
  obtain env1 w1 where db: "setup_databases L ec (env\<lparr>env_Shutdown := [Shut_telemetry], env_Config := Some ec\<rparr>) w = ((None, env1), w1)"
    using assms ec tel by (auto simp: NewEnvironment_def split: prod.splits option.splits)
  obtain t where topic: "stream_Topic (rl_pubsub (el_receiver L)) (Some inmem_stream) None = Inr t"
    using assms ec tel db by (auto simp: NewEnvironment_def split: sum.splits)
  obtain env2 where ev: "setup_events L (ec_config ec) (setup_client ec env1) = (None, env2)"
    using assms ec tel db topic by (auto simp: NewEnvironment_def split: prod.splits option.splits)
  obtain env3 w2 where pl: "setup_pipeline L (ec_config ec) env2 w1 = ((None, env3), w2)"
    using assms ec tel db topic ev by (auto simp: NewEnvironment_def split: prod.splits option.splits)
  have "setup_odfi L (ec_config ec) (setup_routes (ec_config ec) t env3) w2 = ((None, env'), w')"
    using assms ec tel db topic ev pl by (simp add: NewEnvironment_def)
  from setup_odfi_shutdown[OF this] setup_databases_shutdown[OF db] setup_keeps_shutdown(1)[OF ev] setup_keeps_shutdown(2)[OF pl]
  show ?thesis by (intro exI[of _ ec]) (simp add: setup_keeps_shutdown)
qed

lemma setup_databases_config:
  "setup_databases L ec (env\<lparr>env_Config := c\<rparr>) w =
     (case setup_databases L ec env w of ((e, env1), w1) \<Rightarrow> ((e, env1\<lparr>env_Config := c\<rparr>), w1))"
proof -
  obtain e1 w1 where i: "initializeDatabase L w = (e1, w1)" by fastforce
  obtain e2 w2 where j: "initializeSpannerDatabase L w1 = (e2, w2)" by fastforce
  obtain e3 w3 where k: "initializeSpannerDatabase L w = (e3, w3)" by fastforce
  show ?thesis
    by (cases "env_DB env"; cases "ec_MySQL ec"; cases e1; cases e2; cases e3) (simp_all add: setup_databases_def i j k)
qed

definition with_mappings :: "ShardMapping list \<Rightarrow> env_config \<Rightarrow> env_config" where
  "with_mappings ms ec = ec\<lparr>ec_config := (ec_config ec)\<lparr>cf_Sharding := (cf_Sharding (ec_config ec))\<lparr>Mappings := ms\<rparr>\<rparr>\<rparr>"

lemma start_aggregators_mappings:
  "start_aggregators P U em (cfg\<lparr>cf_Sharding := sh\<rparr>) shs s = start_aggregators P U em cfg shs s"
  by (induction shs arbitrary: s) (simp_all split: prod.split sum.split)

lemma pipeline_Start_mappings:
  "pipeline_Start P U V H mock (cfg\<lparr>cf_Sharding := (cf_Sharding cfg)\<lparr>Mappings := ms\<rparr>\<rparr>) shards repo http s =
     pipeline_Start P U V H mock cfg shards repo http s"
proof -
  have nf: "newFileReceiver V (cfg\<lparr>cf_Sharding := (cf_Sharding cfg)\<lparr>Mappings := ms\<rparr>\<rparr>) em shards aggs repo http t v =
      newFileReceiver V cfg em shards aggs repo http t v" for em aggs t v
    by (simp add: newFileReceiver_def)
  have "Shards (cf_Sharding (cfg\<lparr>cf_Sharding := cf_Sharding cfg\<lparr>Mappings := ms\<rparr>\<rparr>)) = Shards (cf_Sharding cfg)"
    "cf_Inbound (cfg\<lparr>cf_Sharding := cf_Sharding cfg\<lparr>Mappings := ms\<rparr>\<rparr>) = cf_Inbound cfg"
    "cf_Events (cfg\<lparr>cf_Sharding := cf_Sharding cfg\<lparr>Mappings := ms\<rparr>\<rparr>) = cf_Events cfg"
    by simp_all
  then show ?thesis by (simp only: pipeline_Start_def start_aggregators_mappings nf)
qed

lemma setup_odfi_mappings:
  fixes cfg ms
  defines "cfg' \<equiv> cfg\<lparr>cf_Sharding := (cf_Sharding cfg)\<lparr>Mappings := ms\<rparr>\<rparr>"
  assumes "setup_odfi L cfg env w = ((e, env1), w1)" and "env' = env\<lparr>env_Config := c\<rparr>"
  shows "\<exists>env1'. setup_odfi L cfg' env' w = ((e, env1'), w1) \<and> env_FileReceiver env1' = env_FileReceiver env1 \<and> env_routes env1' = env_routes env1"
  using assms(2,3) unfolding cfg'_def
  by (auto simp: setup_odfi_def NewPeriodicScheduler_def split: option.splits sum.splits prod.splits if_splits)

text \<open>The steps with one configuration or another in the environment.\<close>

lemma setup_events_mappings:
  "setup_events L (cfg\<lparr>cf_Sharding := sh\<rparr>) (env\<lparr>env_Config := c\<rparr>) =
     (case setup_events L cfg env of (e, env1) \<Rightarrow> (e, env1\<lparr>env_Config := c\<rparr>))"
  by (simp add: setup_events_def split: prod.split sum.split)

lemma setup_pipeline_mappings:
  "setup_pipeline L (cfg\<lparr>cf_Sharding := (cf_Sharding cfg)\<lparr>Mappings := ms\<rparr>\<rparr>) (env\<lparr>env_Config := c\<rparr>) w =
     (case setup_pipeline L cfg env w of ((e, env1), w1) \<Rightarrow> ((e, env1\<lparr>env_Config := c\<rparr>), w1))"
proof -
  have "choose_shards (env\<lparr>env_Config := c\<rparr>) = choose_shards env" "choose_files L (env\<lparr>env_Config := c\<rparr>) = choose_files L env"
    "fresh_mappings (env\<lparr>env_Config := c\<rparr>) w = fresh_mappings env w"
    by (simp_all add: choose_shards_def choose_files_def fresh_mappings_def)
  then show ?thesis
    unfolding setup_pipeline_def pipeline_Start_mappings by (simp split: sum.split prod.split)
qed

lemma setup_routes_mappings:
  "setup_routes (cfg\<lparr>cf_Sharding := sh\<rparr>) t (env\<lparr>env_Config := c\<rparr>) = (setup_routes cfg t env)\<lparr>env_Config := c\<rparr>"
  by (simp add: setup_routes_def choose_shards_def split: option.split)

lemma setup_client_mappings:
  "setup_client (with_mappings ms ec) env = setup_client ec env"
  "setup_client ec (env\<lparr>env_Config := c\<rparr>) = (setup_client ec env)\<lparr>env_Config := c\<rparr>"
  by (simp_all add: setup_client_def with_mappings_def)

text \<open>
  The shard mappings of the configuration are never used: whatever they are, startup succeeds
  or fails alike, leaves the same state and gives the same file receiver and routes, with and
  without a database.
\<close>

theorem configured_mappings_ignored:
  "let run = (\<lambda>ec. NewEnvironment L (env\<lparr>env_Config := Some ec\<rparr>) w);
       view = (\<lambda>((e, env'), w'). (e, env_FileReceiver env', env_routes env', w'))
   in view (run (with_mappings ms ec)) = view (run ec)"
proof -
  let ?cfg = "ec_config ec" and ?t = "stream_Topic (rl_pubsub (el_receiver L)) (Some inmem_stream) None"
  let ?cfg' = "?cfg\<lparr>cf_Sharding := (cf_Sharding ?cfg)\<lparr>Mappings := ms\<rparr>\<rparr>"
  have same: "ec_MySQL (with_mappings ms ec) = ec_MySQL ec" "ec_Spanner (with_mappings ms ec) = ec_Spanner ec"
    "ec_config (with_mappings ms ec) = ?cfg'"
    by (simp_all add: with_mappings_def)
  have db: "setup_databases L (with_mappings ms ec) = setup_databases L ec"
    unfolding setup_databases_def fun_eq_iff same by simp
  have self: "setup_events L ?cfg (env\<lparr>env_Config := c\<rparr>) = (case setup_events L ?cfg env of (e, env1) \<Rightarrow> (e, env1\<lparr>env_Config := c\<rparr>))"
    "setup_pipeline L ?cfg (env\<lparr>env_Config := c\<rparr>) v = (case setup_pipeline L ?cfg env v of ((e, env1), w1) \<Rightarrow> ((e, env1\<lparr>env_Config := c\<rparr>), w1))"
    "setup_routes ?cfg t (env\<lparr>env_Config := c\<rparr>) = (setup_routes ?cfg t env)\<lparr>env_Config := c\<rparr>" for env c v t
    using setup_events_mappings[where cfg = ?cfg and sh = "cf_Sharding ?cfg"]
      setup_pipeline_mappings[where cfg = ?cfg and ms = "Mappings (cf_Sharding ?cfg)"]
      setup_routes_mappings[where cfg = ?cfg and sh = "cf_Sharding ?cfg"] by simp_all
  obtain e2 env2 w1 where sd: "setup_databases L ec (env\<lparr>env_Shutdown := [Shut_telemetry]\<rparr>) w = ((e2, env2), w1)" by (metis prod.exhaust)
  obtain e3 env3 where se: "setup_events L ?cfg (setup_client ec env2) = (e3, env3)" by fastforce
  obtain e4 env4 w2 where sp: "setup_pipeline L ?cfg env3 w1 = ((e4, env4), w2)" by (metis prod.exhaust)
  note unf = NewEnvironment_def db setup_databases_config sd se sp same(3) self setup_client_mappings setup_events_mappings setup_pipeline_mappings setup_routes_mappings
  show ?thesis
  proof (cases "SetupTelemetry L = None \<and> e2 = None \<and> \<not> isl ?t \<and> e3 = None \<and> e4 = None")
    case False
    then show ?thesis
      by (cases "SetupTelemetry L"; cases e2; cases ?t; cases e3; cases e4) (simp_all add: unf)
  next
    case True
    then obtain t where t: "?t = Inr t" by (metis sum.collapse(2))
    obtain e env5 w3 where o: "setup_odfi L ?cfg ((setup_routes ?cfg t env4)\<lparr>env_Config := Some ec\<rparr>) w2 = ((e, env5), w3)" by (metis prod.exhaust)
    obtain env5' where "setup_odfi L ?cfg' ((setup_routes ?cfg t env4)\<lparr>env_Config := Some (with_mappings ms ec)\<rparr>) w2 = ((e, env5'), w3)"
      "env_FileReceiver env5' = env_FileReceiver env5" "env_routes env5' = env_routes env5"
      using setup_odfi_mappings[OF o, of _ "Some (with_mappings ms ec)" ms] by auto
    with True t o show ?thesis by (simp add: unf)
  qed
qed

end
