(* ===== verification/Kafka_Client.thy ===== *)
theory Kafka_Client
  imports Events
begin

text \<open>
  The Kafka client (\<open>internal/kafka\<close>): the settings made from a configuration for producers and
  consumers, and the tokens for AWS. The client libraries, their minimal configuration and the
  AWS signer are parameters; the adapter of the logger is left out.
\<close>

section \<open>Tokens\<close>

record msk_signer =
  GenerateAuthTokenFromProfile :: "string \<Rightarrow> string \<Rightarrow> err + string"
  GenerateAuthTokenFromRole :: "string \<Rightarrow> string \<Rightarrow> string \<Rightarrow> err + string"
  GenerateAuthToken :: "string \<Rightarrow> err + string"

record MSKAccessTokenProvider =
  tp_Region :: string
  tp_Profile :: string
  tp_RoleARN :: string
  tp_SessionName :: string

definition provider_Token :: "msk_signer \<Rightarrow> MSKAccessTokenProvider \<Rightarrow> err + string" where
  "provider_Token S m =
     (if tp_Profile m \<noteq> [] then GenerateAuthTokenFromProfile S (tp_Region m) (tp_Profile m)
      else if tp_RoleARN m \<noteq> [] then GenerateAuthTokenFromRole S (tp_Region m) (tp_RoleARN m) (tp_SessionName m)
      else GenerateAuthToken S (tp_Region m))"

section \<open>Settings\<close>

datatype sasl_mechanism = SASLTypeOAuth | SASLTypePlaintext

text \<open>
  The settings of sarama that the program touches. \<open>Net_TLS_Config\<close> is the least TLS version of a
  configuration that is given; the offsets and isolation are those of the consumer.
\<close>

record sarama_config =
  Net_TLS_Enable :: bool
  Net_TLS_Config :: "nat option"
  sc_Version :: string
  SASL_Enable :: bool
  SASL_Mechanism :: sasl_mechanism
  SASL_TokenProvider :: "MSKAccessTokenProvider option"
  SASL_User :: string
  SASL_Password :: string
  Producer_MaxMessageBytes :: int
  Offsets_AutoCommit :: bool
  Offsets_Initial_Newest :: bool
  ReadCommitted :: bool
  sc_rest :: bytes

record 's kafka_lib =
  MinimalConfig :: sarama_config
  kp_OpenTopic :: "string list \<Rightarrow> sarama_config \<Rightarrow> string \<Rightarrow> err + 's publisher"
  kp_OpenSubscription :: "string list \<Rightarrow> sarama_config \<Rightarrow> string \<Rightarrow> string list \<Rightarrow> duration \<Rightarrow> err + 's subscription"

text \<open>The cases on the mechanism, in both functions.\<close>

definition sasl_settings :: "KafkaConfig \<Rightarrow> sarama_config \<Rightarrow> sarama_config" where
  "sasl_settings cfg c =
     (if kf_SASLMechanism cfg = ''AWS_MSK_IAM''
      then (case Option.bind (kf_Provider cfg) prov_AWS of
              None \<Rightarrow> c
            | Some a \<Rightarrow> c\<lparr>SASL_TokenProvider := Some \<lparr>tp_Region = aws_Region a, tp_Profile = aws_Profile a,
                           tp_RoleARN = aws_RoleARN a, tp_SessionName = aws_SessionName a\<rparr>\<rparr>)
           \<lparr>SASL_Mechanism := SASLTypeOAuth, Net_TLS_Enable := True, Net_TLS_Config := Some 12\<rparr>
      else c\<lparr>SASL_Mechanism := SASLTypePlaintext\<rparr>)"

definition topic_config :: "'s kafka_lib \<Rightarrow> KafkaConfig \<Rightarrow> sarama_config" where
  "topic_config K cfg =
     (let c0 = (MinimalConfig K)\<lparr>Net_TLS_Enable := kf_TLS cfg, sc_Version := ''2.8.2.0'', SASL_Enable := kf_Key cfg \<noteq> []\<rparr>;
          c1 = (sasl_settings cfg c0)\<lparr>SASL_User := kf_Key cfg, SASL_Password := kf_Secret cfg\<rparr>
      in if kf_MaxMessageBytes cfg > 0 then c1\<lparr>Producer_MaxMessageBytes := kf_MaxMessageBytes cfg\<rparr> else c1)"

definition client_OpenTopic :: "'s kafka_lib \<Rightarrow> KafkaConfig \<Rightarrow> err + 's publisher" where
  "client_OpenTopic K cfg = kp_OpenTopic K (kf_Brokers cfg) (topic_config K cfg) (kf_Topic cfg)"

definition subscription_config :: "'s kafka_lib \<Rightarrow> KafkaConfig \<Rightarrow> sarama_config" where
  "subscription_config K cfg =
     (let c0 = (MinimalConfig K)\<lparr>Net_TLS_Enable := kf_TLS cfg, sc_Version := ''2.8.2.0'', SASL_Enable := kf_Key cfg \<noteq> []\<rparr>;
          c1 = (sasl_settings cfg c0)\<lparr>SASL_User := kf_Key cfg, SASL_Password := kf_Secret cfg\<rparr>
      in c1\<lparr>Offsets_AutoCommit := kf_AutoCommit cfg, Offsets_Initial_Newest := True, ReadCommitted := True\<rparr>)"

definition client_OpenSubscription :: "'s kafka_lib \<Rightarrow> KafkaConfig \<Rightarrow> err + 's subscription" where
  "client_OpenSubscription K cfg =
     kp_OpenSubscription K (kf_Brokers cfg) (subscription_config K cfg) (kf_Group cfg) [kf_Topic cfg] (10 * second)"

text \<open>The client in the place the streams have for it.\<close>

definition with_kafka :: "'s kafka_lib \<Rightarrow> 's pubsub_lib \<Rightarrow> 's pubsub_lib" where
  "with_kafka K P = P\<lparr>kafka_OpenTopic := client_OpenTopic K, kafka_OpenSub := client_OpenSubscription K\<rparr>"

section \<open>What the broker sees\<close>

text \<open>How a client secures its connection and says who it is.\<close>

definition security :: "sarama_config \<Rightarrow> (bool \<times> nat option) \<times> (bool \<times> sasl_mechanism \<times> MSKAccessTokenProvider option \<times> string \<times> string)" where
  "security c = ((Net_TLS_Enable c, Net_TLS_Config c),
     (SASL_Enable c, SASL_Mechanism c, SASL_TokenProvider c, SASL_User c, SASL_Password c))"

text \<open>
  Producers and consumers of one configuration secure and authenticate their connections
  alike: what was sent can be read back with the same rights. Only a plaintext client keeps the
  TLS switch of the configuration, one for AWS always uses TLS 1.2 or later; and both
  authenticate only if a key is set.
\<close>

theorem kafka_settings_agree:
  "security (topic_config K cfg) = security (subscription_config K cfg) \<and>
   (SASL_Enable (topic_config K cfg) \<longleftrightarrow> kf_Key cfg \<noteq> []) \<and>
   (if kf_SASLMechanism cfg = ''AWS_MSK_IAM''
    then Net_TLS_Enable (topic_config K cfg) \<and> Net_TLS_Config (topic_config K cfg) = Some 12 \<and> SASL_Mechanism (topic_config K cfg) = SASLTypeOAuth
    else Net_TLS_Enable (topic_config K cfg) = kf_TLS cfg \<and> SASL_Mechanism (topic_config K cfg) = SASLTypePlaintext)"
  by (simp add: security_def topic_config_def subscription_config_def sasl_settings_def Let_def split: option.split)

end
