(* ===== verification/Ssh_Keys.thy ===== *)
theory Ssh_Keys
  imports Base64
begin

text \<open>
  Public keys for SSH (\<open>internal/sshx\<close>): a line of an \<open>authorized_keys\<close> file or the wire format, as
  they are or in base64. The parsers of the SSH library are parameters; each gives a key, if
  any, beside its error, if any.
\<close>

record 'k ssh_lib =
  ParseAuthorizedKey :: "bytes \<Rightarrow> 'k option \<times> err option"
  ParsePublicKey :: "bytes \<Rightarrow> 'k option \<times> err option"

text \<open>First as an authorized key, else whatever the wire format gives.\<close>

definition read_key :: "'k ssh_lib \<Rightarrow> bytes \<Rightarrow> 'k option \<times> err option" where
  "read_key S data =
     (case ParseAuthorizedKey S data of
        (Some pub, None) \<Rightarrow> (Some pub, None)
      | _ \<Rightarrow> ParsePublicKey S data)"

definition ReadPubKey :: "'k ssh_lib \<Rightarrow> bytes \<Rightarrow> 'k option \<times> err option" where
  "ReadPubKey S data =
     (case b64_decode_std data of
        Inr decoded \<Rightarrow> if length decoded > 0 then read_key S decoded else read_key S data
      | Inl _ \<Rightarrow> read_key S data)"

text \<open>
  A key gives the same answer in base64 as it does as it is, unless the key itself happens to
  be base64: then it is taken for the encoding of another one.
\<close>

theorem pubkey_base64_alike:
  assumes "data \<noteq> []" and "isl (b64_decode_std data)"
  shows "ReadPubKey S (b64_encode_std data) = ReadPubKey S data"
  using assms by (auto simp: ReadPubKey_def b64_std_roundtrip isl_def)

lemma pubkey_base64_alike_witness:
  "\<forall>S. ReadPubKey S (b64_encode_std ''ssh-rsa AAAA'') = ReadPubKey S ''ssh-rsa AAAA''"
proof
  have "isl (b64_decode_std ''ssh-rsa AAAA'')" by code_simp
  then show "ReadPubKey S (b64_encode_std ''ssh-rsa AAAA'') = ReadPubKey S ''ssh-rsa AAAA''" for S
    by (intro pubkey_base64_alike) simp_all
qed

end
