(* ===== verification/Servers.thy ===== *)
theory Servers
  imports Environment Gateway Odfi_Proofs
begin

text \<open>
  The entry point and the HTTP servers (\<open>cmd/achgateway/main.go\<close>, \<open>internal/server.go\<close>,
  \<open>internal/admin_config.go\<close>, \<open>internal/service/termination.go\<close>): what is started and stopped, in
  which order, and when the process ends. The sockets, the router and the signals are inputs.
\<close>

section \<open>The public server\<close>

record http_server =
  srv_Addr :: string
  InsecureSkipVerify :: bool
  TLS_MinVersion :: nat
  ReadTimeout :: duration
  ReadHeaderTimeout :: duration
  WriteTimeout :: duration
  IdleTimeout :: duration

text \<open>Whether it serves HTTPS, with the two files.\<close>

definition bootHTTPServer :: "HTTPConfig \<Rightarrow> http_server \<times> (string \<times> string) option" where
  "bootHTTPServer config =
     (\<lparr>srv_Addr = http_BindAddress config, InsecureSkipVerify = False, TLS_MinVersion = 12,
       ReadTimeout = 30 * second, ReadHeaderTimeout = 30 * second, WriteTimeout = 30 * second, IdleTimeout = 60 * second\<rparr>,
      if http_CertFile config \<noteq> [] \<and> http_KeyFile config \<noteq> [] then Some (http_CertFile config, http_KeyFile config) else None)"

section \<open>The process\<close>

text \<open>
  \<open>admin_New\<close> is the outcome of opening the admin server. The termination listener is a channel
  without a buffer that only \<open>AwaitTermination\<close> receives from: whoever sends before waits.
\<close>

datatype action =
    Boot_admin
  | Add_config_route
  | Register_receiver_routes
  | Boot_public http_server "(string \<times> string) option"
  | Register_odfi_routes
  | Await_termination
  | Stop_admin
  | Stop_public
  | Shut shutdown_action

datatype ending =
    Exited nat     \<comment> \<open>by \<open>os.Exit\<close>, without the deferred calls\<close>
  | Waiting        \<comment> \<open>for a receiver that never comes\<close>
  | Returned

definition bootAdminServer :: "err option \<Rightarrow> ending + action list" where
  "bootAdminServer admin_New = (case admin_New of Some _ \<Rightarrow> Inl Waiting | None \<Rightarrow> Inr [Boot_admin])"

definition RunServers :: "err option \<Rightarrow> Config \<Rightarrow> ending + action list" where
  "RunServers admin_New cfg =
     (case bootAdminServer admin_New of
        Inl x \<Rightarrow> Inl x
      | Inr xs \<Rightarrow>
          (case bootHTTPServer (in_HTTP (cf_Inbound cfg)) of
             (srv, tls) \<Rightarrow> Inr (xs @ [Add_config_route, Register_receiver_routes, Boot_public srv tls])))"

text \<open>What was deferred runs in the opposite order.\<close>

definition main :: "env_lib \<Rightarrow> err option \<Rightarrow> Environment \<Rightarrow> world \<Rightarrow> (action list \<times> ending) \<times> world" where
  "main L admin_New env0 w =
     (case NewEnvironment L env0 w of
        ((Some _, _), w1) \<Rightarrow> (([], Exited 1), w1)
      | ((None, env), w1) \<Rightarrow>
          (case (case env_Config env of None \<Rightarrow> Inl Waiting | Some ec \<Rightarrow> RunServers admin_New (ec_config ec)) of
             Inl x \<Rightarrow> (([], x), w1)
           | Inr started \<Rightarrow>
               ((started @ (if env_ODFIFiles env \<noteq> None then [Register_odfi_routes] else []) @
                 [Await_termination, Stop_admin, Stop_public] @ map Shut (env_Shutdown env), Returned), w1)))"

lemma main_runs:
  assumes "NewEnvironment L env0 w = ((None, env), w1)"
  shows "\<exists>pre. main L None env0 w = ((pre @ [Await_termination, Stop_admin, Stop_public] @ map Shut (env_Shutdown env), Returned), w1)"
proof -
  obtain ec where "env_Config env = Some ec" using started_environment[OF assms] by blast
  moreover obtain srv tls where "bootHTTPServer (in_HTTP (cf_Inbound (ec_config ec))) = (srv, tls)" by (metis surj_pair)
  ultimately have "main L None env0 w = ((([Boot_admin, Add_config_route, Register_receiver_routes, Boot_public srv tls] @
      (if env_ODFIFiles env \<noteq> None then [Register_odfi_routes] else [])) @
      [Await_termination, Stop_admin, Stop_public] @ map Shut (env_Shutdown env), Returned), w1)"
    using assms by (simp add: main_def RunServers_def bootAdminServer_def)
  then show ?thesis by blast
qed


section \<open>A small service\<close>

text \<open>No shards, an ODFI scheduler, and a database that answers at the second attempt.\<close>

definition sample_odfi :: ODFIFiles where
  "sample_odfi = ps_odfi od_scheduler"

definition sample_env_config :: env_config where
  "sample_env_config =
     \<lparr>ec_config = \<lparr>cf_Admin = '':9494'',
        cf_Inbound = \<lparr>in_HTTP = \<lparr>http_BindAddress = '':8484'', http_CertFile = [], http_KeyFile = [], http_Transform = None, http_MaxBodyBytes = 0\<rparr>,
          in_InMem = Some inmem_stream, in_Kafka = None, in_ODFI = Some sample_odfi, in_Audit = None\<rparr>,
        cf_Events = None, cf_Sharding = \<lparr>Shards = [], Mappings = [], Default = ''prod''\<rparr>, cf_Upload = sample_agents,
        cf_Errors = \<lparr>ea_PagerDuty = None, ea_Slack = None\<rparr>\<rparr>,
      ec_Clients = None, ec_MySQL = True, ec_Spanner = False\<rparr>"

definition sample_env_pubsub :: "world pubsub_lib" where
  "sample_env_pubsub = sample_pubsub\<lparr>split_URL := (\<lambda>_. Inr (''mem'', ''achgateway'')),
     OpenTopic := (\<lambda>_. Inr \<lparr>pub_Send = (\<lambda>_ s. (None, s)), pub_Shutdown = (\<lambda>s. (None, s))\<rparr>),
     OpenSub := (\<lambda>_. Inr \<lparr>Receive = (\<lambda>s. ((None, None), s)), sub_Shutdown = (\<lambda>s. (None, s))\<rparr>)\<rparr>"

definition sample_setup :: "world setup_lib" where
  "sample_setup =
     \<lparr>su_merger = (\<lambda>sh _ w. (Inr (gw_merging sample_gateway sh), w)), su_bucket = (\<lambda>_. Inl ENOENT), su_gpg = plain_gpg, su_env = [],
      su_mock_audit = sample_audit,
      su_cron = \<lparr>cron_Parse = (\<lambda>_. True), known_zone = (\<lambda>_. True), clock_error = (\<lambda>_. ENOENT)\<rparr>,
      su_alert = \<lparr>alert_slack = \<lparr>slack_Auth = Inr, PostMessage = (\<lambda>_ _ _ s. (None, s))\<rparr>,
        alert_pd = \<lparr>ListAbilities = (\<lambda>_. Inr 1), ManageEvent = (\<lambda>_ _ s. (None, s))\<rparr>,
        this_process = \<lparr>os_Hostname = Inr ''host'', runtime_Caller = (\<lambda>_. None), sum256_hex = (\<lambda>b. b)\<rparr>\<rparr>\<rparr>"

definition sample_env_lib :: "env_config \<Rightarrow> env_lib" where
  "sample_env_lib ec =
     \<lparr>LoadFromFS = Inr ec, SetupTelemetry = None, database_New = (\<lambda>k. if k = 0 then Some ENOENT else None),
      RunMigrations = (\<lambda>w. (None, w)), spanner_NewClient = None, el_pipeline = gw_sample_lib,
      el_setup = sample_setup, el_receiver = sample_receiver_lib\<lparr>rl_pubsub := sample_env_pubsub\<rparr>,
      el_webhook = \<lparr>parse_endpoint = Inr, NewRequest = (\<lambda>_ _. None), client_Do = (\<lambda>_ _ s. (None, s))\<rparr>,
      el_mock_emitter = (\<lambda>_ s. (None, s)), el_alert = su_alert sample_setup,
      el_disk = \<lparr>disk_of = w_disk, put_disk = (\<lambda>d w. w\<lparr>w_disk := d\<rparr>), Getwd = ''/data''\<rparr>,
      el_schedule = \<lparr>sends = (\<lambda>xs. xs), ends = (\<lambda>ns. ns)\<rparr>, el_prenotes = [], el_now = 7\<rparr>"

definition no_environment :: Environment where
  "no_environment = \<lparr>env_Config = None, env_DB = False, env_SpannerClient = False, env_InternalClient = None, env_Events = None, env_PublicRouter = False,
     env_routes = None, env_ODFIFiles = None, env_FileReceiver = None, env_Shutdown = []\<rparr>"

lemma sample_service_starts:
  "case NewEnvironment (sample_env_lib sample_env_config) no_environment sample_world of
     ((None, env), _) \<Rightarrow> env_Shutdown env = [Shut_telemetry, Cancel_context, Close_DB, Shut_ODFI] | _ \<Rightarrow> False"
  by code_simp

lemma sample_started:
  "\<exists>env w. NewEnvironment (sample_env_lib sample_env_config) no_environment sample_world = ((None, env), w) \<and>
     env_Shutdown env = [Shut_telemetry, Cancel_context, Close_DB, Shut_ODFI]"
  using sample_service_starts by (auto split: prod.splits option.splits)


end
