(* ===== verification/Routes.thy ===== *)
theory Routes
  imports Prelude
begin

text \<open>
  The HTTP routes of the public server (\<open>environment.go\<close>, \<open>web/api_files.go\<close>,
  \<open>shards/api_shard_mapping.go\<close>) and of the admin server (\<open>admin_config.go\<close>,
  \<open>pipeline/file_receiver.go\<close>, \<open>odfi/admin.go\<close>). A path is split at its slashes; a variable of
  a route takes one segment that is not empty, as in gorilla/mux.
\<close>

datatype segment = Lit string | Var string

datatype handler =
    Ping_route
  | Files_create | Files_cancel
  | Mapping_create | Mapping_get | Mapping_list
  | Config_route | Trigger_cutoff | List_shards | List_shard_files | Get_shard_file | Produce_uploaded
  | Trigger_inbound

text \<open>A route without a method takes any; one with \<open>ro_prefix\<close> also what goes on after its path.\<close>

record route =
  ro_method :: "string option"
  ro_path :: "segment list"
  ro_prefix :: bool
  ro_handler :: handler

fun seg_match :: "segment \<Rightarrow> string \<Rightarrow> bool" where
  "seg_match (Lit l) s \<longleftrightarrow> s = l"
| "seg_match (Var v) s \<longleftrightarrow> s \<noteq> []"

fun path_match :: "bool \<Rightarrow> segment list \<Rightarrow> string list \<Rightarrow> bool" where
  "path_match longer [] ss \<longleftrightarrow> longer \<or> ss = []"
| "path_match longer (p # ps) [] \<longleftrightarrow> False"
| "path_match longer (p # ps) (s # ss) \<longleftrightarrow> seg_match p s \<and> path_match longer ps ss"

fun path_vars :: "segment list \<Rightarrow> string list \<Rightarrow> (string \<times> string) list" where
  "path_vars (Lit l # ps) (s # ss) = path_vars ps ss"
| "path_vars (Var v # ps) (s # ss) = (v, s) # path_vars ps ss"
| "path_vars _ _ = []"

definition segments :: "string \<Rightarrow> string list" where
  "segments path = SplitChar (CHR ''/'') (TrimPrefix path ''/'')"

definition route_match :: "string \<Rightarrow> string list \<Rightarrow> route \<Rightarrow> bool" where
  "route_match meth ss r \<longleftrightarrow> (ro_method r = None \<or> ro_method r = Some meth) \<and> path_match (ro_prefix r) (ro_path r) ss"

text \<open>The first route that matches takes the request.\<close>

definition dispatch :: "route list \<Rightarrow> string \<Rightarrow> string \<Rightarrow> (handler \<times> (string \<times> string) list) option" where
  "dispatch rs meth path =
     map_option (\<lambda>r. (ro_handler r, path_vars (ro_path r) (segments path))) (find (route_match meth (segments path)) rs)"

section \<open>The routes\<close>

definition files_AppendRoutes :: "route list" where
  "files_AppendRoutes =
     [\<lparr>ro_method = Some ''POST'', ro_path = [Lit ''shards'', Var ''shardKey'', Lit ''files'', Var ''fileID''], ro_prefix = False,
       ro_handler = Files_create\<rparr>,
      \<lparr>ro_method = Some ''DELETE'', ro_path = [Lit ''shards'', Var ''shardKey'', Lit ''files'', Var ''fileID''], ro_prefix = False,
       ro_handler = Files_cancel\<rparr>]"

definition mappings_AppendRoutes :: "route list" where
  "mappings_AppendRoutes =
     [\<lparr>ro_method = Some ''POST'', ro_path = [Lit ''shard_mappings''], ro_prefix = False, ro_handler = Mapping_create\<rparr>,
      \<lparr>ro_method = Some ''GET'', ro_path = [Lit ''shard_mappings'', Var ''shardKey''], ro_prefix = False, ro_handler = Mapping_get\<rparr>,
      \<lparr>ro_method = Some ''GET'', ro_path = [Lit ''shard_mappings''], ro_prefix = False, ro_handler = Mapping_list\<rparr>]"

definition public_routes :: "route list" where
  "public_routes =
     [\<lparr>ro_method = Some ''GET'', ro_path = [Lit ''ping''], ro_prefix = False, ro_handler = Ping_route\<rparr>] @
     files_AppendRoutes @ mappings_AppendRoutes"

definition RegisterAdminRoutes :: "route list" where
  "RegisterAdminRoutes =
     [\<lparr>ro_method = None, ro_path = [Lit ''trigger-cutoff''], ro_prefix = False, ro_handler = Trigger_cutoff\<rparr>,
      \<lparr>ro_method = None, ro_path = [Lit ''shards''], ro_prefix = False, ro_handler = List_shards\<rparr>,
      \<lparr>ro_method = None, ro_path = [Lit ''shards'', Var ''shardName'', Lit ''files''], ro_prefix = False, ro_handler = List_shard_files\<rparr>,
      \<lparr>ro_method = None, ro_path = [Lit ''shards'', Var ''shardName'', Lit ''files'', Var ''filepath''], ro_prefix = True,
       ro_handler = Get_shard_file\<rparr>,
      \<lparr>ro_method = None, ro_path = [Lit ''shards'', Var ''shardName'', Lit ''pipeline'', Var ''isolatedDirectory'', Lit ''file-uploaded''],
       ro_prefix = False, ro_handler = Produce_uploaded\<rparr>]"

definition registerConfigRoute :: "route list" where
  "registerConfigRoute = [\<lparr>ro_method = None, ro_path = [Lit ''config''], ro_prefix = False, ro_handler = Config_route\<rparr>]"

definition odfi_RegisterRoutes :: "route list" where
  "odfi_RegisterRoutes = [\<lparr>ro_method = None, ro_path = [Lit ''trigger-inbound''], ro_prefix = False, ro_handler = Trigger_inbound\<rparr>]"

text \<open>In the order \<open>main\<close> adds them.\<close>

definition admin_routes :: "route list" where
  "admin_routes = registerConfigRoute @ RegisterAdminRoutes @ odfi_RegisterRoutes"

lemmas route_defs = public_routes_def admin_routes_def files_AppendRoutes_def mappings_AppendRoutes_def RegisterAdminRoutes_def
  registerConfigRoute_def odfi_RegisterRoutes_def

section \<open>Every request has one handler at most\<close>

lemma SplitChar_no_sep: "\<forall>s\<in>set (SplitChar c t). c \<notin> set s"
  by (induction t) (auto split: list.split)

lemma path_vars_segments: "(v, s) \<in> set (path_vars ps ss) \<Longrightarrow> s \<in> set ss"
  by (induction ps ss rule: path_vars.induct) auto

lemma path_vars_filled: "path_match x ps ss \<Longrightarrow> (v, s) \<in> set (path_vars ps ss) \<Longrightarrow> s \<noteq> []"
proof (induction x ps ss rule: path_match.induct)
  case (3 x p ps s' ss)
  then show ?case by (cases p) auto
qed auto

lemma path_match_Nil [simp]: "path_match x ps [] \<longleftrightarrow> ps = []"
  by (cases ps) auto

lemma public_once: "length (filter (route_match meth ss) public_routes) \<le> 1"
proof -
  consider "ss = []" | a where "ss = [a]" | a b where "ss = [a, b]" | a b c d where "ss = [a, b, c, d]"
    | a b c where "ss = [a, b, c]" | a b c d e r where "ss = a # b # c # d # e # r"
    by (metis list.exhaust)
  then show ?thesis by cases (auto simp: route_defs route_match_def)
qed

lemma admin_once: "length (filter (route_match meth ss) admin_routes) \<le> 1"
proof -
  consider "ss = []" | a where "ss = [a]" | a b where "ss = [a, b]" | a b c where "ss = [a, b, c]"
    | a b c d where "ss = [a, b, c, d]" | a b c d e where "ss = [a, b, c, d, e]" | a b c d e f r where "ss = a # b # c # d # e # f # r"
    by (metis list.exhaust)
  then show ?thesis by cases (auto simp: route_defs route_match_def)
qed

text \<open>
  Whatever the order in which routes are tried, a request to the public or the admin server
  has at most one handler, and the variables a handler gets are not empty and hold no slash: a
  file id that comes over HTTP stays in the pending directory of its shard.
\<close>

theorem requests_routed_once:
  "length (filter (route_match meth (segments path)) public_routes) \<le> 1 \<and>
   length (filter (route_match meth (segments path)) admin_routes) \<le> 1 \<and>
   (case dispatch (public_routes @ admin_routes) meth path of
      None \<Rightarrow> True
    | Some (h, vars) \<Rightarrow> list_all (\<lambda>(v, s). s \<noteq> [] \<and> CHR ''/'' \<notin> set s) vars)"
proof -
  have "list_all (\<lambda>(v, s). s \<noteq> [] \<and> CHR ''/'' \<notin> set s) vars" if d: "dispatch rs meth path = Some (h, vars)" for rs h vars
  proof -
    obtain r where r: "route_match meth (segments path) r" "vars = path_vars (ro_path r) (segments path)"
      using d by (auto simp: dispatch_def find_Some_iff)
    have "s \<noteq> [] \<and> CHR ''/'' \<notin> set s" if "(v, s) \<in> set vars" for v s
      using that r path_vars_segments path_vars_filled SplitChar_no_sep unfolding route_match_def segments_def by metis
    then show ?thesis by (auto simp: list_all_iff)
  qed
  then show ?thesis using public_once admin_once
    by (cases "dispatch (public_routes @ admin_routes) meth path") auto
qed

end
