(* ===== verification/Shutdown_Races.thy ===== *)
theory Shutdown_Races
  imports Aggregator_Proofs
begin

text \<open>
  How the goroutines of one shard end (\<open>internal/schedule/cutoff.go\<close>,
  \<open>internal/pipeline/cleanup.go\<close>, \<open>internal/pipeline/aggregate.go\<close>): once the context of
  the service is over, the loop of the aggregator stops the ticker of its cutoffs, its cleanup
  service and its audit trail, while the goroutine of the cleanup service and the jobs of the
  cron scheduler go on beside it. A channel is closed at most once and nobody sends on a
  closed one: either is a panic, which ends the process. The model starts when the context
  is over; which goroutine moves next is the sequence of events.
\<close>

section \<open>What the Stop methods do\<close>

datatype instr = Close_C | Stop_sched | Stop_ticker | Close_done | Close_audit

text \<open>The methods return at once for a nil receiver.\<close>

definition CutoffTimes_Stop :: "CutoffTimes option \<Rightarrow> instr list" where
  "CutoffTimes_Stop ct = (case ct of None \<Rightarrow> [] | Some _ \<Rightarrow> [Close_C, Stop_sched])"

definition CleanupService_Stop :: "'s cleanup_service option \<Rightarrow> instr list" where
  "CleanupService_Stop cs = (case cs of None \<Rightarrow> [] | Some _ \<Rightarrow> [Stop_ticker, Close_done])"

definition aggregator_Shutdown :: "'s aggregator \<Rightarrow> instr list" where
  "aggregator_Shutdown g = CleanupService_Stop (agg_cleanup g) @ [Close_audit]"

text \<open>The case of \<open>ctx.Done()\<close> in the aggregator's loop.\<close>

definition context_done :: "'s aggregator \<Rightarrow> instr list" where
  "context_done g = CutoffTimes_Stop (Some (agg_cutoffs g)) @ aggregator_Shutdown g"

section \<open>The goroutines of a shard\<close>

text \<open>
  A goroutine is in its select (\<open>None\<close>) or has a list of calls left, none when it has
  returned. \<open>ticking\<close> are the jobs the scheduler started that have not looked at the clock
  yet, \<open>blocked\<close> those that wait until the aggregator receives their day.
\<close>

record shard_run =
  C_open :: bool
  sched_runs :: bool
  ticker_runs :: bool
  done_open :: bool
  audit_open :: bool
  ticking :: "civil list"
  blocked :: "Day list"
  agg_left :: "instr list option"
  cleanup_left :: "instr list option"

definition running_shard :: "'s aggregator \<Rightarrow> shard_run" where
  "running_shard g =
     \<lparr>C_open = True, sched_runs = True, ticker_runs = (agg_cleanup g \<noteq> None), done_open = True, audit_open = True,
      ticking = [], blocked = [], agg_left = None,
      cleanup_left = (case agg_cleanup g of None \<Rightarrow> Some [] | Some _ \<Rightarrow> None)\<rparr>"

text \<open>One call; \<open>None\<close> is a panic. Closing a channel makes the senders that wait on it panic.\<close>

fun exec_instr :: "instr \<Rightarrow> shard_run \<Rightarrow> shard_run option" where
  "exec_instr Close_C st = (if C_open st \<and> blocked st = [] then Some (st\<lparr>C_open := False\<rparr>) else None)"
| "exec_instr Stop_sched st = Some (st\<lparr>sched_runs := False\<rparr>)"
| "exec_instr Stop_ticker st = Some (st\<lparr>ticker_runs := False\<rparr>)"
| "exec_instr Close_done st = (if done_open st then Some (st\<lparr>done_open := False\<rparr>) else None)"
| "exec_instr Close_audit st = Some (st\<lparr>audit_open := False\<rparr>)"

datatype ending_event =
    Cron_fires civil
  | Job_runs nat
  | Aggregator_receives
  | Aggregator_sees_context
  | Aggregator_continues
  | Cleanup_ticks
  | Cleanup_sees_context
  | Cleanup_sees_done
  | Cleanup_continues

datatype 'a outcome = Goes_on 'a | Panics | Not_enabled

text \<open>A job sends the day the ticker computes, or nothing at a weekend.\<close>

definition job_step :: "calendar \<Rightarrow> 's aggregator \<Rightarrow> nat \<Rightarrow> shard_run \<Rightarrow> shard_run outcome" where
  "job_step B g i st =
     (if length (ticking st) \<le> i then Not_enabled
      else let st1 = st\<lparr>ticking := take i (ticking st) @ drop (Suc i) (ticking st)\<rparr>
           in (case maybeTick B (agg_cutoffs g) (ticking st ! i) of
                 None \<Rightarrow> Goes_on st1
               | Some day \<Rightarrow> if C_open st then Goes_on (st1\<lparr>blocked := blocked st @ [day]\<rparr>) else Panics))"

text \<open>A receive from the closed channel is not modelled: the loop has left its select by then.\<close>

definition aggregator_step :: "ending_event \<Rightarrow> 's aggregator \<Rightarrow> shard_run \<Rightarrow> shard_run outcome" where
  "aggregator_step ev g st =
     (case agg_left st of
        None \<Rightarrow>
          (if ev = Aggregator_sees_context then Goes_on (st\<lparr>agg_left := Some (context_done g)\<rparr>)
           else if ev = Aggregator_receives \<and> blocked st \<noteq> [] then Goes_on (st\<lparr>blocked := tl (blocked st)\<rparr>)
           else Not_enabled)
      | Some [] \<Rightarrow> Not_enabled
      | Some (i # is) \<Rightarrow>
          (if ev = Aggregator_continues
           then (case exec_instr i st of None \<Rightarrow> Panics | Some st1 \<Rightarrow> Goes_on (st1\<lparr>agg_left := Some is\<rparr>))
           else Not_enabled))"

definition cleanup_loop_step :: "ending_event \<Rightarrow> 's aggregator \<Rightarrow> shard_run \<Rightarrow> shard_run outcome" where
  "cleanup_loop_step ev g st =
     (case cleanup_left st of
        None \<Rightarrow>
          (if ev = Cleanup_ticks then Goes_on st
           else if ev = Cleanup_sees_context then Goes_on (st\<lparr>cleanup_left := Some (CleanupService_Stop (agg_cleanup g))\<rparr>)
           else if ev = Cleanup_sees_done \<and> \<not> done_open st then Goes_on (st\<lparr>cleanup_left := Some []\<rparr>)
           else Not_enabled)
      | Some [] \<Rightarrow> Not_enabled
      | Some (i # is) \<Rightarrow>
          (if ev = Cleanup_continues
           then (case exec_instr i st of None \<Rightarrow> Panics | Some st1 \<Rightarrow> Goes_on (st1\<lparr>cleanup_left := Some is\<rparr>))
           else Not_enabled))"

fun ending_step :: "calendar \<Rightarrow> 's aggregator \<Rightarrow> ending_event \<Rightarrow> shard_run \<Rightarrow> shard_run outcome" where
  "ending_step B g (Cron_fires now) st = (if sched_runs st then Goes_on (st\<lparr>ticking := ticking st @ [now]\<rparr>) else Not_enabled)"
| "ending_step B g (Job_runs i) st = job_step B g i st"
| "ending_step B g Aggregator_receives st = aggregator_step Aggregator_receives g st"
| "ending_step B g Aggregator_sees_context st = aggregator_step Aggregator_sees_context g st"
| "ending_step B g Aggregator_continues st = aggregator_step Aggregator_continues g st"
| "ending_step B g ev st = cleanup_loop_step ev g st"

fun ending_run :: "calendar \<Rightarrow> 's aggregator \<Rightarrow> ending_event list \<Rightarrow> shard_run \<Rightarrow> shard_run outcome" where
  "ending_run B g [] st = Goes_on st"
| "ending_run B g (ev # evs) st = (case ending_step B g ev st of Goes_on st1 \<Rightarrow> ending_run B g evs st1 | x \<Rightarrow> x)"

section \<open>Counting the calls\<close>

text \<open>
  The calls of one kind that were made or are still to be made by a goroutine on its way out:
  the aggregator makes each call once, the cleanup goroutine makes its own only if it took
  the end of the context.
\<close>

definition made :: "instr \<Rightarrow> shard_run \<Rightarrow> nat" where
  "made i st =
     (case i of Close_C \<Rightarrow> of_bool (\<not> C_open st) | Close_done \<Rightarrow> of_bool (\<not> done_open st) | _ \<Rightarrow> 0)"

definition to_make :: "'s aggregator \<Rightarrow> instr \<Rightarrow> shard_run \<Rightarrow> nat" where
  "to_make g i st =
     count_list (case agg_left st of None \<Rightarrow> context_done g | Some is \<Rightarrow> is) i +
     count_list (case cleanup_left st of None \<Rightarrow> [] | Some is \<Rightarrow> is) i"

definition calls :: "'s aggregator \<Rightarrow> instr \<Rightarrow> shard_run \<Rightarrow> nat" where
  "calls g i st = made i st + to_make g i st"

lemma calls_start:
  "calls g Close_C (running_shard g) = 1"
  "calls g Close_done (running_shard g) = of_bool (agg_cleanup g \<noteq> None)"
  by (auto simp: calls_def made_def to_make_def running_shard_def context_done_def CutoffTimes_Stop_def
      aggregator_Shutdown_def CleanupService_Stop_def split: option.splits)

lemma exec_calls:
  assumes "exec_instr i st = Some st1"
  shows "made Close_C st1 = made Close_C st + of_bool (i = Close_C)"
    and "made Close_done st1 = made Close_done st + of_bool (i = Close_done)"
    and "agg_left st1 = agg_left st" and "cleanup_left st1 = cleanup_left st"
  using assms by (cases i; auto simp: made_def split: if_splits)+

lemmas step_defs = job_step_def aggregator_step_def cleanup_loop_step_def Let_def

lemma made_frame [simp]:
  "made i (st\<lparr>agg_left := x\<rparr>) = made i st" "made i (st\<lparr>cleanup_left := x\<rparr>) = made i st"
  "made i (st\<lparr>ticking := t\<rparr>) = made i st" "made i (st\<lparr>blocked := b\<rparr>) = made i st"
  by (auto simp: made_def split: instr.splits)

lemma made_closed [simp]:
  "C_open st \<Longrightarrow> made Close_C (st\<lparr>C_open := False\<rparr>) = Suc (made Close_C st)"
  "done_open st \<Longrightarrow> made Close_done (st\<lparr>done_open := False\<rparr>) = Suc (made Close_done st)"
  by (simp_all add: made_def)

definition extra_calls :: "'s aggregator \<Rightarrow> instr \<Rightarrow> ending_event \<Rightarrow> nat" where
  "extra_calls g i ev = (if ev = Cleanup_sees_context then count_list (CleanupService_Stop (agg_cleanup g)) i else 0)"

lemma aggregator_step_calls:
  assumes "aggregator_step ev g st = Goes_on st1" and "i = Close_C \<or> i = Close_done"
  shows "calls g i st1 = calls g i st"
  using assms
  by (auto simp: aggregator_step_def calls_def to_make_def exec_calls split: option.splits list.splits if_splits)

lemma cleanup_step_calls:
  assumes "cleanup_loop_step ev g st = Goes_on st1" and "i = Close_C \<or> i = Close_done"
  shows "calls g i st1 = calls g i st + extra_calls g i ev"
  using assms
  by (auto simp: cleanup_loop_step_def calls_def to_make_def exec_calls extra_calls_def
      split: option.splits list.splits if_splits)

lemma job_step_calls:
  assumes "job_step B g j st = Goes_on st1"
  shows "calls g i st1 = calls g i st"
  using assms by (auto simp: job_step_def Let_def calls_def to_make_def split: option.splits if_splits)

lemma ending_step_calls:
  assumes "ending_step B g ev st = Goes_on st1" and "i = Close_C \<or> i = Close_done"
  shows "calls g i st1 = calls g i st + extra_calls g i ev"
proof (cases "ev \<in> {Cleanup_ticks, Cleanup_sees_context, Cleanup_sees_done, Cleanup_continues}")
  case True
  with assms(1) have "cleanup_loop_step ev g st = Goes_on st1" by auto
  from cleanup_step_calls[OF this assms(2)] show ?thesis .
next
  case False
  then have x: "extra_calls g i ev = 0" by (simp add: extra_calls_def)
  show ?thesis
    using False assms(1) job_step_calls[of B g _ st st1 i] aggregator_step_calls[OF _ assms(2), of _ g st st1] x
    by (cases ev) (auto simp: calls_def to_make_def split: if_splits)
qed

lemma ending_run_calls:
  assumes "ending_run B g evs st = Goes_on st1" and "i = Close_C \<or> i = Close_done"
  shows "calls g i st1 = calls g i st + sum_list (map (extra_calls g i) evs)"
  using assms(1)
proof (induction evs arbitrary: st)
  case (Cons ev evs)
  then obtain st2 where "ending_step B g ev st = Goes_on st2" "ending_run B g evs st2 = Goes_on st1"
    by (auto split: outcome.splits)
  with Cons.IH ending_step_calls[OF _ assms(2)] show ?case by simp
qed simp

section \<open>Who closes, and when it panics\<close>

lemma made_le: "made i st \<le> 1"
  by (cases i) (simp_all add: made_def)

lemma exec_audit:
  assumes "exec_instr i st = Some st1"
  shows "(audit_open st1 \<longrightarrow> audit_open st \<and> i \<noteq> Close_audit) \<and> (sched_runs st1 \<longrightarrow> sched_runs st \<and> i \<noteq> Stop_sched)"
  using assms by (cases i) (auto split: if_splits)

text \<open>What is still on is still to be turned off by the aggregator.\<close>

definition off_later :: "'s aggregator \<Rightarrow> shard_run \<Rightarrow> bool" where
  "off_later g st \<longleftrightarrow>
     (case agg_left st of None \<Rightarrow> True
      | Some is \<Rightarrow> (audit_open st \<longrightarrow> Close_audit \<in> set is) \<and> (sched_runs st \<longrightarrow> Stop_sched \<in> set is))"

lemma ending_step_off:
  assumes "ending_step B g ev st = Goes_on st1" and "off_later g st"
  shows "off_later g st1"
proof -
  have agg: "off_later g st1" if "aggregator_step e g st = Goes_on st1" for e
    using that assms(2) exec_audit exec_calls(3)
    by (auto simp: aggregator_step_def off_later_def context_done_def CutoffTimes_Stop_def aggregator_Shutdown_def
        split: option.splits list.splits if_splits)
  have cln: "off_later g st1" if "cleanup_loop_step e g st = Goes_on st1" for e
    using that assms(2)
    by (auto simp: cleanup_loop_step_def off_later_def exec_calls(3) dest: exec_audit split: option.splits list.splits if_splits)
  show ?thesis
    using assms agg cln
    by (cases ev) (auto simp: job_step_def Let_def off_later_def split: option.splits if_splits)
qed

lemma ending_run_off:
  assumes "ending_run B g evs st = Goes_on st1" and "off_later g st"
  shows "off_later g st1"
  using assms
proof (induction evs arbitrary: st)
  case (Cons ev evs)
  then show ?case using ending_step_off[of B g ev st] by (auto split: outcome.splits)
qed simp

definition all_returned :: "shard_run \<Rightarrow> bool" where
  "all_returned st \<longleftrightarrow> agg_left st = Some [] \<and> cleanup_left st = Some []"

text \<open>Neither goroutine has a move left.\<close>

definition at_rest :: "calendar \<Rightarrow> 's aggregator \<Rightarrow> shard_run \<Rightarrow> bool" where
  "at_rest B g st \<longleftrightarrow>
     list_all (\<lambda>ev. ending_step B g ev st = Not_enabled)
       [Aggregator_sees_context, Aggregator_continues, Cleanup_sees_context, Cleanup_continues]"

lemma at_rest_returned: "at_rest B g st \<Longrightarrow> all_returned st"
  by (auto simp: at_rest_def all_returned_def aggregator_step_def cleanup_loop_step_def
      split: option.splits list.splits if_splits)

lemma extra_sum:
  "sum_list (map (extra_calls g Close_done) evs) = (if agg_cleanup g = None then 0 else count_list evs Cleanup_sees_context)"
  by (induction evs) (auto simp: extra_calls_def CleanupService_Stop_def)

text \<open>
  C38. A shard with a cleanup service shuts down without a panic only if its cleanup goroutine does
  not notice the end of the context: otherwise both it and the aggregator close the channel
  \<open>done\<close>, and the second close panics, so that no run in which it notices comes to rest. In a run
  that does come to rest both goroutines have returned and the cutoffs' channel, the scheduler,
  the cleanup service and the audit trail are stopped; but a job that the scheduler had started
  before panics then on a weekday, since the channel it sends to is closed.
\<close>

theorem shutdown_stops_once:
  assumes run: "ending_run B g evs (running_shard g) = Goes_on st" and rest: "at_rest B g st"
  shows "(agg_cleanup g \<noteq> None \<longrightarrow> Cleanup_sees_context \<notin> set evs \<and> \<not> done_open st) \<and>
    all_returned st \<and> \<not> C_open st \<and> \<not> sched_runs st \<and> \<not> audit_open st \<and>
    (\<forall>i<length (ticking st). maybeTick B (agg_cutoffs g) (ticking st ! i) \<noteq> None \<longrightarrow>
       ending_step B g (Job_runs i) st = Panics)"
proof -
  note ret = at_rest_returned[OF rest]
  have left: "to_make g i st = 0" for i using ret by (simp add: to_make_def all_returned_def)
  have "made Close_C st \<ge> 1"
    using ending_run_calls[OF run, of Close_C] left calls_start(1)[of g] by (simp add: calls_def)
  then have C: "\<not> C_open st" by (cases "C_open st") (simp_all add: made_def)
  have D: "Cleanup_sees_context \<notin> set evs \<and> \<not> done_open st" if "agg_cleanup g \<noteq> None"
  proof -
    have "made Close_done st = Suc (count_list evs Cleanup_sees_context)"
      using ending_run_calls[OF run, of Close_done] left calls_start(2)[of g] extra_sum[of g evs] that
      by (simp add: calls_def)
    with made_le[of Close_done st] have "count_list evs Cleanup_sees_context = 0" "made Close_done st = 1" by simp_all
    then show ?thesis by (cases "done_open st") (simp_all add: made_def count_list_0_iff)
  qed
  have "off_later g (running_shard g)" by (simp add: off_later_def running_shard_def)
  from ending_run_off[OF run this] ret have off: "\<not> audit_open st" "\<not> sched_runs st"
    by (auto simp: off_later_def all_returned_def)
  show ?thesis using C D off ret by (auto simp: job_step_def Let_def)
qed

text \<open>
  One run that ends well, then one in which the cleanup goroutine notices the context first, and
  one in which a job that started before the end sends its day after the channel is closed.
\<close>

definition cleaned_aggregator :: "trail_state aggregator" where
  "cleaned_aggregator = ts_aggregator\<lparr>agg_cleanup := Some \<lparr>cs_storage = ts_chest, cs_shard = sample_shard,
     cs_config = \<lparr>cl_Enabled = True, cl_RetentionDuration = 10, cl_CheckInterval = 5\<rparr>\<rparr>\<rparr>"

definition quiet_ending :: "ending_event list" where
  "quiet_ending = Aggregator_sees_context # replicate 5 Aggregator_continues @ [Cleanup_ticks, Cleanup_sees_done]"

lemma shutdown_stops_once_witness:
  "\<exists>st. ending_run sample_calendar cleaned_aggregator quiet_ending (running_shard cleaned_aggregator) = Goes_on st \<and>
     all_returned st \<and> \<not> C_open st \<and> \<not> done_open st \<and>
     ending_run sample_calendar cleaned_aggregator
       (Cleanup_sees_context # Cleanup_continues # Cleanup_continues # Aggregator_sees_context # replicate 4 Aggregator_continues)
       (running_shard cleaned_aggregator) = Panics \<and>
     ending_run sample_calendar cleaned_aggregator
       (Cron_fires (sample_clock 2 9 30) # quiet_ending @ [Job_runs 0]) (running_shard cleaned_aggregator) = Panics"
proof -
  define st where "st = (case ending_run sample_calendar cleaned_aggregator quiet_ending (running_shard cleaned_aggregator) of
    Goes_on st \<Rightarrow> st | _ \<Rightarrow> running_shard cleaned_aggregator)"
  note defs = quiet_ending_def running_shard_def cleaned_aggregator_def step_defs context_done_def CutoffTimes_Stop_def
    aggregator_Shutdown_def CleanupService_Stop_def numeral_eq_Suc maybeTick_def
  have run: "ending_run sample_calendar cleaned_aggregator quiet_ending (running_shard cleaned_aggregator) = Goes_on st"
    unfolding st_def by (simp add: defs)
  have rest: "at_rest sample_calendar cleaned_aggregator st"
    unfolding st_def by (simp add: defs at_rest_def)
  have "agg_cleanup cleaned_aggregator \<noteq> None" by (simp add: cleaned_aggregator_def)
  with shutdown_stops_once[OF run rest] run show ?thesis
    by (auto simp: defs sample_calendar_def sample_clock_def)
qed

end
