(* ===== verification/Small_Helpers.thy ===== *)
theory Small_Helpers
  imports Prelude
begin

text \<open>
  Two parts that stand beside the service: the sample configuration of \<open>src/configs\<close>, which
  mirrors the default YAML file, and the timer helper of \<open>internal/util\<close>. The YAML library
  is a parameter that fills the zero value it is handed.
\<close>

section \<open>The sample configuration\<close>

record AdminConfig =
  ad_BindAddress :: string

record TelemetryConfig =
  ServiceName :: string

record Sample_HTTPConfig =
  ht_BindAddress :: string

record InboundConfig =
  in_HTTP :: Sample_HTTPConfig

record MySQLConfig =
  my_Address :: string
  my_User :: string
  my_Password :: string

record DatabaseConfig =
  db_DatabaseName :: string
  db_MySQL :: "MySQLConfig option"

record ACHGateway =
  gw_Admin :: AdminConfig
  gw_Telemetry :: TelemetryConfig
  gw_Inbound :: InboundConfig
  gw_Database :: "DatabaseConfig option"

record SampleConfig =
  sc_ACHGateway :: ACHGateway

definition zero_SampleConfig :: SampleConfig where
  "zero_SampleConfig =
     \<lparr>sc_ACHGateway = \<lparr>gw_Admin = \<lparr>ad_BindAddress = []\<rparr>, gw_Telemetry = \<lparr>ServiceName = []\<rparr>,
        gw_Inbound = \<lparr>in_HTTP = \<lparr>ht_BindAddress = []\<rparr>\<rparr>, gw_Database = None\<rparr>\<rparr>"

definition sample_LoadFile ::
  "(string \<Rightarrow> err + bytes) \<Rightarrow> (bytes \<Rightarrow> SampleConfig \<Rightarrow> err + SampleConfig) \<Rightarrow> string \<Rightarrow> err + SampleConfig" where
  "sample_LoadFile os_ReadFile yaml_Unmarshal path =
     (case os_ReadFile path of Inl e \<Rightarrow> Inl e | Inr b \<Rightarrow> yaml_Unmarshal b zero_SampleConfig)"

definition sample_DefaultConfig :: SampleConfig where
  "sample_DefaultConfig =
     \<lparr>sc_ACHGateway = \<lparr>gw_Admin = \<lparr>ad_BindAddress = '':9494''\<rparr>, gw_Telemetry = \<lparr>ServiceName = ''achgateway''\<rparr>,
        gw_Inbound = \<lparr>in_HTTP = \<lparr>ht_BindAddress = '':8484''\<rparr>\<rparr>, gw_Database = None\<rparr>\<rparr>"

section \<open>The timer\<close>

definition ErrTimeout :: err where
  "ErrTimeout = errors_New ''timeout exceeded''"

text \<open>
  \<open>f\<close> is when the function answers and what (never: \<open>None\<close>); when both cases of the select are
  ready at once the runtime picks one, \<open>answer_first\<close>. The second component is whether the
  goroutine is left blocked: the channel has no buffer, and nobody receives after the timer.
\<close>

definition util_Timeout :: "bool \<Rightarrow> (nat \<times> err option) option \<Rightarrow> nat \<Rightarrow> err option \<times> bool" where
  "util_Timeout answer_first f t =
     (case f of
        None \<Rightarrow> (Some ErrTimeout, True)
      | Some (d, e) \<Rightarrow> if d < t \<or> d = t \<and> answer_first then (e, False) else (Some ErrTimeout, True))"

text \<open>A timeout always leaves the goroutine behind, and only a timeout does, or \<open>f\<close>'s own use of the error.\<close>

lemma timeout_leaks:
  "snd (util_Timeout a f t) \<Longrightarrow> fst (util_Timeout a f t) = Some ErrTimeout"
  "f = Some (d, e) \<Longrightarrow> d < t \<Longrightarrow> util_Timeout a f t = (e, False)"
  by (auto simp: util_Timeout_def split: option.splits if_splits)

end
