(* ===== verification/Spec2Isabelle.thy ===== *)
theory Spec2Isabelle
  imports Trace_Proofs Cleanup_Service Compliance Spanner_Gateway Cancellations Storage_History Odfi_Proofs
    Http_Flow Environment Kafka_Client Ssh_Keys Servers Routes Shutdown_Races Small_Helpers
begin

text \<open>
  A model of achgateway, the service that takes ACH files from many senders, keeps them per shard
  until the shard's cutoff, merges what is pending and uploads it to the bank (the ODFI), and turns
  the files the bank leaves for it into events. The sources are the Go packages under \<open>src/\<close>.

  \<^bold>\<open>How the parts interact.\<close> \<open>cmd/achgateway/main.go\<close> builds the environment
  (\<open>internal/environment.go\<close>), which connects the database, opens the streams and starts the pipeline,
  the HTTP routes and the ODFI scheduler. A file comes in as a message: over HTTP (\<open>internal/incoming/web\<close>
  publishes it to an in-memory topic and waits for the response) or from a stream. The file receiver
  (\<open>internal/pipeline/file_receiver.go\<close>) reads the message through \<open>pkg/compliance\<close> and
  \<open>pkg/models\<close>, finds the shard by its key (\<open>internal/shards\<close>), records the file id
  (\<open>internal/files\<close>) and hands the file to the shard's aggregator (\<open>pipeline/aggregate.go\<close>), whose
  merger (\<open>pipeline/merging.go\<close>) writes it to the shard's directory in a chest
  (\<open>internal/storage\<close>). At a cutoff (\<open>internal/schedule\<close>, or by hand over the admin server)
  the aggregator isolates that directory, merges what is in it, and for each merged file runs the
  transforms, names and formats it, saves it in the audit trail, uploads it through an agent
  (\<open>internal/upload\<close>), notifies and emits events. The cleanup service removes isolated
  directories later. The ODFI scheduler (\<open>internal/incoming/odfi\<close>) downloads, processes and deletes the bank's files.

  \<^bold>\<open>Conventions.\<close> Structs are records, tagged values and closed sets of errors datatypes;
  a \<open>[]byte\<close> is a string of 8-bit characters; a Go \<open>int\<close> is an integer (none of the quantities here
  comes near its width). Every operation passes its state on: the
  file tree \<open>os\<close>, the tables \<open>db\<close>, or any state \<open>'s\<close>. A Go interface is a record of functions over such a
  state. Errors are values of \<open>err\<close>, a result beside an error a pair, and a panic is
  \<open>None\<close> or the error \<open>nil_dereference\<close>, as the theory says. What Go takes from outside (times, nonces, the host
  name, the order in which goroutines run) is an argument. Code outside the
  repository is a record of functions that the definitions take; what a property relies on of it is
  a named predicate in its hypotheses, and its witness instantiates it with a concrete function.

  \<^bold>\<open>Library.\<close>
  \<^item> \<open>Prelude\<close>: Go strings and errors, list lemmas. \<open>Go_Format\<close>: \<open>fmt\<close>, durations, the time layout
    that names directories, and its round trip. \<open>Filepath\<close>: \<open>path/filepath\<close>. \<open>OS_Files\<close>: the calls of
    \<open>os\<close> on a tree. \<open>Base64\<close>: \<open>encoding/base64\<close> with its round trips. \<open>Ach\<close>: what is
    read and set of moov-io/ach. \<open>Database\<close>: the two tables.
  \<^item> \<open>Service_Config\<close> (\<open>internal/service\<close>, \<open>internal/mask\<close>): configuration, defaults,
    every \<open>Validate\<close>. \<open>Models\<close> (\<open>pkg/models\<close>, \<open>incoming/models.go\<close>): events and how they are read.
  \<^item> \<open>Storage\<close> (\<open>internal/storage\<close>): the chest; its contract is the locales \<open>chest_tree\<close> and
    \<open>chest_content\<close>, interpreted in \<open>Storage_Laws\<close> for the file system chest and the encrypted one and
    in \<open>World\<close> for a chest inside a larger state. \<open>Storage_History\<close>: what a history of operations keeps.
  \<^item> \<open>Files_Repo\<close>, \<open>Shards_Repo\<close> (\<open>internal/files\<close>, \<open>internal/shards\<close>): the
    repositories, with the locales \<open>files_repo\<close> and \<open>shard_repo\<close>.
  \<^item> \<open>Compliance\<close> (\<open>pkg/compliance\<close>): locales \<open>codec_ok\<close> and \<open>codec_pair\<close> for coders and cryptors.
  \<^item> \<open>Upload\<close>, \<open>Outgoing\<close> (\<open>internal/upload\<close>; \<open>transform\<close>, \<open>output\<close>, \<open>audittrail\<close>,
    \<open>gpgx\<close>), \<open>Notify\<close>, \<open>Alerting\<close>, \<open>Events\<close>
    (\<open>internal/events\<close>, \<open>incoming/stream\<close>), \<open>Kafka_Client\<close>, \<open>Ssh_Keys\<close>, \<open>Schedule\<close>: what surrounds the pipeline.
  \<^item> \<open>Merging\<close> (\<open>pipeline/merging.go\<close>), \<open>Cleanup_Service\<close> (\<open>cleanup.go\<close>), \<open>Aggregator\<close>
    (\<open>aggregate.go\<close>), \<open>Receiver\<close> (\<open>file_receiver.go\<close>, \<open>pipeline.go\<close>), \<open>Admin\<close> (the admin
    handlers), \<open>Web\<close> (\<open>incoming/web\<close>): the pipeline itself.
  \<^item> \<open>Odfi\<close>, \<open>Odfi_Processing\<close>, \<open>Odfi_Scheduler\<close>: the way in from the bank.
  \<^item> \<open>Environment\<close>, \<open>Routes\<close>, \<open>Servers\<close>: startup, routing, shutdown.
  \<^item> \<open>World\<close>: one state with a database, a disk and the published events, and a \<open>gateway\<close> as
    the record of the shards and parts it runs on it. \<open>Fleet\<close>: several gateways with a disk each on one database.
    \<open>Shutdown_Races\<close>: the goroutines of a shard when the service ends.
    \<open>Sample_World\<close>, \<open>Sample_Gateway\<close>: concrete instances for witnesses.
  \<^item> \<open>Small_Helpers\<close> (\<open>src/configs\<close>, \<open>internal/util\<close>): the sample configuration and a timer.
\<close>

text \<open>
  \<^bold>\<open>What is shown.\<close>
  \<^item> The whole (\<open>Gateway\<close>): every message, turn of an aggregator, cleanup and restart is a step of a machine
    of accepted, cancelled and taken ids; so each id leaves at most once, and a cutoff uploads the
    entries of exactly the pending files.
  \<^item> Many gateways on one database: \<open>Intake\<close> has their calls of the repository interleave, and where a
    crash loses a file; \<open>Fleet\<close> adds their disks, so that calls of storage, cutoffs and cleanups of all of
    them interleave and each id is still taken by one cutoff at most; \<open>Fleet_Gateways\<close> shows that
    whole gateways, as \<open>Gateway\<close> has them, are runs of such a fleet. \<open>Spanner_Gateway\<close> compares a gateway
    on Spanner with one on MySQL, and says where they differ.
  \<^item> One shard: \<open>Merging_Proofs\<close> says what the operations do to the pending directory (predicate
    \<open>pending\<close>), \<open>Cutoff_Proofs\<close> follows the entries through a cutoff, \<open>Trace_Proofs\<close> traces them
    back to their files, \<open>Concurrent_Cutoffs\<close> lets submissions, cut at their two writes, run against cutoffs,
    and \<open>Cancellations\<close> says what the answer to a cancellation is worth.
  \<^item> The aggregator (\<open>Aggregator_Proofs\<close>): what cutoffs keep of the file tree, audit before upload, events
    for each input, manual against scheduled cutoffs. The receiver (\<open>Receiver_Proofs\<close>, with the locale
    \<open>intake\<close>): accepted once, acknowledged when processed, routed by its key, forgotten on failure.
  \<^item> From the HTTP request to its answer (\<open>Http_Flow\<close>): controller, topic, receiver and listener
    together, and the transform configuration they have to share.
  \<^item> The edges: listeners that never block (\<open>Web\<close>), retries and allowed hosts
    (\<open>Upload\<close>), what is encrypted when it is sent (\<open>Outgoing\<close>), events that are read back (\<open>Compliance\<close>,
    \<open>Events\<close>), deletion on the bank's server only after processing (\<open>Odfi_Proofs\<close>), cleanup
    (\<open>Cleanup_Service\<close>), startup and end of the process (\<open>Environment\<close>, \<open>Servers\<close>), and the
    order in which a shard's goroutines end (\<open>Shutdown_Races\<close>).

  Some properties say what the code does where it was meant to do something else: their text says so.

  \<^bold>\<open>Bounds.\<close> Loops are structural recursions over the data the code loops over. The one over
  attempts to connect has its bound of 22 from the code; retries have the configured number, and
  \<open>retry_Do\<close> of go-retry is a parameter that calls the function as long as its backoff says. The
  endless loops (receiver, aggregator, scheduler, cleanup, listeners) are modelled by their turns, and runs are lists of turns or
  the reachable states of a step relation. No fuel is used, so nothing here can hold for lack of it.

  \<^bold>\<open>What the properties of whole gateways rely on.\<close>
  \<^item> Agents, audit, notifications and alerts work elsewhere than in the database and the storage
    directory (\<open>works_outside\<close>).
  \<^item> File ids hold no slash, \<open>.canceled\<close> or \<open>.ach\<close> (\<open>plain_ids\<close>): other ids share a path or leave the directory.
  \<^item> Two cutoffs of a shard are at least a second apart, so the directory isolated to is new (\<open>event_ok\<close>).
  \<^item> \<open>ach.MergeDir\<close> and flattening keep the entries of the files they are given, as they document
    (\<open>merge_keeps_entries\<close>, \<open>flatten_keeps_entries\<close>); SHA-256 in hex has no slash.
  \<^item> The steps of \<open>Gateway\<close> are whole: a submission is not cut by a cutoff. \<open>Fleet\<close> lifts this for
    what leaves: its steps are single calls of the database and single writes of a submission.

  \<^bold>\<open>Not modelled.\<close> Logging, tracing, Prometheus metrics (\<open>pipeline/metrics.go\<close>),
  modification times and permissions of files, the adapter of the Sarama logger and the JSON of admin replies: nothing in the program
  reads them. \<open>dbtest\<close>, \<open>admintest\<close> and \<open>streamtest\<close> serve tests. The clients for FTP, SFTP, mail, Kafka, PagerDuty, Slack, OpenPGP, SSH, AES and gzip, the
  database drivers, template and cron engines, \<open>encoding/json\<close> and the ACH library are parameters.
\<close>

end
